(* ===== verification/Prelude.thy ===== *)
theory Prelude
  imports Main "HOL-Library.Multiset"
begin

text \<open>
  Shared vocabulary of the development: the ways a Go call can end, the state-passing
  combinators the handlers are written with, a small weakest-precondition calculus for them,
  relations that every step of a handler keeps, and the iteration order of Go maps.
\<close>

named_theorems monad_defs "definitions of the state-passing combinators"
named_theorems wp_simps "weakest preconditions of the combinators"

section \<open>How a Go call ends\<close>

text \<open>
  Typed exceptions of the IAM service that the code distinguishes.
\<close>

datatype aws_exception = EntityAlreadyExistsException | NoSuchEntityException | OtherException string

text \<open>
  A Go \<open>error\<close> value. \<open>ResponseError status excs msg\<close> is an error whose chain holds an
  \<open>awshttp.ResponseError\<close> with that HTTP status, whose own chain holds the typed exceptions
  \<open>excs\<close>; \<open>EscapeError\<close> and \<open>SyntaxError\<close> are those of \<open>net/url\<close> and \<open>encoding/json\<close>;
  \<open>PlainError\<close> is any other error, by its text.
\<close>

datatype go_error =
    ResponseError nat "aws_exception list" string
  | EscapeError string
  | SyntaxError string
  | PlainError string

text \<open>\<open>err.Error()\<close>.\<close>

fun error_text :: "go_error \<Rightarrow> string" where
  "error_text (ResponseError st excs msg) = msg"
| "error_text (EscapeError s) = ''invalid URL escape '' @ [CHR 34] @ s @ [CHR 34]"
| "error_text (SyntaxError msg) = msg"
| "error_text (PlainError msg) = msg"

text \<open>
  A call returns a value, returns an error, panics (nil dereference), or, where a loop has no
  bound of its own, does not return within the fuel it was given.
\<close>

datatype 'a outcome = Ok 'a | Err go_error | Panic | Hang

section \<open>State-passing combinators\<close>

type_synonym ('s, 'a) gop = "'s \<Rightarrow> 'a outcome \<times> 's"

definition returnM :: "'a \<Rightarrow> ('s, 'a) gop" where
  [monad_defs]: "returnM x = (\<lambda>s. (Ok x, s))"

definition errM :: "go_error \<Rightarrow> ('s, 'a) gop" where
  [monad_defs]: "errM e = (\<lambda>s. (Err e, s))"

definition panicM :: "('s, 'a) gop" where
  [monad_defs]: "panicM = (\<lambda>s. (Panic, s))"

definition hangM :: "('s, 'a) gop" where
  [monad_defs]: "hangM = (\<lambda>s. (Hang, s))"

definition bindM :: "('s, 'a) gop \<Rightarrow> ('a \<Rightarrow> ('s, 'b) gop) \<Rightarrow> ('s, 'b) gop" where
  [monad_defs]: "bindM m f = (\<lambda>s. case m s of
       (Ok x, s') \<Rightarrow> f x s'
     | (Err e, s') \<Rightarrow> (Err e, s')
     | (Panic, s') \<Rightarrow> (Panic, s')
     | (Hang, s') \<Rightarrow> (Hang, s'))"

text \<open>\<open>if err := m(); err != nil { h(err) }\<close>: the handler runs on an error only.\<close>

definition catchM :: "('s, 'a) gop \<Rightarrow> (go_error \<Rightarrow> ('s, 'a) gop) \<Rightarrow> ('s, 'a) gop" where
  [monad_defs]: "catchM m h = (\<lambda>s. case m s of
       (Ok x, s') \<Rightarrow> (Ok x, s')
     | (Err e, s') \<Rightarrow> h e s'
     | (Panic, s') \<Rightarrow> (Panic, s')
     | (Hang, s') \<Rightarrow> (Hang, s'))"

definition getM :: "('s \<Rightarrow> 'a) \<Rightarrow> ('s, 'a) gop" where
  [monad_defs]: "getM f = (\<lambda>s. (Ok (f s), s))"

definition modifyM :: "('s \<Rightarrow> 's) \<Rightarrow> ('s, unit) gop" where
  [monad_defs]: "modifyM f = (\<lambda>s. (Ok (), f s))"

text \<open>\<open>*p\<close>: a nil pointer panics.\<close>

definition deref :: "'a option \<Rightarrow> ('s, 'a) gop" where
  [monad_defs]: "deref p = (case p of None \<Rightarrow> panicM | Some x \<Rightarrow> returnM x)"

text \<open>A call that returned a value or an error, continued as \<open>if err != nil { return err }\<close>.\<close>

definition liftM :: "go_error + 'a \<Rightarrow> ('s, 'a) gop" where
  [monad_defs]: "liftM r = (case r of Inl e \<Rightarrow> errM e | Inr x \<Rightarrow> returnM x)"

text \<open>A loop over a slice, leaving at the first error; \<open>foldM\<close> threads a local variable.\<close>

fun forM :: "'x list \<Rightarrow> ('x \<Rightarrow> ('s, unit) gop) \<Rightarrow> ('s, unit) gop" where
  "forM [] f = returnM ()"
| "forM (x # xs) f = bindM (f x) (\<lambda>_. forM xs f)"

fun foldM :: "('x \<Rightarrow> 'a \<Rightarrow> ('s, 'a) gop) \<Rightarrow> 'x list \<Rightarrow> 'a \<Rightarrow> ('s, 'a) gop" where
  "foldM f [] a = returnM a"
| "foldM f (x # xs) a = bindM (f x a) (\<lambda>a'. foldM f xs a')"

lemma bindM_returnM [simp]: "bindM (returnM x) f = f x"
  by (simp add: monad_defs)

lemma bindM_returnM_right [simp]: "bindM m returnM = m"
  by (rule ext) (simp add: monad_defs split: prod.splits outcome.splits)

lemma bindM_assoc: "bindM (bindM m f) g = bindM m (\<lambda>x. bindM (f x) g)"
  by (rule ext) (simp add: monad_defs split: prod.splits outcome.splits)

lemma bindM_errM [simp]: "bindM (errM e) f = errM e"
  by (simp add: monad_defs)

lemma bindM_panicM [simp]: "bindM panicM f = panicM"
  by (simp add: monad_defs)

lemma deref_Some [simp]: "deref (Some x) = returnM x"
  by (simp add: deref_def)

lemma deref_None [simp]: "deref None = panicM"
  by (simp add: deref_def)

lemma catchM_errM [simp]: "catchM (errM e) h = h e"
  by (simp add: monad_defs)

lemma catchM_returnM [simp]: "catchM (returnM x) h = returnM x"
  by (simp add: monad_defs)

lemma forM_append: "forM (xs @ ys) f = bindM (forM xs f) (\<lambda>_. forM ys f)"
  by (induction xs) (simp_all add: bindM_assoc)

lemma foldM_append: "foldM f (xs @ ys) a = bindM (foldM f xs a) (foldM f ys)"
proof (induction xs arbitrary: a)
  case (Cons x xs)
  then have "foldM f (xs @ ys) = (\<lambda>a'. bindM (foldM f xs a') (foldM f ys))" by (rule ext)
  then show ?case by (simp add: bindM_assoc)
qed simp

lemma bindM_Ok: "m s = (Ok x, u) \<Longrightarrow> bindM m f s = f x u"
  by (simp add: bindM_def)

lemma forM_map: "forM (map g xs) f = forM xs (\<lambda>x. f (g x))"
  by (induction xs) simp_all

lemma bindM_unit: "bindM m (\<lambda>_. returnM ()) = (m :: ('s, unit) gop)"
  using bindM_returnM_right [of m] by simp

lemma bindM_Ok_cases:
  assumes "bindM m f s = (Ok y, t)"
  obtains x u where "m s = (Ok x, u)" and "f x u = (Ok y, t)"
  using assms by (auto simp: bindM_def split: prod.splits outcome.splits)

section \<open>Weakest preconditions\<close>

text \<open>
  \<open>wp m Q s\<close>: run from \<open>s\<close>, \<open>m\<close> ends with an outcome and a state that \<open>Q\<close> accepts. The
  equations below compute it over the combinators, so that a property of a handler becomes a
  property of the calls it makes.
\<close>

definition wp :: "('s, 'a) gop \<Rightarrow> ('a outcome \<Rightarrow> 's \<Rightarrow> bool) \<Rightarrow> 's \<Rightarrow> bool" where
  "wp m Q s = (case m s of (r, s') \<Rightarrow> Q r s')"

text \<open>Continue with \<open>f\<close> on a value; any other outcome is final.\<close>

fun andthen :: "('a \<Rightarrow> ('s, 'b) gop) \<Rightarrow> ('b outcome \<Rightarrow> 's \<Rightarrow> bool) \<Rightarrow> 'a outcome \<Rightarrow> 's \<Rightarrow> bool" where
  "andthen f Q (Ok x) s = wp (f x) Q s"
| "andthen f Q (Err e) s = Q (Err e) s"
| "andthen f Q Panic s = Q Panic s"
| "andthen f Q Hang s = Q Hang s"

lemma wp_returnM [wp_simps]: "wp (returnM x) Q s = Q (Ok x) s"
  by (simp add: wp_def returnM_def)

lemma wp_errM [wp_simps]: "wp (errM e) Q s = Q (Err e) s"
  by (simp add: wp_def errM_def)

lemma wp_panicM [wp_simps]: "wp panicM Q s = Q Panic s"
  by (simp add: wp_def panicM_def)

lemma wp_hangM [wp_simps]: "wp hangM Q s = Q Hang s"
  by (simp add: wp_def hangM_def)

lemma wp_getM [wp_simps]: "wp (getM f) Q s = Q (Ok (f s)) s"
  by (simp add: wp_def getM_def)

lemma wp_modifyM [wp_simps]: "wp (modifyM f) Q s = Q (Ok ()) (f s)"
  by (simp add: wp_def modifyM_def)

lemma wp_bindM [wp_simps]: "wp (bindM m f) Q s = wp m (andthen f Q) s"
  by (simp add: wp_def bindM_def split: prod.splits outcome.splits)

lemma wp_catchM [wp_simps]:
  "wp (catchM m h) Q s =
     wp m (\<lambda>r s'. case r of Err e \<Rightarrow> wp (h e) Q s' | _ \<Rightarrow> Q r s') s"
  by (simp add: wp_def catchM_def split: prod.splits outcome.splits)

lemma wp_mono:
  assumes "wp m Q s" and "\<And>r s'. Q r s' \<Longrightarrow> Q' r s'"
  shows "wp m Q' s"
  using assms by (auto simp: wp_def)

text \<open>A loop keeps an invariant that every round keeps, whatever outcome ends it.\<close>

lemma wp_forM_invariant:
  assumes init: "I s"
    and step: "\<And>x s. x \<in> set xs \<Longrightarrow> I s \<Longrightarrow>
                 wp (f x) (\<lambda>r s'. (r = Ok () \<longrightarrow> I s') \<and> (r \<noteq> Ok () \<longrightarrow> Q r s')) s"
    and final: "\<And>s. I s \<Longrightarrow> Q (Ok ()) s"
  shows "wp (forM xs f) Q s"
  using init step
proof (induction xs arbitrary: s)
  case Nil
  then show ?case by (simp add: wp_simps final)
next
  case (Cons x xs)
  have rest: "wp (forM xs f) Q s'" if "I s'" for s'
    using Cons.IH [OF that] Cons.prems(2) by simp
  have "wp (f x) (\<lambda>r s'. (r = Ok () \<longrightarrow> I s') \<and> (r \<noteq> Ok () \<longrightarrow> Q r s')) s"
    using Cons.prems by simp
  then have "wp (f x) (andthen (\<lambda>_. forM xs f) Q) s"
  proof (rule wp_mono)
    fix r s' assume "(r = Ok () \<longrightarrow> I s') \<and> (r \<noteq> Ok () \<longrightarrow> Q r s')"
    then show "andthen (\<lambda>_. forM xs f) Q r s'"
      by (cases r) (auto simp: rest)
  qed
  then show ?case by (simp add: wp_simps)
qed

section \<open>Relations kept by every step\<close>

text \<open>
  \<open>keeps R m\<close>: whatever \<open>m\<close> ends with, it leads from a state to an \<open>R\<close>-related one. For a
  reflexive and transitive \<open>R\<close> (the log only grows by allowed entries, a field never changes)
  this is closed under every combinator, for handlers of any result type.
\<close>

definition keeps :: "('s \<Rightarrow> 's \<Rightarrow> bool) \<Rightarrow> ('s, 'a) gop \<Rightarrow> bool" where
  "keeps R m = (\<forall>s. R s (snd (m s)))"

locale step_relation =
  fixes R :: "'s \<Rightarrow> 's \<Rightarrow> bool"
  assumes R_refl: "R s s"
    and R_trans: "R s t \<Longrightarrow> R t u \<Longrightarrow> R s u"
begin

lemma keeps_returnM [intro!]: "keeps R (returnM x)"
  by (simp add: keeps_def returnM_def R_refl)

lemma keeps_errM [intro!]: "keeps R (errM e)"
  by (simp add: keeps_def errM_def R_refl)

lemma keeps_panicM [intro!]: "keeps R panicM"
  by (simp add: keeps_def panicM_def R_refl)

lemma keeps_hangM [intro!]: "keeps R hangM"
  by (simp add: keeps_def hangM_def R_refl)

lemma keeps_getM [intro!]: "keeps R (getM f)"
  by (simp add: keeps_def getM_def R_refl)

lemma keeps_deref [intro!]: "keeps R (deref p)"
  by (cases p) (auto simp: deref_def)

lemma keeps_liftM [intro!]: "keeps R (liftM r)"
  by (cases r) (auto simp: liftM_def)

lemma keeps_modifyM: "(\<And>s. R s (f s)) \<Longrightarrow> keeps R (modifyM f)"
  by (simp add: keeps_def modifyM_def)

lemma keeps_bindM:
  assumes "keeps R m" and "\<And>x. keeps R (f x)"
  shows "keeps R (bindM m f)"
  unfolding keeps_def
proof
  fix s
  obtain r t where mt: "m s = (r, t)" by fastforce
  then have "R s t" using assms(1) by (metis keeps_def snd_conv)
  moreover have "R t (snd (f x t))" for x using assms(2) by (simp add: keeps_def)
  ultimately show "R s (snd (bindM m f s))"
    by (cases r) (auto simp: bindM_def mt intro: R_trans)
qed

lemma keeps_catchM:
  assumes "keeps R m" and "\<And>e. keeps R (h e)"
  shows "keeps R (catchM m h)"
  unfolding keeps_def
proof
  fix s
  obtain r t where mt: "m s = (r, t)" by fastforce
  then have "R s t" using assms(1) by (metis keeps_def snd_conv)
  moreover have "R t (snd (h e t))" for e using assms(2) by (simp add: keeps_def)
  ultimately show "R s (snd (catchM m h s))"
    by (cases r) (auto simp: catchM_def mt intro: R_trans)
qed

lemma keeps_forM: "(\<And>x. x \<in> set xs \<Longrightarrow> keeps R (f x)) \<Longrightarrow> keeps R (forM xs f)"
  by (induction xs) (auto intro: keeps_bindM)

lemma keeps_foldM: "(\<And>x a. x \<in> set xs \<Longrightarrow> keeps R (f x a)) \<Longrightarrow> keeps R (foldM f xs a)"
  by (induction xs arbitrary: a) (auto intro: keeps_bindM)

lemma keeps_if: "(b \<Longrightarrow> keeps R m) \<Longrightarrow> (\<not> b \<Longrightarrow> keeps R m') \<Longrightarrow> keeps R (if b then m else m')"
  by simp

lemma keeps_case_option:
  "(x = None \<Longrightarrow> keeps R m) \<Longrightarrow> (\<And>y. x = Some y \<Longrightarrow> keeps R (f y)) \<Longrightarrow>
   keeps R (case x of None \<Rightarrow> m | Some y \<Rightarrow> f y)"
  by (cases x) auto

lemma keeps_case_sum:
  "(\<And>y. x = Inl y \<Longrightarrow> keeps R (f y)) \<Longrightarrow> (\<And>y. x = Inr y \<Longrightarrow> keeps R (g y)) \<Longrightarrow>
   keeps R (case x of Inl y \<Rightarrow> f y | Inr y \<Rightarrow> g y)"
  by (cases x) auto

lemma keeps_case_prod:
  "(\<And>a b. x = (a, b) \<Longrightarrow> keeps R (f a b)) \<Longrightarrow> keeps R (case x of (a, b) \<Rightarrow> f a b)"
  by (cases x) auto

lemmas keeps_rules = keeps_bindM keeps_catchM keeps_forM keeps_foldM keeps_if keeps_case_option
  keeps_case_sum keeps_case_prod

end

section \<open>Go maps\<close>

text \<open>
  A Go map is an association list; a \<open>map[string]struct{}\<close> is the list of its keys. Ranging over
  a map visits its entries in an unspecified order, which can differ at every \<open>range\<close>. The order
  is drawn from the state: a list of numbers selects which remaining entry comes next. Every
  permutation is selected by some list (\<open>shuffle_complete\<close>), so a statement about all states is
  a statement about all iteration orders.
\<close>

function shuffle :: "nat list \<Rightarrow> 'a list \<Rightarrow> 'a list" where
  "shuffle cs [] = []"
| "shuffle cs (x # xs) =
     (let i = (case cs of [] \<Rightarrow> 0 | c # _ \<Rightarrow> c) mod length (x # xs)
      in (x # xs) ! i # shuffle (tl cs) (take i (x # xs) @ drop (Suc i) (x # xs)))"
  by pat_completeness auto
termination
  by (relation "measure (\<lambda>(cs, xs). length xs)") (auto simp: min_def)

lemma mset_split_nth:
  "i < length xs \<Longrightarrow> add_mset (xs ! i) (mset (take i xs @ drop (Suc i) xs)) = mset xs"
  by (metis id_take_nth_drop mset.simps(2) mset_append union_mset_add_mset_right)

lemma mset_shuffle [simp]: "mset (shuffle cs xs) = mset xs"
proof (induction cs xs rule: shuffle.induct)
  case (1 cs)
  then show ?case by simp
next
  case (2 cs x xs)
  define i where "i = (case cs of [] \<Rightarrow> 0 | c # _ \<Rightarrow> c) mod length (x # xs)"
  have "i < length (x # xs)" by (simp add: i_def)
  moreover have "mset (shuffle (tl cs) (take i (x # xs) @ drop (Suc i) (x # xs))) =
      mset (take i (x # xs) @ drop (Suc i) (x # xs))"
    using "2.IH" i_def by simp
  ultimately show ?case
    by (simp only: shuffle.simps Let_def i_def [symmetric] mset.simps(2) mset_split_nth)
qed

lemma set_shuffle [simp]: "set (shuffle cs xs) = set xs"
  by (rule mset_eq_setD) simp

lemma length_shuffle [simp]: "length (shuffle cs xs) = length xs"
  by (rule mset_eq_length) simp

lemma distinct_shuffle [simp]: "distinct (shuffle cs xs) = distinct xs"
  by (rule mset_eq_imp_distinct_iff) simp

lemma shuffle_complete: "mset ys = mset xs \<Longrightarrow> \<exists>cs. shuffle cs xs = ys"
proof (induction ys arbitrary: xs)
  case Nil
  then show ?case by (intro exI [of _ "[]"]) simp
next
  case (Cons y ys)
  from Cons.prems have "y \<in> set xs" by (metis list.set_intros(1) mset_eq_setD)
  then obtain i where i: "i < length xs" "xs ! i = y" by (meson in_set_conv_nth)
  from i(1) obtain z zs where xs: "xs = z # zs" by (cases xs) auto
  from mset_split_nth [OF i(1)] i(2) Cons.prems
  have "add_mset y (mset (take i xs @ drop (Suc i) xs)) = add_mset y (mset ys)"
    by (simp only: mset.simps)
  then have "mset ys = mset (take i xs @ drop (Suc i) xs)"
    by (simp only: add_mset_add_mset_same_iff)
  then obtain cs where "shuffle cs (take i xs @ drop (Suc i) xs) = ys"
    using Cons.IH by blast
  then have "shuffle (i # cs) xs = y # ys"
    using i by (simp add: xs Let_def)
  then show ?case by blast
qed

text \<open>\<open>m[k] = struct{}{}\<close> and \<open>delete(m, k)\<close>.\<close>

definition set_put :: "'k \<Rightarrow> 'k list \<Rightarrow> 'k list" where
  "set_put k m = (if k \<in> set m then m else m @ [k])"

definition set_delete :: "'k \<Rightarrow> 'k list \<Rightarrow> 'k list" where
  "set_delete k m = removeAll k m"

lemma set_set_put [simp]: "set (set_put k m) = insert k (set m)"
  by (auto simp: set_put_def)

lemma set_set_delete [simp]: "set (set_delete k m) = set m - {k}"
  by (auto simp: set_delete_def)

lemma distinct_set_put: "distinct m \<Longrightarrow> distinct (set_put k m)"
  by (simp add: set_put_def)

lemma distinct_set_delete: "distinct m \<Longrightarrow> distinct (set_delete k m)"
  by (simp add: set_delete_def distinct_removeAll)

end
