(* ===== verification/GoText.thy ===== *)
theory GoText
  imports Prelude
begin

text \<open>
  The parts of the Go standard library that the operator applies to text:
  \<open>strings.Cut\<close> and \<open>strings.Split\<close> with the separators the code passes,
  \<open>net/url\<close>'s \<open>PathUnescape\<close>, and the hexadecimal verb of \<open>fmt\<close>. A Go string is a sequence of
  bytes, here a list of characters.
\<close>

section \<open>strings.Cut and strings.Split\<close>

text \<open>
  \<open>strings.Cut(s, sep)\<close> for a non-empty separator: the text before the first occurrence, the
  text after it, and whether there is one.
\<close>

fun strings_Cut :: "string \<Rightarrow> string \<Rightarrow> string \<times> string \<times> bool" where
  "strings_Cut [] sep = ([], [], sep = [])"
| "strings_Cut (c # cs) sep =
     (if take (length sep) (c # cs) = sep then ([], drop (length sep) (c # cs), True)
      else (case strings_Cut cs sep of (before, after, found) \<Rightarrow>
              if found then (c # before, after, True) else (c # cs, [], False)))"

text \<open>\<open>strings.Split(s, sep)\<close> for a separator of one byte.\<close>

fun strings_Split :: "string \<Rightarrow> char \<Rightarrow> string list" where
  "strings_Split [] sep = [[]]"
| "strings_Split (c # cs) sep =
     (if c = sep then [] # strings_Split cs sep
      else (case strings_Split cs sep of
              [] \<Rightarrow> [[c]]
            | w # ws \<Rightarrow> (c # w) # ws))"

lemma strings_Cut_char:
  "strings_Cut s [c] =
     (if c \<in> set s then (takeWhile (\<lambda>x. x \<noteq> c) s, tl (dropWhile (\<lambda>x. x \<noteq> c) s), True)
      else (s, [], False))"
  by (induction s) auto

lemma strings_Cut_append: "c \<notin> set a \<Longrightarrow> strings_Cut (a @ c # b) [c] = (a, b, True)"
  by (induction a) auto

lemma strings_Cut_found:
  "strings_Cut s sep = (b, a, True) \<Longrightarrow> s = b @ sep @ a"
proof (induction s arbitrary: b)
  case Nil
  then show ?case by simp
next
  case (Cons c cs)
  show ?case
  proof (cases "take (length sep) (c # cs) = sep")
    case True
    then have "c # cs = sep @ drop (length sep) (c # cs)" by (metis append_take_drop_id)
    with Cons.prems True show ?thesis by simp
  next
    case False
    with Cons.prems Cons.IH show ?thesis by (auto split: prod.splits if_splits)
  qed
qed

lemma strings_Split_nonempty [simp]: "strings_Split s sep \<noteq> []"
  by (cases s) (auto split: list.splits)

fun join_with :: "char \<Rightarrow> string list \<Rightarrow> string" where
  "join_with sep [] = []"
| "join_with sep [w] = w"
| "join_with sep (w # ws) = w @ sep # join_with sep ws"

lemma join_with_Cons [simp]: "ws \<noteq> [] \<Longrightarrow> join_with sep (w # ws) = w @ sep # join_with sep ws"
  by (cases ws) auto

lemma join_with_Split: "join_with sep (strings_Split s sep) = s"
proof (induction s)
  case (Cons c cs)
  obtain w ws where e: "strings_Split cs sep = w # ws"
    using strings_Split_nonempty by (metis neq_Nil_conv)
  from Cons show ?case by (cases ws) (auto simp: e)
qed simp

lemma strings_Split_no_sep: "w \<in> set (strings_Split s sep) \<Longrightarrow> sep \<notin> set w"
proof (induction s arbitrary: w)
  case (Cons c cs)
  obtain v ws where e: "strings_Split cs sep = v # ws"
    using strings_Split_nonempty by (metis neq_Nil_conv)
  from Cons show ?case by (auto simp: e split: if_splits)
qed simp

lemma strings_Split_word: "sep \<notin> set w \<Longrightarrow> strings_Split w sep = [w]"
  by (induction w) auto

lemma strings_Split_Cons:
  "sep \<notin> set w \<Longrightarrow> strings_Split (w @ sep # s) sep = w # strings_Split s sep"
  by (induction w) auto

lemma strings_Split_join:
  "ws \<noteq> [] \<Longrightarrow> (\<And>w. w \<in> set ws \<Longrightarrow> sep \<notin> set w) \<Longrightarrow> strings_Split (join_with sep ws) sep = ws"
proof (induction ws)
  case (Cons w ws)
  then show ?case by (cases "ws = []") (simp_all add: strings_Split_word strings_Split_Cons)
qed simp

section \<open>url.PathUnescape\<close>

definition ishex :: "char \<Rightarrow> bool" where
  "ishex c = (let n = of_char c :: nat in
     (48 \<le> n \<and> n \<le> 57) \<or> (97 \<le> n \<and> n \<le> 102) \<or> (65 \<le> n \<and> n \<le> 70))"

definition unhex :: "char \<Rightarrow> nat" where
  "unhex c = (let n = of_char c :: nat in
     if 48 \<le> n \<and> n \<le> 57 then n - 48
     else if 97 \<le> n \<and> n \<le> 102 then n - 97 + 10
     else if 65 \<le> n \<and> n \<le> 70 then n - 65 + 10
     else 0)"

text \<open>
  Every \<open>%\<close> starts a byte written as two hexadecimal digits; a malformed one is an error that
  quotes at most three bytes. Everything else, \<open>+\<close> included, stands for itself. The library
  checks the whole text before it decodes any of it, which gives the same result.
\<close>

fun PathUnescape :: "string \<Rightarrow> go_error + string" where
  "PathUnescape [] = Inr []"
| "PathUnescape (c # cs) =
     (if c = CHR ''%'' then
        (case cs of
           a # b # rest \<Rightarrow>
             if ishex a \<and> ishex b
             then map_sum id ((#) (char_of (unhex a * 16 + unhex b))) (PathUnescape rest)
             else Inl (EscapeError (take 3 (c # cs)))
         | _ \<Rightarrow> Inl (EscapeError (take 3 (c # cs))))
      else map_sum id ((#) c) (PathUnescape cs))"

text \<open>
  The encodings a peer may send: any byte may be percent-encoded, and a byte other than \<open>%\<close>
  may stand for itself. \<open>percent_encode must s\<close> encodes the bytes that satisfy \<open>must\<close>, and
  \<open>%\<close> always, which covers every encoder of RFC 3986.
\<close>

definition hex_upper :: "nat \<Rightarrow> char" where
  "hex_upper n = (if n < 10 then char_of (48 + n) else char_of (55 + n))"

definition percent_encode :: "(char \<Rightarrow> bool) \<Rightarrow> string \<Rightarrow> string" where
  "percent_encode must s = concat (map (\<lambda>c.
     if must c \<or> c = CHR ''%''
     then [CHR ''%'', hex_upper (of_char c div 16), hex_upper (of_char c mod 16)]
     else [c]) s)"

lemma unhex_hex_upper: "n < 16 \<Longrightarrow> unhex (hex_upper n) = n"
  by (simp add: unhex_def hex_upper_def Let_def)

lemma ishex_hex_upper: "n < 16 \<Longrightarrow> ishex (hex_upper n)"
  by (auto simp: ishex_def hex_upper_def Let_def)

lemma of_char_less_256: "(of_char c :: nat) < 256"
  by (metis char_of_mod_256 mod_less_divisor of_char_of zero_less_numeral char_of_char)

lemma PathUnescape_percent_encode: "PathUnescape (percent_encode must s) = Inr s"
proof (induction s)
  case Nil
  then show ?case by (simp add: percent_encode_def)
next
  case (Cons c s)
  have lt: "(of_char c :: nat) div 16 < 16" "(of_char c :: nat) mod 16 < 16"
    using of_char_less_256 [of c] by (simp_all add: less_mult_imp_div_less)
  from Cons show ?case
    by (auto simp: percent_encode_def lt ishex_hex_upper unhex_hex_upper)
qed

lemma PathUnescape_plain: "CHR ''%'' \<notin> set s \<Longrightarrow> PathUnescape s = Inr s"
  by (induction s) auto

text \<open>A \<open>%\<close> that does not start an encoded byte makes the whole text an error.\<close>

lemma PathUnescape_stray_percent:
  "CHR ''%'' \<notin> set p \<Longrightarrow>
   (case q of a # b # _ \<Rightarrow> \<not> (ishex a \<and> ishex b) | _ \<Rightarrow> True) \<Longrightarrow>
   PathUnescape (p @ CHR ''%'' # q) = Inl (EscapeError (take 3 (CHR ''%'' # q)))"
  by (induction p) (auto split: list.splits)

section \<open>The hexadecimal verb of fmt\<close>

definition hex_digit :: "nat \<Rightarrow> char" where
  "hex_digit n = (if n < 10 then char_of (48 + n) else char_of (87 + n))"

text \<open>\<open>fmt.Sprintf("%x", bytes)\<close>: two lower-case digits for each byte.\<close>

definition hex_bytes :: "nat list \<Rightarrow> string" where
  "hex_bytes bs = concat (map (\<lambda>b. [hex_digit (b div 16 mod 16), hex_digit (b mod 16)]) bs)"

lemma hex_bytes_Cons: "hex_bytes (b # bs) = hex_digit (b div 16 mod 16) # hex_digit (b mod 16) # hex_bytes bs"
  by (simp add: hex_bytes_def)

lemma length_hex_bytes [simp]: "length (hex_bytes bs) = 2 * length bs"
  by (induction bs) (simp_all add: hex_bytes_def)

lemma of_char_hex_digit:
  "n < 16 \<Longrightarrow> (of_char (hex_digit n) :: nat) = (if n < 10 then 48 + n else 87 + n)"
  by (simp add: hex_digit_def)

lemma hex_digit_inj:
  assumes "m < 16" and "n < 16" and eq: "hex_digit m = hex_digit n"
  shows "m = n"
proof -
  have "(of_char (hex_digit m) :: nat) = of_char (hex_digit n)" by (simp only: eq)
  then show ?thesis
    using of_char_hex_digit [OF assms(1)] of_char_hex_digit [OF assms(2)] assms(1,2)
    by (auto split: if_splits)
qed

end
