(* ===== verification/ApiTypes.thy ===== *)
theory ApiTypes
  imports GoText "HOL-Library.Word"
begin

text \<open>
  The custom resource of the operator (\<open>api/v1alpha1\<close>). A Go pointer is an option, nil being
  \<open>None\<close>; a map is an association list, nil and empty being the same to every reader in the
  program; an \<open>int32\<close> is a 32-bit word and a \<open>time.Duration\<close> a 64-bit one, counting
  nanoseconds. Of Kubernetes' \<open>ObjectMeta\<close> the fields are those the operator reads or writes,
  and the resource version that travels with the object.
\<close>

type_synonym time = int
type_synonym duration = "64 word"

definition time_Second :: duration where
  "time_Second = 1000000000"

record NamespacedName =
  nn_Namespace :: string
  nn_Name :: string

record Tag =
  tag_Key :: "string option"
  tag_Value :: "string option"

record PolicySpec =
  ps_Name :: "string option"
  ps_PolicyDocument :: "string option"
  ps_Tags :: "Tag option list"

record AWSIAMProvisionPolicy =
  policy_Spec :: PolicySpec

record RoleSpec =
  rs_AssumeRolePolicyDocument :: "string option"
  rs_Name :: "string option"
  rs_Policies :: "string option list"
  rs_Tags :: "Tag option list"

record AWSIAMProvisionRole =
  role_Spec :: RoleSpec

record AWSIAMProvisionSpec =
  spec_EKSClusterName :: string
  spec_Frequency :: "duration option"
  spec_Region :: string
  spec_Policies :: "(string \<times> AWSIAMProvisionPolicy) list"
  spec_Roles :: "(string \<times> AWSIAMProvisionRole) list"

record AWSIAMResourceMetadata =
  md_ARN :: "string option"
  md_OwnerAccountID :: "string option"
  md_Region :: "string option"

record PolicyStatus =
  pst_AWSIAMResourceMetadata :: "AWSIAMResourceMetadata option"
  pst_AttachmentCount :: "32 word option"
  pst_CreateDate :: "time option"
  pst_DefaultVersionID :: "string option"
  pst_PolicyID :: "string option"

record AWSIAMProvisionStatusPolicy =
  sp_Name :: "string option"
  sp_Message :: string
  sp_Phase :: string
  sp_Status :: PolicyStatus

record RoleStatus =
  rst_AWSIAMResourceMetadata :: "AWSIAMResourceMetadata option"
  rst_CreateDate :: "time option"
  rst_RoleID :: "string option"

record AWSIAMProvisionStatusRole =
  sr_Name :: "string option"
  sr_Message :: string
  sr_Phase :: string
  sr_Status :: RoleStatus

record AWSIAMProvisionStatus =
  st_Message :: string
  st_LastUpdatedTime :: "time option"
  st_Phase :: string
  st_Policies :: "AWSIAMProvisionStatusPolicy list"
  st_Roles :: "AWSIAMProvisionStatusRole list"

record ObjectMeta =
  om_Name :: string
  om_Namespace :: string
  om_ResourceVersion :: string
  om_DeletionTimestamp :: "time option"
  om_Finalizers :: "string list"

record AWSIAMProvision =
  ObjectMeta :: ObjectMeta
  Spec :: AWSIAMProvisionSpec
  Status :: AWSIAMProvisionStatus

text \<open>
  The fields of Cluster API's \<open>AWSManagedControlPlane\<close> that the operator reads:
  \<open>Status.Ready\<close> and \<open>Status.OIDCProvider.ARN\<close>.
\<close>

record AWSManagedControlPlane =
  cp_Ready :: bool
  cp_OIDCProviderARN :: string

text \<open>\<open>DeletionTimestamp.IsZero()\<close>: a nil pointer or the zero time.\<close>

definition time_IsZero :: "time option \<Rightarrow> bool" where
  "time_IsZero t = (t = None \<or> t = Some 0)"

text \<open>The zero values a Go composite literal starts from.\<close>

definition zero_Status :: AWSIAMProvisionStatus where
  "zero_Status = \<lparr>st_Message = [], st_LastUpdatedTime = None, st_Phase = [],
     st_Policies = [], st_Roles = []\<rparr>"

definition zero_AWSIAMProvision :: AWSIAMProvision where
  "zero_AWSIAMProvision =
     \<lparr>ObjectMeta = \<lparr>om_Name = [], om_Namespace = [], om_ResourceVersion = [],
        om_DeletionTimestamp = None, om_Finalizers = []\<rparr>,
      Spec = \<lparr>spec_EKSClusterName = [], spec_Frequency = None, spec_Region = [],
        spec_Policies = [], spec_Roles = []\<rparr>,
      Status = zero_Status\<rparr>"

definition zero_AWSManagedControlPlane :: AWSManagedControlPlane where
  "zero_AWSManagedControlPlane = \<lparr>cp_Ready = False, cp_OIDCProviderARN = []\<rparr>"

text \<open>Names of the roles and policies a specification lists.\<close>

definition spec_role_names :: "AWSIAMProvisionSpec \<Rightarrow> string list" where
  "spec_role_names sp = List.map_filter (\<lambda>e. rs_Name (role_Spec (snd e))) (spec_Roles sp)"

definition spec_policy_names :: "AWSIAMProvisionSpec \<Rightarrow> string list" where
  "spec_policy_names sp = List.map_filter (\<lambda>e. ps_Name (policy_Spec (snd e))) (spec_Policies sp)"

lemma set_map_filter: "set (List.map_filter f xs) = {y. \<exists>x \<in> set xs. f x = Some y}"
  by (induction xs) (auto simp: List.map_filter_def split: option.splits)

lemma in_spec_role_names:
  "n \<in> set (spec_role_names sp) \<longleftrightarrow> (\<exists>(k, role) \<in> set (spec_Roles sp). rs_Name (role_Spec role) = Some n)"
  by (force simp: spec_role_names_def set_map_filter)

lemma in_spec_policy_names:
  "n \<in> set (spec_policy_names sp) \<longleftrightarrow>
   (\<exists>(k, policy) \<in> set (spec_Policies sp). ps_Name (policy_Spec policy) = Some n)"
  by (force simp: spec_policy_names_def set_map_filter)

end
