(* ===== verification/Services.thy ===== *)
theory Services
  imports ApiTypes
begin

text \<open>
  What lies outside the repository: the IAM and STS services behind the AWS SDK, the Kubernetes
  API behind the controller-runtime client, the clock, and a few library helpers. They are the
  fields of a record that every operation takes, over an abstract world; nothing is assumed of
  them here. Each request leaves an entry in a log, with the error it returned, so that what the
  operator does to the outside can be stated for arbitrary behaviour of the outside.
\<close>

section \<open>Data of the AWS SDK that the operator reads\<close>

record iamTag =
  it_Key :: "string option"
  it_Value :: "string option"

record iamRole =
  ir_RoleName :: "string option"
  ir_Arn :: "string option"
  ir_RoleId :: "string option"
  ir_CreateDate :: "time option"
  ir_AssumeRolePolicyDocument :: "string option"

record iamPolicy =
  ip_PolicyName :: "string option"
  ip_Arn :: "string option"
  ip_PolicyId :: "string option"
  ip_DefaultVersionId :: "string option"
  ip_AttachmentCount :: "32 word option"
  ip_CreateDate :: "time option"
  ip_Tags :: "iamTag list"

record iamPolicyRole =
  pr_RoleName :: "string option"

record iamAttachedPolicy =
  ap_PolicyName :: "string option"

section \<open>Requests\<close>

datatype iam_request =
    AttachRolePolicyReq "string option" "string option"  \<comment> \<open>\<open>PolicyArn\<close>, \<open>RoleName\<close>\<close>
  | DetachRolePolicyReq "string option" "string option"  \<comment> \<open>\<open>PolicyArn\<close>, \<open>RoleName\<close>\<close>
  | CreatePolicyReq "string option" "string option" "string option" "string option" "iamTag list"
      \<comment> \<open>\<open>PolicyName\<close>, \<open>PolicyDocument\<close>, \<open>Description\<close>, \<open>Path\<close>, \<open>Tags\<close>\<close>
  | CreateRoleReq "string option" "string option" "string option" "string option" "iamTag list"
      \<comment> \<open>\<open>RoleName\<close>, \<open>AssumeRolePolicyDocument\<close>, \<open>Description\<close>, \<open>Path\<close>, \<open>Tags\<close>\<close>
  | DeletePolicyReq "string option"                      \<comment> \<open>\<open>PolicyArn\<close>\<close>
  | DeleteRoleReq "string option"                        \<comment> \<open>\<open>RoleName\<close>\<close>
  | UpdateAssumeRolePolicyReq "string option" "string option"
      \<comment> \<open>\<open>RoleName\<close>, \<open>PolicyDocument\<close>\<close>
  | GetPolicyReq "string option"                         \<comment> \<open>\<open>PolicyArn\<close>\<close>
  | GetRoleReq "string option"                           \<comment> \<open>\<open>RoleName\<close>\<close>
  | ListPolicyTagsReq nat "string option"                \<comment> \<open>\<open>MaxItems\<close>, \<open>PolicyArn\<close>\<close>
  | ListRoleTagsReq nat "string option"                  \<comment> \<open>\<open>MaxItems\<close>, \<open>RoleName\<close>\<close>
  | ListAttachedRolePoliciesReq nat "string option"      \<comment> \<open>\<open>MaxItems\<close>, \<open>RoleName\<close>\<close>
  | ListRolesReq nat "string option"                     \<comment> \<open>\<open>MaxItems\<close>, \<open>PathPrefix\<close>\<close>
  | ListPoliciesReq nat "string option" string string
      \<comment> \<open>\<open>MaxItems\<close>, \<open>PathPrefix\<close>, \<open>PolicyUsageFilter\<close>, \<open>Scope\<close>\<close>
  | ListEntitiesForPolicyReq "string option" string nat "string option" string
      \<comment> \<open>\<open>PolicyArn\<close>, \<open>EntityFilter\<close>, \<open>MaxItems\<close>, \<open>PathPrefix\<close>, \<open>PolicyUsageFilter\<close>\<close>

datatype request =
    IAM iam_request
  | LoadDefaultConfig string
  | GetCallerIdentity
  | GetProvision NamespacedName
  | GetControlPlane NamespacedName
  | UpdateProvision AWSIAMProvision
  | UpdateStatus AWSIAMProvision

text \<open>One entry of the log: the request and the error it returned, if any.\<close>

datatype event = Event (ev_request: request) (ev_error: "go_error option")

section \<open>The environment\<close>

text \<open>
  \<open>'w\<close> is the state of everything outside, \<open>'p\<close> the state of an SDK paginator.
  \<open>page_fuel\<close> bounds how many pages a listing loop of the model reads; the loops of the program
  have no bound.
\<close>

type_synonym ('w, 'a) call = "'w \<Rightarrow> (go_error + 'a) \<times> 'w"
type_synonym ('w, 'p, 'a) pager = "'p \<Rightarrow> 'w \<Rightarrow> (go_error + 'a list) \<times> 'p \<times> 'w"

record ('w, 'p) env =
  sdk_AttachRolePolicy :: "iam_request \<Rightarrow> ('w, unit) call"
  sdk_DetachRolePolicy :: "iam_request \<Rightarrow> ('w, unit) call"
  sdk_CreatePolicy :: "iam_request \<Rightarrow> ('w, iamPolicy option) call"
  sdk_CreateRole :: "iam_request \<Rightarrow> ('w, iamRole option) call"
  sdk_DeletePolicy :: "iam_request \<Rightarrow> ('w, unit) call"
  sdk_DeleteRole :: "iam_request \<Rightarrow> ('w, unit) call"
  sdk_UpdateAssumeRolePolicy :: "iam_request \<Rightarrow> ('w, unit) call"
  sdk_GetPolicy :: "iam_request \<Rightarrow> ('w, iamPolicy option) call"
  sdk_GetRole :: "iam_request \<Rightarrow> ('w, iamRole option) call"
  sdk_ListPolicyTags :: "iam_request \<Rightarrow> ('w, iamTag list) call"
  sdk_ListRoleTags :: "iam_request \<Rightarrow> ('w, iamTag list) call"
  sdk_NewPaginator :: "iam_request \<Rightarrow> 'p"
  sdk_HasMorePages :: "'p \<Rightarrow> bool"
  sdk_NextAttachedPolicies :: "('w, 'p, iamAttachedPolicy) pager"
  sdk_NextRoles :: "('w, 'p, iamRole) pager"
  sdk_NextPolicies :: "('w, 'p, iamPolicy) pager"
  sdk_NextEntities :: "('w, 'p, iamPolicyRole) pager"
  page_fuel :: nat
  sdk_LoadDefaultConfig :: "string \<Rightarrow> ('w, unit) call"
  sdk_GetCallerIdentity :: "string \<Rightarrow> ('w, string option) call"
  aws_ToString :: "string option \<Rightarrow> string"
  cmp_Equal :: "iamTag list \<Rightarrow> iamTag list \<Rightarrow> bool"
  k8s_GetProvision :: "NamespacedName \<Rightarrow> ('w, AWSIAMProvision) call"
  k8s_GetControlPlane :: "NamespacedName \<Rightarrow> ('w, AWSManagedControlPlane) call"
  k8s_Update :: "AWSIAMProvision \<Rightarrow> ('w, AWSIAMProvision) call"
  k8s_UpdateStatus :: "AWSIAMProvision \<Rightarrow> ('w, AWSIAMProvision) call"
  k8s_IsNotFound :: "go_error \<Rightarrow> bool"
  k8s_NamespacedNameString :: "NamespacedName \<Rightarrow> string"
  k8s_ContainsFinalizer :: "AWSIAMProvision \<Rightarrow> string \<Rightarrow> bool"
  k8s_AddFinalizer :: "AWSIAMProvision \<Rightarrow> string \<Rightarrow> AWSIAMProvision"
  k8s_RemoveFinalizer :: "AWSIAMProvision \<Rightarrow> string \<Rightarrow> AWSIAMProvision"
  clock_Now :: "'w \<Rightarrow> time \<times> 'w"
  template_Parse :: "string \<Rightarrow> go_error + (string \<Rightarrow> string \<Rightarrow> go_error + string)"

section \<open>The state of a reconciliation\<close>

text \<open>
  \<open>choices\<close> supplies the iteration orders of maps; \<open>prov\<close> is \<open>air.awsIAMProvision\<close>, the one
  object that the handlers change in place.
\<close>

record 'w gstate =
  world :: 'w
  log :: "event list"
  choices :: "nat list list"
  prov :: AWSIAMProvision

type_synonym ('w, 'a) op = "('w gstate, 'a) gop"

fun error_of :: "go_error + 'a \<Rightarrow> go_error option" where
  "error_of (Inl e) = Some e"
| "error_of (Inr x) = None"

text \<open>A request: run it on the world, log it, hand back what it returned.\<close>

definition request_call :: "request \<Rightarrow> ('w, 'a) call \<Rightarrow> ('w, go_error + 'a) op" where
  "request_call rq f = (\<lambda>s. case f (world s) of
     (r, w) \<Rightarrow> (Ok r, s\<lparr>world := w, log := log s @ [Event rq (error_of r)]\<rparr>))"

text \<open>\<open>paginator.NextPage(ctx)\<close>.\<close>

definition page_call :: "request \<Rightarrow> ('w, 'p, 'a) pager \<Rightarrow> 'p \<Rightarrow> ('w, (go_error + 'a list) \<times> 'p) op" where
  "page_call rq f p = (\<lambda>s. case f p (world s) of
     (r, p', w) \<Rightarrow> (Ok (r, p'), s\<lparr>world := w, log := log s @ [Event rq (error_of r)]\<rparr>))"

text \<open>\<open>time.Now()\<close>.\<close>

definition now :: "('w, 'p) env \<Rightarrow> ('w, time) op" where
  "now E = (\<lambda>s. case clock_Now E (world s) of (t, w) \<Rightarrow> (Ok t, s\<lparr>world := w\<rparr>))"

text \<open>\<open>range\<close> over a map: its entries in the next iteration order.\<close>

definition range_map :: "'a list \<Rightarrow> ('w, 'a list) op" where
  "range_map m = (\<lambda>s. case choices s of
     [] \<Rightarrow> (Ok (shuffle [] m), s)
   | c # cs \<Rightarrow> (Ok (shuffle c m), s\<lparr>choices := cs\<rparr>))"

text \<open>
  \<open>for p.HasMorePages() { page, err := p.NextPage(ctx); ... }\<close>, the body running over each page
  with an accumulator.
\<close>

fun pages_loop ::
  "('w, 'p) env \<Rightarrow> request \<Rightarrow> ('w, 'p, 'x) pager \<Rightarrow> ('x \<Rightarrow> 'a \<Rightarrow> ('w, 'a) op) \<Rightarrow> nat \<Rightarrow> 'p \<Rightarrow> 'a \<Rightarrow> ('w, 'a) op"
where
  "pages_loop E rq next body 0 p acc = (if sdk_HasMorePages E p then hangM else returnM acc)"
| "pages_loop E rq next body (Suc n) p acc =
     (if sdk_HasMorePages E p then
        bindM (page_call rq next p) (\<lambda>(r, p').
          case r of
            Inl err \<Rightarrow> errM err
          | Inr items \<Rightarrow> bindM (foldM body items acc) (\<lambda>acc'.
              pages_loop E rq next body n p' acc'))
      else returnM acc)"

text \<open>The state after a request: the world moved on, and the log has one more entry.\<close>

abbreviation after :: "'w gstate \<Rightarrow> request \<Rightarrow> go_error option \<Rightarrow> 'w \<Rightarrow> 'w gstate" where
  "after s rq err w \<equiv> s\<lparr>world := w, log := log s @ [Event rq err]\<rparr>"

lemma wp_request_call [wp_simps]:
  "wp (request_call rq f) Q s =
     (case f (world s) of (r, w) \<Rightarrow>
        Q (Ok r) (s\<lparr>world := w, log := log s @ [Event rq (error_of r)]\<rparr>))"
  by (simp add: wp_def request_call_def split: prod.splits)

lemma wp_deref_Some [wp_simps]: "wp (deref (Some x)) Q s = Q (Ok x) s"
  by (simp add: wp_returnM)

lemma wp_run: "wp m (\<lambda>r t. (r, t) = z) s \<Longrightarrow> m s = z"
  by (simp add: wp_def split: prod.splits)

lemma run_wp: "m s = (r, t) \<Longrightarrow> wp m Q s = Q r t"
  by (simp add: wp_def)

lemma wp_now [wp_simps]:
  "wp (now E) Q s = (case clock_Now E (world s) of (t, w) \<Rightarrow> Q (Ok t) (s\<lparr>world := w\<rparr>))"
  by (simp add: wp_def now_def split: prod.splits)

lemma wp_range_map:
  "wp (range_map m) Q s =
     Q (Ok (shuffle (case choices s of [] \<Rightarrow> [] | c # _ \<Rightarrow> c) m)) (s\<lparr>choices := tl (choices s)\<rparr>)"
  by (cases "choices s") (auto simp: wp_def range_map_def intro!: arg_cong [where f = "Q _"])

section \<open>Relations between states\<close>

text \<open>The log only grows, by entries that satisfy \<open>P\<close>.\<close>

definition emits_rel :: "(event \<Rightarrow> bool) \<Rightarrow> 'w gstate \<Rightarrow> 'w gstate \<Rightarrow> bool" where
  "emits_rel P s t = (\<exists>es. log t = log s @ es \<and> (\<forall>e \<in> set es. P e))"

text \<open>\<open>emits P m\<close>: every request \<open>m\<close> makes satisfies \<open>P\<close>, whatever the outside answers.\<close>

abbreviation emits :: "(event \<Rightarrow> bool) \<Rightarrow> ('w, 'a) op \<Rightarrow> bool" where
  "emits P \<equiv> keeps (emits_rel P)"

interpretation em: step_relation "emits_rel P :: 'w gstate \<Rightarrow> 'w gstate \<Rightarrow> bool" for P
proof
  fix s t u :: "'w gstate"
  show "emits_rel P s s" by (simp add: emits_rel_def)
  show "emits_rel P s u" if "emits_rel P s t" "emits_rel P t u"
    using that by (auto simp: emits_rel_def)
qed

text \<open>The custom resource in memory is left as it is.\<close>

definition same_prov :: "'w gstate \<Rightarrow> 'w gstate \<Rightarrow> bool" where
  "same_prov s t = (prov t = prov s)"

interpretation sp: step_relation "same_prov :: 'w gstate \<Rightarrow> 'w gstate \<Rightarrow> bool"
  by standard (auto simp: same_prov_def)

lemma emits_request_call:
  "(\<And>err. P (Event rq err)) \<Longrightarrow> emits P (request_call rq f)"
  by (auto simp: keeps_def request_call_def emits_rel_def split: prod.splits)

lemma emits_page_call: "(\<And>err. P (Event rq err)) \<Longrightarrow> emits P (page_call rq f p)"
  by (auto simp: keeps_def page_call_def emits_rel_def split: prod.splits)

lemma emits_now: "emits P (now E)"
  by (auto simp: keeps_def now_def emits_rel_def split: prod.splits)

lemma emits_range_map: "emits P (range_map m)"
  by (auto simp: keeps_def range_map_def emits_rel_def split: list.splits)

lemma emits_modify_prov: "emits P (modifyM (prov_update f))"
  by (auto simp: keeps_def modifyM_def emits_rel_def)

lemma emits_pages_loop:
  assumes "\<And>err. P (Event rq err)" and "\<And>x a. emits P (body x a)"
  shows "emits P (pages_loop E rq next body n p acc)"
  using assms
proof (induction n arbitrary: p acc)
  case (Suc n)
  then show ?case
    by (auto intro!: em.keeps_rules emits_page_call split: sum.splits)
qed auto

lemmas emits_rules = em.keeps_rules emits_request_call emits_page_call emits_now emits_range_map
  emits_modify_prov emits_pages_loop

lemma same_prov_request_call: "keeps same_prov (request_call rq f)"
  by (auto simp: keeps_def request_call_def same_prov_def split: prod.splits)

lemma same_prov_page_call: "keeps same_prov (page_call rq f p)"
  by (auto simp: keeps_def page_call_def same_prov_def split: prod.splits)

lemma same_prov_range_map: "keeps same_prov (range_map m)"
  by (auto simp: keeps_def range_map_def same_prov_def split: list.splits)

lemma same_prov_pages_loop:
  assumes "\<And>x a. keeps same_prov (body x a)"
  shows "keeps same_prov (pages_loop E rq next body n p acc)"
  using assms
proof (induction n arbitrary: p acc)
  case (Suc n)
  then show ?case
    by (auto intro!: sp.keeps_rules same_prov_page_call split: sum.splits)
qed auto

lemmas same_prov_rules = sp.keeps_rules same_prov_request_call same_prov_page_call
  same_prov_range_map same_prov_pages_loop

lemma emits_run:
  assumes "emits P m" and "m s = (r, t)"
  obtains es where "log t = log s @ es" and "\<forall>e \<in> set es. P e"
  using assms unfolding keeps_def emits_rel_def by (metis snd_conv)

lemma same_prov_run: "keeps same_prov m \<Longrightarrow> m s = (r, t) \<Longrightarrow> prov t = prov s"
  unfolding keeps_def same_prov_def by (metis snd_conv)

section \<open>Requests and result together\<close>

text \<open>
  \<open>ensures P Q m s\<close>: run from \<open>s\<close>, \<open>m\<close> makes only requests that satisfy \<open>P\<close>, and a value it
  returns satisfies \<open>Q\<close> with the state it leaves.
\<close>

definition ensures ::
  "(event \<Rightarrow> bool) \<Rightarrow> ('a \<Rightarrow> 'w gstate \<Rightarrow> bool) \<Rightarrow> ('w, 'a) op \<Rightarrow> 'w gstate \<Rightarrow> bool" where
  "ensures P Q m s = (case m s of (r, t) \<Rightarrow> emits_rel P s t \<and> (\<forall>x. r = Ok x \<longrightarrow> Q x t))"

lemma ensures_bindM:
  assumes "ensures P Q m s" and "\<And>x t. Q x t \<Longrightarrow> ensures P Q' (f x) t"
  shows "ensures P Q' (bindM m f) s"
proof -
  obtain r t where run: "m s = (r, t)" by fastforce
  with assms(1) have st: "emits_rel P s t" and ok: "\<And>x. r = Ok x \<Longrightarrow> Q x t"
    by (auto simp: ensures_def)
  show ?thesis
  proof (cases r)
    case (Ok x)
    then have "ensures P Q' (f x) t" using ok assms(2) by blast
    then show ?thesis using run st Ok by (auto simp: ensures_def bindM_def intro: em.R_trans)
  qed (use run st in \<open>auto simp: ensures_def bindM_def\<close>)
qed

lemma ensures_returnM: "Q x s \<Longrightarrow> ensures P Q (returnM x) s"
  by (simp add: ensures_def returnM_def em.R_refl)

lemma ensures_emits: "emits P m \<Longrightarrow> ensures P (\<lambda>_ _. True) m s"
  by (auto simp: ensures_def keeps_def split: prod.splits) (metis snd_conv)

lemma ensures_weaken: "ensures P Q m s \<Longrightarrow> (\<And>x t. Q x t \<Longrightarrow> Q' x t) \<Longrightarrow> ensures P Q' m s"
  by (auto simp: ensures_def)

lemma ensures_keeps: "emits P m \<Longrightarrow> keeps R m \<Longrightarrow> ensures P (\<lambda>_ t. R s t) m s"
  by (auto simp: ensures_def keeps_def split: prod.splits) (metis snd_conv)+

lemma ensures_getM: "Q (f s) s \<Longrightarrow> ensures P Q (getM f) s"
  by (simp add: ensures_def getM_def em.R_refl)

lemma ensures_deref: "(\<And>x. p = Some x \<Longrightarrow> Q x s) \<Longrightarrow> ensures P Q (deref p) s"
  by (cases p) (auto simp: ensures_def monad_defs em.R_refl)

lemma ensures_range_map:
  assumes "\<And>ys cs. set ys = set m \<Longrightarrow> Q ys (s\<lparr>choices := cs\<rparr>)"
  shows "ensures P Q (range_map m) s"
proof -
  have "Q (shuffle [] m) s" using assms [of "shuffle [] m" "choices s"] by simp
  then show ?thesis
    using assms by (cases "choices s") (auto simp: ensures_def range_map_def emits_rel_def)
qed

lemma ensures_log: "ensures P Q m s \<Longrightarrow> \<exists>es. log (snd (m s)) = log s @ es \<and> list_all P es"
  by (auto simp: ensures_def emits_rel_def list_all_iff split: prod.splits)

end
