(* ===== verification/Sha1.thy ===== *)
theory Sha1
  imports GoText "HOL-Library.Word"
begin

unbundle bit_operations_syntax

text \<open>
  \<open>crypto/sha1\<close>'s \<open>Sum\<close>, the digest of the policy document that the operator stores in a tag:
  padding, message schedule and compression on 32-bit words with wrap-around addition.
\<close>

type_synonym u32 = "32 word"

definition rotl32 :: "nat \<Rightarrow> u32 \<Rightarrow> u32" where
  "rotl32 n x = push_bit n x OR drop_bit (32 - n) x"

text \<open>Big-endian bytes of a number, most significant first.\<close>

fun be_bytes :: "nat \<Rightarrow> nat \<Rightarrow> nat list" where
  "be_bytes 0 x = []"
| "be_bytes (Suc n) x = be_bytes n (x div 256) @ [x mod 256]"

definition sha1_pad :: "nat list \<Rightarrow> nat list" where
  "sha1_pad msg = (let n = length msg in
     msg @ 128 # replicate ((119 - n mod 64) mod 64) 0 @ be_bytes 8 (8 * n mod 2 ^ 64))"

fun be_word :: "nat list \<Rightarrow> nat" where
  "be_word bs = foldl (\<lambda>acc b. acc * 256 + b) 0 bs"

fun chunks :: "nat \<Rightarrow> 'a list \<Rightarrow> nat \<Rightarrow> 'a list list" where
  "chunks sz xs 0 = []"
| "chunks sz xs (Suc k) = take sz xs # chunks sz (drop sz xs) k"

text \<open>The message schedule, newest word first.\<close>

fun sha1_extend :: "nat \<Rightarrow> u32 list \<Rightarrow> u32 list" where
  "sha1_extend 0 rs = rs"
| "sha1_extend (Suc n) rs =
     sha1_extend n (rotl32 1 (rs ! 2 XOR rs ! 7 XOR rs ! 13 XOR rs ! 15) # rs)"

definition sha1_schedule :: "nat list \<Rightarrow> u32 list" where
  "sha1_schedule block =
     rev (sha1_extend 64 (rev (map (\<lambda>c. of_nat (be_word c)) (chunks 4 block 16))))"

definition sha1_f :: "nat \<Rightarrow> u32 \<Rightarrow> u32 \<Rightarrow> u32 \<Rightarrow> u32" where
  "sha1_f t b c d =
     (if t < 20 then (b AND c) OR (NOT b AND d)
      else if t < 40 then b XOR c XOR d
      else if t < 60 then (b AND c) OR (b AND d) OR (c AND d)
      else b XOR c XOR d)"

definition sha1_k :: "nat \<Rightarrow> u32" where
  "sha1_k t =
     (if t < 20 then 0x5A827999 else if t < 40 then 0x6ED9EBA1
      else if t < 60 then 0x8F1BBCDC else 0xCA62C1D6)"

type_synonym sha1_state = "u32 \<times> u32 \<times> u32 \<times> u32 \<times> u32"

fun sha1_rounds :: "nat \<Rightarrow> u32 list \<Rightarrow> sha1_state \<Rightarrow> sha1_state" where
  "sha1_rounds t [] st = st"
| "sha1_rounds t (w # ws) (a, b, c, d, e) =
     sha1_rounds (Suc t) ws
       (rotl32 5 a + sha1_f t b c d + e + sha1_k t + w, a, rotl32 30 b, c, d)"

fun sha1_block :: "sha1_state \<Rightarrow> nat list \<Rightarrow> sha1_state" where
  "sha1_block (h0, h1, h2, h3, h4) block =
     (case sha1_rounds 0 (sha1_schedule block) (h0, h1, h2, h3, h4) of
        (a, b, c, d, e) \<Rightarrow> (h0 + a, h1 + b, h2 + c, h3 + d, h4 + e))"

definition sha1_init :: sha1_state where
  "sha1_init = (0x67452301, 0xEFCDAB89, 0x98BADCFE, 0x10325476, 0xC3D2E1F0)"

fun sha1_bytes :: "sha1_state \<Rightarrow> nat list" where
  "sha1_bytes (h0, h1, h2, h3, h4) =
     concat (map (\<lambda>h. be_bytes 4 (unat h)) [h0, h1, h2, h3, h4])"

text \<open>\<open>sha1.Sum(data)\<close>: the twenty bytes of the digest.\<close>

definition sha1_Sum :: "string \<Rightarrow> nat list" where
  "sha1_Sum s = (let padded = sha1_pad (map of_char s) in
     sha1_bytes (foldl sha1_block sha1_init (chunks 64 padded (length padded div 64))))"

section \<open>Shape of the digest\<close>

lemma length_be_bytes [simp]: "length (be_bytes n x) = n"
  by (induction n arbitrary: x) auto

lemma be_bytes_bound: "b \<in> set (be_bytes n x) \<Longrightarrow> b < 256"
  by (induction n arbitrary: x) auto

lemma length_sha1_bytes [simp]: "length (sha1_bytes st) = 20"
  by (cases st) auto

lemma sha1_bytes_bound: "b \<in> set (sha1_bytes st) \<Longrightarrow> b < 256"
  by (cases st) (auto dest: be_bytes_bound)

text \<open>Padding fills whole blocks, so no byte of the message is left out of the digest.\<close>

lemma pad_fills:
  fixes n :: nat
  shows "(n + (1 + (119 - n mod 64) mod 64 + 8)) mod 64 = 0"
proof -
  define r where "r = n mod 64"
  have "r < 64" by (simp add: r_def)
  then have "(119 - r) mod 64 = (if r \<le> 55 then 55 - r else 119 - r)"
    by (auto simp: mod_if)
  with \<open>r < 64\<close> have "64 dvd r + (1 + (119 - r) mod 64 + 8)" by auto
  then have "(r + (1 + (119 - r) mod 64 + 8)) mod 64 = 0" by (rule dvd_imp_mod_0)
  then show ?thesis by (simp add: r_def mod_add_left_eq)
qed

lemma length_sha1_pad: "length (sha1_pad msg) mod 64 = 0"
  using pad_fills [of "length msg"] by (simp add: sha1_pad_def Let_def add.assoc)

lemma concat_chunks: "length xs = sz * k \<Longrightarrow> concat (chunks sz xs k) = xs"
  by (induction k arbitrary: xs) auto

lemma sha1_blocks_cover:
  "concat (chunks 64 (sha1_pad msg) (length (sha1_pad msg) div 64)) = sha1_pad msg"
  by (rule concat_chunks) (metis length_sha1_pad mod_0_imp_dvd dvd_mult_div_cancel)

end
