(* ===== verification/Tags.thy ===== *)
theory Tags
  imports Services Sha1
begin

text \<open>
  \<open>internal/aws_sdk/tags.go\<close>: the tags by which the operator recognises what it owns, and the
  checksum tag by which it recognises a changed policy document.
\<close>

section \<open>IAMClient and its metadata\<close>

text \<open>
  Of \<open>IAMClient\<close> the operations read the embedded \<open>IAMClientMetadata\<close>; the SDK client, context
  and logger are in the environment.
\<close>

record IAMClient =
  AccountID :: string
  Region :: string

definition TagKeyEKSClusterName :: string where
  "TagKeyEKSClusterName = ''aws.edenlab.io/aws-iam-provisioner/cluster''"

definition TagKeyNamespace :: string where
  "TagKeyNamespace = ''aws.edenlab.io/aws-iam-provisioner/namespace''"

definition TagKeyPolicyDocument :: string where
  "TagKeyPolicyDocument = ''aws.edenlab.io/aws-iam-provisioner/checksum''"

lemmas tag_keys = TagKeyEKSClusterName_def TagKeyNamespace_def TagKeyPolicyDocument_def

definition compareTags :: "('w, 'p) env \<Rightarrow> iamTag list \<Rightarrow> iamTag list \<Rightarrow> bool" where
  "compareTags E tagsA tagsB = cmp_Equal E tagsA tagsB"

definition NewChecksumTag :: "('w, 'p) env \<Rightarrow> string option \<Rightarrow> iamTag" where
  "NewChecksumTag E policyDocument =
     \<lparr>it_Key = Some TagKeyPolicyDocument,
      it_Value = Some (hex_bytes (sha1_Sum (aws_ToString E policyDocument)))\<rparr>"

text \<open>The elements are pointers: a nil one panics at \<open>tag.Key\<close>.\<close>

fun ConvertToIAMTags :: "Tag option list \<Rightarrow> ('s, iamTag list) gop" where
  "ConvertToIAMTags [] = returnM []"
| "ConvertToIAMTags (tag # specTags) =
     bindM (deref tag) (\<lambda>t.
     bindM (ConvertToIAMTags specTags) (\<lambda>iamTags.
     returnM (\<lparr>it_Key = tag_Key t, it_Value = tag_Value t\<rparr> # iamTags)))"

definition TagsDefine :: "string \<Rightarrow> string \<Rightarrow> iamTag list \<Rightarrow> iamTag list" where
  "TagsDefine clusterName namespace tags =
     [\<lparr>it_Key = Some TagKeyEKSClusterName, it_Value = Some clusterName\<rparr>,
      \<lparr>it_Key = Some TagKeyNamespace, it_Value = Some namespace\<rparr>] @ tags"

text \<open>
  \<open>*tag.Key == *resultTag.Key && *tag.Value == *resultTag.Value\<close>: the values are dereferenced only
  when the keys agree.
\<close>

definition tag_matches :: "iamTag \<Rightarrow> iamTag \<Rightarrow> ('s, bool) gop" where
  "tag_matches tag resultTag =
     bindM (deref (it_Key tag)) (\<lambda>k.
     bindM (deref (it_Key resultTag)) (\<lambda>rk.
     if k = rk then
       bindM (deref (it_Value tag)) (\<lambda>v.
       bindM (deref (it_Value resultTag)) (\<lambda>rv. returnM (v = rv)))
     else returnM False))"

definition getSimilarTags :: "iamTag list \<Rightarrow> iamTag list \<Rightarrow> ('s, iamTag list) gop" where
  "getSimilarTags compare_tags resultTags =
     foldM (\<lambda>tag acc.
       foldM (\<lambda>resultTag acc'.
         bindM (tag_matches tag resultTag) (\<lambda>m.
         returnM (if m then acc' @ [resultTag] else acc'))) resultTags acc) compare_tags []"

definition getSimilarPolicyTags ::
  "('w, 'p) env \<Rightarrow> iamTag list \<Rightarrow> iamPolicy \<Rightarrow> ('w, iamTag list) op" where
  "getSimilarPolicyTags E compare_tags policy =
     (let rq = ListPolicyTagsReq 10 (ip_Arn policy) in
      bindM (request_call (IAM rq) (sdk_ListPolicyTags E rq)) (\<lambda>r.
        case r of
          Inl err \<Rightarrow> errM err
        | Inr resultTags \<Rightarrow> getSimilarTags compare_tags resultTags))"

definition getSimilarRoleTags ::
  "('w, 'p) env \<Rightarrow> iamTag list \<Rightarrow> iamRole \<Rightarrow> ('w, iamTag list) op" where
  "getSimilarRoleTags E compare_tags role =
     (let rq = ListRoleTagsReq 10 (ir_RoleName role) in
      bindM (request_call (IAM rq) (sdk_ListRoleTags E rq)) (\<lambda>r.
        case r of
          Inl err \<Rightarrow> errM err
        | Inr resultTags \<Rightarrow> getSimilarTags compare_tags resultTags))"

section \<open>Documented behaviour of the library helpers\<close>

text \<open>
  \<open>cmp.Equal\<close> against a non-empty slice of tags is element-wise equality through the pointers;
  \<open>aws.ToString\<close> of a pointer that is not nil is the string it points to.
\<close>

definition cmp_documented :: "('w, 'p) env \<Rightarrow> bool" where
  "cmp_documented E = (\<forall>xs ys. ys \<noteq> [] \<longrightarrow> cmp_Equal E xs ys = (xs = ys))"

definition tostring_documented :: "('w, 'p) env \<Rightarrow> bool" where
  "tostring_documented E = (\<forall>s. aws_ToString E (Some s) = s)"

section \<open>Facts\<close>

text \<open>A tag as AWS returns it: key and value are present.\<close>

definition full_tag :: "iamTag \<Rightarrow> bool" where
  "full_tag t = (it_Key t \<noteq> None \<and> it_Value t \<noteq> None)"

lemma TagsDefine_full [simp]: "list_all full_tag (TagsDefine c n tags) = list_all full_tag tags"
  by (simp add: TagsDefine_def full_tag_def)

lemma tag_matches_full:
  "full_tag t \<Longrightarrow> full_tag r \<Longrightarrow> tag_matches t r = returnM (t = r)"
  by (cases t; cases r) (auto simp: full_tag_def tag_matches_def)

lemma getSimilarTags_inner:
  assumes "full_tag t" and "list_all full_tag rs"
  shows "foldM (\<lambda>resultTag acc'.
           bindM (tag_matches t resultTag) (\<lambda>m.
           returnM (if m then acc' @ [resultTag] else acc'))) rs acc =
         returnM (acc @ filter ((=) t) rs)"
  using assms(2)
  by (induction rs arbitrary: acc) (simp_all add: tag_matches_full assms(1))

lemma getSimilarTags_full:
  assumes "list_all full_tag ts" and "list_all full_tag rs"
  shows "getSimilarTags ts rs = returnM (concat (map (\<lambda>t. filter ((=) t) rs) ts))"
proof -
  have "foldM (\<lambda>tag acc.
       foldM (\<lambda>resultTag acc'.
         bindM (tag_matches tag resultTag) (\<lambda>m.
         returnM (if m then acc' @ [resultTag] else acc'))) rs acc) ts acc =
     returnM (acc @ concat (map (\<lambda>t. filter ((=) t) rs) ts))" for acc
    using assms(1)
    by (induction ts arbitrary: acc) (simp_all add: getSimilarTags_inner assms(2))
  from this [of "[]"] show ?thesis by (simp add: getSimilarTags_def)
qed

lemma filter_eq_singleton: "distinct rs \<Longrightarrow> filter ((=) t) rs = (if t \<in> set rs then [t] else [])"
  by (induction rs) (auto simp: filter_empty_conv)

text \<open>
  Where AWS returns complete and pairwise different tags, the comparison of
  \<open>ListRolesByTags\<close> and \<open>ListPoliciesByTags\<close> decides whether the resource carries all the tags.
\<close>

definition carries_tags :: "iamTag list \<Rightarrow> iamTag list \<Rightarrow> bool" where
  "carries_tags ts rs = (set ts \<subseteq> set rs)"

lemma getSimilarTags_distinct:
  assumes "list_all full_tag ts" and "list_all full_tag rs" and "distinct rs"
  shows "getSimilarTags ts rs = returnM (filter (\<lambda>t. t \<in> set rs) ts)"
proof -
  have "concat (map (\<lambda>t. filter ((=) t) rs) ts) = filter (\<lambda>t. t \<in> set rs) ts"
    by (induction ts) (simp_all add: filter_eq_singleton assms(3))
  then show ?thesis using assms by (simp add: getSimilarTags_full)
qed

lemma filter_all_iff: "(filter P ts = ts) = (\<forall>t \<in> set ts. P t)"
  by (simp add: filter_id_conv)

lemma tag_comparison:
  assumes "list_all full_tag ts" and "list_all full_tag rs" and "distinct rs" and "ts \<noteq> []"
    and "cmp_documented E"
  shows "bindM (getSimilarTags ts rs) (\<lambda>similar. returnM (compareTags E similar ts)) =
         returnM (carries_tags ts rs)"
  using assms by (auto simp: getSimilarTags_distinct compareTags_def carries_tags_def filter_all_iff
      cmp_documented_def subset_eq)

lemma same_prov_getSimilarTags: "keeps same_prov (getSimilarTags ts rs)"
  by (auto simp: getSimilarTags_def tag_matches_def intro!: same_prov_rules)

lemma emits_getSimilarTags: "emits P (getSimilarTags ts rs)"
  by (auto simp: getSimilarTags_def tag_matches_def intro!: emits_rules)

lemma emits_ConvertToIAMTags: "emits P (ConvertToIAMTags ts)"
  by (induction ts) (auto intro!: emits_rules)

lemma same_prov_ConvertToIAMTags: "keeps same_prov (ConvertToIAMTags ts)"
  by (induction ts) (auto intro!: same_prov_rules)

lemma ConvertToIAMTags_Some:
  "ConvertToIAMTags (map Some ts) = returnM (map (\<lambda>t. \<lparr>it_Key = tag_Key t, it_Value = tag_Value t\<rparr>) ts)"
  by (induction ts) simp_all

lemma length_checksum:
  "\<exists>v. it_Value (NewChecksumTag E doc) = Some v \<and> length v = 40"
proof -
  have "length (sha1_Sum d) = 20" for d by (simp add: sha1_Sum_def Let_def)
  then show ?thesis by (simp add: NewChecksumTag_def)
qed

end
