(* ===== verification/IamErrors.thy ===== *)
theory IamErrors
  imports Services
begin

text \<open>
  The error tests of \<open>internal/aws_sdk\<close>, and the contract shared by its deleting and updating
  operations: a service answer "no such entity" counts as success, every other error is returned.
\<close>

text \<open>
  \<open>errors.As(err, &respError) && respError.HTTPStatusCode() == status && respError.As(&exception)\<close>.
\<close>

fun is_response :: "nat \<Rightarrow> aws_exception \<Rightarrow> go_error \<Rightarrow> bool" where
  "is_response status exc (ResponseError st excs msg) = (st = status \<and> exc \<in> set excs)"
| "is_response status exc _ = False"

definition is_no_such_entity :: "go_error \<Rightarrow> bool" where
  "is_no_such_entity err = is_response 404 NoSuchEntityException err"

definition is_already_exists :: "go_error \<Rightarrow> bool" where
  "is_already_exists err = is_response 409 EntityAlreadyExistsException err"

definition tolerate :: "go_error + unit \<Rightarrow> unit outcome" where
  "tolerate r = (case r of
     Inl err \<Rightarrow> if is_no_such_entity err then Ok () else Err err
   | Inr _ \<Rightarrow> Ok ())"

text \<open>An entry of the log that a tolerant operation goes on after.\<close>

definition tolerated :: "event \<Rightarrow> bool" where
  "tolerated ev = (case ev_error ev of None \<Rightarrow> True | Some err \<Rightarrow> is_no_such_entity err)"

locale tolerant_op =
  fixes perform :: "'x \<Rightarrow> ('w, unit) op"
    and req :: "'x \<Rightarrow> request"
    and outside :: "'x \<Rightarrow> ('w, unit) call"
    and ok_arg :: "'x \<Rightarrow> bool"
  assumes perform_law: "ok_arg x \<Longrightarrow> perform x s =
    (case outside x (world s) of (r, w) \<Rightarrow>
       (tolerate r, s\<lparr>world := w, log := log s @ [Event (req x) (error_of r)]\<rparr>))"
begin

lemma perform_cases:
  assumes "ok_arg x" and "perform x s = (r, t)"
  obtains (passed) ev where "r = Ok ()" "ev_request ev = req x" "tolerated ev" "log t = log s @ [ev]"
  | (failed) err where "r = Err err" "\<not> is_no_such_entity err"
      "log t = log s @ [Event (req x) (Some err)]"
proof -
  obtain q w where out: "outside x (world s) = (q, w)" by fastforce
  then have rt: "r = tolerate q" "log t = log s @ [Event (req x) (error_of q)]"
    using perform_law [OF assms(1), of s] assms(2) by auto
  show thesis
  proof (cases q)
    case (Inl err)
    then show thesis
      using rt passed [of "Event (req x) (Some err)"] failed [of err]
      by (cases "is_no_such_entity err") (auto simp: tolerate_def tolerated_def)
  next
    case (Inr u)
    then show thesis
      using rt passed [of "Event (req x) None"] by (auto simp: tolerate_def tolerated_def)
  qed
qed

lemma perform_outcome: "ok_arg x \<Longrightarrow> fst (perform x s) \<noteq> Panic \<and> fst (perform x s) \<noteq> Hang"
  using perform_cases [of x s "fst (perform x s)" "snd (perform x s)"] by force

lemma batch_done:
  assumes "forM xs perform s = (Ok (), t)" and "list_all ok_arg xs"
  shows "\<exists>es. log t = log s @ es \<and> map ev_request es = map req xs \<and> list_all tolerated es"
  using assms
proof (induction xs arbitrary: s)
  case Nil
  then show ?case by (simp add: returnM_def)
next
  case (Cons x xs)
  obtain r u where st: "perform x s = (r, u)" by fastforce
  have "ok_arg x" using Cons.prems by simp
  then show ?case using st
  proof (cases rule: perform_cases)
    case (passed ev)
    then have "forM xs perform u = (Ok (), t)" using Cons.prems(1) st by (simp add: bindM_def)
    then obtain es where "log t = log u @ es \<and> map ev_request es = map req xs \<and> list_all tolerated es"
      using Cons.IH Cons.prems(2) by auto
    then show ?thesis using passed by (intro exI [of _ "ev # es"]) simp
  next
    case (failed err)
    then show ?thesis using Cons.prems(1) st by (simp add: bindM_def)
  qed
qed

lemma batch_failed:
  assumes "forM xs perform s = (Err err, t)" and "list_all ok_arg xs"
  shows "\<exists>ys y zs es. xs = ys @ y # zs \<and> \<not> is_no_such_entity err \<and>
    log t = log s @ es @ [Event (req y) (Some err)] \<and> map ev_request es = map req ys \<and>
    list_all tolerated es"
  using assms
proof (induction xs arbitrary: s)
  case Nil
  then show ?case by (simp add: returnM_def)
next
  case (Cons x xs)
  obtain r u where st: "perform x s = (r, u)" by fastforce
  have "ok_arg x" using Cons.prems by simp
  then show ?case using st
  proof (cases rule: perform_cases)
    case (passed ev)
    then have "forM xs perform u = (Err err, t)" using Cons.prems(1) st by (simp add: bindM_def)
    then have "\<exists>ys y zs es. xs = ys @ y # zs \<and> \<not> is_no_such_entity err \<and>
        log t = log u @ es @ [Event (req y) (Some err)] \<and> map ev_request es = map req ys \<and>
        list_all tolerated es"
      using Cons.IH [of u] Cons.prems(2) by simp
    then obtain ys y zs es where "xs = ys @ y # zs" "\<not> is_no_such_entity err"
      "log t = log u @ es @ [Event (req y) (Some err)]" "map ev_request es = map req ys"
      "list_all tolerated es"
      by blast
    then show ?thesis
      using passed by (intro exI [of _ "x # ys"] exI [of _ y] exI [of _ zs] exI [of _ "ev # es"]) simp
  next
    case (failed err')
    then show ?thesis using Cons.prems(1) st
      by (intro exI [of _ "[]"] exI [of _ x] exI [of _ xs]) (simp add: bindM_def)
  qed
qed

lemma batch_outcome:
  assumes "list_all ok_arg xs"
  shows "fst (forM xs perform s) \<noteq> Panic \<and> fst (forM xs perform s) \<noteq> Hang"
  using assms
proof (induction xs arbitrary: s)
  case Nil
  then show ?case by (simp add: returnM_def)
next
  case (Cons x xs)
  obtain r u where st: "perform x s = (r, u)" by fastforce
  have "r \<noteq> Panic \<and> r \<noteq> Hang" using perform_outcome [of x s] Cons.prems st by simp
  then show ?case using Cons st by (cases r) (simp_all add: bindM_def)
qed

end

end
