(* ===== verification/IamPolicy.thy ===== *)
theory IamPolicy
  imports Tags IamErrors
begin

text \<open>
  \<open>internal/aws_sdk/policy.go\<close>: the operations on customer managed policies. Policies are
  addressed by an ARN built from the account, the operator's path and the policy name, so the
  operator reaches only policies under its own path.
\<close>

definition pathPrefix :: string where
  "pathPrefix = ''/aws-iam-provisioner/''"

definition PolicyDescriptionPrefix :: string where
  "PolicyDescriptionPrefix = ''Autogenerated policy by the AWS IAM Provisioner operator for cluster: ''"

definition policy_arn :: "IAMClient \<Rightarrow> string \<Rightarrow> string" where
  "policy_arn c name = ''arn:aws:iam::'' @ AccountID c @ '':policy'' @ pathPrefix @ name"

definition generatePolicyARN :: "IAMClient \<Rightarrow> string option \<Rightarrow> ('s, string option) gop" where
  "generatePolicyARN c policyName =
     bindM (deref policyName) (\<lambda>name. returnM (Some (policy_arn c name)))"

definition CreatePolicy ::
  "('w, 'p) env \<Rightarrow> string option \<Rightarrow> string option \<Rightarrow> string option \<Rightarrow> iamTag list \<Rightarrow> ('w, iamPolicy option) op"
where
  "CreatePolicy E policyName policyData description tags =
     (let rq = CreatePolicyReq policyName policyData description (Some pathPrefix) tags in
      bindM (request_call (IAM rq) (sdk_CreatePolicy E rq)) (\<lambda>r.
        case r of
          Inl err \<Rightarrow>
            if is_already_exists err
            then bindM (deref policyName) (\<lambda>_. returnM None)
            else errM err
        | Inr result \<Rightarrow> bindM (deref result) (\<lambda>policy. returnM (Some policy))))"

definition DeletePolicy :: "('w, 'p) env \<Rightarrow> IAMClient \<Rightarrow> string option \<Rightarrow> ('w, unit) op" where
  "DeletePolicy E c policyName =
     bindM (generatePolicyARN c policyName) (\<lambda>arn.
     let rq = DeletePolicyReq arn in
     bindM (request_call (IAM rq) (sdk_DeletePolicy E rq)) (\<lambda>r.
       case r of
         Inl err \<Rightarrow>
           if is_no_such_entity err
           then bindM (deref policyName) (\<lambda>_. returnM ())
           else errM err
       | Inr _ \<Rightarrow> bindM (deref policyName) (\<lambda>_. returnM ())))"

definition BatchDeletePolicies :: "('w, 'p) env \<Rightarrow> IAMClient \<Rightarrow> iamPolicy list \<Rightarrow> ('w, unit) op" where
  "BatchDeletePolicies E c policies = forM policies (\<lambda>policy. DeletePolicy E c (ip_PolicyName policy))"

definition GetPolicyByName ::
  "('w, 'p) env \<Rightarrow> IAMClient \<Rightarrow> string option \<Rightarrow> ('w, iamPolicy option \<times> bool) op" where
  "GetPolicyByName E c policyName =
     bindM (generatePolicyARN c policyName) (\<lambda>arn.
     let rq = GetPolicyReq arn in
     bindM (request_call (IAM rq) (sdk_GetPolicy E rq)) (\<lambda>r.
       case r of
         Inl err \<Rightarrow>
           if is_no_such_entity err
           then bindM (deref policyName) (\<lambda>_. returnM (None, False))
           else errM err
       | Inr policy \<Rightarrow> returnM (policy, True)))"

definition ListPoliciesByTags :: "('w, 'p) env \<Rightarrow> iamTag list \<Rightarrow> ('w, iamPolicy list) op" where
  "ListPoliciesByTags E tags =
     (let rq = ListPoliciesReq 50 (Some pathPrefix) ''PermissionsPolicy'' ''Local'' in
      pages_loop E (IAM rq) (sdk_NextPolicies E)
        (\<lambda>policy policies.
          bindM (getSimilarPolicyTags E tags policy) (\<lambda>similarTags.
          returnM (if compareTags E similarTags tags then policies @ [policy] else policies)))
        (page_fuel E) (sdk_NewPaginator E rq) [])"

definition ListEntitiesForPolicy ::
  "('w, 'p) env \<Rightarrow> iamPolicy option \<Rightarrow> ('w, iamPolicyRole list) op" where
  "ListEntitiesForPolicy E policy =
     bindM (deref policy) (\<lambda>p.
     let rq = ListEntitiesForPolicyReq (ip_Arn p) ''Role'' 10 (Some pathPrefix) ''PermissionsPolicy'' in
     pages_loop E (IAM rq) (sdk_NextEntities E)
       (\<lambda>role roles. returnM (roles @ [role]))
       (page_fuel E) (sdk_NewPaginator E rq) [])"

section \<open>Requests of the policy operations\<close>

text \<open>The ARN of a policy under the operator's path in the client's account.\<close>

definition own_policy_arn :: "IAMClient \<Rightarrow> string option \<Rightarrow> bool" where
  "own_policy_arn c arn = (case arn of
     None \<Rightarrow> False
   | Some a \<Rightarrow> take (length (policy_arn c [])) a = policy_arn c [])"

lemma policy_arn_append: "policy_arn c [] @ name = policy_arn c name"
  by (simp add: policy_arn_def)

lemma own_policy_arn_generate [simp]: "own_policy_arn c (Some (policy_arn c name))"
  unfolding own_policy_arn_def policy_arn_append [of c name, symmetric] by simp

lemma own_policy_arn_iff: "own_policy_arn c (Some a) \<longleftrightarrow> (\<exists>name. a = policy_arn c name)"
proof
  assume "own_policy_arn c (Some a)"
  then have "policy_arn c [] @ drop (length (policy_arn c [])) a = a"
    using append_take_drop_id [of "length (policy_arn c [])" a] by (simp add: own_policy_arn_def)
  then have "policy_arn c (drop (length (policy_arn c [])) a) = a"
    unfolding policy_arn_append .
  then show "\<exists>name. a = policy_arn c name" by (metis (no_types))
qed auto

lemma policy_arn_inj: "policy_arn c m = policy_arn c n \<longleftrightarrow> m = n"
  by (simp add: policy_arn_def)

lemma emits_generatePolicyARN: "emits P (generatePolicyARN c n)"
  by (auto simp: generatePolicyARN_def intro!: emits_rules)

lemma same_prov_generatePolicyARN: "keeps same_prov (generatePolicyARN c n)"
  by (auto simp: generatePolicyARN_def intro!: same_prov_rules)

lemma generatePolicyARN_bind:
  "bindM (generatePolicyARN c n) f =
     (case n of None \<Rightarrow> panicM | Some name \<Rightarrow> f (Some (policy_arn c name)))"
  by (cases n) (simp_all add: generatePolicyARN_def)

lemma emits_CreatePolicy:
  "(\<And>err. P (Event (IAM (CreatePolicyReq n d desc (Some pathPrefix) tags)) err)) \<Longrightarrow>
   emits P (CreatePolicy E n d desc tags)"
  by (auto simp: CreatePolicy_def Let_def intro!: emits_rules)

lemma emits_DeletePolicy:
  "(\<And>name err. n = Some name \<Longrightarrow> P (Event (IAM (DeletePolicyReq (Some (policy_arn c name)))) err)) \<Longrightarrow>
   emits P (DeletePolicy E c n)"
  by (auto simp: DeletePolicy_def Let_def generatePolicyARN_bind intro!: emits_rules)

text \<open>Deleting is tolerant of a policy that is already gone.\<close>

interpretation delete_policy: tolerant_op
  "DeletePolicy E c" "\<lambda>n. IAM (DeletePolicyReq (map_option (policy_arn c) n))"
  "\<lambda>n. sdk_DeletePolicy E (DeletePolicyReq (map_option (policy_arn c) n))" "\<lambda>n. n \<noteq> None"
  for E :: "('w, 'p) env" and c
  by unfold_locales
    (auto simp: DeletePolicy_def generatePolicyARN_def request_call_def monad_defs tolerate_def
      Let_def split: prod.splits sum.splits)

lemma emits_BatchDeletePolicies:
  "(\<And>p name err. p \<in> set ps \<Longrightarrow> ip_PolicyName p = Some name \<Longrightarrow>
      P (Event (IAM (DeletePolicyReq (Some (policy_arn c name)))) err)) \<Longrightarrow>
   emits P (BatchDeletePolicies E c ps)"
  by (auto simp: BatchDeletePolicies_def intro!: emits_rules emits_DeletePolicy)

lemma emits_GetPolicyByName:
  "(\<And>name err. n = Some name \<Longrightarrow> P (Event (IAM (GetPolicyReq (Some (policy_arn c name)))) err)) \<Longrightarrow>
   emits P (GetPolicyByName E c n)"
  by (auto simp: GetPolicyByName_def Let_def generatePolicyARN_bind intro!: emits_rules)

lemma emits_ListPoliciesByTags:
  "(\<And>err. P (Event (IAM (ListPoliciesReq 50 (Some pathPrefix) ''PermissionsPolicy'' ''Local'')) err)) \<Longrightarrow>
   (\<And>arn err. P (Event (IAM (ListPolicyTagsReq 10 arn)) err)) \<Longrightarrow>
   emits P (ListPoliciesByTags E tags)"
  by (auto simp: ListPoliciesByTags_def getSimilarPolicyTags_def Let_def
      intro!: emits_rules emits_getSimilarTags)

lemma emits_ListEntitiesForPolicy:
  "(\<And>arn err. P (Event (IAM (ListEntitiesForPolicyReq arn ''Role'' 10 (Some pathPrefix)
       ''PermissionsPolicy'')) err)) \<Longrightarrow>
   emits P (ListEntitiesForPolicy E p)"
  by (auto simp: ListEntitiesForPolicy_def Let_def intro!: emits_rules)

lemmas policy_op_defs = CreatePolicy_def DeletePolicy_def BatchDeletePolicies_def GetPolicyByName_def
  ListPoliciesByTags_def ListEntitiesForPolicy_def getSimilarPolicyTags_def

lemma same_prov_policy_ops:
  "keeps same_prov (CreatePolicy E n d desc tags)"
  "keeps same_prov (DeletePolicy E c n)"
  "keeps same_prov (BatchDeletePolicies E c ps)"
  "keeps same_prov (GetPolicyByName E c n)"
  "keeps same_prov (ListPoliciesByTags E tags)"
  "keeps same_prov (ListEntitiesForPolicy E p)"
  by (auto simp: policy_op_defs Let_def
      intro!: same_prov_rules same_prov_generatePolicyARN same_prov_getSimilarTags)

section \<open>What one call does\<close>

text \<open>
  The result of each operation for a policy with a name, in terms of the answer of the service.
\<close>

lemma wp_GetPolicyByName [wp_simps]:
  "wp (GetPolicyByName E c (Some n)) Q s =
     (let rq = GetPolicyReq (Some (policy_arn c n)) in
      case sdk_GetPolicy E rq (world s) of
        (Inl err, w) \<Rightarrow> Q (if is_no_such_entity err then Ok (None, False) else Err err)
                           (after s (IAM rq) (Some err) w)
      | (Inr policy, w) \<Rightarrow> Q (Ok (policy, True)) (after s (IAM rq) None w))"
  by (simp add: GetPolicyByName_def generatePolicyARN_bind Let_def wp_simps split: prod.splits sum.splits)

lemma wp_DeletePolicy [wp_simps]:
  "wp (DeletePolicy E c (Some n)) Q s =
     (let rq = DeletePolicyReq (Some (policy_arn c n)) in
      case sdk_DeletePolicy E rq (world s) of
        (r, w) \<Rightarrow> Q (tolerate r) (after s (IAM rq) (error_of r) w))"
  by (simp add: DeletePolicy_def generatePolicyARN_bind Let_def wp_simps tolerate_def
      split: prod.splits sum.splits)

lemma wp_CreatePolicy [wp_simps]:
  "wp (CreatePolicy E (Some n) d desc tags) Q s =
     (let rq = CreatePolicyReq (Some n) d desc (Some pathPrefix) tags in
      case sdk_CreatePolicy E rq (world s) of
        (Inl err, w) \<Rightarrow> Q (if is_already_exists err then Ok None else Err err)
                           (after s (IAM rq) (Some err) w)
      | (Inr None, w) \<Rightarrow> Q Panic (after s (IAM rq) None w)
      | (Inr (Some policy), w) \<Rightarrow> Q (Ok (Some policy)) (after s (IAM rq) None w))"
  by (simp add: CreatePolicy_def Let_def wp_simps deref_def split: prod.splits sum.splits option.splits)

end
