(* ===== verification/JsonCompact.thy ===== *)
theory JsonCompact
  imports GoText "HOL-Library.Sublist"
begin

text \<open>
  \<open>encoding/json\<close>'s \<open>Compact\<close>, which the operator uses to compare trust policies: the
  byte-level scanner with its stack of open objects and arrays, and the loop that drops the
  bytes the scanner reports as insignificant. The scanner is the library's state machine, state
  by state; a syntax error is kept as its context text.
\<close>

datatype parse_ctx = parseObjectKey | parseObjectValue | parseArrayValue

datatype scan_state =
    stateBeginValue | stateBeginValueOrEmpty | stateBeginStringOrEmpty | stateBeginString
  | stateEndValue | stateEndTop
  | stateInString | stateInStringEsc | stateInStringEscU | stateInStringEscU1
  | stateInStringEscU12 | stateInStringEscU123
  | stateNeg | state1 | state0 | stateDot | stateDot0 | stateE | stateESign | stateE0
  | stateT | stateTr | stateTru | stateF | stateFa | stateFal | stateFals
  | stateN | stateNu | stateNul
  | stateError

datatype scan_op =
    scanContinue | scanBeginLiteral | scanBeginObject | scanObjectKey | scanObjectValue
  | scanEndObject | scanBeginArray | scanArrayValue | scanEndArray
  | scanSkipSpace | scanEnd | scanError

record scanner =
  sc_step :: scan_state
  sc_stack :: "parse_ctx list"
  sc_endTop :: bool
  sc_err :: "string option"

definition newScanner :: scanner where
  "newScanner = \<lparr>sc_step = stateBeginValue, sc_stack = [], sc_endTop = False, sc_err = None\<rparr>"

definition maxNestingDepth :: nat where
  "maxNestingDepth = 10000"

definition isSpace :: "char \<Rightarrow> bool" where
  "isSpace c = (c = CHR '' '' \<or> c = CHR 0x09 \<or> c = CHR 0x0D \<or> c = CHR 0x0A)"

definition isDigit :: "char \<Rightarrow> bool" where
  "isDigit c = (let n = of_char c :: nat in 48 \<le> n \<and> n \<le> 57)"

definition isDigit19 :: "char \<Rightarrow> bool" where
  "isDigit19 c = (let n = of_char c :: nat in 49 \<le> n \<and> n \<le> 57)"

definition goto :: "scanner \<Rightarrow> scan_state \<Rightarrow> scan_op \<Rightarrow> scan_op \<times> scanner" where
  "goto s st v = (v, s\<lparr>sc_step := st\<rparr>)"

definition scan_fail :: "scanner \<Rightarrow> string \<Rightarrow> scan_op \<times> scanner" where
  "scan_fail s msg = (scanError, s\<lparr>sc_step := stateError, sc_err := Some msg\<rparr>)"

definition pushParseState :: "scanner \<Rightarrow> parse_ctx \<Rightarrow> scan_op \<Rightarrow> scan_op \<times> scanner" where
  "pushParseState s ctx v =
     (let s' = s\<lparr>sc_stack := ctx # sc_stack s\<rparr> in
      if length (sc_stack s') \<le> maxNestingDepth then (v, s')
      else scan_fail s' ''exceeded max depth'')"

definition popParseState :: "scanner \<Rightarrow> scan_op \<Rightarrow> scan_op \<times> scanner" where
  "popParseState s v =
     (let rest = tl (sc_stack s) in
      (v, if rest = [] then s\<lparr>sc_stack := rest, sc_step := stateEndTop, sc_endTop := True\<rparr>
          else s\<lparr>sc_stack := rest, sc_step := stateEndValue\<rparr>))"

definition step_EndTop :: "scanner \<Rightarrow> char \<Rightarrow> scan_op \<times> scanner" where
  "step_EndTop s c =
     (if isSpace c then (scanEnd, s) else (scanEnd, snd (scan_fail s ''after top-level value'')))"

definition step_EndValue :: "scanner \<Rightarrow> char \<Rightarrow> scan_op \<times> scanner" where
  "step_EndValue s c = (case sc_stack s of
     [] \<Rightarrow> step_EndTop (s\<lparr>sc_step := stateEndTop, sc_endTop := True\<rparr>) c
   | ctx # rest \<Rightarrow>
       if isSpace c then goto s stateEndValue scanSkipSpace
       else (case ctx of
           parseObjectKey \<Rightarrow>
             if c = CHR '':'' then goto (s\<lparr>sc_stack := parseObjectValue # rest\<rparr>) stateBeginValue scanObjectKey
             else scan_fail s ''after object key''
         | parseObjectValue \<Rightarrow>
             if c = CHR '','' then goto (s\<lparr>sc_stack := parseObjectKey # rest\<rparr>) stateBeginString scanObjectValue
             else if c = CHR ''}'' then popParseState s scanEndObject
             else scan_fail s ''after object key:value pair''
         | parseArrayValue \<Rightarrow>
             if c = CHR '','' then goto s stateBeginValue scanArrayValue
             else if c = CHR '']'' then popParseState s scanEndArray
             else scan_fail s ''after array element''))"

definition step_BeginValue :: "scanner \<Rightarrow> char \<Rightarrow> scan_op \<times> scanner" where
  "step_BeginValue s c =
     (if isSpace c then (scanSkipSpace, s)
      else if c = CHR ''{'' then
        pushParseState (s\<lparr>sc_step := stateBeginStringOrEmpty\<rparr>) parseObjectKey scanBeginObject
      else if c = CHR ''['' then
        pushParseState (s\<lparr>sc_step := stateBeginValueOrEmpty\<rparr>) parseArrayValue scanBeginArray
      else if c = CHR 0x22 then goto s stateInString scanBeginLiteral
      else if c = CHR ''-'' then goto s stateNeg scanBeginLiteral
      else if c = CHR ''0'' then goto s state0 scanBeginLiteral
      else if c = CHR ''t'' then goto s stateT scanBeginLiteral
      else if c = CHR ''f'' then goto s stateF scanBeginLiteral
      else if c = CHR ''n'' then goto s stateN scanBeginLiteral
      else if isDigit19 c then goto s state1 scanBeginLiteral
      else scan_fail s ''looking for beginning of value'')"

definition step_BeginString :: "scanner \<Rightarrow> char \<Rightarrow> scan_op \<times> scanner" where
  "step_BeginString s c =
     (if isSpace c then (scanSkipSpace, s)
      else if c = CHR 0x22 then goto s stateInString scanBeginLiteral
      else scan_fail s ''looking for beginning of object key string'')"

definition step_0 :: "scanner \<Rightarrow> char \<Rightarrow> scan_op \<times> scanner" where
  "step_0 s c =
     (if c = CHR ''.'' then goto s stateDot scanContinue
      else if c = CHR ''e'' \<or> c = CHR ''E'' then goto s stateE scanContinue
      else step_EndValue s c)"

definition step_ESign :: "scanner \<Rightarrow> char \<Rightarrow> scan_op \<times> scanner" where
  "step_ESign s c =
     (if isDigit c then goto s stateE0 scanContinue
      else scan_fail s ''in exponent of numeric literal'')"

definition step_char :: "scanner \<Rightarrow> char \<Rightarrow> char \<Rightarrow> scan_state \<Rightarrow> string \<Rightarrow> scan_op \<times> scanner" where
  "step_char s c want st msg =
     (if c = want then goto s st scanContinue else scan_fail s msg)"

definition step_hex :: "scanner \<Rightarrow> char \<Rightarrow> scan_state \<Rightarrow> scan_op \<times> scanner" where
  "step_hex s c st =
     (if ishex c then goto s st scanContinue
      else scan_fail s (''in '' @ [CHR 0x5C] @ ''u hexadecimal character escape''))"

fun scan_step_in :: "scan_state \<Rightarrow> scanner \<Rightarrow> char \<Rightarrow> scan_op \<times> scanner" where
  "scan_step_in stateBeginValueOrEmpty s c =
     (if isSpace c then (scanSkipSpace, s)
      else if c = CHR '']'' then step_EndValue s c else step_BeginValue s c)"
| "scan_step_in stateBeginValue s c = step_BeginValue s c"
| "scan_step_in stateBeginStringOrEmpty s c =
     (if isSpace c then (scanSkipSpace, s)
      else if c = CHR ''}'' then
        step_EndValue (s\<lparr>sc_stack := parseObjectValue # tl (sc_stack s)\<rparr>) c
      else step_BeginString s c)"
| "scan_step_in stateBeginString s c = step_BeginString s c"
| "scan_step_in stateEndValue s c = step_EndValue s c"
| "scan_step_in stateEndTop s c = step_EndTop s c"
| "scan_step_in stateInString s c =
     (if c = CHR 0x22 then goto s stateEndValue scanContinue
      else if c = CHR 0x5C then goto s stateInStringEsc scanContinue
      else if (of_char c :: nat) < 32 then scan_fail s ''in string literal''
      else (scanContinue, s))"
| "scan_step_in stateInStringEsc s c =
     (if c \<in> {CHR ''b'', CHR ''f'', CHR ''n'', CHR ''r'', CHR ''t'', CHR 0x5C, CHR ''/'', CHR 0x22}
      then goto s stateInString scanContinue
      else if c = CHR ''u'' then goto s stateInStringEscU scanContinue
      else scan_fail s ''in string escape code'')"
| "scan_step_in stateInStringEscU s c = step_hex s c stateInStringEscU1"
| "scan_step_in stateInStringEscU1 s c = step_hex s c stateInStringEscU12"
| "scan_step_in stateInStringEscU12 s c = step_hex s c stateInStringEscU123"
| "scan_step_in stateInStringEscU123 s c = step_hex s c stateInString"
| "scan_step_in stateNeg s c =
     (if c = CHR ''0'' then goto s state0 scanContinue
      else if isDigit19 c then goto s state1 scanContinue
      else scan_fail s ''in numeric literal'')"
| "scan_step_in state1 s c = (if isDigit c then goto s state1 scanContinue else step_0 s c)"
| "scan_step_in state0 s c = step_0 s c"
| "scan_step_in stateDot s c =
     (if isDigit c then goto s stateDot0 scanContinue
      else scan_fail s ''after decimal point in numeric literal'')"
| "scan_step_in stateDot0 s c =
     (if isDigit c then (scanContinue, s)
      else if c = CHR ''e'' \<or> c = CHR ''E'' then goto s stateE scanContinue
      else step_EndValue s c)"
| "scan_step_in stateE s c =
     (if c = CHR ''+'' \<or> c = CHR ''-'' then goto s stateESign scanContinue else step_ESign s c)"
| "scan_step_in stateESign s c = step_ESign s c"
| "scan_step_in stateE0 s c = (if isDigit c then (scanContinue, s) else step_EndValue s c)"
| "scan_step_in stateT s c = step_char s c CHR ''r'' stateTr ''in literal true (expecting 'r')''"
| "scan_step_in stateTr s c = step_char s c CHR ''u'' stateTru ''in literal true (expecting 'u')''"
| "scan_step_in stateTru s c = step_char s c CHR ''e'' stateEndValue ''in literal true (expecting 'e')''"
| "scan_step_in stateF s c = step_char s c CHR ''a'' stateFa ''in literal false (expecting 'a')''"
| "scan_step_in stateFa s c = step_char s c CHR ''l'' stateFal ''in literal false (expecting 'l')''"
| "scan_step_in stateFal s c = step_char s c CHR ''s'' stateFals ''in literal false (expecting 's')''"
| "scan_step_in stateFals s c = step_char s c CHR ''e'' stateEndValue ''in literal false (expecting 'e')''"
| "scan_step_in stateN s c = step_char s c CHR ''u'' stateNu ''in literal null (expecting 'u')''"
| "scan_step_in stateNu s c = step_char s c CHR ''l'' stateNul ''in literal null (expecting 'l')''"
| "scan_step_in stateNul s c = step_char s c CHR ''l'' stateEndValue ''in literal null (expecting 'l')''"
| "scan_step_in stateError s c = (scanError, s)"

text \<open>\<open>s.step(s, c)\<close>.\<close>

definition scan_step :: "scanner \<Rightarrow> char \<Rightarrow> scan_op \<times> scanner" where
  "scan_step s c = scan_step_in (sc_step s) s c"

text \<open>\<open>s.eof()\<close>: the error it leaves, if any.\<close>

definition scan_eof :: "scanner \<Rightarrow> string option" where
  "scan_eof s =
     (if sc_err s \<noteq> None then sc_err s
      else if sc_endTop s then None
      else (let s' = snd (scan_step s CHR '' '') in
        if sc_endTop s' then None
        else if sc_err s' = None then Some ''unexpected end of JSON input'' else sc_err s'))"

text \<open>The opcodes from \<open>scanSkipSpace\<close> on mark a byte that is not copied.\<close>

definition dropped :: "scan_op \<Rightarrow> bool" where
  "dropped v = (v \<in> {scanSkipSpace, scanEnd, scanError})"

fun compact_run :: "scanner \<Rightarrow> string \<Rightarrow> string \<times> scanner" where
  "compact_run s [] = ([], s)"
| "compact_run s (c # cs) = (case scan_step s c of (v, s') \<Rightarrow>
     if v = scanError then ([], s')
     else if dropped v then compact_run s' cs
     else (case compact_run s' cs of (out, s'') \<Rightarrow> (c # out, s'')))"

definition json_Compact :: "string \<Rightarrow> go_error + string" where
  "json_Compact src = (case compact_run newScanner src of (out, s) \<Rightarrow>
     (case scan_eof s of Some msg \<Rightarrow> Inl (SyntaxError msg) | None \<Rightarrow> Inr out))"

section \<open>Compacting twice is compacting once\<close>

text \<open>
  On the compacted text the scanner makes the same steps, except that where a value may end it
  has not yet seen the white space that ended it in the original: \<open>compact_sim\<close> relates the
  scanner of the original to that of the copy.
\<close>

definition value_may_end :: "scan_state \<Rightarrow> bool" where
  "value_may_end st = (st \<in> {state0, state1, stateDot0, stateE0, stateEndValue})"

definition compact_sim :: "scanner \<Rightarrow> scanner \<Rightarrow> bool" where
  "compact_sim a b = (a = b \<or>
     value_may_end (sc_step b) \<and>
     (if sc_stack b = [] then a = b\<lparr>sc_step := stateEndTop, sc_endTop := True\<rparr>
      else a = b\<lparr>sc_step := stateEndValue\<rparr>))"

lemmas scan_defs = scan_step_def step_EndValue_def step_EndTop_def step_BeginValue_def
  step_BeginString_def step_0_def step_ESign_def step_char_def step_hex_def goto_def
  scan_fail_def pushParseState_def popParseState_def

lemma scan_step_keeps_error: "sc_err s \<noteq> None \<Longrightarrow> sc_err (snd (scan_step s c)) \<noteq> None"
  by (cases "sc_step s")
     (simp_all add: scan_defs Let_def split: list.splits parse_ctx.splits)

lemma scan_error_sets: "scan_step s c = (scanError, s') \<Longrightarrow> sc_step s \<noteq> stateError \<Longrightarrow> sc_err s' \<noteq> None"
  by (cases "sc_step s")
     (auto simp: scan_defs Let_def split: list.splits parse_ctx.splits if_splits)

lemma compact_run_keeps_error: "sc_err s \<noteq> None \<Longrightarrow> sc_err (snd (compact_run s cs)) \<noteq> None"
proof (induction s cs rule: compact_run.induct)
  case (2 s c cs)
  then show ?case
    using scan_step_keeps_error [of s c]
    by (cases "dropped (fst (scan_step s c))") (auto split: prod.splits)
qed simp

lemma sim_step_dropped:
  assumes sim: "compact_sim a b" and step: "scan_step a c = (v, a')" and v: "dropped v"
    and ok: "sc_err a' = None" and ne: "v \<noteq> scanError"
  shows "compact_sim a' b"
proof -
  have "v = scanSkipSpace \<or> v = scanEnd" using v ne by (auto simp: dropped_def)
  show ?thesis
  proof (cases "a = b")
    case True
    show ?thesis
      using assms True
      by (cases "sc_step a")
         (auto simp: compact_sim_def value_may_end_def dropped_def scan_defs isSpace_def isDigit_def Let_def
           split: list.splits parse_ctx.splits if_splits)
  next
    case False
    with assms show ?thesis
      by (cases "sc_stack b")
         (auto simp: compact_sim_def value_may_end_def dropped_def scan_defs
           split: parse_ctx.splits if_splits)
  qed
qed

lemma sim_step_kept:
  assumes sim: "compact_sim a b" and step: "scan_step a c = (v, a')" and v: "\<not> dropped v"
    and ok: "sc_err a' = None"
  shows "scan_step b c = (v, a')"
proof (cases "a = b")
  case False
  then have n: "value_may_end (sc_step b)" and
      ab: "if sc_stack b = [] then a = b\<lparr>sc_step := stateEndTop, sc_endTop := True\<rparr>
           else a = b\<lparr>sc_step := stateEndValue\<rparr>"
    using sim by (auto simp: compact_sim_def)
  have "sc_stack b \<noteq> []"
    using step v ab ok by (auto simp: scan_defs dropped_def split: if_splits)
  then have a: "a = b\<lparr>sc_step := stateEndValue\<rparr>" using ab by simp
  have ev: "step_EndValue a c = (v, a')" using step a by (simp add: scan_step_def)
  have c: "c \<in> {CHR '':'', CHR '','', CHR ''}'', CHR '']''}"
    using ev v ok a \<open>sc_stack b \<noteq> []\<close>
    by (auto simp: step_EndValue_def goto_def scan_fail_def dropped_def popParseState_def Let_def
        split: list.splits parse_ctx.splits if_splits)
  have "scan_step b c = step_EndValue b c"
    using n c by (auto simp: value_may_end_def scan_step_def step_0_def isDigit_def Let_def)
  also have "step_EndValue b c = step_EndValue a c"
    using \<open>sc_stack b \<noteq> []\<close> ev v ok a
    by (auto simp: step_EndValue_def goto_def scan_fail_def dropped_def popParseState_def Let_def
        split: list.splits parse_ctx.splits if_splits)
  finally show ?thesis using ev by simp
qed (use step in simp)

lemma sim_run:
  assumes "compact_sim a b" and "compact_run a cs = (out, a')" and "sc_err a' = None"
  shows "\<exists>b'. compact_run b out = (out, b') \<and> compact_sim a' b'"
  using assms
proof (induction a cs arbitrary: b out rule: compact_run.induct)
  case (1 s)
  then show ?case by auto
next
  case (2 s c cs)
  obtain v s1 where st: "scan_step s c = (v, s1)" by fastforce
  obtain out1 s2 where run: "compact_run s1 cs = (out1, s2)" by fastforce
  show ?case
  proof (cases "v = scanError")
    case True
    have "sc_err s1 = None" using "2.prems" st True by simp
    then have "s1 = s" using scan_error_sets [of s c s1] st True
      by (cases "sc_step s = stateError") (auto simp: scan_step_def)
    with "2.prems" st True show ?thesis by auto
  next
    case ne: False
    have fin: "s2 = a'" using "2.prems"(2) st run ne by (auto split: if_splits)
    then have ok: "sc_err s1 = None"
      using compact_run_keeps_error [of s1 cs] run "2.prems"(3) by (cases "sc_err s1") auto
    show ?thesis
    proof (cases "dropped v")
      case True
      then have "compact_sim s1 b" using sim_step_dropped "2.prems"(1) st ok ne by blast
      moreover have "compact_run s1 cs = (out, a')" using "2.prems"(2) st ne True by simp
      ultimately show ?thesis using "2.IH"(1) [of v s1 b out] st ne True "2.prems"(3) by simp
    next
      case False
      have bs: "scan_step b c = (v, s1)" using sim_step_kept "2.prems"(1) st ok False by blast
      have out: "out = c # out1" using "2.prems"(2) st ne False run by simp
      have "\<exists>b'. compact_run s1 out1 = (out1, b') \<and> compact_sim a' b'"
        using "2.IH"(2) [of v s1 s1 out1] st ne False run fin "2.prems"(3)
        by (simp add: compact_sim_def)
      then show ?thesis using bs ne False out by auto
    qed
  qed
qed


lemma eof_may_end:
  "value_may_end (sc_step b) \<Longrightarrow> sc_stack b = [] \<Longrightarrow> sc_err b = None \<Longrightarrow> scan_eof b = None"
  by (auto simp: value_may_end_def scan_eof_def scan_step_def step_0_def
      step_EndValue_def step_EndTop_def isSpace_def isDigit_def Let_def)

lemma eof_EndValue_open:
  "sc_stack b \<noteq> [] \<Longrightarrow> sc_step b = stateEndValue \<Longrightarrow> sc_endTop b = False \<Longrightarrow> scan_eof b \<noteq> None"
  by (auto simp: scan_eof_def scan_step_def step_EndValue_def goto_def isSpace_def Let_def
      split: list.splits)

lemma sim_eof:
  assumes sim: "compact_sim a b" and eof: "scan_eof a = None"
  shows "scan_eof b = None"
proof (cases "a = b")
  case False
  then have n: "value_may_end (sc_step b)" and
      ab: "if sc_stack b = [] then a = b\<lparr>sc_step := stateEndTop, sc_endTop := True\<rparr>
           else a = b\<lparr>sc_step := stateEndValue\<rparr>"
    using sim by (auto simp: compact_sim_def)
  have err: "sc_err a = None" using eof by (auto simp: scan_eof_def split: if_splits)
  show ?thesis
  proof (cases "sc_stack b = []")
    case True
    then show ?thesis using eof_may_end n ab err by simp
  next
    case open_value: False
    then have "sc_endTop b"
      using eof_EndValue_open [of a] ab eof by auto
    then show ?thesis using open_value ab err by (simp add: scan_eof_def)
  qed
qed (use eof in simp)

lemma json_Compact_idem:
  assumes "json_Compact s = Inr t"
  shows "json_Compact t = Inr t"
proof -
  obtain a where run: "compact_run newScanner s = (t, a)" and eof: "scan_eof a = None"
    using assms by (auto simp: json_Compact_def split: prod.splits option.splits)
  have "sc_err a = None" using eof by (auto simp: scan_eof_def split: if_splits)
  then obtain b where "compact_run newScanner t = (t, b)" "compact_sim a b"
    using sim_run [of newScanner newScanner s t a] run by (auto simp: compact_sim_def)
  then show ?thesis using sim_eof eof by (simp add: json_Compact_def)
qed

lemma compact_run_subseq: "subseq (fst (compact_run sc s)) s"
proof (induction sc s rule: compact_run.induct)
  case (2 sc c cs)
  then show ?case by (cases "dropped (fst (scan_step sc c))") (auto split: prod.splits)
qed simp

lemma json_Compact_subseq: "json_Compact s = Inr t \<Longrightarrow> subseq t s"
  using compact_run_subseq [of newScanner s]
  by (auto simp: json_Compact_def split: prod.splits option.splits)

end
