(* ===== verification/IamRoles.thy ===== *)
theory IamRoles
  imports IamPolicy JsonCompact
begin

text \<open>
  \<open>internal/aws_sdk/role.go\<close> and \<open>iam.go\<close>: the operations on roles and on the attachment of
  policies to roles, and the construction of the client.
\<close>

definition IAMDescription :: string where
  "IAMDescription = ''Do not change the tag values, as this may affect work of the operator. If you need to add tags, do so through the AWSIAMProvision custom resource.''"

definition RoleDescriptionPrefix :: string where
  "RoleDescriptionPrefix = ''Autogenerated role by the AWS IAM Provisioner operator for cluster: ''"

definition ButchAttachProc :: string where
  "ButchAttachProc = ''attach''"

definition ButchDetachProc :: string where
  "ButchDetachProc = ''detach''"

section \<open>Attachment\<close>

text \<open>The message logged after the call reads both names.\<close>

definition AttachRolePolicy ::
  "('w, 'p) env \<Rightarrow> IAMClient \<Rightarrow> string option \<Rightarrow> string option \<Rightarrow> ('w, unit) op" where
  "AttachRolePolicy E c policyName roleName =
     bindM (generatePolicyARN c policyName) (\<lambda>arn.
     let rq = AttachRolePolicyReq arn roleName in
     bindM (request_call (IAM rq) (sdk_AttachRolePolicy E rq)) (\<lambda>r.
       case r of
         Inl err \<Rightarrow> errM err
       | Inr _ \<Rightarrow> bindM (deref policyName) (\<lambda>_. bindM (deref roleName) (\<lambda>_. returnM ()))))"

definition DetachRolePolicy ::
  "('w, 'p) env \<Rightarrow> IAMClient \<Rightarrow> string option \<Rightarrow> string option \<Rightarrow> ('w, unit) op" where
  "DetachRolePolicy E c policyName roleName =
     bindM (generatePolicyARN c policyName) (\<lambda>arn.
     let rq = DetachRolePolicyReq arn roleName in
     bindM (request_call (IAM rq) (sdk_DetachRolePolicy E rq)) (\<lambda>r.
       case r of
         Inl err \<Rightarrow>
           if is_no_such_entity err
           then bindM (deref roleName) (\<lambda>_. returnM ())
           else errM err
       | Inr _ \<Rightarrow> bindM (deref policyName) (\<lambda>_. bindM (deref roleName) (\<lambda>_. returnM ()))))"

definition BatchAttachDetachRolePolicies ::
  "('w, 'p) env \<Rightarrow> IAMClient \<Rightarrow> string \<Rightarrow> iamPolicy list \<Rightarrow> string option \<Rightarrow> ('w, unit) op" where
  "BatchAttachDetachRolePolicies E c proc policies roleName =
     forM policies (\<lambda>policy.
       if proc = ButchAttachProc then AttachRolePolicy E c (ip_PolicyName policy) roleName
       else if proc = ButchDetachProc then DetachRolePolicy E c (ip_PolicyName policy) roleName
       else returnM ())"

section \<open>Roles\<close>

definition CreateRole ::
  "('w, 'p) env \<Rightarrow> string option \<Rightarrow> string option \<Rightarrow> string option \<Rightarrow> iamTag list \<Rightarrow> ('w, iamRole option) op"
where
  "CreateRole E roleName assumeRolePolicyDocument description tags =
     (let rq = CreateRoleReq roleName assumeRolePolicyDocument description (Some pathPrefix) tags in
      bindM (request_call (IAM rq) (sdk_CreateRole E rq)) (\<lambda>r.
        case r of
          Inl err \<Rightarrow>
            if is_already_exists err
            then bindM (deref roleName) (\<lambda>_. returnM None)
            else errM err
        | Inr result \<Rightarrow> bindM (deref result) (\<lambda>role. returnM (Some role))))"

definition DeleteRole :: "('w, 'p) env \<Rightarrow> string option \<Rightarrow> ('w, unit) op" where
  "DeleteRole E roleName =
     (let rq = DeleteRoleReq roleName in
      bindM (request_call (IAM rq) (sdk_DeleteRole E rq)) (\<lambda>r.
        case r of
          Inl err \<Rightarrow>
            if is_no_such_entity err
            then bindM (deref roleName) (\<lambda>_. returnM ())
            else errM err
        | Inr _ \<Rightarrow> bindM (deref roleName) (\<lambda>_. returnM ())))"

definition UpdateRole :: "('w, 'p) env \<Rightarrow> string option \<Rightarrow> string option \<Rightarrow> ('w, unit) op" where
  "UpdateRole E roleName assumeRolePolicyDocument =
     (let rq = UpdateAssumeRolePolicyReq roleName assumeRolePolicyDocument in
      bindM (request_call (IAM rq) (sdk_UpdateAssumeRolePolicy E rq)) (\<lambda>r.
        case r of
          Inl err \<Rightarrow>
            if is_no_such_entity err
            then bindM (deref roleName) (\<lambda>_. returnM ())
            else errM err
        | Inr _ \<Rightarrow> bindM (deref roleName) (\<lambda>_. returnM ())))"

definition GetRoleByName ::
  "('w, 'p) env \<Rightarrow> string option \<Rightarrow> ('w, iamRole option \<times> bool) op" where
  "GetRoleByName E roleName =
     (let rq = GetRoleReq roleName in
      bindM (request_call (IAM rq) (sdk_GetRole E rq)) (\<lambda>r.
        case r of
          Inl err \<Rightarrow>
            if is_no_such_entity err
            then bindM (deref roleName) (\<lambda>_. returnM (None, False))
            else errM err
        | Inr role \<Rightarrow> returnM (role, True)))"

definition ListAttachedRolePolicies ::
  "('w, 'p) env \<Rightarrow> IAMClient \<Rightarrow> string option \<Rightarrow> ('w, iamPolicy list) op" where
  "ListAttachedRolePolicies E c roleName =
     (let rq = ListAttachedRolePoliciesReq 50 roleName in
      pages_loop E (IAM rq) (sdk_NextAttachedPolicies E)
        (\<lambda>attachPolicy policies.
          bindM (GetPolicyByName E c (ap_PolicyName attachPolicy)) (\<lambda>(policy, exists).
            if exists then bindM (deref policy) (\<lambda>p. returnM (policies @ [p]))
            else returnM policies))
        (page_fuel E) (sdk_NewPaginator E rq) [])"

definition ListRolesByTags :: "('w, 'p) env \<Rightarrow> iamTag list \<Rightarrow> ('w, iamRole list) op" where
  "ListRolesByTags E tags =
     (let rq = ListRolesReq 50 (Some pathPrefix) in
      pages_loop E (IAM rq) (sdk_NextRoles E)
        (\<lambda>role roles.
          bindM (getSimilarRoleTags E tags role) (\<lambda>similarTags.
          returnM (if compareTags E similarTags tags then roles @ [role] else roles)))
        (page_fuel E) (sdk_NewPaginator E rq) [])"

section \<open>Comparing trust policies\<close>

definition compactRolePolicyDocument ::
  "('w, 'p) env \<Rightarrow> string option \<Rightarrow> go_error + string" where
  "compactRolePolicyDocument E assumeRolePolicyDocument =
     (case PathUnescape (aws_ToString E assumeRolePolicyDocument) of
        Inl err \<Rightarrow> Inl err
      | Inr unescape \<Rightarrow> json_Compact unescape)"

definition DiffRoleByPolicyDocument ::
  "('w, 'p) env \<Rightarrow> string option \<Rightarrow> string option \<Rightarrow> go_error + bool" where
  "DiffRoleByPolicyDocument E rolePolicyDocumentA rolePolicyDocumentB =
     (case compactRolePolicyDocument E rolePolicyDocumentA of
        Inl err \<Rightarrow> Inl err
      | Inr roleDocA \<Rightarrow>
          (case compactRolePolicyDocument E rolePolicyDocumentB of
             Inl err \<Rightarrow> Inl err
           | Inr roleDocB \<Rightarrow> Inr (roleDocA \<noteq> roleDocB)))"

section \<open>The client\<close>

definition NewIAMClient :: "('w, 'p) env \<Rightarrow> string \<Rightarrow> ('w, IAMClient) op" where
  "NewIAMClient E region =
     bindM (request_call (LoadDefaultConfig region) (sdk_LoadDefaultConfig E region)) (\<lambda>cfg.
       case cfg of
         Inl err \<Rightarrow> errM err
       | Inr _ \<Rightarrow>
           bindM (request_call GetCallerIdentity (sdk_GetCallerIdentity E region)) (\<lambda>identity.
             case identity of
               Inl err \<Rightarrow> errM err
             | Inr account \<Rightarrow>
                 returnM \<lparr>AccountID = aws_ToString E account, Region = region\<rparr>))"

section \<open>The tolerant operations\<close>

interpretation detach: tolerant_op
  "\<lambda>(n, r). DetachRolePolicy E c n r"
  "\<lambda>(n, r). IAM (DetachRolePolicyReq (map_option (policy_arn c) n) r)"
  "\<lambda>(n, r). sdk_DetachRolePolicy E (DetachRolePolicyReq (map_option (policy_arn c) n) r)"
  "\<lambda>(n, r). n \<noteq> None \<and> r \<noteq> None"
  for E :: "('w, 'p) env" and c
  by unfold_locales
    (auto simp: DetachRolePolicy_def generatePolicyARN_def request_call_def monad_defs tolerate_def
      Let_def split: prod.splits sum.splits)

interpretation delete_role: tolerant_op
  "DeleteRole E" "\<lambda>r. IAM (DeleteRoleReq r)" "\<lambda>r. sdk_DeleteRole E (DeleteRoleReq r)"
  "\<lambda>r. r \<noteq> None"
  for E :: "('w, 'p) env"
  by unfold_locales
    (auto simp: DeleteRole_def request_call_def monad_defs tolerate_def
      Let_def split: prod.splits sum.splits)

interpretation update_role: tolerant_op
  "\<lambda>(r, d). UpdateRole E r d" "\<lambda>(r, d). IAM (UpdateAssumeRolePolicyReq r d)"
  "\<lambda>(r, d). sdk_UpdateAssumeRolePolicy E (UpdateAssumeRolePolicyReq r d)"
  "\<lambda>(r, d). r \<noteq> None"
  for E :: "('w, 'p) env"
  by unfold_locales
    (auto simp: UpdateRole_def request_call_def monad_defs tolerate_def
      Let_def split: prod.splits sum.splits)

section \<open>Requests of the role operations\<close>

lemma emits_AttachRolePolicy:
  "(\<And>name err. n = Some name \<Longrightarrow> P (Event (IAM (AttachRolePolicyReq (Some (policy_arn c name)) r)) err)) \<Longrightarrow>
   emits P (AttachRolePolicy E c n r)"
  by (auto simp: AttachRolePolicy_def Let_def generatePolicyARN_bind intro!: emits_rules)

lemma emits_DetachRolePolicy:
  "(\<And>name err. n = Some name \<Longrightarrow> P (Event (IAM (DetachRolePolicyReq (Some (policy_arn c name)) r)) err)) \<Longrightarrow>
   emits P (DetachRolePolicy E c n r)"
  by (auto simp: DetachRolePolicy_def Let_def generatePolicyARN_bind intro!: emits_rules)

lemma emits_CreateRole:
  "(\<And>err. P (Event (IAM (CreateRoleReq n d desc (Some pathPrefix) tags)) err)) \<Longrightarrow>
   emits P (CreateRole E n d desc tags)"
  by (auto simp: CreateRole_def Let_def intro!: emits_rules)

lemma emits_DeleteRole:
  "(\<And>err. P (Event (IAM (DeleteRoleReq n)) err)) \<Longrightarrow> emits P (DeleteRole E n)"
  by (auto simp: DeleteRole_def Let_def intro!: emits_rules)

lemma emits_UpdateRole:
  "(\<And>err. P (Event (IAM (UpdateAssumeRolePolicyReq n d)) err)) \<Longrightarrow> emits P (UpdateRole E n d)"
  by (auto simp: UpdateRole_def Let_def intro!: emits_rules)

lemma emits_GetRoleByName:
  "(\<And>err. P (Event (IAM (GetRoleReq n)) err)) \<Longrightarrow> emits P (GetRoleByName E n)"
  by (auto simp: GetRoleByName_def Let_def intro!: emits_rules)

lemma emits_ListAttachedRolePolicies:
  "(\<And>err. P (Event (IAM (ListAttachedRolePoliciesReq 50 n)) err)) \<Longrightarrow>
   (\<And>name err. P (Event (IAM (GetPolicyReq (Some (policy_arn c name)))) err)) \<Longrightarrow>
   emits P (ListAttachedRolePolicies E c n)"
  by (auto simp: ListAttachedRolePolicies_def Let_def intro!: emits_rules emits_GetPolicyByName)

lemma emits_ListRolesByTags:
  "(\<And>err. P (Event (IAM (ListRolesReq 50 (Some pathPrefix))) err)) \<Longrightarrow>
   (\<And>n err. P (Event (IAM (ListRoleTagsReq 10 n)) err)) \<Longrightarrow>
   emits P (ListRolesByTags E tags)"
  by (auto simp: ListRolesByTags_def getSimilarRoleTags_def Let_def
      intro!: emits_rules emits_getSimilarTags)

lemma emits_NewIAMClient:
  "(\<And>err. P (Event (LoadDefaultConfig region) err)) \<Longrightarrow> (\<And>err. P (Event GetCallerIdentity err)) \<Longrightarrow>
   emits P (NewIAMClient E region)"
  by (auto simp: NewIAMClient_def intro!: emits_rules)

lemma same_prov_role_ops:
  "keeps same_prov (AttachRolePolicy E c n r)"
  "keeps same_prov (DetachRolePolicy E c n r)"
  "keeps same_prov (BatchAttachDetachRolePolicies E c proc ps r)"
  "keeps same_prov (CreateRole E n d desc tags)"
  "keeps same_prov (DeleteRole E n)"
  "keeps same_prov (UpdateRole E n d)"
  "keeps same_prov (GetRoleByName E n)"
  "keeps same_prov (ListAttachedRolePolicies E c n)"
  "keeps same_prov (ListRolesByTags E tags)"
  "keeps same_prov (NewIAMClient E region)"
  by (auto simp: AttachRolePolicy_def DetachRolePolicy_def BatchAttachDetachRolePolicies_def
      CreateRole_def DeleteRole_def UpdateRole_def GetRoleByName_def ListAttachedRolePolicies_def
      ListRolesByTags_def NewIAMClient_def getSimilarRoleTags_def Let_def
      intro!: same_prov_rules same_prov_generatePolicyARN same_prov_getSimilarTags
        same_prov_policy_ops)

lemmas same_prov_ops = same_prov_policy_ops same_prov_role_ops same_prov_ConvertToIAMTags

section \<open>What one call does\<close>

text \<open>The result of each operation for names that are present, by the answer of the service.\<close>

lemma wp_GetRoleByName [wp_simps]:
  "wp (GetRoleByName E (Some n)) Q s =
     (let rq = GetRoleReq (Some n) in
      case sdk_GetRole E rq (world s) of
        (Inl err, w) \<Rightarrow> Q (if is_no_such_entity err then Ok (None, False) else Err err)
                           (after s (IAM rq) (Some err) w)
      | (Inr role, w) \<Rightarrow> Q (Ok (role, True)) (after s (IAM rq) None w))"
  by (simp add: GetRoleByName_def Let_def wp_simps split: prod.splits sum.splits)

lemma wp_DeleteRole [wp_simps]:
  "wp (DeleteRole E (Some n)) Q s =
     (let rq = DeleteRoleReq (Some n) in
      case sdk_DeleteRole E rq (world s) of
        (r, w) \<Rightarrow> Q (tolerate r) (after s (IAM rq) (error_of r) w))"
  by (simp add: DeleteRole_def Let_def wp_simps tolerate_def split: prod.splits sum.splits)

lemma wp_UpdateRole [wp_simps]:
  "wp (UpdateRole E (Some n) d) Q s =
     (let rq = UpdateAssumeRolePolicyReq (Some n) d in
      case sdk_UpdateAssumeRolePolicy E rq (world s) of
        (r, w) \<Rightarrow> Q (tolerate r) (after s (IAM rq) (error_of r) w))"
  by (simp add: UpdateRole_def Let_def wp_simps tolerate_def split: prod.splits sum.splits)

lemma wp_CreateRole [wp_simps]:
  "wp (CreateRole E (Some n) d desc tags) Q s =
     (let rq = CreateRoleReq (Some n) d desc (Some pathPrefix) tags in
      case sdk_CreateRole E rq (world s) of
        (Inl err, w) \<Rightarrow> Q (if is_already_exists err then Ok None else Err err)
                           (after s (IAM rq) (Some err) w)
      | (Inr None, w) \<Rightarrow> Q Panic (after s (IAM rq) None w)
      | (Inr (Some role), w) \<Rightarrow> Q (Ok (Some role)) (after s (IAM rq) None w))"
  by (simp add: CreateRole_def Let_def wp_simps deref_def split: prod.splits sum.splits option.splits)

lemma wp_DetachRolePolicy [wp_simps]:
  "wp (DetachRolePolicy E c (Some n) (Some r)) Q s =
     (let rq = DetachRolePolicyReq (Some (policy_arn c n)) (Some r) in
      case sdk_DetachRolePolicy E rq (world s) of
        (a, w) \<Rightarrow> Q (tolerate a) (after s (IAM rq) (error_of a) w))"
  by (simp add: DetachRolePolicy_def generatePolicyARN_bind Let_def wp_simps tolerate_def
      split: prod.splits sum.splits)

lemma wp_AttachRolePolicy [wp_simps]:
  "wp (AttachRolePolicy E c (Some n) (Some r)) Q s =
     (let rq = AttachRolePolicyReq (Some (policy_arn c n)) (Some r) in
      case sdk_AttachRolePolicy E rq (world s) of
        (Inl err, w) \<Rightarrow> Q (Err err) (after s (IAM rq) (Some err) w)
      | (Inr _, w) \<Rightarrow> Q (Ok ()) (after s (IAM rq) None w))"
  by (simp add: AttachRolePolicy_def generatePolicyARN_bind Let_def wp_simps
      split: prod.splits sum.splits)

end
