(* ===== verification/StatusFormatter.thy ===== *)
theory StatusFormatter
  imports IamRoles
begin

text \<open>
  \<open>internal/controller/status_formatter.go\<close>: recording the outcome of an operation in the status
  of the custom resource and writing the status to the cluster. The per-role and per-policy
  entries are lists keyed by name; the last section shows that they implement a finite map.
\<close>

definition destroyIntermediatePhase :: string where "destroyIntermediatePhase = ''Destroying''"
definition destroyPhase :: string where "destroyPhase = ''Destroyed''"
definition provisionIntermediatePhase :: string where "provisionIntermediatePhase = ''Provisioning''"
definition provisionPhase :: string where "provisionPhase = ''Provisioned''"
definition attachPhase :: string where "attachPhase = ''Attached''"
definition createPhase :: string where "createPhase = ''Created''"
definition deletePhase :: string where "deletePhase = ''Deleted''"
definition detachPhase :: string where "detachPhase = ''Detached''"
definition failPhase :: string where "failPhase = ''Failed''"
definition updatePhase :: string where "updatePhase = ''Updated''"

lemmas phase_defs = destroyIntermediatePhase_def destroyPhase_def provisionIntermediatePhase_def
  provisionPhase_def attachPhase_def createPhase_def deletePhase_def detachPhase_def failPhase_def
  updatePhase_def

text \<open>
  The \<open>interface{}\<close> argument: nil, or a role or policy pointer, which can itself be nil.
\<close>

datatype crd_result = NoResult | RoleResult "iamRole option" | PolicyResult "iamPolicy option"

section \<open>Entries keyed by name\<close>

text \<open>
  The search loop \<open>*entry.Name == *wanted\<close>: the index of the first match, or nothing; \<open>None\<close> when
  it dereferences a nil pointer on the way.
\<close>

fun find_named :: "string option list \<Rightarrow> string option \<Rightarrow> nat option option" where
  "find_named [] wanted = Some None"
| "find_named (n # ns) wanted =
     (case (n, wanted) of
        (Some a, Some b) \<Rightarrow>
          if a = b then Some (Some 0) else map_option (map_option Suc) (find_named ns wanted)
      | _ \<Rightarrow> None)"

text \<open>Replace the entry at the index found, or append.\<close>

definition upsert_at :: "nat option \<Rightarrow> 'e \<Rightarrow> 'e list \<Rightarrow> 'e list" where
  "upsert_at num e es = (case num of Some i \<Rightarrow> es[i := e] | None \<Rightarrow> es @ [e])"

text \<open>\<open>append(es[:num], es[num+1:]...)\<close>.\<close>

definition remove_at :: "nat option \<Rightarrow> 'e list \<Rightarrow> 'e list" where
  "remove_at num es = (case num of Some i \<Rightarrow> take i es @ drop (Suc i) es | None \<Rightarrow> es)"

section \<open>updateCRDStatus\<close>

definition update_status :: "(AWSIAMProvisionStatus \<Rightarrow> AWSIAMProvisionStatus) \<Rightarrow> ('w, unit) op" where
  "update_status f = modifyM (prov_update (\<lambda>p. p\<lparr>Status := f (Status p)\<rparr>))"

definition role_status_entry ::
  "string option \<Rightarrow> string \<Rightarrow> string \<Rightarrow> string \<Rightarrow> string \<Rightarrow> string \<Rightarrow> time \<Rightarrow> string option \<Rightarrow> AWSIAMProvisionStatusRole"
where
  "role_status_entry name message phase arn owner region date roleId =
     \<lparr>sr_Name = name, sr_Message = message, sr_Phase = phase,
      sr_Status = \<lparr>rst_AWSIAMResourceMetadata =
          Some \<lparr>md_ARN = Some arn, md_OwnerAccountID = Some owner, md_Region = Some region\<rparr>,
        rst_CreateDate = Some date, rst_RoleID = roleId\<rparr>\<rparr>"

definition update_role_status ::
  "('w, 'p) env \<Rightarrow> string \<Rightarrow> string \<Rightarrow> string \<Rightarrow> string \<Rightarrow> iamRole option \<Rightarrow> ('w, unit) op" where
  "update_role_status E owner region phase message result =
     bindM (deref result) (\<lambda>r.
     bindM (GetRoleByName E (ir_RoleName r)) (\<lambda>(role, exists).
       if exists then
         bindM (deref (ir_Arn r)) (\<lambda>arn.
         bindM (deref (ir_CreateDate r)) (\<lambda>date.
         bindM (getM (\<lambda>s. st_Roles (Status (prov s)))) (\<lambda>roles.
         bindM (deref (find_named (map sr_Name roles) (Option.bind role ir_RoleName))) (\<lambda>num.
         update_status (st_Roles_update (\<lambda>_. upsert_at num
           (role_status_entry (ir_RoleName r) message phase arn owner region date (ir_RoleId r))
           roles))))))
       else
         bindM (getM (\<lambda>s. st_Roles (Status (prov s)))) (\<lambda>roles.
         bindM (deref (find_named (map sr_Name roles) (ir_RoleName r))) (\<lambda>num.
         update_status (st_Roles_update (\<lambda>_. remove_at num roles))))))"

definition policy_status_entry ::
  "iamPolicy \<Rightarrow> string \<Rightarrow> string \<Rightarrow> string \<Rightarrow> string \<Rightarrow> string \<Rightarrow> time \<Rightarrow> AWSIAMProvisionStatusPolicy"
where
  "policy_status_entry policy message phase arn owner region date =
     \<lparr>sp_Name = ip_PolicyName policy, sp_Message = message, sp_Phase = phase,
      sp_Status = \<lparr>pst_AWSIAMResourceMetadata =
          Some \<lparr>md_ARN = Some arn, md_OwnerAccountID = Some owner, md_Region = Some region\<rparr>,
        pst_AttachmentCount = ip_AttachmentCount policy, pst_CreateDate = Some date,
        pst_DefaultVersionID = ip_DefaultVersionId policy, pst_PolicyID = ip_PolicyId policy\<rparr>\<rparr>"

definition update_policy_status ::
  "('w, 'p) env \<Rightarrow> IAMClient \<Rightarrow> string \<Rightarrow> string \<Rightarrow> string \<Rightarrow> string \<Rightarrow> iamPolicy option \<Rightarrow> ('w, unit) op" where
  "update_policy_status E c owner region phase message result =
     bindM (deref result) (\<lambda>r.
     bindM (GetPolicyByName E c (ip_PolicyName r)) (\<lambda>(got, exists).
       if exists then
         bindM (deref got) (\<lambda>policy.
         bindM (deref (ip_Arn policy)) (\<lambda>arn.
         bindM (deref (ip_CreateDate policy)) (\<lambda>date.
         bindM (getM (\<lambda>s. st_Policies (Status (prov s)))) (\<lambda>policies.
         bindM (deref (find_named (map sp_Name policies) (ip_PolicyName policy))) (\<lambda>num.
         update_status (st_Policies_update (\<lambda>_. upsert_at num
           (policy_status_entry policy message phase arn owner region date) policies)))))))
       else
         bindM (getM (\<lambda>s. st_Policies (Status (prov s)))) (\<lambda>policies.
         bindM (deref (find_named (map sp_Name policies) (ip_PolicyName r))) (\<lambda>num.
         update_status (st_Policies_update (\<lambda>_. remove_at num policies))))))"

text \<open>
  \<open>rm.IAMClient\<close> is read only for a result that is not nil; \<open>iam\<close> is \<open>None\<close> while the field is
  nil. The object the server returns replaces the one in memory.
\<close>

definition write_status :: "('w, 'p) env \<Rightarrow> ('w, unit) op" where
  "write_status E =
     bindM (getM prov) (\<lambda>p.
     bindM (request_call (UpdateStatus p) (k8s_UpdateStatus E p)) (\<lambda>r.
       case r of
         Inl err \<Rightarrow> errM (PlainError (''unable to update status for CRD: '' @
           om_Name (ObjectMeta p) @ '', error: '' @ error_text err))
       | Inr p' \<Rightarrow> modifyM (prov_update (\<lambda>_. p'))))"

definition updateCRDStatus ::
  "('w, 'p) env \<Rightarrow> IAMClient option \<Rightarrow> string \<Rightarrow> string \<Rightarrow> string \<Rightarrow> crd_result \<Rightarrow> ('w, unit) op" where
  "updateCRDStatus E iam crdPhase phase message result =
     bindM (case result of
         NoResult \<Rightarrow> returnM ()
       | RoleResult r \<Rightarrow>
           bindM (deref iam) (\<lambda>c. update_role_status E (AccountID c) (Region c) phase message r)
       | PolicyResult r \<Rightarrow>
           bindM (deref iam) (\<lambda>c. update_policy_status E c (AccountID c) (Region c) phase message r))
     (\<lambda>_. bindM (now E) (\<lambda>t.
     bindM (update_status (\<lambda>st. st\<lparr>st_LastUpdatedTime := Some t, st_Phase := crdPhase,
       st_Message := message\<rparr>)) (\<lambda>_.
     write_status E)))"

section \<open>The entries implement a map\<close>

text \<open>The entries all have a name, and no two the same.\<close>

definition well_named :: "('e \<Rightarrow> string option) \<Rightarrow> 'e list \<Rightarrow> bool" where
  "well_named name es = (None \<notin> set (map name es) \<and> distinct (map name es))"

definition entry_map :: "('e \<Rightarrow> string option) \<Rightarrow> 'e list \<Rightarrow> string \<Rightarrow> 'e option" where
  "entry_map name es n = find (\<lambda>e. name e = Some n) es"

text \<open>
  The contract of an entry list, as the handler uses it: store an entry under its name, drop the
  entry of a name.
\<close>

locale entry_list =
  fixes name :: "'e \<Rightarrow> string option"
    and store :: "'e \<Rightarrow> 'e list \<Rightarrow> 'e list option"
    and drop_name :: "string \<Rightarrow> 'e list \<Rightarrow> 'e list option"
  assumes store_map: "well_named name es \<Longrightarrow> name e = Some n \<Longrightarrow>
      \<exists>es'. store e es = Some es' \<and> well_named name es' \<and>
        entry_map name es' = (entry_map name es)(n \<mapsto> e)"
    and drop_map: "well_named name es \<Longrightarrow>
      \<exists>es'. drop_name n es = Some es' \<and> well_named name es' \<and>
        entry_map name es' = (entry_map name es)(n := None)"
begin

text \<open>A whole history of stores and drops acts on the map, and never meets a nil pointer.\<close>

fun act :: "'e + string \<Rightarrow> 'e list \<Rightarrow> 'e list option" where
  "act (Inl e) es = store e es"
| "act (Inr n) es = drop_name n es"

fun act_map :: "'e + string \<Rightarrow> (string \<Rightarrow> 'e option) \<Rightarrow> string \<Rightarrow> 'e option" where
  "act_map (Inl e) m = (case name e of None \<Rightarrow> m | Some n \<Rightarrow> m(n \<mapsto> e))"
| "act_map (Inr n) m = m(n := None)"

fun acts :: "('e + string) list \<Rightarrow> 'e list \<Rightarrow> 'e list option" where
  "acts [] es = Some es"
| "acts (a # as) es = Option.bind (act a es) (acts as)"

lemma act_refines:
  assumes "well_named name es" and "\<And>e. a = Inl e \<Longrightarrow> name e \<noteq> None"
  shows "\<exists>es'. act a es = Some es' \<and> well_named name es' \<and>
           entry_map name es' = act_map a (entry_map name es)"
proof (cases a)
  case (Inl e)
  then obtain n where "name e = Some n" using assms(2) by auto
  then show ?thesis using store_map [OF assms(1)] Inl by fastforce
next
  case (Inr n)
  then show ?thesis using drop_map [OF assms(1)] by simp
qed

lemma acts_refine:
  assumes "well_named name es" and "\<And>e. Inl e \<in> set as \<Longrightarrow> name e \<noteq> None"
  shows "\<exists>es'. acts as es = Some es' \<and> well_named name es' \<and>
           entry_map name es' = fold act_map as (entry_map name es)"
  using assms
proof (induction as arbitrary: es)
  case Nil
  then show ?case by simp
next
  case (Cons a as)
  obtain es1 where "act a es = Some es1" "well_named name es1"
      "entry_map name es1 = act_map a (entry_map name es)"
    using act_refines [of es a] Cons.prems by auto
  then show ?case using Cons.IH [of es1] Cons.prems(2) by simp
qed

end

text \<open>What the handler does to the entries, as a function of the list.\<close>

definition store_entry :: "('e \<Rightarrow> string option) \<Rightarrow> 'e \<Rightarrow> 'e list \<Rightarrow> 'e list option" where
  "store_entry name e es =
     map_option (\<lambda>num. upsert_at num e es) (find_named (map name es) (name e))"

definition drop_entry :: "('e \<Rightarrow> string option) \<Rightarrow> string \<Rightarrow> 'e list \<Rightarrow> 'e list option" where
  "drop_entry name n es =
     map_option (\<lambda>num. remove_at num es) (find_named (map name es) (Some n))"

lemma well_named_Cons:
  "well_named name (e # es) \<longleftrightarrow>
     (\<exists>n. name e = Some n) \<and> name e \<notin> name ` set es \<and> well_named name es"
  by (cases "name e") (auto simp: well_named_def)

lemma entry_map_Cons:
  "entry_map name (e # es) n = (if name e = Some n then Some e else entry_map name es n)"
  by (simp add: entry_map_def)

lemma entry_map_None: "entry_map name es n = None \<longleftrightarrow> Some n \<notin> name ` set es"
  by (simp add: entry_map_def find_None_iff image_iff) metis

lemma upsert_at_Suc: "upsert_at (map_option Suc num) e (x # xs) = x # upsert_at num e xs"
  by (cases num) (simp_all add: upsert_at_def)

lemma remove_at_Suc: "remove_at (map_option Suc num) (x # xs) = x # remove_at num xs"
  by (cases num) (simp_all add: remove_at_def)

lemma upsert_at_0 [simp]: "upsert_at (Some 0) e (x # xs) = e # xs"
  by (simp add: upsert_at_def)

lemma remove_at_0 [simp]: "remove_at (Some 0) (x # xs) = xs"
  by (simp add: remove_at_def)

lemma store_entry_Cons:
  "name x = Some k \<Longrightarrow> name e = Some n \<Longrightarrow>
   store_entry name e (x # xs) =
     (if k = n then Some (e # xs) else map_option ((#) x) (store_entry name e xs))"
  by (cases "find_named (map name xs) (Some n)")
    (simp_all add: store_entry_def upsert_at_Suc)

lemma drop_entry_Cons:
  "name x = Some k \<Longrightarrow>
   drop_entry name n (x # xs) =
     (if k = n then Some xs else map_option ((#) x) (drop_entry name n xs))"
  by (cases "find_named (map name xs) (Some n)")
    (simp_all add: drop_entry_def remove_at_Suc)

lemma store_entry_map:
  assumes "well_named name es" and "name e = Some n"
  shows "\<exists>es'. store_entry name e es = Some es' \<and> well_named name es' \<and>
           name ` set es' = insert (Some n) (name ` set es) \<and>
           entry_map name es' = (entry_map name es)(n \<mapsto> e)"
  using assms(1)
proof (induction es)
  case Nil
  then show ?case
    using assms(2)
    by (auto simp: store_entry_def upsert_at_def well_named_def entry_map_def)
next
  case (Cons x xs)
  obtain k where k: "name x = Some k" "Some k \<notin> name ` set xs" "well_named name xs"
    using Cons.prems by (auto simp: well_named_Cons)
  show ?case
  proof (cases "k = n")
    case True
    then show ?thesis
      using k assms(2)
      by (auto simp: store_entry_Cons well_named_Cons entry_map_Cons fun_eq_iff)
  next
    case False
    obtain es' where es': "store_entry name e xs = Some es'" "well_named name es'"
        "name ` set es' = insert (Some n) (name ` set xs)"
        "entry_map name es' = (entry_map name xs)(n \<mapsto> e)"
      using Cons.IH k(3) by blast
    then show ?thesis
      using False k assms(2)
      by (auto simp: store_entry_Cons well_named_Cons entry_map_Cons fun_eq_iff)
  qed
qed

lemma drop_entry_map:
  assumes "well_named name es"
  shows "\<exists>es'. drop_entry name n es = Some es' \<and> well_named name es' \<and>
           name ` set es' = name ` set es - {Some n} \<and>
           entry_map name es' = (entry_map name es)(n := None)"
  using assms
proof (induction es)
  case Nil
  then show ?case
    by (auto simp: drop_entry_def remove_at_def well_named_def entry_map_def)
next
  case (Cons x xs)
  obtain k where k: "name x = Some k" "Some k \<notin> name ` set xs" "well_named name xs"
    using Cons.prems by (auto simp: well_named_Cons)
  show ?case
  proof (cases "k = n")
    case True
    then show ?thesis
      using k entry_map_None [of name xs n]
      by (auto simp: drop_entry_Cons well_named_Cons entry_map_Cons fun_eq_iff)
  next
    case False
    obtain es' where es': "drop_entry name n xs = Some es'" "well_named name es'"
        "name ` set es' = name ` set xs - {Some n}"
        "entry_map name es' = (entry_map name xs)(n := None)"
      using Cons.IH k(3) by blast
    then show ?thesis
      using False k
      by (auto simp: drop_entry_Cons well_named_Cons entry_map_Cons fun_eq_iff)
  qed
qed

lemma store_entry_law:
  "well_named name es \<Longrightarrow> name e = Some n \<Longrightarrow>
   \<exists>es'. store_entry name e es = Some es' \<and> well_named name es' \<and>
     entry_map name es' = (entry_map name es)(n \<mapsto> e)"
  by (drule store_entry_map, assumption) blast

lemma drop_entry_law:
  "well_named name es \<Longrightarrow>
   \<exists>es'. drop_entry name n es = Some es' \<and> well_named name es' \<and>
     entry_map name es' = (entry_map name es)(n := None)"
  by (drule drop_entry_map) blast

interpretation role_entries: entry_list sr_Name "store_entry sr_Name" "drop_entry sr_Name"
  by unfold_locales (erule store_entry_law, assumption, erule drop_entry_law)

interpretation policy_entries: entry_list sp_Name "store_entry sp_Name" "drop_entry sp_Name"
  by unfold_locales (erule store_entry_law, assumption, erule drop_entry_law)

section \<open>Requests and frame of the status update\<close>

lemma emits_GetRole_any:
  "(\<And>n err. P (Event (IAM (GetRoleReq n)) err)) \<Longrightarrow> emits P (GetRoleByName E n)"
  by (rule emits_GetRoleByName) simp

lemma emits_updateCRDStatus:
  assumes "\<And>n err. P (Event (IAM (GetRoleReq n)) err)"
    and "\<And>c name err. iam = Some c \<Longrightarrow> P (Event (IAM (GetPolicyReq (Some (policy_arn c name)))) err)"
    and "\<And>p err. P (Event (UpdateStatus p) err)"
  shows "emits P (updateCRDStatus E iam crdPhase phase message result)"
  unfolding updateCRDStatus_def update_role_status_def update_policy_status_def write_status_def
    update_status_def
  by (cases iam; cases result)
    (auto intro!: emits_rules emits_GetRoleByName emits_GetPolicyByName assms)

text \<open>Without a result only the status is written, and IAM is not called.\<close>

lemma emits_updateCRDStatus_NoResult:
  assumes "\<And>p err. P (Event (UpdateStatus p) err)"
  shows "emits P (updateCRDStatus E iam crdPhase phase message NoResult)"
  unfolding updateCRDStatus_def write_status_def update_status_def
  by (auto intro!: emits_rules assms)

lemma wp_write_status [wp_simps]:
  "wp (write_status E) Q s =
     (case k8s_UpdateStatus E (prov s) (world s) of
        (Inl err, w) \<Rightarrow> Q (Err (PlainError (''unable to update status for CRD: '' @
            om_Name (ObjectMeta (prov s)) @ '', error: '' @ error_text err)))
          (s\<lparr>world := w, log := log s @ [Event (UpdateStatus (prov s)) (Some err)]\<rparr>)
      | (Inr p, w) \<Rightarrow> Q (Ok ())
          (s\<lparr>world := w, log := log s @ [Event (UpdateStatus (prov s)) None], prov := p\<rparr>))"
  by (simp add: write_status_def wp_simps split: prod.splits sum.splits)

lemma wp_update_status [wp_simps]:
  "wp (update_status f) Q s = Q (Ok ()) (s\<lparr>prov := (prov s)\<lparr>Status := f (Status (prov s))\<rparr>\<rparr>)"
  by (cases s; cases "prov s") (simp add: update_status_def wp_modifyM)

definition status_stamp :: "string \<Rightarrow> string \<Rightarrow> time \<Rightarrow> AWSIAMProvision \<Rightarrow> AWSIAMProvision" where
  "status_stamp crdPhase message t p =
     p\<lparr>Status := (Status p)\<lparr>st_LastUpdatedTime := Some t, st_Phase := crdPhase,
       st_Message := message\<rparr>\<rparr>"

lemma wp_updateCRDStatus_NoResult [wp_simps]:
  "wp (updateCRDStatus E iam crdPhase phase message NoResult) Q s =
     (case clock_Now E (world s) of (t, w) \<Rightarrow>
        wp (write_status E) Q (s\<lparr>world := w, prov := status_stamp crdPhase message t (prov s)\<rparr>))"
  by (simp add: updateCRDStatus_def status_stamp_def wp_bindM wp_returnM wp_now
      wp_update_status split: prod.splits)

end
