(* ===== verification/Reconciliation.thy ===== *)
theory Reconciliation
  imports StatusFormatter
begin

text \<open>
  \<open>internal/controller/reconciliation_manager.go\<close>: reading the custom resource and the control
  plane, deleting IAM resources, and bringing roles, policies and attachments in line with the
  specification. \<open>c\<close> is \<open>rm.IAMClient\<close>, \<open>rq\<close> is \<open>rm.request.NamespacedName\<close>; the handlers read
  and change \<open>air.awsIAMProvision\<close> in the state.
\<close>

definition awsIAMProvisionFinalizerName :: string where
  "awsIAMProvisionFinalizerName = ''awsiamprovision.iam.aws.edenlab.io/finalizer''"

text \<open>\<open>air\<close> without the custom resource: the control plane and its name.\<close>

record awsIAMResources =
  air_eksCP :: AWSManagedControlPlane
  air_eksCPNamespace :: NamespacedName

section \<open>setFrequency\<close>

definition frequency :: duration where
  "frequency = time_Second * 10"

text \<open>The argument is nil when the resources are not ready; the resource is in the state.\<close>

definition setFrequency :: "awsIAMResources option \<Rightarrow> AWSIAMProvision \<Rightarrow> duration" where
  "setFrequency air p =
     (if air \<noteq> None then
        (case spec_Frequency (Spec p) of Some d \<Rightarrow> d | None \<Rightarrow> time_Second * 30)
      else frequency)"

section \<open>getClusterResources\<close>

definition getClusterResources ::
  "('w, 'p) env \<Rightarrow> IAMClient option \<Rightarrow> NamespacedName \<Rightarrow> ('w, awsIAMResources option) op" where
  "getClusterResources E iam rq =
     bindM (modifyM (prov_update (\<lambda>_. zero_AWSIAMProvision))) (\<lambda>_.
     bindM (request_call (GetProvision rq) (k8s_GetProvision E rq)) (\<lambda>r.
       case r of
         Inl err \<Rightarrow> if k8s_IsNotFound E err then returnM None else errM err
       | Inr p \<Rightarrow>
           bindM (modifyM (prov_update (\<lambda>_. p))) (\<lambda>_.
           let eksNs = \<lparr>nn_Namespace = nn_Namespace rq, nn_Name = spec_EKSClusterName (Spec p)\<rparr> in
           bindM (request_call (GetControlPlane eksNs) (k8s_GetControlPlane E eksNs)) (\<lambda>r'.
             case r' of
               Inl err \<Rightarrow>
                 if k8s_IsNotFound E err then
                   bindM (updateCRDStatus E iam provisionIntermediatePhase ''''
                     (''AWSManagedControlPlane of '' @ k8s_NamespacedNameString E rq @
                      '' AWSIAMProvision not found: '' @ k8s_NamespacedNameString E eksNs) NoResult)
                   (\<lambda>_. returnM None)
                 else
                   bindM (updateCRDStatus E iam failPhase '''' (error_text err) NoResult) (\<lambda>_. errM err)
             | Inr cp \<Rightarrow>
                 if \<not> cp_Ready cp then
                   bindM (updateCRDStatus E iam provisionIntermediatePhase ''''
                     (''AWSManagedControlPlane of '' @ k8s_NamespacedNameString E rq @
                      '' AWSIAMProvision not ready: '' @ k8s_NamespacedNameString E eksNs) NoResult)
                   (\<lambda>_. returnM None)
                 else returnM (Some \<lparr>air_eksCP = cp, air_eksCPNamespace = eksNs\<rparr>)))))"

section \<open>deleteIAMResources\<close>

definition delete_role_resources ::
  "('w, 'p) env \<Rightarrow> IAMClient \<Rightarrow> AWSIAMProvisionRole \<Rightarrow> ('w, unit) op" where
  "delete_role_resources E c role =
     (let name = rs_Name (role_Spec role) in
      bindM (GetRoleByName E name) (\<lambda>(_, exists).
        if exists then
          bindM (ListAttachedRolePolicies E c name) (\<lambda>policies.
          bindM (BatchAttachDetachRolePolicies E c ButchDetachProc policies name) (\<lambda>_.
          bindM (BatchDeletePolicies E c policies) (\<lambda>_.
          DeleteRole E name)))
        else returnM ()))"

definition deleteIAMResources :: "('w, 'p) env \<Rightarrow> IAMClient \<Rightarrow> ('w, unit) op" where
  "deleteIAMResources E c =
     bindM (getM (\<lambda>s. spec_Roles (Spec (prov s)))) (\<lambda>m.
     bindM (range_map m) (\<lambda>roles.
     forM roles (\<lambda>(_, role). delete_role_resources E c role)))"

section \<open>syncAWSIAMResources\<close>

text \<open>The names of a listing, as the keys of a \<open>map[string]struct{}\<close>.\<close>

definition collect_names :: "('x \<Rightarrow> string option) \<Rightarrow> 'x list \<Rightarrow> ('w, string list) op" where
  "collect_names f xs = foldM (\<lambda>x acc. bindM (deref (f x)) (\<lambda>n. returnM (set_put n acc))) xs []"

definition remove_names :: "('x \<Rightarrow> string option) \<Rightarrow> 'x list \<Rightarrow> string list \<Rightarrow> ('w, string list) op" where
  "remove_names f xs m = foldM (\<lambda>x acc. bindM (deref (f x)) (\<lambda>n. returnM (set_delete n acc))) xs m"

text \<open>The policies of the listing that are attached to the role.\<close>

definition attached_policies ::
  "('w, 'p) env \<Rightarrow> iamPolicy list \<Rightarrow> string \<Rightarrow> ('w, string list) op" where
  "attached_policies E iamPolicies roleName =
     foldM (\<lambda>iamPolicy acc.
       bindM (ListEntitiesForPolicy E (Some iamPolicy)) (\<lambda>entities.
       foldM (\<lambda>entity acc'.
         bindM (deref (pr_RoleName entity)) (\<lambda>entityName.
         if roleName = entityName then
           bindM (deref (ip_PolicyName iamPolicy)) (\<lambda>policyName. returnM (set_put policyName acc'))
         else returnM acc')) entities acc)) iamPolicies []"

definition policy_named :: "string \<Rightarrow> iamPolicy" where
  "policy_named name = \<lparr>ip_PolicyName = Some name, ip_Arn = None, ip_PolicyId = None,
     ip_DefaultVersionId = None, ip_AttachmentCount = None, ip_CreateDate = None, ip_Tags = []\<rparr>"

definition detach_message :: "string \<Rightarrow> string \<Rightarrow> string" where
  "detach_message policyName roleName =
     ''Policy '' @ policyName @ '' was detached from role '' @ roleName @ ''.''"

text \<open>One round of the loop over \<open>Spec.Roles\<close>; the result is \<open>deleteRoles\<close> without this role.\<close>

definition sync_role_attachments ::
  "('w, 'p) env \<Rightarrow> IAMClient \<Rightarrow> iamPolicy list \<Rightarrow> AWSIAMProvisionRole \<Rightarrow> string list \<Rightarrow> ('w, string list) op"
where
  "sync_role_attachments E c iamPolicies role deleteRoles =
     bindM (deref (rs_Name (role_Spec role))) (\<lambda>roleName.
     bindM (attached_policies E iamPolicies roleName) (\<lambda>attached.
     bindM (remove_names id (rs_Policies (role_Spec role)) attached) (\<lambda>detachRolePolicies.
     bindM (range_map detachRolePolicies) (\<lambda>names.
     bindM (forM names (\<lambda>policyName.
       bindM (DetachRolePolicy E c (Some policyName) (Some roleName)) (\<lambda>_.
       updateCRDStatus E (Some c) provisionPhase detachPhase (detach_message policyName roleName)
         (PolicyResult (Some (policy_named policyName)))))) (\<lambda>_.
     returnM (set_delete roleName deleteRoles))))))"

definition delete_stale_role :: "('w, 'p) env \<Rightarrow> IAMClient \<Rightarrow> string \<Rightarrow> ('w, unit) op" where
  "delete_stale_role E c role =
     bindM (GetRoleByName E (Some role)) (\<lambda>(iamRole, exists).
       if exists then
         bindM (ListAttachedRolePolicies E c (Some role)) (\<lambda>policies.
         bindM (forM policies (\<lambda>policy.
           bindM (DetachRolePolicy E c (ip_PolicyName policy) (Some role)) (\<lambda>_.
           bindM (deref (ip_PolicyName policy)) (\<lambda>policyName.
           updateCRDStatus E (Some c) provisionPhase detachPhase (detach_message policyName role)
             (PolicyResult (Some policy)))))) (\<lambda>_.
         bindM (DeleteRole E (Some role)) (\<lambda>_.
         bindM (deref iamRole) (\<lambda>r.
         bindM (deref (ir_RoleName r)) (\<lambda>roleName.
         updateCRDStatus E (Some c) provisionPhase deletePhase
           (''Role '' @ roleName @ '' was deleted.'') (RoleResult iamRole))))))
       else returnM ())"

definition delete_policy_and_report :: "('w, 'p) env \<Rightarrow> IAMClient \<Rightarrow> iamPolicy \<Rightarrow> ('w, unit) op" where
  "delete_policy_and_report E c policy =
     bindM (DeletePolicy E c (ip_PolicyName policy)) (\<lambda>_.
     bindM (deref (ip_PolicyName policy)) (\<lambda>policyName.
     updateCRDStatus E (Some c) provisionPhase deletePhase
       (''Policy '' @ policyName @ '' was deleted.'') (PolicyResult (Some policy))))"

definition delete_stale_policy :: "('w, 'p) env \<Rightarrow> IAMClient \<Rightarrow> string \<Rightarrow> ('w, unit) op" where
  "delete_stale_policy E c policyName =
     bindM (GetPolicyByName E c (Some policyName)) (\<lambda>(got, exists).
       if exists then
         bindM (ListEntitiesForPolicy E got) (\<lambda>entities.
         bindM (deref got) (\<lambda>policy.
         bindM (if entities = [] then delete_policy_and_report E c policy else returnM ()) (\<lambda>_.
         forM entities (\<lambda>role.
           bindM (deref (pr_RoleName role)) (\<lambda>roleName.
           if 0 < length roleName then
             bindM (DetachRolePolicy E c (ip_PolicyName policy) (pr_RoleName role)) (\<lambda>_.
             delete_policy_and_report E c policy)
           else returnM ())))))
       else returnM ())"

definition sync_spec_roles ::
  "('w, 'p) env \<Rightarrow> IAMClient \<Rightarrow> iamPolicy list \<Rightarrow> string list \<Rightarrow> ('w, string list) op" where
  "sync_spec_roles E c iamPolicies deleteRoles =
     bindM (getM (\<lambda>s. spec_Roles (Spec (prov s)))) (\<lambda>m.
     bindM (range_map m) (\<lambda>roles.
     foldM (\<lambda>(_, role) acc. sync_role_attachments E c iamPolicies role acc) roles deleteRoles))"

definition unlisted_policies :: "iamPolicy list \<Rightarrow> ('w, string list) op" where
  "unlisted_policies iamPolicies =
     bindM (collect_names ip_PolicyName iamPolicies) (\<lambda>deletePolicies.
     bindM (getM (\<lambda>s. spec_Policies (Spec (prov s)))) (\<lambda>m.
     bindM (range_map m) (\<lambda>policies.
     remove_names (\<lambda>(_, policy). ps_Name (policy_Spec policy)) policies deletePolicies)))"

definition syncAWSIAMResources :: "('w, 'p) env \<Rightarrow> IAMClient \<Rightarrow> ('w, unit) op" where
  "syncAWSIAMResources E c =
     bindM (getM prov) (\<lambda>p.
     let tags = TagsDefine (spec_EKSClusterName (Spec p)) (om_Namespace (ObjectMeta p)) [] in
     bindM (ListRolesByTags E tags) (\<lambda>iamRoles.
     bindM (ListPoliciesByTags E tags) (\<lambda>iamPolicies.
     bindM (collect_names ir_RoleName iamRoles) (\<lambda>owned.
     bindM (sync_spec_roles E c iamPolicies owned) (\<lambda>deleteRoles.
     bindM (range_map deleteRoles) (\<lambda>roles.
     bindM (forM roles (delete_stale_role E c)) (\<lambda>_.
     bindM (unlisted_policies iamPolicies) (\<lambda>deletePolicies.
     bindM (range_map deletePolicies) (\<lambda>policies.
     forM policies (delete_stale_policy E c))))))))))"

section \<open>syncPoliciesByRoleSpec\<close>

definition create_and_attach ::
  "('w, 'p) env \<Rightarrow> IAMClient \<Rightarrow> RoleSpec \<Rightarrow> PolicySpec \<Rightarrow> string \<Rightarrow> iamTag list \<Rightarrow> ('w, unit) op" where
  "create_and_attach E c role policy description tags =
     bindM (CreatePolicy E (ps_Name policy) (ps_PolicyDocument policy) (Some description) tags) (\<lambda>result.
     bindM (AttachRolePolicy E c (ps_Name policy) (rs_Name role)) (\<lambda>_.
     bindM (deref (ps_Name policy)) (\<lambda>policyName.
     bindM (deref (rs_Name role)) (\<lambda>roleName.
     updateCRDStatus E (Some c) provisionPhase (createPhase @ attachPhase)
       (''Policy '' @ policyName @ '' was created and attached to role '' @ roleName @ ''.'')
       (PolicyResult result)))))"

definition replace_policy ::
  "('w, 'p) env \<Rightarrow> IAMClient \<Rightarrow> RoleSpec \<Rightarrow> PolicySpec \<Rightarrow> iamPolicy \<Rightarrow> string \<Rightarrow> iamTag list \<Rightarrow> ('w, unit) op"
where
  "replace_policy E c role policy iamPolicy description tags =
     bindM (DetachRolePolicy E c (ip_PolicyName iamPolicy) (rs_Name role)) (\<lambda>_.
     bindM (DeletePolicy E c (ip_PolicyName iamPolicy)) (\<lambda>_.
     bindM (CreatePolicy E (ps_Name policy) (ps_PolicyDocument policy) (Some description) tags) (\<lambda>_.
     bindM (AttachRolePolicy E c (ps_Name policy) (rs_Name role)) (\<lambda>_.
     bindM (deref (ps_Name policy)) (\<lambda>policyName.
     updateCRDStatus E (Some c) provisionPhase updatePhase
       (''Policy document for policy '' @ policyName @ '' was updated.'')
       (PolicyResult (Some iamPolicy)))))))"

text \<open>Does the tag say that the policy was created from another document?\<close>

definition checksum_differs :: "iamTag \<Rightarrow> iamTag \<Rightarrow> ('w, bool) op" where
  "checksum_differs checkSumTag tag =
     bindM (deref (it_Key tag)) (\<lambda>k.
     if k = TagKeyPolicyDocument then
       bindM (deref (it_Value tag)) (\<lambda>v.
       bindM (deref (it_Value checkSumTag)) (\<lambda>w. returnM (v \<noteq> w)))
     else returnM False)"

definition attach_if_missing ::
  "('w, 'p) env \<Rightarrow> IAMClient \<Rightarrow> RoleSpec \<Rightarrow> PolicySpec \<Rightarrow> string \<Rightarrow> iamPolicy \<Rightarrow> ('w, unit) op" where
  "attach_if_missing E c role policy rolePolicy iamPolicy =
     bindM (ListAttachedRolePolicies E c (rs_Name role)) (\<lambda>roleIAMPolicies.
     bindM (collect_names ip_PolicyName roleIAMPolicies) (\<lambda>isAttachedToRole.
     if rolePolicy \<notin> set isAttachedToRole then
       bindM (AttachRolePolicy E c (ps_Name policy) (rs_Name role)) (\<lambda>_.
       bindM (deref (ps_Name policy)) (\<lambda>policyName.
       bindM (deref (rs_Name role)) (\<lambda>roleName.
       updateCRDStatus E (Some c) provisionPhase attachPhase
         (''Policy '' @ policyName @ '' was attached to role '' @ roleName @ ''.'')
         (PolicyResult (Some iamPolicy)))))
     else returnM ()))"

text \<open>The body for a role policy that is listed in \<open>Spec.Policies\<close>.\<close>

definition sync_listed_policy ::
  "('w, 'p) env \<Rightarrow> IAMClient \<Rightarrow> RoleSpec \<Rightarrow> PolicySpec \<Rightarrow> string \<Rightarrow> ('w, unit) op" where
  "sync_listed_policy E c role policy rolePolicy =
     bindM (GetPolicyByName E c (ps_Name policy)) (\<lambda>(got, exists).
     bindM (getM prov) (\<lambda>p.
     bindM (ConvertToIAMTags (ps_Tags policy)) (\<lambda>specTags.
     let checkSumTag = NewChecksumTag E (ps_PolicyDocument policy);
         tags = TagsDefine (spec_EKSClusterName (Spec p)) (om_Namespace (ObjectMeta p))
                  (specTags @ [checkSumTag]);
         description = PolicyDescriptionPrefix @ spec_EKSClusterName (Spec p) @ ''. '' @ IAMDescription
     in
     if \<not> exists then create_and_attach E c role policy description tags
     else
       bindM (deref got) (\<lambda>iamPolicy.
       bindM (forM (ip_Tags iamPolicy) (\<lambda>tag.
         bindM (checksum_differs checkSumTag tag) (\<lambda>differs.
         if differs then replace_policy E c role policy iamPolicy description tags
         else returnM ()))) (\<lambda>_.
       attach_if_missing E c role policy rolePolicy iamPolicy)))))"

definition syncPoliciesByRoleSpec ::
  "('w, 'p) env \<Rightarrow> IAMClient \<Rightarrow> RoleSpec \<Rightarrow> ('w, unit) op" where
  "syncPoliciesByRoleSpec E c role =
     forM (rs_Policies role) (\<lambda>rolePolicy.
       bindM (getM (\<lambda>s. spec_Policies (Spec (prov s)))) (\<lambda>m.
       bindM (range_map m) (\<lambda>policies.
       forM policies (\<lambda>(_, policy).
         bindM (deref rolePolicy) (\<lambda>rp.
         bindM (deref (ps_Name (policy_Spec policy))) (\<lambda>pn.
         if rp = pn then sync_listed_policy E c role (policy_Spec policy) rp
         else returnM ()))))))"

section \<open>The trust policy\<close>

definition renderOIDCProviderTemplate ::
  "('w, 'p) env \<Rightarrow> string \<Rightarrow> string \<Rightarrow> string \<Rightarrow> go_error + string" where
  "renderOIDCProviderTemplate E assumeRolePolicyDocument arn name =
     (case template_Parse E assumeRolePolicyDocument of
        Inl err \<Rightarrow> Inl err
      | Inr execute \<Rightarrow>
          (case execute arn name of
             Inl err \<Rightarrow> Inl err
           | Inr text \<Rightarrow> Inr text))"

definition malformed_message :: "('w, 'p) env \<Rightarrow> NamespacedName \<Rightarrow> awsIAMResources \<Rightarrow> string" where
  "malformed_message E rq air =
     ''OIDC ARN of '' @ k8s_NamespacedNameString E (air_eksCPNamespace air) @
     '' AWSManagedControlPlane of '' @ k8s_NamespacedNameString E rq @
     '' AWSIAMProvision malformed: '' @ cp_OIDCProviderARN (air_eksCP air)"

text \<open>The role with its rendered document; the code stores it in the caller's copy of the role.\<close>

definition setAssumeRolePolicyDocument ::
  "('w, 'p) env \<Rightarrow> IAMClient \<Rightarrow> NamespacedName \<Rightarrow> awsIAMResources \<Rightarrow> RoleSpec \<Rightarrow> ('w, RoleSpec) op" where
  "setAssumeRolePolicyDocument E c rq air role =
     (let arn = cp_OIDCProviderARN (air_eksCP air) in
      case strings_Cut arn ''/'' of (_, name, found) \<Rightarrow>
        if \<not> found then
          (let err = PlainError (malformed_message E rq air)
           in bindM (updateCRDStatus E (Some c) failPhase '''' (error_text err) NoResult) (\<lambda>_. errM err))
        else
          bindM (deref (rs_AssumeRolePolicyDocument role)) (\<lambda>doc.
            case renderOIDCProviderTemplate E doc arn name of
              Inl err \<Rightarrow>
                bindM (updateCRDStatus E (Some c) failPhase '''' (error_text err) NoResult) (\<lambda>_. errM err)
            | Inr text \<Rightarrow> returnM (role\<lparr>rs_AssumeRolePolicyDocument := Some text\<rparr>)))"

section \<open>syncRole\<close>

definition create_role_and_policies ::
  "('w, 'p) env \<Rightarrow> IAMClient \<Rightarrow> RoleSpec \<Rightarrow> iamTag list \<Rightarrow> ('w, unit) op" where
  "create_role_and_policies E c role tags =
     bindM (getM prov) (\<lambda>p.
     let description = RoleDescriptionPrefix @ spec_EKSClusterName (Spec p) @ ''. '' @ IAMDescription in
     bindM (CreateRole E (rs_Name role) (rs_AssumeRolePolicyDocument role) (Some description) tags) (\<lambda>result.
     bindM (deref (rs_Name role)) (\<lambda>roleName.
     bindM (updateCRDStatus E (Some c) provisionPhase createPhase
       (''Role '' @ roleName @ '' was created.'') (RoleResult result)) (\<lambda>_.
     syncPoliciesByRoleSpec E c role))))"

definition update_role_and_policies ::
  "('w, 'p) env \<Rightarrow> IAMClient \<Rightarrow> RoleSpec \<Rightarrow> iamRole \<Rightarrow> ('w, unit) op" where
  "update_role_and_policies E c role iamRole =
     bindM (liftM (DiffRoleByPolicyDocument E (ir_AssumeRolePolicyDocument iamRole)
       (rs_AssumeRolePolicyDocument role))) (\<lambda>diff.
     bindM (if diff then
         bindM (UpdateRole E (rs_Name role) (rs_AssumeRolePolicyDocument role)) (\<lambda>_.
         bindM (deref (rs_Name role)) (\<lambda>roleName.
         updateCRDStatus E (Some c) provisionPhase updatePhase
           (''The trust relationship policy document for role '' @ roleName @ '' was updated.'')
           (RoleResult (Some iamRole))))
       else returnM ()) (\<lambda>_.
     syncPoliciesByRoleSpec E c role))"

definition syncRole ::
  "('w, 'p) env \<Rightarrow> IAMClient \<Rightarrow> NamespacedName \<Rightarrow> awsIAMResources \<Rightarrow> RoleSpec \<Rightarrow> ('w, RoleSpec) op" where
  "syncRole E c rq air role0 =
     bindM (getM prov) (\<lambda>p.
     bindM (ConvertToIAMTags (rs_Tags role0)) (\<lambda>specTags.
     let tags = TagsDefine (spec_EKSClusterName (Spec p)) (om_Namespace (ObjectMeta p)) specTags in
     bindM (setAssumeRolePolicyDocument E c rq air role0) (\<lambda>role.
     bindM (GetRoleByName E (rs_Name role)) (\<lambda>(iamRole, exists).
     bindM (if \<not> exists then create_role_and_policies E c role tags
            else bindM (deref iamRole) (\<lambda>r. update_role_and_policies E c role r)) (\<lambda>_.
     returnM role)))))"

end
