(* ===== verification/Reconciler.thy ===== *)
theory Reconciler
  imports Reconciliation
begin

text \<open>
  \<open>internal/controller/awsiamprovision_controller.go\<close>: the reconciliation of one custom resource,
  composed of the handlers of the reconciliation manager.
\<close>

text \<open>The finalizer branch for a resource that is not being deleted.\<close>

definition ensure_finalizer :: "('w, 'p) env \<Rightarrow> ('w, unit) op" where
  "ensure_finalizer E =
     bindM (getM prov) (\<lambda>p.
     if \<not> k8s_ContainsFinalizer E p awsIAMProvisionFinalizerName then
       (let p' = k8s_AddFinalizer E p awsIAMProvisionFinalizerName in
        bindM (modifyM (prov_update (\<lambda>_. p'))) (\<lambda>_.
        bindM (request_call (UpdateProvision p') (k8s_Update E p')) (\<lambda>r.
          case r of Inl err \<Rightarrow> errM err | Inr q \<Rightarrow> modifyM (prov_update (\<lambda>_. q)))))
     else returnM ())"

text \<open>The branch for a resource that is being deleted; \<open>time.Sleep\<close> has no effect here.\<close>

definition finalize :: "('w, 'p) env \<Rightarrow> IAMClient \<Rightarrow> ('w, unit) op" where
  "finalize E c =
     bindM (getM prov) (\<lambda>p0.
     if k8s_ContainsFinalizer E p0 awsIAMProvisionFinalizerName then
       bindM (updateCRDStatus E (Some c) destroyIntermediatePhase '''' ''Destroying AWS IAM resources.''
         NoResult) (\<lambda>_.
       bindM (catchM (deleteIAMResources E c) (\<lambda>err.
         bindM (updateCRDStatus E (Some c) failPhase '''' (error_text err) NoResult) (\<lambda>_. errM err))) (\<lambda>_.
       bindM (updateCRDStatus E (Some c) destroyPhase '''' ''AWS IAM resources was destroyed.''
         NoResult) (\<lambda>_.
       bindM (getM prov) (\<lambda>p.
       let p' = k8s_RemoveFinalizer E p awsIAMProvisionFinalizerName in
       bindM (modifyM (prov_update (\<lambda>_. p'))) (\<lambda>_.
       bindM (request_call (UpdateProvision p') (k8s_Update E p')) (\<lambda>r.
         case r of Inl err \<Rightarrow> errM err | Inr q \<Rightarrow> modifyM (prov_update (\<lambda>_. q))))))))
     else returnM ())"

definition sync_all_roles ::
  "('w, 'p) env \<Rightarrow> IAMClient \<Rightarrow> NamespacedName \<Rightarrow> awsIAMResources \<Rightarrow> ('w, unit) op" where
  "sync_all_roles E c rq air =
     bindM (getM (\<lambda>s. spec_Roles (Spec (prov s)))) (\<lambda>m.
     bindM (range_map m) (\<lambda>roles.
     forM roles (\<lambda>(_, role0).
       bindM (syncRole E c rq air (role_Spec role0)) (\<lambda>role.
       syncPoliciesByRoleSpec E c role))))"

definition synced_message :: string where
  "synced_message = ''AWS IAM resources synced with the remote state.''"

text \<open>The status is written at the end only if it was never written, or says \<open>Failed\<close>.\<close>

definition report_synced :: "('w, 'p) env \<Rightarrow> IAMClient \<Rightarrow> ('w, unit) op" where
  "report_synced E c =
     bindM (getM (\<lambda>s. Status (prov s))) (\<lambda>st.
     if st_LastUpdatedTime st = None \<or> st_Phase st = ''Failed''
     then updateCRDStatus E (Some c) provisionPhase '''' synced_message NoResult
     else returnM ())"

text \<open>Everything after the client has been made (\<open>r.IAMClient\<close> is \<open>c\<close>).\<close>

definition reconcile_with_client ::
  "('w, 'p) env \<Rightarrow> IAMClient \<Rightarrow> NamespacedName \<Rightarrow> awsIAMResources \<Rightarrow> ('w, duration) op" where
  "reconcile_with_client E c rq air =
     bindM (getM prov) (\<lambda>p.
     if time_IsZero (om_DeletionTimestamp (ObjectMeta p)) then
       bindM (ensure_finalizer E) (\<lambda>_.
       bindM (syncAWSIAMResources E c) (\<lambda>_.
       bindM (sync_all_roles E c rq air) (\<lambda>_.
       bindM (report_synced E c) (\<lambda>_.
       bindM (getM prov) (\<lambda>p'. returnM (setFrequency (Some air) p'))))))
     else bindM (finalize E c) (\<lambda>_. returnM 0))"

text \<open>Making the client; a failure is reported in the status and returned.\<close>

definition make_client :: "('w, 'p) env \<Rightarrow> ('w, IAMClient) op" where
  "make_client E =
     bindM (getM prov) (\<lambda>p.
     catchM (NewIAMClient E (spec_Region (Spec p))) (\<lambda>err.
       bindM (updateCRDStatus E None failPhase '''' (error_text err) NoResult) (\<lambda>_. errM err)))"

text \<open>
  \<open>Reconcile\<close> returns \<open>RequeueAfter\<close>, zero for an empty \<open>ctrl.Result\<close>. \<open>iam\<close> is the client left by
  an earlier reconciliation.
\<close>

definition Reconcile ::
  "('w, 'p) env \<Rightarrow> IAMClient option \<Rightarrow> NamespacedName \<Rightarrow> ('w, duration) op" where
  "Reconcile E iam rq =
     bindM (getClusterResources E iam rq) (\<lambda>res.
       case res of
         None \<Rightarrow> bindM (getM prov) (\<lambda>p. returnM (setFrequency None p))
       | Some air \<Rightarrow> bindM (make_client E) (\<lambda>c. reconcile_with_client E c rq air))"

end
