(* ===== verification/MemoryCloud.thy ===== *)
theory MemoryCloud
  imports Reconciler
begin

text \<open>
  A concrete environment: a small in-memory IAM, one namespace of a Kubernetes API with one
  custom resource and one control plane, and a counter for a clock. It instantiates the
  parameters of the model where a statement about the operator is applied to a concrete run, and
  it shows that the hypotheses about the outside can be met. The statements themselves never
  refer to it.
\<close>

record mem_role =
  mr_name :: string
  mr_doc :: string
  mr_tags :: "iamTag list"
  mr_attached :: "string list"

record mem_policy =
  mp_name :: string
  mp_doc :: string
  mp_tags :: "iamTag list"

text \<open>All policies live under the operator's path in one account.\<close>

definition mem_client :: IAMClient where
  "mem_client = \<lparr>AccountID = ''42'', Region = ''eu''\<rparr>"

definition mp_arn :: "mem_policy \<Rightarrow> string" where
  "mp_arn p = policy_arn mem_client (mp_name p)"

record mem =
  m_roles :: "mem_role list"
  m_policies :: "mem_policy list"
  m_prov :: "AWSIAMProvision option"
  m_cp :: "AWSManagedControlPlane option"
  m_clock :: int

definition no_such_entity :: go_error where
  "no_such_entity = ResponseError 404 [NoSuchEntityException] ''NoSuchEntity''"

definition already_exists :: go_error where
  "already_exists = ResponseError 409 [EntityAlreadyExistsException] ''EntityAlreadyExists''"

definition delete_conflict :: go_error where
  "delete_conflict = ResponseError 409 [OtherException ''DeleteConflict''] ''DeleteConflict''"

definition bad_request :: go_error where
  "bad_request = ResponseError 400 [] ''ValidationError''"

definition not_found :: go_error where
  "not_found = PlainError ''NotFound''"

definition find_role :: "mem \<Rightarrow> string \<Rightarrow> mem_role option" where
  "find_role w n = find (\<lambda>r. mr_name r = n) (m_roles w)"

definition find_policy :: "mem \<Rightarrow> string \<Rightarrow> mem_policy option" where
  "find_policy w arn = find (\<lambda>p. mp_arn p = arn) (m_policies w)"

definition put_role :: "mem_role \<Rightarrow> mem \<Rightarrow> mem" where
  "put_role r w = w\<lparr>m_roles := map (\<lambda>q. if mr_name q = mr_name r then r else q) (m_roles w)\<rparr>"

definition sdk_role :: "mem_role \<Rightarrow> iamRole" where
  "sdk_role r = \<lparr>ir_RoleName = Some (mr_name r), ir_Arn = Some (''arn:aws:iam::role/'' @ mr_name r),
     ir_RoleId = Some (mr_name r), ir_CreateDate = Some 1,
     ir_AssumeRolePolicyDocument = Some (percent_encode (\<lambda>c. c = CHR '' '') (mr_doc r))\<rparr>"

definition sdk_policy :: "mem_policy \<Rightarrow> iamPolicy" where
  "sdk_policy p = \<lparr>ip_PolicyName = Some (mp_name p), ip_Arn = Some (mp_arn p),
     ip_PolicyId = Some (mp_name p), ip_DefaultVersionId = Some ''v1'', ip_AttachmentCount = Some 0,
     ip_CreateDate = Some 1, ip_Tags = mp_tags p\<rparr>"

definition attached_to :: "mem \<Rightarrow> string \<Rightarrow> mem_role list" where
  "attached_to w arn = filter (\<lambda>r. arn \<in> set (mr_attached r)) (m_roles w)"

fun mem_attach :: "iam_request \<Rightarrow> (mem, unit) call" where
  "mem_attach (AttachRolePolicyReq (Some arn) (Some n)) w =
     (case (find_role w n, find_policy w arn) of
        (Some r, Some _) \<Rightarrow> (Inr (), put_role (r\<lparr>mr_attached := set_put arn (mr_attached r)\<rparr>) w)
      | _ \<Rightarrow> (Inl no_such_entity, w))"
| "mem_attach _ w = (Inl bad_request, w)"

fun mem_detach :: "iam_request \<Rightarrow> (mem, unit) call" where
  "mem_detach (DetachRolePolicyReq (Some arn) (Some n)) w =
     (case find_role w n of
        Some r \<Rightarrow>
          if arn \<in> set (mr_attached r)
          then (Inr (), put_role (r\<lparr>mr_attached := set_delete arn (mr_attached r)\<rparr>) w)
          else (Inl no_such_entity, w)
      | None \<Rightarrow> (Inl no_such_entity, w))"
| "mem_detach _ w = (Inl bad_request, w)"

fun mem_create_policy :: "iam_request \<Rightarrow> (mem, iamPolicy option) call" where
  "mem_create_policy (CreatePolicyReq (Some n) (Some d) desc (Some path) tags) w =
     (let p = \<lparr>mp_name = n, mp_doc = d, mp_tags = tags\<rparr>
      in if \<not> list_all full_tag tags then (Inl bad_request, w)
         else if \<exists>q \<in> set (m_policies w). mp_name q = n then (Inl already_exists, w)
         else (Inr (Some (sdk_policy p)), w\<lparr>m_policies := m_policies w @ [p]\<rparr>))"
| "mem_create_policy _ w = (Inl bad_request, w)"

fun mem_create_role :: "iam_request \<Rightarrow> (mem, iamRole option) call" where
  "mem_create_role (CreateRoleReq (Some n) (Some d) desc path tags) w =
     (let r = \<lparr>mr_name = n, mr_doc = d, mr_tags = tags, mr_attached = []\<rparr>
      in if \<not> list_all full_tag tags then (Inl bad_request, w)
         else if find_role w n \<noteq> None then (Inl already_exists, w)
         else (Inr (Some (sdk_role r)), w\<lparr>m_roles := m_roles w @ [r]\<rparr>))"
| "mem_create_role _ w = (Inl bad_request, w)"

fun mem_delete_policy :: "iam_request \<Rightarrow> (mem, unit) call" where
  "mem_delete_policy (DeletePolicyReq (Some arn)) w =
     (if find_policy w arn = None then (Inl no_such_entity, w)
      else if attached_to w arn \<noteq> [] then (Inl delete_conflict, w)
      else (Inr (), w\<lparr>m_policies := filter (\<lambda>p. mp_arn p \<noteq> arn) (m_policies w)\<rparr>))"
| "mem_delete_policy _ w = (Inl bad_request, w)"

fun mem_delete_role :: "iam_request \<Rightarrow> (mem, unit) call" where
  "mem_delete_role (DeleteRoleReq (Some n)) w =
     (case find_role w n of
        None \<Rightarrow> (Inl no_such_entity, w)
      | Some r \<Rightarrow>
          if mr_attached r \<noteq> [] then (Inl delete_conflict, w)
          else (Inr (), w\<lparr>m_roles := filter (\<lambda>q. mr_name q \<noteq> n) (m_roles w)\<rparr>))"
| "mem_delete_role _ w = (Inl bad_request, w)"

fun mem_update_role :: "iam_request \<Rightarrow> (mem, unit) call" where
  "mem_update_role (UpdateAssumeRolePolicyReq (Some n) (Some d)) w =
     (case find_role w n of
        None \<Rightarrow> (Inl no_such_entity, w)
      | Some r \<Rightarrow> (Inr (), put_role (r\<lparr>mr_doc := d\<rparr>) w))"
| "mem_update_role _ w = (Inl bad_request, w)"

fun mem_get_policy :: "iam_request \<Rightarrow> (mem, iamPolicy option) call" where
  "mem_get_policy (GetPolicyReq (Some arn)) w =
     (case find_policy w arn of
        None \<Rightarrow> (Inl no_such_entity, w)
      | Some p \<Rightarrow> (Inr (Some (sdk_policy p)), w))"
| "mem_get_policy _ w = (Inl bad_request, w)"

fun mem_get_role :: "iam_request \<Rightarrow> (mem, iamRole option) call" where
  "mem_get_role (GetRoleReq (Some n)) w =
     (case find_role w n of
        None \<Rightarrow> (Inl no_such_entity, w)
      | Some r \<Rightarrow> (Inr (Some (sdk_role r)), w))"
| "mem_get_role _ w = (Inl bad_request, w)"

fun mem_policy_tags :: "iam_request \<Rightarrow> (mem, iamTag list) call" where
  "mem_policy_tags (ListPolicyTagsReq k (Some arn)) w =
     (case find_policy w arn of
        None \<Rightarrow> (Inl no_such_entity, w)
      | Some p \<Rightarrow> (Inr (take k (mp_tags p)), w))"
| "mem_policy_tags _ w = (Inl bad_request, w)"

fun mem_role_tags :: "iam_request \<Rightarrow> (mem, iamTag list) call" where
  "mem_role_tags (ListRoleTagsReq k (Some n)) w =
     (case find_role w n of
        None \<Rightarrow> (Inl no_such_entity, w)
      | Some r \<Rightarrow> (Inr (take k (mr_tags r)), w))"
| "mem_role_tags _ w = (Inl bad_request, w)"

text \<open>A paginator holds the request until its single page is read.\<close>

type_synonym mem_pager = "iam_request option"

fun mem_attached_page :: "(mem, mem_pager, iamAttachedPolicy) pager" where
  "mem_attached_page (Some (ListAttachedRolePoliciesReq k (Some n))) w =
     (case find_role w n of
        None \<Rightarrow> (Inl no_such_entity, None, w)
      | Some r \<Rightarrow>
          (Inr (map (\<lambda>p. \<lparr>ap_PolicyName = Some (mp_name p)\<rparr>)
             (filter (\<lambda>p. mp_arn p \<in> set (mr_attached r)) (m_policies w))), None, w))"
| "mem_attached_page _ w = (Inl bad_request, None, w)"

definition mem_roles_page :: "(mem, mem_pager, iamRole) pager" where
  "mem_roles_page p w = (Inr (map sdk_role (m_roles w)), None, w)"

definition mem_policies_page :: "(mem, mem_pager, iamPolicy) pager" where
  "mem_policies_page p w =
     (Inr (map (\<lambda>q. (sdk_policy q)\<lparr>ip_Tags := []\<rparr>) (m_policies w)), None, w)"

fun mem_entities_page :: "(mem, mem_pager, iamPolicyRole) pager" where
  "mem_entities_page (Some (ListEntitiesForPolicyReq (Some arn) entity k path usage)) w =
     (Inr (map (\<lambda>r. \<lparr>pr_RoleName = Some (mr_name r)\<rparr>) (attached_to w arn)), None, w)"
| "mem_entities_page _ w = (Inl bad_request, None, w)"

definition mem_get_prov :: "NamespacedName \<Rightarrow> (mem, AWSIAMProvision) call" where
  "mem_get_prov n w = (case m_prov w of None \<Rightarrow> (Inl not_found, w) | Some p \<Rightarrow> (Inr p, w))"

definition mem_get_cp :: "NamespacedName \<Rightarrow> (mem, AWSManagedControlPlane) call" where
  "mem_get_cp n w = (case m_cp w of None \<Rightarrow> (Inl not_found, w) | Some p \<Rightarrow> (Inr p, w))"

text \<open>
  An update stores the object but its status, a status update the status alone; one made from an
  object with an outdated specification is a conflict.
\<close>

definition conflict :: go_error where
  "conflict = PlainError ''Conflict''"

definition mem_update :: "AWSIAMProvision \<Rightarrow> (mem, AWSIAMProvision) call" where
  "mem_update p w = (case m_prov w of
     None \<Rightarrow> (Inl not_found, w)
   | Some q \<Rightarrow> let p' = p\<lparr>Status := Status q\<rparr> in (Inr p', w\<lparr>m_prov := Some p'\<rparr>))"

definition mem_update_status :: "AWSIAMProvision \<Rightarrow> (mem, AWSIAMProvision) call" where
  "mem_update_status p w = (case m_prov w of
     None \<Rightarrow> (Inl not_found, w)
   | Some q \<Rightarrow>
       if om_Namespace (ObjectMeta p) \<noteq> om_Namespace (ObjectMeta q) then (Inl not_found, w)
       else if Spec p \<noteq> Spec q then (Inl conflict, w)
       else let p' = q\<lparr>Status := Status p\<rparr> in (Inr p', w\<lparr>m_prov := Some p'\<rparr>))"

definition meta_finalizers :: "(string list \<Rightarrow> string list) \<Rightarrow> AWSIAMProvision \<Rightarrow> AWSIAMProvision" where
  "meta_finalizers f p =
     p\<lparr>ObjectMeta := (ObjectMeta p)\<lparr>om_Finalizers := f (om_Finalizers (ObjectMeta p))\<rparr>\<rparr>"

definition mem_env :: "(mem, mem_pager) env" where
  "mem_env = \<lparr>
     sdk_AttachRolePolicy = mem_attach, sdk_DetachRolePolicy = mem_detach,
     sdk_CreatePolicy = mem_create_policy, sdk_CreateRole = mem_create_role,
     sdk_DeletePolicy = mem_delete_policy, sdk_DeleteRole = mem_delete_role,
     sdk_UpdateAssumeRolePolicy = mem_update_role, sdk_GetPolicy = mem_get_policy,
     sdk_GetRole = mem_get_role, sdk_ListPolicyTags = mem_policy_tags,
     sdk_ListRoleTags = mem_role_tags, sdk_NewPaginator = Some,
     sdk_HasMorePages = (\<lambda>p. p \<noteq> None), sdk_NextAttachedPolicies = mem_attached_page,
     sdk_NextRoles = mem_roles_page, sdk_NextPolicies = mem_policies_page,
     sdk_NextEntities = mem_entities_page, page_fuel = 1,
     sdk_LoadDefaultConfig = (\<lambda>region w. (Inr (), w)),
     sdk_GetCallerIdentity = (\<lambda>region w. (Inr (Some (AccountID mem_client)), w)),
     aws_ToString = (\<lambda>p. case p of None \<Rightarrow> [] | Some s \<Rightarrow> s),
     cmp_Equal = (=),
     k8s_GetProvision = mem_get_prov, k8s_GetControlPlane = mem_get_cp,
     k8s_Update = mem_update, k8s_UpdateStatus = mem_update_status,
     k8s_IsNotFound = (\<lambda>e. e = not_found),
     k8s_NamespacedNameString = (\<lambda>n. nn_Namespace n @ ''/'' @ nn_Name n),
     k8s_ContainsFinalizer = (\<lambda>p f. f \<in> set (om_Finalizers (ObjectMeta p))),
     k8s_AddFinalizer = (\<lambda>p f. meta_finalizers (\<lambda>fs. fs @ [f]) p),
     k8s_RemoveFinalizer = (\<lambda>p f. meta_finalizers (removeAll f) p),
     clock_Now = (\<lambda>w. (m_clock w, w\<lparr>m_clock := m_clock w + 1\<rparr>)),
     template_Parse = (\<lambda>text. Inr (\<lambda>arn name. Inr text))\<rparr>"

text \<open>The fields of the environment, as rewrite rules.\<close>

lemma mem_env_simps:
  "sdk_AttachRolePolicy mem_env = mem_attach"
  "sdk_DetachRolePolicy mem_env = mem_detach"
  "sdk_CreatePolicy mem_env = mem_create_policy"
  "sdk_CreateRole mem_env = mem_create_role"
  "sdk_DeletePolicy mem_env = mem_delete_policy"
  "sdk_DeleteRole mem_env = mem_delete_role"
  "sdk_UpdateAssumeRolePolicy mem_env = mem_update_role"
  "sdk_GetPolicy mem_env = mem_get_policy"
  "sdk_GetRole mem_env = mem_get_role"
  "sdk_ListPolicyTags mem_env = mem_policy_tags"
  "sdk_ListRoleTags mem_env = mem_role_tags"
  "sdk_NewPaginator mem_env = Some"
  "sdk_HasMorePages mem_env = (\<lambda>p. p \<noteq> None)"
  "sdk_NextAttachedPolicies mem_env = mem_attached_page"
  "sdk_NextRoles mem_env = mem_roles_page"
  "sdk_NextPolicies mem_env = mem_policies_page"
  "sdk_NextEntities mem_env = mem_entities_page"
  "page_fuel mem_env = 1"
  "sdk_LoadDefaultConfig mem_env = (\<lambda>region w. (Inr (), w))"
  "sdk_GetCallerIdentity mem_env = (\<lambda>region w. (Inr (Some (AccountID mem_client)), w))"
  "aws_ToString mem_env = (\<lambda>p. case p of None \<Rightarrow> [] | Some s \<Rightarrow> s)"
  "cmp_Equal mem_env = (=)"
  "k8s_GetProvision mem_env = mem_get_prov"
  "k8s_GetControlPlane mem_env = mem_get_cp"
  "k8s_Update mem_env = mem_update"
  "k8s_UpdateStatus mem_env = mem_update_status"
  "k8s_IsNotFound mem_env = (\<lambda>e. e = not_found)"
  "k8s_NamespacedNameString mem_env = (\<lambda>n. nn_Namespace n @ ''/'' @ nn_Name n)"
  "k8s_ContainsFinalizer mem_env = (\<lambda>p f. f \<in> set (om_Finalizers (ObjectMeta p)))"
  "k8s_AddFinalizer mem_env = (\<lambda>p f. meta_finalizers (\<lambda>fs. fs @ [f]) p)"
  "k8s_RemoveFinalizer mem_env = (\<lambda>p f. meta_finalizers (removeAll f) p)"
  "clock_Now mem_env = (\<lambda>w. (m_clock w, w\<lparr>m_clock := m_clock w + 1\<rparr>))"
  "template_Parse mem_env = (\<lambda>text. Inr (\<lambda>arn name. Inr text))"
  by (simp_all add: mem_env_def)

definition mem_empty :: mem where
  "mem_empty = \<lparr>m_roles = [], m_policies = [], m_prov = None, m_cp = None,
     m_clock = 7\<rparr>"

definition mem_state :: "mem \<Rightarrow> mem gstate" where
  "mem_state w = \<lparr>world = w, log = [], choices = [],
     prov = (case m_prov w of None \<Rightarrow> zero_AWSIAMProvision | Some p \<Rightarrow> p)\<rparr>"

lemmas mem_defs = mem_env_simps mem_empty_def mem_state_def mp_arn_def policy_arn_inj find_role_def
  find_policy_def put_role_def sdk_role_def sdk_policy_def attached_to_def no_such_entity_def
  already_exists_def delete_conflict_def bad_request_def not_found_def conflict_def mem_roles_page_def
  mem_policies_page_def mem_get_prov_def mem_get_cp_def mem_update_def mem_update_status_def
  meta_finalizers_def full_tag_def

end
