(* ===== verification/PolicySync.thy ===== *)
theory PolicySync
  imports MemoryCloud
begin

text \<open>
  Bringing one policy of a role in line with the specification: nothing is written while the
  checksum tag and the attachment agree with it, a changed document makes the policy be replaced,
  and replacing a policy that another role uses fails.
\<close>

section \<open>The tags of a policy\<close>

text \<open>
  A tag that says nothing against the document: it has a key, and if that is the checksum key, its
  value is the checksum of the document.
\<close>

definition agrees :: "iamTag \<Rightarrow> iamTag \<Rightarrow> bool" where
  "agrees checkSumTag t =
     (it_Key t \<noteq> None \<and> (it_Key t = Some TagKeyPolicyDocument \<longrightarrow>
        it_Value t \<noteq> None \<and> it_Value t = it_Value checkSumTag))"

lemma checksum_differs_agrees:
  assumes "agrees ct t"
  shows "checksum_differs ct t = returnM False"
proof (cases "it_Key t = Some TagKeyPolicyDocument")
  case True
  then obtain v where "it_Value t = Some v" "it_Value ct = Some v"
    using assms by (metis agrees_def not_Some_eq)
  then show ?thesis using True by (simp add: checksum_differs_def)
next
  case False
  then show ?thesis using assms by (auto simp: agrees_def checksum_differs_def)
qed

lemma forM_agrees:
  "list_all (agrees ct) ts \<Longrightarrow>
   forM ts (\<lambda>tag. bindM (checksum_differs ct tag) (\<lambda>differs. if differs then m else returnM ())) = returnM ()"
  by (induction ts) (simp_all add: checksum_differs_agrees)

lemma forM_one_differs:
  fixes m :: "('w, unit) op"
  assumes "list_all (agrees ct) pre" and "list_all (agrees ct) post"
    and "it_Key t = Some TagKeyPolicyDocument" and "it_Value t = Some v"
    and "it_Value ct = Some w" and "v \<noteq> w"
  shows "forM (pre @ t # post) (\<lambda>tag. bindM (checksum_differs ct tag) (\<lambda>differs. if differs then m else returnM ())) = m"
proof -
  have "checksum_differs ct t = (returnM True :: ('w, bool) op)"
    using assms(3-6) by (simp add: checksum_differs_def)
  then show ?thesis
    by (simp add: forM_append forM_agrees assms(1,2) bindM_unit)
qed

section \<open>Nothing to do\<close>

lemma collect_names_all:
  assumes "list_all (\<lambda>x. f x \<noteq> None) xs"
  shows "collect_names f xs = returnM (fold set_put (map (\<lambda>x. the (f x)) xs) [])"
proof -
  have "foldM (\<lambda>x acc. bindM (deref (f x)) (\<lambda>n. returnM (set_put n acc))) xs acc =
      returnM (fold set_put (map (\<lambda>x. the (f x)) xs) acc)" for acc
    using assms by (induction xs arbitrary: acc) auto
  then show ?thesis by (simp add: collect_names_def)
qed

lemma set_fold_put: "set (fold set_put ns acc) = set acc \<union> set ns"
  by (induction ns arbitrary: acc) auto

text \<open>
  C31. A policy in step with the specification is left alone: if IAM has it, its checksum tag is
  that of the specified document, and it is attached to the role, then the handler makes no request
  beyond the lookup and the listing of the role's policies, and does not touch the status.
\<close>

theorem policy_in_step_untouched:
  assumes "ps_Name policy = Some n" and "ps_Tags policy = map Some tags"
    and "GetPolicyByName E c (Some n) s = (Ok (Some p, True), s1)"
    and "list_all (agrees (NewChecksumTag E (ps_PolicyDocument policy))) (ip_Tags p)"
    and "ListAttachedRolePolicies E c (rs_Name role) s1 = (Ok ps, s2)"
    and "list_all (\<lambda>q. ip_PolicyName q \<noteq> None) ps" and "Some rp \<in> ip_PolicyName ` set ps"
  shows "sync_listed_policy E c role policy rp s = (Ok (), s2)"
proof -
  have "rp \<in> set (fold set_put (map (\<lambda>q. the (ip_PolicyName q)) ps) [])"
    using assms(7) by (auto simp: set_fold_put) (metis image_eqI option.sel)
  then have "attach_if_missing E c role policy rp p s1 = (Ok (), s2)"
    using assms(5,6) by (simp add: attach_if_missing_def bindM_Ok collect_names_all)
      (simp add: returnM_def)
  then show ?thesis
    using assms(1-4)
    by (simp add: sync_listed_policy_def bindM_Ok getM_def ConvertToIAMTags_Some forM_agrees Let_def)
qed

section \<open>A changed document\<close>

text \<open>Each of the four operations adds exactly its request to the log.\<close>

definition logs_one :: "request \<Rightarrow> ('w, 'a) op \<Rightarrow> bool" where
  "logs_one rq m = (\<forall>s. \<exists>err. log (snd (m s)) = log s @ [Event rq err])"

lemma logs_one_wp:
  "(\<And>s. wp m (\<lambda>r t. \<exists>err. log t = log s @ [Event rq err]) s) \<Longrightarrow> logs_one rq m"
  by (simp add: logs_one_def wp_def case_prod_beta)

lemma logs_one_ops:
  "logs_one (IAM (DetachRolePolicyReq (Some (policy_arn c n)) (Some r))) (DetachRolePolicy E c (Some n) (Some r))"
  "logs_one (IAM (DeletePolicyReq (Some (policy_arn c n)))) (DeletePolicy E c (Some n))"
  "logs_one (IAM (CreatePolicyReq (Some n) d desc (Some pathPrefix) ts)) (CreatePolicy E (Some n) d desc ts)"
  "logs_one (IAM (AttachRolePolicyReq (Some (policy_arn c n)) (Some r))) (AttachRolePolicy E c (Some n) (Some r))"
  by (rule logs_one_wp, simp add: wp_simps Let_def split: prod.splits sum.splits option.splits)+

lemma logs_one_run: "logs_one rq m \<Longrightarrow> m s = (r, t) \<Longrightarrow> \<exists>err. log t = log s @ [Event rq err]"
  unfolding logs_one_def by (metis snd_conv)

definition policy_tags :: "('w, 'p) env \<Rightarrow> AWSIAMProvision \<Rightarrow> PolicySpec \<Rightarrow> Tag list \<Rightarrow> iamTag list" where
  "policy_tags E p policy tags =
     TagsDefine (spec_EKSClusterName (Spec p)) (om_Namespace (ObjectMeta p))
       (map (\<lambda>t. \<lparr>it_Key = tag_Key t, it_Value = tag_Value t\<rparr>) tags @ [NewChecksumTag E (ps_PolicyDocument policy)])"

definition policy_description :: "AWSIAMProvision \<Rightarrow> string" where
  "policy_description p =
     PolicyDescriptionPrefix @ spec_EKSClusterName (Spec p) @ ''. '' @ IAMDescription"

definition replacement_requests ::
  "IAMClient \<Rightarrow> string \<Rightarrow> string \<Rightarrow> string option \<Rightarrow> string \<Rightarrow> iamTag list \<Rightarrow> request list" where
  "replacement_requests c n r doc desc tags =
     [IAM (DetachRolePolicyReq (Some (policy_arn c n)) (Some r)),
      IAM (DeletePolicyReq (Some (policy_arn c n))),
      IAM (CreatePolicyReq (Some n) doc (Some desc) (Some pathPrefix) tags),
      IAM (AttachRolePolicyReq (Some (policy_arn c n)) (Some r))]"

lemma emits_status_any: "emits (\<lambda>_. True) (updateCRDStatus E iam crdPhase phase message result)"
  by (rule emits_updateCRDStatus) simp_all

lemma replace_policy_requests:
  assumes "replace_policy E c role policy p desc tags s = (Ok x, t)"
    and "rs_Name role = Some r" and "ps_Name policy = Some n" and "ip_PolicyName p = Some n"
  shows "\<exists>es rest. log t = log s @ es @ rest \<and>
    map ev_request es = replacement_requests c n r (ps_PolicyDocument policy) desc tags"
proof -
  obtain s1 s2 s3 s4 res where steps: "DetachRolePolicy E c (Some n) (Some r) s = (Ok (), s1)"
    "DeletePolicy E c (Some n) s1 = (Ok (), s2)"
    "CreatePolicy E (Some n) (ps_PolicyDocument policy) (Some desc) tags s2 = (Ok res, s3)"
    "AttachRolePolicy E c (Some n) (Some r) s3 = (Ok (), s4)"
    and status: "updateCRDStatus E (Some c) provisionPhase updatePhase
      (''Policy document for policy '' @ n @ '' was updated.'') (PolicyResult (Some p)) s4 = (Ok x, t)"
    using assms by (auto simp: replace_policy_def elim!: bindM_Ok_cases)
  obtain es where "log s4 = log s @ es"
    "map ev_request es = replacement_requests c n r (ps_PolicyDocument policy) desc tags"
    using logs_one_run [OF logs_one_ops(1) steps(1)] logs_one_run [OF logs_one_ops(2) steps(2)]
      logs_one_run [OF logs_one_ops(3) steps(3)] logs_one_run [OF logs_one_ops(4) steps(4)]
    by (auto simp: replacement_requests_def)
  moreover obtain rest where "log t = log s4 @ rest"
    using emits_run [OF emits_status_any status] by blast
  ultimately show ?thesis by auto
qed

lemma changed_policy_steps:
  assumes "ps_Name policy = Some n" and "ps_Tags policy = map Some tags"
    and "GetPolicyByName E c (Some n) s = (Ok (Some p, True), s1)"
    and "ip_Tags p = pre @ t # post" and "it_Key t = Some TagKeyPolicyDocument"
    and "list_all (agrees (NewChecksumTag E (ps_PolicyDocument policy))) (pre @ post)"
    and "it_Value t = Some v" and "it_Value (NewChecksumTag E (ps_PolicyDocument policy)) \<noteq> Some v"
  shows "sync_listed_policy E c role policy rp s =
    bindM (replace_policy E c role policy p (policy_description (prov s1)) (policy_tags E (prov s1) policy tags))
      (\<lambda>_. attach_if_missing E c role policy rp p) s1"
proof -
  obtain w where "it_Value (NewChecksumTag E (ps_PolicyDocument policy)) = Some w"
    by (simp add: NewChecksumTag_def)
  then show ?thesis
    using assms
    by (simp add: sync_listed_policy_def bindM_Ok getM_def ConvertToIAMTags_Some Let_def
        forM_one_differs policy_tags_def policy_description_def)
qed

text \<open>
  C15. A policy whose checksum tag is not that of the specified document is replaced: the handler
  detaches it from the role, deletes it, creates it anew from the specified document, with the
  owner tags and the new checksum, and attaches it, in this order, before anything else. This holds
  of every run that succeeds.
\<close>

theorem changed_policy_replaced:
  assumes "ps_Name policy = Some n" and "ps_Tags policy = map Some tags" and "rs_Name role = Some r"
    and "GetPolicyByName E c (Some n) s = (Ok (Some p, True), s1)" and "ip_PolicyName p = Some n"
    and "ip_Tags p = pre @ t # post" and "it_Key t = Some TagKeyPolicyDocument"
    and "list_all (agrees (NewChecksumTag E (ps_PolicyDocument policy))) (pre @ post)"
    and "it_Value t = Some v" and "it_Value (NewChecksumTag E (ps_PolicyDocument policy)) \<noteq> Some v"
    and "sync_listed_policy E c role policy rp s = (Ok (), u)"
  shows "\<exists>es rest. log u = log s1 @ es @ rest \<and>
    map ev_request es = replacement_requests c n r (ps_PolicyDocument policy)
      (policy_description (prov s1)) (policy_tags E (prov s1) policy tags)"
proof -
  let ?replace = "replace_policy E c role policy p (policy_description (prov s1)) (policy_tags E (prov s1) policy tags)"
  have "bindM ?replace (\<lambda>_. attach_if_missing E c role policy rp p) s1 = (Ok (), u)"
    using assms(11) changed_policy_steps [OF assms(1,2,4,6,7,8,9,10)] by simp
  then obtain s2 where run: "?replace s1 = (Ok (), s2)"
    and attach: "attach_if_missing E c role policy rp p s2 = (Ok (), u)"
    by (auto elim!: bindM_Ok_cases)
  have "emits (\<lambda>_. True) (attach_if_missing E c role policy rp p)"
    by (auto simp: attach_if_missing_def collect_names_def
        intro!: emits_rules emits_ListAttachedRolePolicies emits_AttachRolePolicy emits_status_any)
  then obtain rest where "log u = log s2 @ rest" using attach by (rule emits_run)
  moreover obtain es rest' where es: "log s2 = log s1 @ es @ rest'"
    "map ev_request es = replacement_requests c n r (ps_PolicyDocument policy)
      (policy_description (prov s1)) (policy_tags E (prov s1) policy tags)"
    using replace_policy_requests [OF run assms(3,1,5)] by blast
  ultimately have "log u = log s1 @ es @ (rest' @ rest)" by simp
  then show ?thesis using es(2) by blast
qed

section \<open>Worlds\<close>

definition sync_spec :: PolicySpec where
  "sync_spec = \<lparr>ps_Name = Some ''p'', ps_PolicyDocument = Some ''{}'', ps_Tags = []\<rparr>"

definition sync_role :: RoleSpec where
  "sync_role = \<lparr>rs_AssumeRolePolicyDocument = Some ''{}'', rs_Name = Some ''r'', rs_Policies = [Some ''p''],
     rs_Tags = []\<rparr>"

text \<open>IAM with the role and the policy attached to it, and the given checksum tag.\<close>

definition sync_mem :: "iamTag \<Rightarrow> mem" where
  "sync_mem checksum = mem_empty\<lparr>
     m_roles := [\<lparr>mr_name = ''r'', mr_doc = ''{}'', mr_tags = [], mr_attached = [policy_arn mem_client ''p'']\<rparr>],
     m_policies := [\<lparr>mp_name = ''p'', mp_doc = ''{}'', mp_tags = TagsDefine ''eks'' ''ns'' [checksum]\<rparr>],
     m_prov := Some zero_AWSIAMProvision\<rparr>"

definition sync_policy :: "iamTag \<Rightarrow> iamPolicy" where
  "sync_policy checksum = sdk_policy \<lparr>mp_name = ''p'', mp_doc = ''{}'', mp_tags = TagsDefine ''eks'' ''ns'' [checksum]\<rparr>"

lemmas sync_defs = sync_spec_def sync_role_def sync_mem_def sync_policy_def

lemma sync_lookup:
  "GetPolicyByName mem_env mem_client (Some ''p'') (mem_state (sync_mem ct)) = (Ok (Some (sync_policy ct), True),
     (mem_state (sync_mem ct))\<lparr>log := [Event (IAM (GetPolicyReq (Some (policy_arn mem_client ''p'')))) None]\<rparr>)"
  by (rule wp_run) (simp add: wp_simps mem_defs sync_defs Let_def)

lemma sync_listing:
  "fst (ListAttachedRolePolicies mem_env mem_client (Some ''r'') ((mem_state (sync_mem ct))\<lparr>log := l\<rparr>)) =
     Ok [sync_policy ct]"
  by (simp add: ListAttachedRolePolicies_def GetPolicyByName_def generatePolicyARN_def
      request_call_def page_call_def monad_defs mem_defs sync_defs Let_def)

theorem policy_in_step_untouched_witness:
  "\<exists>t. sync_listed_policy mem_env mem_client sync_role sync_spec ''p''
     (mem_state (sync_mem (NewChecksumTag mem_env (Some ''{}'')))) = (Ok (), t)"
proof -
  let ?ct = "NewChecksumTag mem_env (Some ''{}'')"
  let ?s1 = "(mem_state (sync_mem ?ct))\<lparr>log := [Event (IAM (GetPolicyReq (Some (policy_arn mem_client ''p'')))) None]\<rparr>"
  have listing: "ListAttachedRolePolicies mem_env mem_client (rs_Name sync_role) ?s1 =
      (Ok [sync_policy ?ct], snd (ListAttachedRolePolicies mem_env mem_client (rs_Name sync_role) ?s1))"
    using sync_listing by (simp add: sync_role_def prod_eq_iff)
  have tags: "list_all (agrees (NewChecksumTag mem_env (ps_PolicyDocument sync_spec))) (ip_Tags (sync_policy ?ct))"
    by (simp add: sync_spec_def sync_policy_def sdk_policy_def agrees_def TagsDefine_def tag_keys NewChecksumTag_def)
  show ?thesis
    using policy_in_step_untouched [OF _ _ sync_lookup tags listing, where rp = "''p''" and tags = "[]"]
    by (simp add: sync_spec_def sync_policy_def sdk_policy_def)
qed

text \<open>An outdated checksum.\<close>

definition old_checksum :: iamTag where
  "old_checksum = \<lparr>it_Key = Some TagKeyPolicyDocument, it_Value = Some []\<rparr>"

lemma checksum_not_empty: "it_Value (NewChecksumTag E doc) \<noteq> Some []"
  using length_checksum [of E doc] by auto

text \<open>The run is evaluated with the checksum left as the term it is.\<close>

declare sha1_Sum_def [code del]

lemma replace_run:
  "fst (bindM (replace_policy mem_env mem_client sync_role sync_spec (sync_policy old_checksum) desc
       (policy_tags mem_env zero_AWSIAMProvision sync_spec []))
     (\<lambda>_. attach_if_missing mem_env mem_client sync_role sync_spec ''p'' (sync_policy old_checksum))
     ((mem_state (sync_mem old_checksum))\<lparr>log := l\<rparr>)) = Ok ()"
  by code_simp

declare sha1_Sum_def [code]

theorem changed_policy_replaced_witness:
  "\<exists>es rest. log (snd (sync_listed_policy mem_env mem_client sync_role sync_spec ''p''
       (mem_state (sync_mem old_checksum)))) =
     [Event (IAM (GetPolicyReq (Some (policy_arn mem_client ''p'')))) None] @ es @ rest \<and>
   map ev_request es = replacement_requests mem_client ''p'' ''r'' (Some ''{}'')
     (policy_description zero_AWSIAMProvision) (policy_tags mem_env zero_AWSIAMProvision sync_spec [])"
proof -
  let ?pre = "TagsDefine ''eks'' ''ns'' []"
  let ?run = "sync_listed_policy mem_env mem_client sync_role sync_spec ''p'' (mem_state (sync_mem old_checksum))"
  have tags: "ip_Tags (sync_policy old_checksum) = ?pre @ old_checksum # []"
    by (simp add: sync_policy_def sdk_policy_def TagsDefine_def)
  have agree: "list_all (agrees (NewChecksumTag mem_env (ps_PolicyDocument sync_spec))) (?pre @ [])"
    by (simp add: agrees_def TagsDefine_def tag_keys)
  have old: "it_Key old_checksum = Some TagKeyPolicyDocument" "it_Value old_checksum = Some []"
    by (simp_all add: old_checksum_def)
  have spec: "ps_Name sync_spec = Some ''p''" "ps_Tags sync_spec = map Some []" "rs_Name sync_role = Some ''r''"
    by (simp_all add: sync_spec_def sync_role_def)
  have "fst ?run = Ok ()"
    using changed_policy_steps [OF spec(1,2) sync_lookup tags old(1) agree old(2) checksum_not_empty] replace_run
    by (simp add: mem_state_def sync_mem_def)
  then have run: "?run = (Ok (), snd ?run)" by (simp add: prod_eq_iff)
  have name: "ip_PolicyName (sync_policy old_checksum) = Some ''p''" by (simp add: sync_policy_def sdk_policy_def)
  show ?thesis
    using changed_policy_replaced [OF spec sync_lookup name tags old(1) agree old(2) checksum_not_empty run]
    by (simp add: sync_spec_def mem_state_def sync_mem_def)
qed

section \<open>A changed policy that another role uses\<close>

text \<open>
  C32. The replacement deletes the policy after detaching it from this role only. If another role
  still uses it, IAM refuses: the handler returns that error, having taken the policy away from
  this role, and neither creates nor attaches anything.
\<close>

theorem shared_changed_policy_conflict:
  assumes "rs_Name role = Some r" and "ip_PolicyName p = Some n"
    and "sdk_DetachRolePolicy E (DetachRolePolicyReq (Some (policy_arn c n)) (Some r)) (world s) = (Inr (), w1)"
    and "sdk_DeletePolicy E (DeletePolicyReq (Some (policy_arn c n))) w1 = (Inl err, w2)"
    and "\<not> is_no_such_entity err"
  shows "replace_policy E c role policy p desc tags s = (Err err, s\<lparr>world := w2, log := log s @
    [Event (IAM (DetachRolePolicyReq (Some (policy_arn c n)) (Some r))) None,
     Event (IAM (DeletePolicyReq (Some (policy_arn c n)))) (Some err)]\<rparr>)"
  using assms by (intro wp_run) (simp add: replace_policy_def wp_simps tolerate_def Let_def)

definition shared_sync_mem :: mem where
  "shared_sync_mem = (sync_mem old_checksum)\<lparr>m_roles :=
     [\<lparr>mr_name = ''r'', mr_doc = ''{}'', mr_tags = [], mr_attached = [policy_arn mem_client ''p'']\<rparr>,
      \<lparr>mr_name = ''x'', mr_doc = ''{}'', mr_tags = [], mr_attached = [policy_arn mem_client ''p'']\<rparr>]\<rparr>"

theorem shared_changed_policy_conflict_witness:
  "fst (replace_policy mem_env mem_client sync_role sync_spec (sync_policy old_checksum) [] []
     (mem_state shared_sync_mem)) = Err delete_conflict"
proof -
  let ?w1 = "shared_sync_mem\<lparr>m_roles :=
     [\<lparr>mr_name = ''r'', mr_doc = ''{}'', mr_tags = [], mr_attached = []\<rparr>,
      \<lparr>mr_name = ''x'', mr_doc = ''{}'', mr_tags = [], mr_attached = [policy_arn mem_client ''p'']\<rparr>]\<rparr>"
  have calls: "sdk_DetachRolePolicy mem_env (DetachRolePolicyReq (Some (policy_arn mem_client ''p'')) (Some ''r''))
      (world (mem_state shared_sync_mem)) = (Inr (), ?w1)"
    "sdk_DeletePolicy mem_env (DeletePolicyReq (Some (policy_arn mem_client ''p''))) ?w1 = (Inl delete_conflict, ?w1)"
    by (simp_all add: shared_sync_mem_def sync_mem_def mem_defs set_delete_def)
  show ?thesis
    using shared_changed_policy_conflict [OF _ _ calls]
    by (simp add: sync_role_def sync_policy_def sdk_policy_def is_no_such_entity_def delete_conflict_def)
qed

end
