(* ===== verification/GarbageCollection.thy ===== *)
theory GarbageCollection
  imports MemoryCloud
begin

text \<open>
  The garbage collection of \<open>syncAWSIAMResources\<close>: which roles and policies it may delete, and
  what its order of requests means for a policy that several roles use.
\<close>

section \<open>Roles\<close>

text \<open>The roles that carry the owner tags of the custom resource, as the listing finds them.\<close>

definition owned_roles :: "('w, 'p) env \<Rightarrow> 'w gstate \<Rightarrow> string option list" where
  "owned_roles E s = (case fst (ListRolesByTags E
       (TagsDefine (spec_EKSClusterName (Spec (prov s))) (om_Namespace (ObjectMeta (prov s))) []) s) of
     Ok roles \<Rightarrow> map ir_RoleName roles
   | _ \<Rightarrow> [])"

text \<open>A request that deletes no role but an owned one that the specification does not list.\<close>

fun deletes_stale_roles :: "string option list \<Rightarrow> string list \<Rightarrow> event \<Rightarrow> bool" where
  "deletes_stale_roles owned listed (Event (IAM (DeleteRoleReq n)) err) =
     (n \<in> set owned \<and> n \<notin> set (map Some listed))"
| "deletes_stale_roles owned listed _ = True"

lemma stale_role_ops:
  "emits (deletes_stale_roles own l) (DeletePolicy E c n)"
  "emits (deletes_stale_roles own l) (GetPolicyByName E c n)"
  "emits (deletes_stale_roles own l) (ListPoliciesByTags E ts)"
  "emits (deletes_stale_roles own l) (ListRolesByTags E ts)"
  "emits (deletes_stale_roles own l) (ListEntitiesForPolicy E p)"
  "emits (deletes_stale_roles own l) (DetachRolePolicy E c n r)"
  "emits (deletes_stale_roles own l) (GetRoleByName E r)"
  "emits (deletes_stale_roles own l) (ListAttachedRolePolicies E c r)"
  "emits (deletes_stale_roles own l) (updateCRDStatus E iam crdPhase phase message result)"
  "emits (deletes_stale_roles own l) (collect_names f xs)"
  "emits (deletes_stale_roles own l) (remove_names f xs m)"
  by (auto simp: collect_names_def remove_names_def
      intro!: emits_rules emits_DeletePolicy emits_GetPolicyByName emits_ListPoliciesByTags
        emits_ListRolesByTags emits_ListEntitiesForPolicy emits_DetachRolePolicy emits_GetRoleByName
        emits_ListAttachedRolePolicies emits_updateCRDStatus)

lemma stale_role_handlers:
  "emits (deletes_stale_roles own l) (attached_policies E ps n)"
  "emits (deletes_stale_roles own l) (delete_stale_policy E c n)"
  "emits (deletes_stale_roles own l) (unlisted_policies ps)"
  by (auto simp: attached_policies_def delete_stale_policy_def delete_policy_and_report_def
      unlisted_policies_def intro!: emits_rules stale_role_ops)

lemma stale_role_delete:
  "Some n \<in> set own \<Longrightarrow> n \<notin> set l \<Longrightarrow> emits (deletes_stale_roles own l) (delete_stale_role E c n)"
  by (auto simp: delete_stale_role_def intro!: emits_rules stale_role_ops emits_DeleteRole)

text \<open>One round removes the role's name, and nothing else, from the roles to delete.\<close>

lemma sync_role_attachments_result:
  "ensures (deletes_stale_roles own l)
     (\<lambda>names t. \<exists>n. rs_Name (role_Spec role) = Some n \<and> set names = set acc - {n})
     (sync_role_attachments E c ps role acc) s"
proof -
  have "ensures (deletes_stale_roles own l) (\<lambda>names t. set names = set acc - {n})
      (bindM (attached_policies E ps n) (\<lambda>attached.
        bindM (remove_names id (rs_Policies (role_Spec role)) attached) (\<lambda>detachRolePolicies.
        bindM (range_map detachRolePolicies) (\<lambda>names.
        bindM (forM names (\<lambda>policyName.
          bindM (DetachRolePolicy E c (Some policyName) (Some n)) (\<lambda>_.
          updateCRDStatus E (Some c) provisionPhase detachPhase (detach_message policyName n)
            (PolicyResult (Some (policy_named policyName)))))) (\<lambda>_.
        returnM (set_delete n acc)))))) t" for n t
    by (intro ensures_bindM [OF ensures_emits] ensures_returnM emits_rules stale_role_ops
        stale_role_handlers) (auto intro!: ensures_returnM)
  then show ?thesis
    unfolding sync_role_attachments_def
    by (intro ensures_bindM [OF ensures_deref]) (auto intro: ensures_weaken)
qed

lemma sync_roles_fold_result:
  "ensures (deletes_stale_roles own l)
     (\<lambda>names t. set names = set acc - {n. \<exists>(k, role) \<in> set roles. rs_Name (role_Spec role) = Some n})
     (foldM (\<lambda>(k, role) acc. sync_role_attachments E c ps role acc) roles acc) s"
proof (induction roles arbitrary: acc s)
  case Nil
  then show ?case by (simp add: ensures_returnM)
next
  case (Cons r rs)
  show ?case
    unfolding foldM.simps case_prod_beta
    by (rule ensures_bindM [OF sync_role_attachments_result], rule ensures_weaken [OF Cons.IH [unfolded case_prod_beta]]) auto
qed

lemma sync_spec_roles_result:
  "ensures (deletes_stale_roles own l)
     (\<lambda>names t. set names = set acc - set (spec_role_names (Spec (prov s))))
     (sync_spec_roles E c ps acc) s"
  unfolding sync_spec_roles_def
proof (rule ensures_bindM [where Q = "\<lambda>m t. m = spec_Roles (Spec (prov s))"])
  fix m and t :: "'a gstate"
  assume m: "m = spec_Roles (Spec (prov s))"
  show "ensures (deletes_stale_roles own l)
     (\<lambda>names t. set names = set acc - set (spec_role_names (Spec (prov s))))
     (bindM (range_map m) (\<lambda>roles. foldM (\<lambda>(_, role) acc. sync_role_attachments E c ps role acc) roles acc)) t"
  proof (rule ensures_bindM [where Q = "\<lambda>roles t. set roles = set m"])
    fix roles and u :: "'a gstate"
    assume "set roles = set m"
    then have "{n. \<exists>(k, role) \<in> set roles. rs_Name (role_Spec role) = Some n} =
        set (spec_role_names (Spec (prov s)))"
      using m by (fastforce simp: in_spec_role_names)
    then show "ensures (deletes_stale_roles own l)
       (\<lambda>names t. set names = set acc - set (spec_role_names (Spec (prov s))))
       (foldM (\<lambda>(_, role) acc. sync_role_attachments E c ps role acc) roles acc) u"
      using sync_roles_fold_result [of own l acc roles E c ps u] by simp
  qed (simp add: ensures_range_map)
qed (simp add: ensures_getM)

lemma collect_names_result:
  "ensures P (\<lambda>names t. prov t = prov s \<and> (\<forall>n \<in> set names. Some n \<in> set (map f xs))) (collect_names f xs) s"
proof -
  have "ensures P (\<lambda>names t. t = s \<and> (\<forall>n \<in> set names. n \<in> set acc \<or> Some n \<in> set (map f xs)))
      (foldM (\<lambda>x acc. bindM (deref (f x)) (\<lambda>n. returnM (set_put n acc))) xs acc) s" for acc
  proof (induction xs arbitrary: acc)
    case Nil
    then show ?case by (simp add: ensures_returnM)
  next
    case (Cons x xs)
    have "ensures P (\<lambda>a t. t = s \<and> (\<exists>n. f x = Some n \<and> a = set_put n acc))
        (bindM (deref (f x)) (\<lambda>n. returnM (set_put n acc))) s"
      by (cases "f x") (auto simp: ensures_def monad_defs em.R_refl)
    then show ?case
      unfolding foldM.simps
      by (rule ensures_bindM) (auto intro!: ensures_weaken [OF Cons.IH])
  qed
  from this [of "[]"] show ?thesis
    unfolding collect_names_def by (rule ensures_weaken) auto
qed

lemma owned_roles_result:
  "ensures (deletes_stale_roles own l)
     (\<lambda>roles t. prov t = prov s \<and> map ir_RoleName roles = owned_roles E s)
     (ListRolesByTags E (TagsDefine (spec_EKSClusterName (Spec (prov s))) (om_Namespace (ObjectMeta (prov s))) [])) s"
proof -
  let ?m = "ListRolesByTags E
    (TagsDefine (spec_EKSClusterName (Spec (prov s))) (om_Namespace (ObjectMeta (prov s))) [])"
  have "ensures (deletes_stale_roles own l) (\<lambda>_ t. same_prov s t) ?m s"
    by (intro ensures_keeps stale_role_ops same_prov_ops)
  then show ?thesis
    by (auto simp: ensures_def owned_roles_def same_prov_def split: prod.splits)
qed

lemma spec_policies_listed:
  "ensures (deletes_stale_roles own l) (\<lambda>_ t. prov t = prov s) (ListPoliciesByTags E ts) s"
  using ensures_keeps [of _ "ListPoliciesByTags E ts" same_prov s]
  by (auto simp: same_prov_def intro: stale_role_ops same_prov_ops)

text \<open>
  C8. The garbage collection deletes a role only if it carries the owner tags of this custom
  resource and the specification does not list it: no order of the maps, no answer and no failure
  of a request makes it delete a listed role, or one that the tag listing did not find.
\<close>

theorem sync_deletes_only_stale_roles:
  "\<exists>es. log (snd (syncAWSIAMResources E c s)) = log s @ es \<and>
    list_all (deletes_stale_roles (owned_roles E s) (spec_role_names (Spec (prov s)))) es"
proof (rule ensures_log [where Q = "\<lambda>_ _. True"])
  let ?P = "deletes_stale_roles (owned_roles E s) (spec_role_names (Spec (prov s)))"
  have tail: "ensures ?P (\<lambda>_ _. True)
      (bindM (range_map deleteRoles) (\<lambda>roles.
       bindM (forM roles (delete_stale_role E c)) (\<lambda>_.
       bindM (unlisted_policies iamPolicies) (\<lambda>deletePolicies.
       bindM (range_map deletePolicies) (\<lambda>policies.
       forM policies (delete_stale_policy E c)))))) t"
    if "set deleteRoles \<subseteq> {n. Some n \<in> set (owned_roles E s)} - set (spec_role_names (Spec (prov s)))"
    for deleteRoles iamPolicies t
  proof (rule ensures_bindM [where Q = "\<lambda>roles _. set roles = set deleteRoles"])
    fix roles and u :: "'a gstate"
    assume "set roles = set deleteRoles"
    then have "emits ?P (bindM (forM roles (delete_stale_role E c)) (\<lambda>_.
       bindM (unlisted_policies iamPolicies) (\<lambda>deletePolicies.
       bindM (range_map deletePolicies) (\<lambda>policies.
       forM policies (delete_stale_policy E c)))))"
      using that by (auto intro!: emits_rules stale_role_handlers stale_role_delete)
    then show "ensures ?P (\<lambda>_ _. True) (bindM (forM roles (delete_stale_role E c)) (\<lambda>_.
       bindM (unlisted_policies iamPolicies) (\<lambda>deletePolicies.
       bindM (range_map deletePolicies) (\<lambda>policies.
       forM policies (delete_stale_policy E c))))) u"
      by (rule ensures_emits)
  qed (simp add: ensures_range_map)
  show "ensures ?P (\<lambda>_ _. True) (syncAWSIAMResources E c) s"
    unfolding syncAWSIAMResources_def Let_def
  proof (rule ensures_bindM [where Q = "\<lambda>p t. p = prov s \<and> t = s"])
    fix p t assume "p = prov s \<and> t = s"
    then show "ensures ?P (\<lambda>_ _. True)
      (bindM (ListRolesByTags E (TagsDefine (spec_EKSClusterName (Spec p)) (om_Namespace (ObjectMeta p)) [])) (\<lambda>iamRoles.
       bindM (ListPoliciesByTags E (TagsDefine (spec_EKSClusterName (Spec p)) (om_Namespace (ObjectMeta p)) [])) (\<lambda>iamPolicies.
       bindM (collect_names ir_RoleName iamRoles) (\<lambda>owned.
       bindM (sync_spec_roles E c iamPolicies owned) (\<lambda>deleteRoles.
       bindM (range_map deleteRoles) (\<lambda>roles.
       bindM (forM roles (delete_stale_role E c)) (\<lambda>_.
       bindM (unlisted_policies iamPolicies) (\<lambda>deletePolicies.
       bindM (range_map deletePolicies) (\<lambda>policies.
       forM policies (delete_stale_policy E c)))))))))) t"
      by (auto intro!: ensures_bindM [OF owned_roles_result] ensures_bindM [OF spec_policies_listed]
          ensures_bindM [OF collect_names_result] ensures_bindM [OF sync_spec_roles_result] tail)
  qed (simp add: ensures_getM)
qed

section \<open>Policies\<close>

text \<open>
  Documented behaviour of the outside: a status update that succeeds was made from the current
  object (the API server refuses an outdated one), so the object it returns has the specification
  that was sent; and the policy at an ARN under the operator's path has the name that the ARN
  ends in.
\<close>

definition status_keeps_spec :: "('w, 'p) env \<Rightarrow> bool" where
  "status_keeps_spec E = (\<forall>p w. case k8s_UpdateStatus E p w of
     (Inr p', w') \<Rightarrow> Spec p' = Spec p
   | _ \<Rightarrow> True)"

definition arn_ends_in_name :: "('w, 'p) env \<Rightarrow> IAMClient \<Rightarrow> bool" where
  "arn_ends_in_name E c = (\<forall>n w. case sdk_GetPolicy E (GetPolicyReq (Some (policy_arn c n))) w of
     (Inr (Some p), w') \<Rightarrow> ip_PolicyName p = Some n
   | _ \<Rightarrow> True)"

definition same_spec :: "'w gstate \<Rightarrow> 'w gstate \<Rightarrow> bool" where
  "same_spec s t = (Spec (prov t) = Spec (prov s))"

interpretation ss: step_relation "same_spec :: 'w gstate \<Rightarrow> 'w gstate \<Rightarrow> bool"
  by standard (auto simp: same_spec_def)

lemma same_spec_ops: "keeps same_prov m \<Longrightarrow> keeps same_spec m"
  by (auto simp: keeps_def same_prov_def same_spec_def)

lemma same_spec_write: "status_keeps_spec E \<Longrightarrow> keeps same_spec (write_status E)"
  by (auto simp: keeps_def same_spec_def write_status_def monad_defs request_call_def status_keeps_spec_def
      split: prod.splits sum.splits)

lemma same_spec_update: "keeps same_spec (update_status f)"
  by (simp add: keeps_def same_spec_def update_status_def modifyM_def)

lemma same_spec_now: "keeps same_spec (now E)"
  by (auto simp: keeps_def same_spec_def now_def split: prod.splits)

lemma same_spec_status:
  assumes "status_keeps_spec E"
  shows "keeps same_spec (updateCRDStatus E iam crdPhase phase message result)"
  by (cases result) (auto simp: updateCRDStatus_def update_role_status_def update_policy_status_def
      intro!: ss.keeps_rules same_spec_write [OF assms] same_spec_update same_spec_now
        same_spec_ops [OF same_prov_role_ops(7)] same_spec_ops [OF same_prov_policy_ops(4)])

lemma same_spec_range_map: "keeps same_spec (range_map m)"
  by (rule same_spec_ops [OF same_prov_range_map])

text \<open>A request that deletes none of the listed policies.\<close>

fun spares_policies :: "IAMClient \<Rightarrow> string list \<Rightarrow> event \<Rightarrow> bool" where
  "spares_policies c listed (Event (IAM (DeletePolicyReq arn)) err) =
     (arn \<notin> set (map (\<lambda>n. Some (policy_arn c n)) listed))"
| "spares_policies c listed _ = True"

lemma spares_ops:
  "emits (spares_policies c l) (GetPolicyByName E c n)"
  "emits (spares_policies c l) (ListPoliciesByTags E ts)"
  "emits (spares_policies c l) (ListRolesByTags E ts)"
  "emits (spares_policies c l) (ListEntitiesForPolicy E p)"
  "emits (spares_policies c l) (DetachRolePolicy E c n r)"
  "emits (spares_policies c l) (GetRoleByName E r)"
  "emits (spares_policies c l) (DeleteRole E r)"
  "emits (spares_policies c l) (ListAttachedRolePolicies E c r)"
  "emits (spares_policies c l) (updateCRDStatus E iam crdPhase phase message result)"
  "emits (spares_policies c l) (collect_names f xs)"
  "emits (spares_policies c l) (remove_names g xs m)"
  by (auto simp: collect_names_def remove_names_def
      intro!: emits_rules emits_GetPolicyByName emits_ListPoliciesByTags emits_DeleteRole
        emits_ListRolesByTags emits_ListEntitiesForPolicy emits_DetachRolePolicy emits_GetRoleByName
        emits_ListAttachedRolePolicies emits_updateCRDStatus)

lemma spares_handlers:
  "emits (spares_policies c l) (sync_spec_roles E c ps acc)"
  "emits (spares_policies c l) (delete_stale_role E c n)"
  by (auto simp: sync_spec_roles_def sync_role_attachments_def attached_policies_def delete_stale_role_def
      intro!: emits_rules spares_ops)

lemma same_spec_handlers:
  assumes "status_keeps_spec E"
  shows "keeps same_spec (sync_spec_roles E c ps acc)" "keeps same_spec (delete_stale_role E c n)"
  by (auto simp: sync_spec_roles_def sync_role_attachments_def attached_policies_def delete_stale_role_def
      collect_names_def remove_names_def
      intro!: ss.keeps_rules same_spec_status [OF assms] same_spec_range_map same_spec_ops [OF same_prov_ops(4)]
        same_spec_ops [OF same_prov_ops(6)] same_spec_ops [OF same_prov_ops(8)]
        same_spec_ops [OF same_prov_ops(11)] same_spec_ops [OF same_prov_ops(13)]
        same_spec_ops [OF same_prov_ops(14)])

lemma remove_names_result:
  "ensures P (\<lambda>names t. t = s \<and> set names = set m - {n. \<exists>x \<in> set xs. f x = Some n}) (remove_names f xs m) s"
  unfolding remove_names_def
proof (induction xs arbitrary: m)
  case Nil
  then show ?case by (simp add: ensures_returnM)
next
  case (Cons x xs)
  have "ensures P (\<lambda>a t. t = s \<and> (\<exists>n. f x = Some n \<and> a = set_delete n m))
      (bindM (deref (f x)) (\<lambda>n. returnM (set_delete n m))) s"
    by (cases "f x") (auto simp: ensures_def monad_defs em.R_refl)
  then show ?case
    unfolding foldM.simps
    by (rule ensures_bindM) (auto intro!: ensures_weaken [OF Cons.IH])
qed

lemma unlisted_policies_result:
  "ensures P (\<lambda>names _. set names \<inter> set (spec_policy_names (Spec (prov s))) = {}) (unlisted_policies ps) s"
  unfolding unlisted_policies_def
proof (rule ensures_bindM [OF collect_names_result])
  fix acc and t :: "'a gstate"
  assume "prov t = prov s \<and> (\<forall>n \<in> set acc. Some n \<in> set (map ip_PolicyName ps))"
  then have t: "prov t = prov s" by simp
  let ?m = "spec_Policies (Spec (prov s))"
  have last: "ensures P (\<lambda>names _. set names \<inter> set (spec_policy_names (Spec (prov s))) = {})
      (remove_names (\<lambda>(_, policy). ps_Name (policy_Spec policy)) policies acc) u"
    if "set policies = set ?m" for policies and u :: "'a gstate"
    using that by (intro ensures_weaken [OF remove_names_result]) (fastforce simp: in_spec_policy_names)
  show "ensures P (\<lambda>names _. set names \<inter> set (spec_policy_names (Spec (prov s))) = {})
     (bindM (getM (\<lambda>s. spec_Policies (Spec (prov s)))) (\<lambda>m. bindM (range_map m)
        (\<lambda>policies. remove_names (\<lambda>(_, policy). ps_Name (policy_Spec policy)) policies acc))) t"
  proof (rule ensures_bindM [where Q = "\<lambda>m _. m = ?m"])
    fix m and u :: "'a gstate"
    assume "m = ?m"
    then show "ensures P (\<lambda>names _. set names \<inter> set (spec_policy_names (Spec (prov s))) = {})
      (bindM (range_map m) (\<lambda>policies. remove_names (\<lambda>(_, policy). ps_Name (policy_Spec policy)) policies acc)) u"
      using last by (intro ensures_bindM [OF ensures_range_map]) auto
  qed (simp add: ensures_getM t)
qed

lemma found_policy_name:
  assumes "arn_ends_in_name E c"
  shows "ensures (spares_policies c l) (\<lambda>(got, _) _. \<forall>p. got = Some p \<longrightarrow> ip_PolicyName p = Some n)
    (GetPolicyByName E c (Some n)) s"
proof -
  have "wp (GetPolicyByName E c (Some n))
     (\<lambda>r t. \<forall>x. r = Ok x \<longrightarrow> (case x of (got, _) \<Rightarrow> \<forall>p. got = Some p \<longrightarrow> ip_PolicyName p = Some n)) s"
    using assms by (auto simp: wp_simps Let_def arn_ends_in_name_def split: prod.splits sum.splits)
      (metis (mono_tags, lifting) case_prod_conv old.sum.simps(6) option.simps(5))
  moreover have "emits (spares_policies c l) (GetPolicyByName E c (Some n))" by (rule spares_ops)
  ultimately show ?thesis
    by (auto simp: ensures_def wp_def keeps_def split: prod.splits) (metis snd_conv)
qed

lemma delete_stale_policy_spares:
  assumes "arn_ends_in_name E c" and "n \<notin> set l"
  shows "emits (spares_policies c l) (delete_stale_policy E c n)"
proof -
  have del: "emits (spares_policies c l) (delete_policy_and_report E c p)" if "ip_PolicyName p = Some n" for p
    unfolding delete_policy_and_report_def that using assms(2)
    by (auto intro!: emits_rules spares_ops emits_DeletePolicy simp: policy_arn_inj)
  have rest: "emits (spares_policies c l) (if exists then
         bindM (ListEntitiesForPolicy E got) (\<lambda>entities.
         bindM (deref got) (\<lambda>policy.
         bindM (if entities = [] then delete_policy_and_report E c policy else returnM ()) (\<lambda>_.
         forM entities (\<lambda>role.
           bindM (deref (pr_RoleName role)) (\<lambda>roleName.
           if 0 < length roleName then
             bindM (DetachRolePolicy E c (ip_PolicyName policy) (pr_RoleName role)) (\<lambda>_.
             delete_policy_and_report E c policy)
           else returnM ())))))
       else returnM ())" if "\<forall>p. got = Some p \<longrightarrow> ip_PolicyName p = Some n" for exists got
    using that by (cases got) (auto intro!: emits_rules spares_ops del)
  have "ensures (spares_policies c l) (\<lambda>_ _. True) (delete_stale_policy E c n) s" for s
    unfolding delete_stale_policy_def
    by (rule ensures_bindM [OF found_policy_name [OF assms(1)]]) (auto intro!: ensures_emits rest)
  then show ?thesis by (simp add: ensures_def keeps_def case_prod_beta)
qed

lemma ensures_same_spec:
  assumes "emits P m" and "keeps same_spec m" and "same_spec s t"
  shows "ensures P (\<lambda>_ t. same_spec s t) m t"
  using ensures_keeps [OF assms(1,2), of t] assms(3)
  by (auto simp: ensures_def same_spec_def split: prod.splits)

lemma same_spec_collect: "keeps same_spec (collect_names f xs)"
  by (auto simp: collect_names_def intro!: ss.keeps_rules)

text \<open>
  C9. The garbage collection never deletes a policy that the specification lists, given that
  status updates hand back the specification they were sent and that IAM returns, at an ARN, the
  policy with the name in that ARN.
\<close>

theorem sync_spares_listed_policies:
  assumes "status_keeps_spec E" and "arn_ends_in_name E c"
  shows "\<exists>es. log (snd (syncAWSIAMResources E c s)) = log s @ es \<and>
    list_all (spares_policies c (spec_policy_names (Spec (prov s)))) es"
proof (rule ensures_log [where Q = "\<lambda>_ _. True"])
  let ?P = "spares_policies c (spec_policy_names (Spec (prov s)))"
  let ?K = "\<lambda>_ t. same_spec s t"
  have tail: "ensures ?P (\<lambda>_ _. True)
      (bindM (unlisted_policies iamPolicies) (\<lambda>deletePolicies.
       bindM (range_map deletePolicies) (\<lambda>policies.
       forM policies (delete_stale_policy E c)))) t" if "same_spec s t" for iamPolicies t
  proof (rule ensures_bindM [OF unlisted_policies_result])
    fix names and u :: "'a gstate"
    assume "set names \<inter> set (spec_policy_names (Spec (prov t))) = {}"
    then have "set names \<inter> set (spec_policy_names (Spec (prov s))) = {}"
      using that by (simp add: same_spec_def)
    then show "ensures ?P (\<lambda>_ _. True)
       (bindM (range_map names) (\<lambda>policies. forM policies (delete_stale_policy E c))) u"
      by (intro ensures_bindM [OF ensures_range_map [where Q = "\<lambda>ys _. set ys = set names"]] ensures_emits)
        (auto intro!: emits_rules delete_stale_policy_spares [OF assms(2)])
  qed
  show "ensures ?P (\<lambda>_ _. True) (syncAWSIAMResources E c) s"
    unfolding syncAWSIAMResources_def Let_def
    by (intro ensures_bindM [OF ensures_same_spec [where s = s]] tail em.keeps_rules spares_ops
        spares_handlers ss.keeps_rules same_spec_handlers [OF assms(1)] same_spec_range_map
        same_spec_collect same_spec_ops [OF same_prov_policy_ops(5)] emits_range_map
        same_spec_ops [OF same_prov_role_ops(9)] ss.keeps_getM em.keeps_getM ss.R_refl) assumption+
qed

text \<open>A world with a stale policy of the custom resource, which two roles of its specification use.\<close>

definition stale_prov :: AWSIAMProvision where
  "stale_prov = zero_AWSIAMProvision\<lparr>
     ObjectMeta := \<lparr>om_Name = ''cr'', om_Namespace = ''ns'', om_ResourceVersion = [],
       om_DeletionTimestamp = None, om_Finalizers = [awsIAMProvisionFinalizerName]\<rparr>,
     Spec := (Spec zero_AWSIAMProvision)\<lparr>spec_EKSClusterName := ''eks'',
       spec_Policies := [(''p'', \<lparr>policy_Spec = \<lparr>ps_Name = Some ''p'', ps_PolicyDocument = Some [], ps_Tags = []\<rparr>\<rparr>)]\<rparr>\<rparr>"

definition stale_role :: "string \<Rightarrow> mem_role" where
  "stale_role n = \<lparr>mr_name = n, mr_doc = [], mr_tags = [], mr_attached = [policy_arn mem_client ''q'']\<rparr>"

definition stale_policy :: "string \<Rightarrow> mem_policy" where
  "stale_policy n = \<lparr>mp_name = n, mp_doc = [], mp_tags = TagsDefine ''eks'' ''ns'' []\<rparr>"

definition stale_mem :: mem where
  "stale_mem = mem_empty\<lparr>m_roles := [stale_role ''a'', stale_role ''b''],
     m_policies := [stale_policy ''p'', stale_policy ''q''], m_prov := Some stale_prov\<rparr>"

lemmas stale_defs = stale_mem_def stale_prov_def stale_role_def stale_policy_def

lemma mem_status_keeps_spec: "status_keeps_spec mem_env"
  by (simp add: status_keeps_spec_def mem_env_simps mem_update_status_def Let_def split: option.splits)

lemma mem_arn_ends_in_name: "arn_ends_in_name mem_env mem_client"
proof -
  have "mp_name p = n" if "find_policy w (policy_arn mem_client n) = Some p" for n p w
    using that by (auto simp: find_policy_def find_Some_iff mp_arn_def policy_arn_inj)
  then show ?thesis
    by (auto simp: arn_ends_in_name_def mem_env_simps sdk_policy_def split: option.splits)
qed

theorem sync_spares_listed_policies_witness:
  "\<exists>es. log (snd (syncAWSIAMResources mem_env mem_client (mem_state stale_mem))) = log (mem_state stale_mem) @ es \<and>
     list_all (spares_policies mem_client (spec_policy_names (Spec (prov (mem_state stale_mem))))) es"
  by (rule sync_spares_listed_policies [OF mem_status_keeps_spec mem_arn_ends_in_name])

section \<open>A policy that several roles use\<close>

text \<open>
  C30. A stale policy is detached from the first role that uses it and then deleted at once,
  before it is detached from the others. IAM refuses to delete a policy that is attached: with two
  roles left the deletion fails, its error ends the reconciliation, and the status is not updated.
\<close>

theorem shared_stale_policy_conflict:
  assumes "GetPolicyByName E c (Some n) s = (Ok (Some p, True), s1)"
    and "ListEntitiesForPolicy E (Some p) s1 = (Ok (e1 # e2 # es), s2)"
    and "ip_PolicyName p = Some n" and "pr_RoleName e1 = Some r1" and "r1 \<noteq> []"
    and "sdk_DetachRolePolicy E (DetachRolePolicyReq (Some (policy_arn c n)) (Some r1)) (world s2) = (Inr (), w3)"
    and "sdk_DeletePolicy E (DeletePolicyReq (Some (policy_arn c n))) w3 = (Inl err, w4)"
    and "\<not> is_no_such_entity err"
  shows "delete_stale_policy E c n s = (Err err, s2\<lparr>world := w4, log := log s2 @
    [Event (IAM (DetachRolePolicyReq (Some (policy_arn c n)) (Some r1))) None,
     Event (IAM (DeletePolicyReq (Some (policy_arn c n)))) (Some err)]\<rparr>)"
proof -
  have "wp (bindM (deref (Some p)) (\<lambda>policy.
         bindM (if e1 # e2 # es = [] then delete_policy_and_report E c policy else returnM ()) (\<lambda>_.
         forM (e1 # e2 # es) (\<lambda>role.
           bindM (deref (pr_RoleName role)) (\<lambda>roleName.
           if 0 < length roleName then
             bindM (DetachRolePolicy E c (ip_PolicyName policy) (pr_RoleName role)) (\<lambda>_.
             delete_policy_and_report E c policy)
           else returnM ())))))
     (\<lambda>r t. (r, t) = (Err err, s2\<lparr>world := w4, log := log s2 @
       [Event (IAM (DetachRolePolicyReq (Some (policy_arn c n)) (Some r1))) None,
        Event (IAM (DeletePolicyReq (Some (policy_arn c n)))) (Some err)]\<rparr>)) s2"
    using assms(3-8) by (simp add: wp_simps delete_policy_and_report_def tolerate_def Let_def)
  then show ?thesis
    using assms(1,2) unfolding delete_stale_policy_def
    by (simp add: bindM_Ok) (rule wp_run, simp)
qed

lemma stale_lookup:
  "GetPolicyByName mem_env mem_client (Some ''q'') (mem_state stale_mem) =
     (Ok (Some (sdk_policy (stale_policy ''q'')), True),
      (mem_state stale_mem)\<lparr>log := [Event (IAM (GetPolicyReq (Some (policy_arn mem_client ''q'')))) None]\<rparr>)"
  "fst (ListEntitiesForPolicy mem_env (Some (sdk_policy (stale_policy ''q''))) ((mem_state stale_mem)\<lparr>log := l\<rparr>)) =
     Ok [\<lparr>pr_RoleName = Some ''a''\<rparr>, \<lparr>pr_RoleName = Some ''b''\<rparr>]"
  "world (snd (ListEntitiesForPolicy mem_env (Some (sdk_policy (stale_policy ''q''))) ((mem_state stale_mem)\<lparr>log := l\<rparr>))) =
     stale_mem"
    apply (rule wp_run, simp add: wp_simps mem_defs stale_defs Let_def)
   apply (simp_all add: ListEntitiesForPolicy_def page_call_def monad_defs mem_defs stale_defs Let_def)
  done

theorem shared_stale_policy_conflict_witness:
  "fst (delete_stale_policy mem_env mem_client ''q'' (mem_state stale_mem)) = Err delete_conflict"
proof -
  let ?s1 = "(mem_state stale_mem)\<lparr>log := [Event (IAM (GetPolicyReq (Some (policy_arn mem_client ''q'')))) None]\<rparr>"
  let ?m = "ListEntitiesForPolicy mem_env (Some (sdk_policy (stale_policy ''q'')))"
  have entities: "?m ?s1 = (Ok [\<lparr>pr_RoleName = Some ''a''\<rparr>, \<lparr>pr_RoleName = Some ''b''\<rparr>], snd (?m ?s1))"
    using stale_lookup(2) by (metis prod.collapse)
  have calls: "sdk_DetachRolePolicy mem_env (DetachRolePolicyReq (Some (policy_arn mem_client ''q'')) (Some ''a''))
      (world (snd (?m ?s1))) = (Inr (), put_role ((stale_role ''a'')\<lparr>mr_attached := []\<rparr>) stale_mem)"
    "sdk_DeletePolicy mem_env (DeletePolicyReq (Some (policy_arn mem_client ''q'')))
      (put_role ((stale_role ''a'')\<lparr>mr_attached := []\<rparr>) stale_mem) =
      (Inl delete_conflict, put_role ((stale_role ''a'')\<lparr>mr_attached := []\<rparr>) stale_mem)"
    by (simp_all add: stale_lookup(3)) (simp_all add: mem_defs stale_defs set_delete_def)
  show ?thesis
    using shared_stale_policy_conflict [OF stale_lookup(1) entities _ _ _ calls]
    by (simp add: sdk_policy_def stale_policy_def is_no_such_entity_def delete_conflict_def)
qed

end
