(* ===== verification/IamService.thy ===== *)
theory IamService
  imports PolicySync GarbageCollection
begin

text \<open>
  The service that the operator drives, as its documentation describes it: what each call of IAM
  does to the roles, the policies under the operator's path, and the attachments between them. The
  state outside stays abstract; a view of it is what the statements speak of. An answer may be an
  error at any time (throttling, missing rights), and an error leaves the view as it was.
\<close>

section \<open>What is seen of IAM\<close>

text \<open>
  Roles with their trust policy as it was given; policies under the operator's path in the client's
  account, by name, with their tags; attachments of those policies, by policy and role name; and the
  names of other policies (AWS managed, or under another path) that are attached to a role.
\<close>

record iam_view =
  v_roles :: "string \<Rightarrow> string option"
  v_policies :: "string \<Rightarrow> iamTag list option"
  v_attached :: "(string \<times> string) set"
  v_foreign :: "string \<Rightarrow> string set"

definition attach_view :: "string \<Rightarrow> string \<Rightarrow> iam_view \<Rightarrow> iam_view" where
  "attach_view n r v = v\<lparr>v_attached := insert (n, r) (v_attached v)\<rparr>"

definition detach_view :: "string \<Rightarrow> string \<Rightarrow> iam_view \<Rightarrow> iam_view" where
  "detach_view n r v = v\<lparr>v_attached := v_attached v - {(n, r)}\<rparr>"

definition policy_view :: "string \<Rightarrow> iamTag list option \<Rightarrow> iam_view \<Rightarrow> iam_view" where
  "policy_view n tags v = v\<lparr>v_policies := (v_policies v)(n := tags)\<rparr>"

definition role_view :: "string \<Rightarrow> string option \<Rightarrow> iam_view \<Rightarrow> iam_view" where
  "role_view n doc v = v\<lparr>v_roles := (v_roles v)(n := doc)\<rparr>"

lemmas view_defs = attach_view_def detach_view_def policy_view_def role_view_def

section \<open>What each call does\<close>

text \<open>\<open>unseen view f\<close>: a call that does not change what is seen.\<close>

definition unseen :: "('w \<Rightarrow> iam_view) \<Rightarrow> ('w, 'a) call \<Rightarrow> bool" where
  "unseen view f = (\<forall>w. view (snd (f w)) = view w)"

definition get_policy_law :: "('w, 'p) env \<Rightarrow> IAMClient \<Rightarrow> ('w \<Rightarrow> iam_view) \<Rightarrow> bool" where
  "get_policy_law E c view = (\<forall>n w r w'. sdk_GetPolicy E (GetPolicyReq (Some (policy_arn c n))) w = (r, w') \<longrightarrow>
     view w' = view w \<and>
     (\<forall>err. r = Inl err \<longrightarrow> is_no_such_entity err \<longrightarrow> v_policies (view w) n = None) \<and>
     (\<forall>p. r = Inr p \<longrightarrow>
       (\<exists>q. p = Some q \<and> ip_PolicyName q = Some n \<and> v_policies (view w) n = Some (ip_Tags q))))"

definition get_role_law :: "('w, 'p) env \<Rightarrow> ('w \<Rightarrow> iam_view) \<Rightarrow> bool" where
  "get_role_law E view = (\<forall>n w r w'. sdk_GetRole E (GetRoleReq (Some n)) w = (r, w') \<longrightarrow>
     view w' = view w \<and>
     (\<forall>err. r = Inl err \<longrightarrow> is_no_such_entity err \<longrightarrow> v_roles (view w) n = None) \<and>
     (\<forall>p. r = Inr p \<longrightarrow>
       (\<exists>q doc must. p = Some q \<and> ir_RoleName q = Some n \<and> v_roles (view w) n = Some doc \<and>
         ir_AssumeRolePolicyDocument q = Some (percent_encode must doc))))"

definition attach_law :: "('w, 'p) env \<Rightarrow> IAMClient \<Rightarrow> ('w \<Rightarrow> iam_view) \<Rightarrow> bool" where
  "attach_law E c view = (\<forall>n r w a w'.
     sdk_AttachRolePolicy E (AttachRolePolicyReq (Some (policy_arn c n)) (Some r)) w = (a, w') \<longrightarrow>
     (\<forall>err. a = Inl err \<longrightarrow> view w' = view w) \<and>
     (\<forall>u. a = Inr u \<longrightarrow> v_policies (view w) n \<noteq> None \<and> v_roles (view w) r \<noteq> None \<and>
        view w' = attach_view n r (view w)))"

definition detach_law :: "('w, 'p) env \<Rightarrow> IAMClient \<Rightarrow> ('w \<Rightarrow> iam_view) \<Rightarrow> bool" where
  "detach_law E c view = (\<forall>n r w a w'.
     sdk_DetachRolePolicy E (DetachRolePolicyReq (Some (policy_arn c n)) (Some r)) w = (a, w') \<longrightarrow>
     (\<forall>err. a = Inl err \<longrightarrow> view w' = view w \<and> (is_no_such_entity err \<longrightarrow> (n, r) \<notin> v_attached (view w))) \<and>
     (\<forall>u. a = Inr u \<longrightarrow> view w' = detach_view n r (view w)))"

text \<open>A policy can be deleted only when no role has it, and a role only when it has no policy.\<close>

definition delete_policy_law :: "('w, 'p) env \<Rightarrow> IAMClient \<Rightarrow> ('w \<Rightarrow> iam_view) \<Rightarrow> bool" where
  "delete_policy_law E c view = (\<forall>n w a w'.
     sdk_DeletePolicy E (DeletePolicyReq (Some (policy_arn c n))) w = (a, w') \<longrightarrow>
     (\<forall>err. a = Inl err \<longrightarrow> view w' = view w \<and> (is_no_such_entity err \<longrightarrow> v_policies (view w) n = None)) \<and>
     (\<forall>u. a = Inr u \<longrightarrow> (\<forall>r. (n, r) \<notin> v_attached (view w)) \<and> view w' = policy_view n None (view w)))"

definition create_policy_law :: "('w, 'p) env \<Rightarrow> ('w \<Rightarrow> iam_view) \<Rightarrow> bool" where
  "create_policy_law E view = (\<forall>n doc desc tags w a w'.
     sdk_CreatePolicy E (CreatePolicyReq (Some n) doc desc (Some pathPrefix) tags) w = (a, w') \<longrightarrow>
     (\<forall>err. a = Inl err \<longrightarrow> view w' = view w) \<and>
     (\<forall>x. a = Inr x \<longrightarrow> v_policies (view w) n = None \<and> view w' = policy_view n (Some tags) (view w)))"

definition create_role_law :: "('w, 'p) env \<Rightarrow> ('w \<Rightarrow> iam_view) \<Rightarrow> bool" where
  "create_role_law E view = (\<forall>n doc desc tags w a w'.
     sdk_CreateRole E (CreateRoleReq (Some n) (Some doc) desc (Some pathPrefix) tags) w = (a, w') \<longrightarrow>
     (\<forall>err. a = Inl err \<longrightarrow> view w' = view w) \<and>
     (\<forall>x. a = Inr x \<longrightarrow> v_roles (view w) n = None \<and> view w' = role_view n (Some doc) (view w) \<and>
        (\<forall>q. x = Some q \<longrightarrow> ir_RoleName q = Some n)))"

definition delete_role_law :: "('w, 'p) env \<Rightarrow> ('w \<Rightarrow> iam_view) \<Rightarrow> bool" where
  "delete_role_law E view = (\<forall>n w a w'. sdk_DeleteRole E (DeleteRoleReq (Some n)) w = (a, w') \<longrightarrow>
     (\<forall>err. a = Inl err \<longrightarrow> view w' = view w \<and> (is_no_such_entity err \<longrightarrow> v_roles (view w) n = None)) \<and>
     (\<forall>u. a = Inr u \<longrightarrow> (\<forall>m. (m, n) \<notin> v_attached (view w)) \<and> view w' = role_view n None (view w)))"

definition update_role_law :: "('w, 'p) env \<Rightarrow> ('w \<Rightarrow> iam_view) \<Rightarrow> bool" where
  "update_role_law E view = (\<forall>n doc w a w'.
     sdk_UpdateAssumeRolePolicy E (UpdateAssumeRolePolicyReq (Some n) (Some doc)) w = (a, w') \<longrightarrow>
     (\<forall>err. a = Inl err \<longrightarrow> view w' = view w \<and> (is_no_such_entity err \<longrightarrow> v_roles (view w) n = None)) \<and>
     (\<forall>u. a = Inr u \<longrightarrow> v_roles (view w) n \<noteq> None \<and> view w' = role_view n (Some doc) (view w)))"

text \<open>
  The policies attached to a role, page by page: \<open>names v p\<close> are those that paginator \<open>p\<close> still has
  to serve. They are policies of the operator attached to the role, or foreign ones; and every
  policy of the operator that exists and is attached is served.
\<close>

definition attached_pages_law ::
  "('w, 'p) env \<Rightarrow> ('w \<Rightarrow> iam_view) \<Rightarrow> (iam_view \<Rightarrow> 'p \<Rightarrow> string set) \<Rightarrow> bool" where
  "attached_pages_law E view names =
     ((\<forall>p w r p' w'. sdk_NextAttachedPolicies E p w = (r, p', w') \<longrightarrow> view w' = view w \<and>
         (\<forall>items. r = Inr items \<longrightarrow> (\<exists>ns. map ap_PolicyName items = map Some ns \<and>
              names (view w) p = set ns \<union> names (view w) p'))) \<and>
      (\<forall>p v. \<not> sdk_HasMorePages E p \<longrightarrow> names v p = {}) \<and>
      (\<forall>r v. let served = names v (sdk_NewPaginator E (ListAttachedRolePoliciesReq 50 (Some r))) in
         served \<subseteq> {n. (n, r) \<in> v_attached v} \<union> v_foreign v r \<and>
         {n. (n, r) \<in> v_attached v \<and> v_policies v n \<noteq> None} \<subseteq> served))"

text \<open>Everything else leaves the view alone.\<close>

definition other_calls_law :: "('w, 'p) env \<Rightarrow> ('w \<Rightarrow> iam_view) \<Rightarrow> bool" where
  "other_calls_law E view =
     ((\<forall>p. unseen view (k8s_UpdateStatus E p)) \<and> (\<forall>p. unseen view (k8s_Update E p)) \<and>
      (\<forall>w. view (snd (clock_Now E w)) = view w))"

definition iam_documented ::
  "('w, 'p) env \<Rightarrow> IAMClient \<Rightarrow> ('w \<Rightarrow> iam_view) \<Rightarrow> (iam_view \<Rightarrow> 'p \<Rightarrow> string set) \<Rightarrow> bool" where
  "iam_documented E c view names =
     (get_policy_law E c view \<and> get_role_law E view \<and> attach_law E c view \<and> detach_law E c view \<and>
      delete_policy_law E c view \<and> create_policy_law E view \<and> create_role_law E view \<and>
      delete_role_law E view \<and> update_role_law E view \<and> attached_pages_law E view names \<and>
      other_calls_law E view)"

section \<open>Partial correctness\<close>

text \<open>\<open>yields Q m s\<close>: if \<open>m\<close> returns a value from \<open>s\<close>, the value and the state left satisfy \<open>Q\<close>.\<close>

definition yields :: "('a \<Rightarrow> 's \<Rightarrow> bool) \<Rightarrow> ('s, 'a) gop \<Rightarrow> 's \<Rightarrow> bool" where
  "yields Q m s = (\<forall>x t. m s = (Ok x, t) \<longrightarrow> Q x t)"

lemma yields_wp: "wp m (\<lambda>r t. case r of Ok x \<Rightarrow> Q x t | _ \<Rightarrow> True) s \<Longrightarrow> yields Q m s"
  by (auto simp: yields_def wp_def)

lemma yields_bindM:
  "yields Q m s \<Longrightarrow> (\<And>x t. Q x t \<Longrightarrow> yields Q' (f x) t) \<Longrightarrow> yields Q' (bindM m f) s"
  by (auto simp: yields_def elim!: bindM_Ok_cases)

lemma yields_weaken: "yields Q m s \<Longrightarrow> (\<And>x t. Q x t \<Longrightarrow> Q' x t) \<Longrightarrow> yields Q' m s"
  by (auto simp: yields_def)

lemma yields_returnM [simp]: "yields Q (returnM x) s = Q x s"
  by (simp add: yields_def returnM_def)

lemma yields_fails [simp]: "yields Q (errM e) s" "yields Q panicM s" "yields Q hangM s"
  by (simp_all add: yields_def errM_def panicM_def hangM_def)

lemma yields_getM: "Q (f s) s \<Longrightarrow> yields Q (getM f) s"
  by (simp add: yields_def getM_def)

lemma yields_modifyM: "Q () (f s) \<Longrightarrow> yields Q (modifyM f) s"
  by (simp add: yields_def modifyM_def)

lemma yields_deref: "(\<And>x. p = Some x \<Longrightarrow> Q x s) \<Longrightarrow> yields Q (deref p) s"
  by (cases p) (auto simp: yields_def monad_defs)

lemma yields_liftM: "(\<And>x. r = Inr x \<Longrightarrow> Q x s) \<Longrightarrow> yields Q (liftM r) s"
  by (cases r) (auto simp: yields_def monad_defs)

lemma yields_range_map:
  "(\<And>ys cs. set ys = set m \<Longrightarrow> Q ys (s\<lparr>choices := cs\<rparr>)) \<Longrightarrow> yields Q (range_map m) s"
  using ensures_range_map [of m Q s "\<lambda>_. True"] by (auto simp: yields_def ensures_def)

text \<open>A loop whose rounds keep \<open>I\<close>, each establishing its own \<open>P\<close>, which later rounds keep.\<close>

lemma yields_forM:
  assumes "I s" and "\<And>x t. x \<in> set xs \<Longrightarrow> I t \<Longrightarrow> yields (\<lambda>_. I) (f x) t"
  shows "yields (\<lambda>_. I) (forM xs f) s"
  using assms
proof (induction xs arbitrary: s)
  case Nil
  then show ?case by simp
next
  case (Cons x xs)
  then show ?case by (auto intro!: yields_bindM [of "\<lambda>_. I"])
qed

lemma yields_forM_each:
  assumes "I s"
    and "\<And>x t. x \<in> set xs \<Longrightarrow> I t \<Longrightarrow> yields (\<lambda>_ u. I u \<and> P x u) (f x) t"
    and "\<And>x y t. x \<in> set xs \<Longrightarrow> y \<in> set xs \<Longrightarrow> I t \<Longrightarrow> P y t \<Longrightarrow> yields (\<lambda>_. P y) (f x) t"
  shows "yields (\<lambda>_ u. I u \<and> (\<forall>x \<in> set xs. P x u)) (forM xs f) s"
  using assms
proof (induction xs arbitrary: s)
  case Nil
  then show ?case by simp
next
  case (Cons x xs)
  have rest: "yields (\<lambda>_ u. I u \<and> (\<forall>z \<in> set xs. P z u)) (forM xs f) t" if "I t" for t
    using Cons.IH [OF that] Cons.prems(2,3) by simp
  have keep: "yields (\<lambda>_ u. I u \<and> P x u) (forM xs f) t" if "I t" "P x t" for t
  proof (rule yields_forM [where I = "\<lambda>u. I u \<and> P x u"])
    fix z u assume "z \<in> set xs" "I u \<and> P x u"
    then show "yields (\<lambda>_ u. I u \<and> P x u) (f z) u"
      using Cons.prems(2) [of z u] Cons.prems(3) [of z x u] by (auto simp: yields_def)
  qed (use that in simp)
  have "yields (\<lambda>_ u. I u \<and> P x u) (f x) s" using Cons.prems(1,2) by simp
  then have "yields (\<lambda>_ u. I u \<and> (\<forall>z \<in> set (x # xs). P z u)) (bindM (f x) (\<lambda>_. forM xs f)) s"
  proof (rule yields_bindM)
    fix a t assume t: "I t \<and> P x t"
    show "yields (\<lambda>_ u. I u \<and> (\<forall>z \<in> set (x # xs). P z u)) (forM xs f) t"
      using rest [of t] keep [of t] t by (auto simp: yields_def)
  qed
  then show ?case by simp
qed

section \<open>The operations over the view\<close>

definition same_view :: "('w \<Rightarrow> iam_view) \<Rightarrow> 'w gstate \<Rightarrow> 'w gstate \<Rightarrow> bool" where
  "same_view view s t = (view (world t) = view (world s))"

interpretation sv: step_relation "same_view view :: 'w gstate \<Rightarrow> 'w gstate \<Rightarrow> bool" for view
  by standard (auto simp: same_view_def)

lemma same_view_request: "unseen view f \<Longrightarrow> keeps (same_view view) (request_call rq f)"
  by (auto simp: keeps_def same_view_def request_call_def unseen_def split: prod.splits) (metis snd_conv)

lemma same_view_local:
  "keeps (same_view view) (update_status f)" "keeps (same_view view) (range_map m)"
  "keeps (same_view view) (modifyM (prov_update g))"
  by (auto simp: keeps_def same_view_def update_status_def modifyM_def range_map_def split: list.splits)

lemma laws_other:
  assumes "iam_documented E c view names"
  shows "keeps (same_view view) (now E)" "keeps (same_view view) (write_status E)"
proof -
  have "view (snd (clock_Now E w)) = view w" and "unseen view (k8s_UpdateStatus E p)" for w p
    using assms by (simp_all add: iam_documented_def other_calls_law_def)
  then show "keeps (same_view view) (now E)" "keeps (same_view view) (write_status E)"
    by (auto simp: keeps_def same_view_def now_def write_status_def monad_defs request_call_def unseen_def
        split: prod.splits sum.splits) (metis snd_conv)+
qed

text \<open>The answers of the lookups.\<close>

lemma get_policy_answer:
  assumes "iam_documented E c view names"
    and "sdk_GetPolicy E (GetPolicyReq (Some (policy_arn c n))) w = (r, w')"
  shows "view w' = view w"
    and "r = Inl err \<Longrightarrow> is_no_such_entity err \<Longrightarrow> v_policies (view w) n = None"
    and "r = Inr p \<Longrightarrow> \<exists>q. p = Some q \<and> ip_PolicyName q = Some n \<and> v_policies (view w) n = Some (ip_Tags q)"
  using assms unfolding iam_documented_def get_policy_law_def by blast+

lemma get_role_answer:
  assumes "iam_documented E c view names" and "sdk_GetRole E (GetRoleReq (Some n)) w = (r, w')"
  shows "view w' = view w"
    and "r = Inl err \<Longrightarrow> is_no_such_entity err \<Longrightarrow> v_roles (view w) n = None"
    and "r = Inr x \<Longrightarrow> \<exists>q doc must. x = Some q \<and> ir_RoleName q = Some n \<and> v_roles (view w) n = Some doc \<and>
         ir_AssumeRolePolicyDocument q = Some (percent_encode must doc)"
  using assms unfolding iam_documented_def get_role_law_def by blast+

lemma view_GetPolicyByName:
  assumes "iam_documented E c view names"
  shows "yields (\<lambda>(got, found) t. view (world t) = view (world s) \<and> prov t = prov s \<and>
      (if found then \<exists>q. got = Some q \<and> ip_PolicyName q = Some n \<and> v_policies (view (world s)) n = Some (ip_Tags q)
       else v_policies (view (world s)) n = None))
    (GetPolicyByName E c (Some n)) s"
proof -
  obtain r w' where call: "sdk_GetPolicy E (GetPolicyReq (Some (policy_arn c n))) (world s) = (r, w')" by fastforce
  show ?thesis
    using get_policy_answer [OF assms call] call
    by (intro yields_wp, cases r) (simp_all add: wp_simps Let_def)
qed

lemma view_GetRoleByName:
  assumes "iam_documented E c view names"
  shows "yields (\<lambda>(got, found) t. view (world t) = view (world s) \<and> prov t = prov s \<and>
      (if found then \<exists>q doc must. got = Some q \<and> ir_RoleName q = Some n \<and> v_roles (view (world s)) n = Some doc \<and>
           ir_AssumeRolePolicyDocument q = Some (percent_encode must doc)
       else v_roles (view (world s)) n = None))
    (GetRoleByName E (Some n)) s"
proof -
  obtain r w' where call: "sdk_GetRole E (GetRoleReq (Some n)) (world s) = (r, w')" by fastforce
  show ?thesis
    using get_role_answer [OF assms call] call
    by (intro yields_wp, cases r) (simp_all add: wp_simps Let_def)
qed

text \<open>The lookups never change the view, whatever they return.\<close>

lemma same_view_lookups:
  assumes "iam_documented E c view names"
  shows "keeps (same_view view) (GetPolicyByName E c (Some n))" "keeps (same_view view) (GetRoleByName E (Some n))"
proof -
  have "unseen view (sdk_GetPolicy E (GetPolicyReq (Some (policy_arn c n))))"
    "unseen view (sdk_GetRole E (GetRoleReq (Some n)))"
    unfolding unseen_def
    using get_policy_answer(1) [OF assms] get_role_answer(1) [OF assms] by (metis prod.collapse)+
  then show "keeps (same_view view) (GetPolicyByName E c (Some n))" "keeps (same_view view) (GetRoleByName E (Some n))"
    by (auto simp: GetPolicyByName_def GetRoleByName_def generatePolicyARN_bind Let_def
        intro!: sv.keeps_rules same_view_request)
qed

lemma GetPolicyByName_None: "GetPolicyByName E c None = panicM"
  by (simp add: GetPolicyByName_def generatePolicyARN_bind)

lemma same_view_status:
  assumes "iam_documented E c view names"
    and "\<And>r. result = RoleResult (Some r) \<Longrightarrow> ir_RoleName r \<noteq> None"
  shows "keeps (same_view view) (updateCRDStatus E (Some c) crdPhase phase message result)"
proof -
  note [intro!] = sv.keeps_rules same_view_lookups [OF assms(1)] laws_other [OF assms(1)] same_view_local
  show ?thesis
  proof (cases result)
    case NoResult
    then show ?thesis by (auto simp: updateCRDStatus_def)
  next
    case (RoleResult r)
    then show ?thesis
      using assms(2) by (cases r) (auto simp: updateCRDStatus_def update_role_status_def)
  next
    case (PolicyResult p)
    then show ?thesis
    proof (cases p)
      case None
      then show ?thesis using PolicyResult by (auto simp: updateCRDStatus_def update_policy_status_def)
    next
      case (Some q)
      then show ?thesis
        using PolicyResult
        by (cases "ip_PolicyName q")
          (auto simp: updateCRDStatus_def update_policy_status_def GetPolicyByName_None)
    qed
  qed
qed

text \<open>The operations that change the view, when they succeed.\<close>

lemma view_AttachRolePolicy:
  assumes "iam_documented E c view names"
  shows "yields (\<lambda>_ t. v_policies (view (world s)) n \<noteq> None \<and> v_roles (view (world s)) r \<noteq> None \<and>
      view (world t) = attach_view n r (view (world s)) \<and> prov t = prov s)
    (AttachRolePolicy E c (Some n) (Some r)) s"
proof -
  obtain a w' where call: "sdk_AttachRolePolicy E (AttachRolePolicyReq (Some (policy_arn c n)) (Some r)) (world s) = (a, w')"
    by fastforce
  have "a = Inr u \<Longrightarrow> v_policies (view (world s)) n \<noteq> None \<and> v_roles (view (world s)) r \<noteq> None \<and>
      view w' = attach_view n r (view (world s))" for u
    using assms call unfolding iam_documented_def attach_law_def by blast
  then show ?thesis using call by (intro yields_wp, cases a) (simp_all add: wp_simps Let_def)
qed

lemma detach_view_absent [simp]: "(n, r) \<notin> v_attached v \<Longrightarrow> detach_view n r v = v"
  by (simp add: detach_view_def)

lemma policy_view_absent [simp]: "v_policies v n = None \<Longrightarrow> policy_view n None v = v"
  by (cases v) (auto simp: policy_view_def fun_upd_idem)

lemma role_view_absent [simp]: "v_roles v n = None \<Longrightarrow> role_view n None v = v"
  by (cases v) (auto simp: role_view_def fun_upd_idem)

lemma view_DetachRolePolicy:
  assumes "iam_documented E c view names"
  shows "yields (\<lambda>_ t. view (world t) = detach_view n r (view (world s)) \<and> prov t = prov s)
    (DetachRolePolicy E c (Some n) (Some r)) s"
proof -
  obtain a w' where call: "sdk_DetachRolePolicy E (DetachRolePolicyReq (Some (policy_arn c n)) (Some r)) (world s) = (a, w')"
    by fastforce
  have "a = Inr u \<Longrightarrow> view w' = detach_view n r (view (world s))"
    and "a = Inl err \<Longrightarrow> is_no_such_entity err \<Longrightarrow> view w' = detach_view n r (view (world s))" for u err
    using assms call unfolding iam_documented_def detach_law_def by (blast, metis detach_view_absent)
  then show ?thesis using call by (intro yields_wp, cases a) (simp_all add: wp_simps Let_def tolerate_def)
qed

lemma view_DeletePolicy:
  assumes "iam_documented E c view names"
  shows "yields (\<lambda>_ t. view (world t) = policy_view n None (view (world s)) \<and> prov t = prov s \<and>
      (v_policies (view (world s)) n \<noteq> None \<longrightarrow> (\<forall>r. (n, r) \<notin> v_attached (view (world s)))))
    (DeletePolicy E c (Some n)) s"
proof -
  obtain a w' where call: "sdk_DeletePolicy E (DeletePolicyReq (Some (policy_arn c n))) (world s) = (a, w')"
    by fastforce
  have "a = Inr u \<Longrightarrow> view w' = policy_view n None (view (world s)) \<and> (\<forall>r. (n, r) \<notin> v_attached (view (world s)))"
    and "a = Inl err \<Longrightarrow> is_no_such_entity err \<Longrightarrow>
      view w' = policy_view n None (view (world s)) \<and> v_policies (view (world s)) n = None" for u err
    using assms call unfolding iam_documented_def delete_policy_law_def by (blast, metis policy_view_absent)
  then show ?thesis using call by (intro yields_wp, cases a) (auto simp add: wp_simps Let_def tolerate_def)
qed

lemma view_CreatePolicy:
  assumes "iam_documented E c view names"
  shows "yields (\<lambda>result t. prov t = prov s \<and> (case result of
        None \<Rightarrow> view (world t) = view (world s)
      | Some _ \<Rightarrow> v_policies (view (world s)) n = None \<and> view (world t) = policy_view n (Some tags) (view (world s))))
    (CreatePolicy E (Some n) doc desc tags) s"
proof -
  obtain a w' where call: "sdk_CreatePolicy E (CreatePolicyReq (Some n) doc desc (Some pathPrefix) tags) (world s) = (a, w')"
    by fastforce
  have "a = Inr x \<Longrightarrow> v_policies (view (world s)) n = None \<and> view w' = policy_view n (Some tags) (view (world s))"
    and "a = Inl err \<Longrightarrow> view w' = view (world s)" for x err
    using assms call unfolding iam_documented_def create_policy_law_def by blast+
  then show ?thesis
    using call by (intro yields_wp, cases a) (auto simp add: wp_simps Let_def split: option.splits)
qed

lemma view_CreateRole:
  assumes "iam_documented E c view names"
  shows "yields (\<lambda>result t. prov t = prov s \<and> (case result of
        None \<Rightarrow> view (world t) = view (world s)
      | Some q \<Rightarrow> ir_RoleName q = Some n \<and> v_roles (view (world s)) n = None \<and>
          view (world t) = role_view n (Some doc) (view (world s))))
    (CreateRole E (Some n) (Some doc) desc tags) s"
proof -
  obtain a w' where call: "sdk_CreateRole E (CreateRoleReq (Some n) (Some doc) desc (Some pathPrefix) tags) (world s) = (a, w')"
    by fastforce
  have "a = Inr x \<Longrightarrow> v_roles (view (world s)) n = None \<and> view w' = role_view n (Some doc) (view (world s)) \<and>
      (\<forall>q. x = Some q \<longrightarrow> ir_RoleName q = Some n)"
    and "a = Inl err \<Longrightarrow> view w' = view (world s)" for x err
    using assms call unfolding iam_documented_def create_role_law_def by blast+
  then show ?thesis
    using call by (intro yields_wp, cases a) (auto simp add: wp_simps Let_def split: option.splits)
qed

lemma view_UpdateRole:
  assumes "iam_documented E c view names"
  shows "yields (\<lambda>_ t. prov t = prov s \<and> (v_roles (view (world s)) n \<noteq> None \<longrightarrow>
      view (world t) = role_view n (Some doc) (view (world s))))
    (UpdateRole E (Some n) (Some doc)) s"
proof -
  obtain a w' where call: "sdk_UpdateAssumeRolePolicy E (UpdateAssumeRolePolicyReq (Some n) (Some doc)) (world s) = (a, w')"
    by fastforce
  have "a = Inr u \<Longrightarrow> view w' = role_view n (Some doc) (view (world s))"
    and "a = Inl err \<Longrightarrow> is_no_such_entity err \<Longrightarrow> v_roles (view (world s)) n = None" for u err
    using assms call unfolding iam_documented_def update_role_law_def by blast+
  then show ?thesis using call by (intro yields_wp, cases a) (auto simp add: wp_simps Let_def tolerate_def)
qed

lemma view_DeleteRole:
  assumes "iam_documented E c view names"
  shows "yields (\<lambda>_ t. prov t = prov s \<and> view (world t) = role_view n None (view (world s)))
    (DeleteRole E (Some n)) s"
proof -
  obtain a w' where call: "sdk_DeleteRole E (DeleteRoleReq (Some n)) (world s) = (a, w')"
    by fastforce
  have "a = Inr u \<Longrightarrow> view w' = role_view n None (view (world s))"
    and "a = Inl err \<Longrightarrow> is_no_such_entity err \<Longrightarrow> view w' = role_view n None (view (world s))" for u err
    using assms call unfolding iam_documented_def delete_role_law_def by (blast, metis role_view_absent)
  then show ?thesis using call by (intro yields_wp, cases a) (auto simp add: wp_simps Let_def tolerate_def)
qed

section \<open>Listing the policies of a role\<close>

text \<open>The names of the policies among \<open>ns\<close> that exist under the operator's path.\<close>

definition existing :: "iam_view \<Rightarrow> string set \<Rightarrow> string set" where
  "existing v ns = {n \<in> ns. v_policies v n \<noteq> None}"

lemma existing_Un: "existing v (A \<union> B) = existing v A \<union> existing v B"
  by (auto simp: existing_def)

lemma existing_empty [simp]: "existing v {} = {}"
  by (simp add: existing_def)

abbreviation listing_body ::
  "('w, 'p) env \<Rightarrow> IAMClient \<Rightarrow> iamAttachedPolicy \<Rightarrow> iamPolicy list \<Rightarrow> ('w, iamPolicy list) op" where
  "listing_body E c item policies \<equiv> bindM (GetPolicyByName E c (ap_PolicyName item)) (\<lambda>(policy, exists).
     if exists then bindM (deref policy) (\<lambda>p. returnM (policies @ [p])) else returnM policies)"

lemma view_listing_body:
  fixes acc :: "iamPolicy list" and s :: "'w gstate"
  assumes "iam_documented E c view names" and "ap_PolicyName item = Some n"
  shows "yields (\<lambda>ps t. view (world t) = view (world s) \<and> prov t = prov s \<and>
      ip_PolicyName ` set ps = ip_PolicyName ` set acc \<union> Some ` existing (view (world s)) {n})
    (listing_body E c item acc) s"
  unfolding assms(2)
proof (rule yields_bindM [OF view_GetPolicyByName [OF assms(1)]])
  fix x :: "iamPolicy option \<times> bool" and t :: "'w gstate"
  assume x: "(\<lambda>(got, found) t. view (world t) = view (world s) \<and> prov t = prov s \<and>
      (if found then \<exists>q. got = Some q \<and> ip_PolicyName q = Some n \<and> v_policies (view (world s)) n = Some (ip_Tags q)
       else v_policies (view (world s)) n = None)) x t"
  obtain got found where "x = (got, found)" by fastforce
  then show "yields (\<lambda>ps t. view (world t) = view (world s) \<and> prov t = prov s \<and>
      ip_PolicyName ` set ps = ip_PolicyName ` set acc \<union> Some ` existing (view (world s)) {n})
    (case x of (policy, exists) \<Rightarrow>
       if exists then bindM (deref policy) (\<lambda>p. returnM (acc @ [p])) else returnM acc) t"
    using x by (cases found) (auto simp: existing_def)
qed

lemma view_listing_fold:
  fixes acc :: "iamPolicy list" and s :: "'w gstate"
  assumes "iam_documented E c view names" and "map ap_PolicyName items = map Some ns"
  shows "yields (\<lambda>ps t. view (world t) = view (world s) \<and> prov t = prov s \<and>
      ip_PolicyName ` set ps = ip_PolicyName ` set acc \<union> Some ` existing (view (world s)) (set ns))
    (foldM (listing_body E c) items acc) s"
  using assms(2)
proof (induction items arbitrary: ns acc s)
  case Nil
  then show ?case by simp
next
  case (Cons item items)
  then obtain n ns' where ns: "ns = n # ns'" "ap_PolicyName item = Some n" "map ap_PolicyName items = map Some ns'"
    by auto
  have rest: "yields (\<lambda>ps t. view (world t) = view (world u) \<and> prov t = prov u \<and>
      ip_PolicyName ` set ps = ip_PolicyName ` set acc' \<union> Some ` existing (view (world u)) (set ns'))
    (foldM (listing_body E c) items acc') u" for acc' :: "iamPolicy list" and u :: "'w gstate"
    using Cons.IH [OF ns(3)] .
  have split: "existing v (set ns) = existing v {n} \<union> existing v (set ns')" for v
    by (auto simp: ns(1) existing_def)
  show ?case
    unfolding foldM.simps
  proof (rule yields_bindM [OF view_listing_body [OF assms(1) ns(2)]])
    fix acc' :: "iamPolicy list" and u :: "'w gstate"
    assume u: "view (world u) = view (world s) \<and> prov u = prov s \<and>
      ip_PolicyName ` set acc' = ip_PolicyName ` set acc \<union> Some ` existing (view (world s)) {n}"
    show "yields (\<lambda>ps t. view (world t) = view (world s) \<and> prov t = prov s \<and>
      ip_PolicyName ` set ps = ip_PolicyName ` set acc \<union> Some ` existing (view (world s)) (set ns))
      (foldM (listing_body E c) items acc') u"
      by (rule yields_weaken [OF rest]) (simp add: u split image_Un Un_assoc)
  qed
qed

lemma view_listing_loop:
  fixes acc :: "iamPolicy list" and s :: "'w gstate"
  assumes "iam_documented E c view names"
  shows "yields (\<lambda>ps t. view (world t) = view (world s) \<and> prov t = prov s \<and>
      ip_PolicyName ` set ps = ip_PolicyName ` set acc \<union> Some ` existing (view (world s)) (names (view (world s)) p))
    (pages_loop E rq (sdk_NextAttachedPolicies E) (listing_body E c) k p acc) s"
proof (induction k arbitrary: p acc s)
  case 0
  have "names v p = {}" if "\<not> sdk_HasMorePages E p" for v
    using that assms unfolding iam_documented_def attached_pages_law_def by blast
  then show ?case by (cases "sdk_HasMorePages E p") simp_all
next
  case (Suc k)
  show ?case
  proof (cases "sdk_HasMorePages E p")
    case False
    then have "names v p = {}" for v
      using assms unfolding iam_documented_def attached_pages_law_def by blast
    then show ?thesis using False by simp
  next
    case True
    obtain r p' w' where call: "sdk_NextAttachedPolicies E p (world s) = (r, p', w')" by (metis prod_cases3)
    have same: "view w' = view (world s)"
      and page: "r = Inr items \<Longrightarrow> \<exists>ns. map ap_PolicyName items = map Some ns \<and>
         names (view (world s)) p = set ns \<union> names (view (world s)) p'" for items
      using assms call unfolding iam_documented_def attached_pages_law_def by blast+
    let ?s1 = "after s rq (error_of r) w'"
    show ?thesis
    proof (cases r)
      case (Inl err)
      then show ?thesis using True call by (simp add: yields_def page_call_def bindM_def errM_def)
    next
      case (Inr items)
      then obtain ns where ns: "map ap_PolicyName items = map Some ns"
        "names (view (world s)) p = set ns \<union> names (view (world s)) p'" using page by blast
      have "yields (\<lambda>ps t. view (world t) = view w' \<and> prov t = prov s \<and>
          ip_PolicyName ` set ps = ip_PolicyName ` set acc \<union>
            Some ` existing (view w') (set ns) \<union> Some ` existing (view w') (names (view w') p'))
        (bindM (foldM (listing_body E c) items acc) (pages_loop E rq (sdk_NextAttachedPolicies E) (listing_body E c) k p')) ?s1"
        by (rule yields_bindM [OF view_listing_fold [OF assms ns(1)]])
          (use yields_weaken [OF Suc.IH] in auto)
      then show ?thesis
        using True call Inr same ns(2)
        by (simp add: yields_def page_call_def bindM_Ok existing_Un image_Un Un_assoc)
    qed
  qed
qed

lemma view_ListAttachedRolePolicies:
  assumes "iam_documented E c view names"
  shows "yields (\<lambda>ps t. view (world t) = view (world s) \<and> prov t = prov s \<and>
      (\<exists>ns. ip_PolicyName ` set ps = Some ` ns \<and>
        ns \<subseteq> {n. (n, r) \<in> v_attached (view (world s))} \<union> v_foreign (view (world s)) r \<and>
        {n. (n, r) \<in> v_attached (view (world s)) \<and> v_policies (view (world s)) n \<noteq> None} \<subseteq> ns))
    (ListAttachedRolePolicies E c (Some r)) s"
proof -
  let ?v = "view (world s)"
  let ?served = "names ?v (sdk_NewPaginator E (ListAttachedRolePoliciesReq 50 (Some r)))"
  have "?served \<subseteq> {n. (n, r) \<in> v_attached ?v} \<union> v_foreign ?v r"
    and "{n. (n, r) \<in> v_attached ?v \<and> v_policies ?v n \<noteq> None} \<subseteq> ?served"
    using assms unfolding iam_documented_def attached_pages_law_def by (auto simp: Let_def)
  then show ?thesis
    unfolding ListAttachedRolePolicies_def Let_def
    by (intro yields_weaken [OF view_listing_loop [OF assms]])
      (auto simp: existing_def intro!: exI [of _ "existing ?v ?served"])
qed

end
