(* ===== verification/Conduct.thy ===== *)
theory Conduct
  imports IamService
begin

text \<open>
  Conduct: an operation started where \<open>I\<close> holds makes only requests that satisfy \<open>P\<close>, whatever its
  outcome, and leaves \<open>I\<close> true when it returns. The rules for sequences hand on what the first part
  is known to return.
\<close>

definition obeys :: "('w gstate \<Rightarrow> bool) \<Rightarrow> (event \<Rightarrow> bool) \<Rightarrow> ('w, 'a) op \<Rightarrow> bool" where
  "obeys I P m = (\<forall>s. I s \<longrightarrow> ensures P (\<lambda>_. I) m s)"

lemma obeysD: "obeys I P m \<Longrightarrow> I s \<Longrightarrow> ensures P (\<lambda>_. I) m s"
  by (simp add: obeys_def)

lemma obeys_log: "obeys I P m \<Longrightarrow> I s \<Longrightarrow> \<exists>es. log (snd (m s)) = log s @ es \<and> list_all P es"
  by (rule ensures_log) (rule obeysD)

lemma obeys_keeps:
  assumes "emits P m" and "\<And>s. I s \<Longrightarrow> yields (\<lambda>_. I) m s"
  shows "obeys I P m"
  using assms by (auto simp: obeys_def ensures_def yields_def keeps_def split: prod.splits) (metis snd_conv)

lemma obeys_closed:
  assumes "emits P m" and "keeps R m" and "\<And>s t. I s \<Longrightarrow> R s t \<Longrightarrow> I t"
  shows "obeys I P m"
  by (rule obeys_keeps [OF assms(1)]) (use assms(2,3) in \<open>auto simp: yields_def keeps_def\<close>, metis snd_conv)

lemma obeys_bind:
  assumes "obeys I P m" and "\<And>s x. I s \<Longrightarrow> fst (m s) = Ok x \<Longrightarrow> obeys I P (f x)"
  shows "obeys I P (bindM m f)"
  unfolding obeys_def
proof (intro allI impI)
  fix s
  assume s: "I s"
  have "ensures P (\<lambda>x t. I t \<and> fst (m s) = Ok x) m s"
    using obeysD [OF assms(1) s] by (auto simp: ensures_def)
  then show "ensures P (\<lambda>_. I) (bindM m f) s"
    by (rule ensures_bindM) (use assms(2) [OF s] obeysD in blast)
qed

lemma obeys_bind_yields:
  assumes "obeys I P m" and "\<And>s. I s \<Longrightarrow> yields (\<lambda>x _. Q x) m s" and "\<And>x. Q x \<Longrightarrow> obeys I P (f x)"
  shows "obeys I P (bindM m f)"
  by (rule obeys_bind [OF assms(1)]) (use assms(2,3) in \<open>auto simp: yields_def prod_eq_iff\<close>)

lemma obeys_bind_any:
  "obeys I P m \<Longrightarrow> (\<And>x. obeys I P (f x)) \<Longrightarrow> obeys I P (bindM m f)"
  by (rule obeys_bind)

lemma obeys_basic [intro]:
  "obeys I P (returnM x)" "obeys I P (errM e)" "obeys I P panicM" "obeys I P hangM" "obeys I P (getM g)"
  "obeys I P (deref p)" "obeys I P (liftM r)"
  by (rule obeys_closed [where R = "(=)"]; auto simp: keeps_def monad_defs emits_rel_def split: option.splits sum.splits)+

lemma obeys_get:
  "(\<And>s. I s \<Longrightarrow> obeys I P (f (g s))) \<Longrightarrow> obeys I P (bindM (getM g) f)"
  by (rule obeys_bind [OF obeys_basic(5)]) (auto simp: getM_def)

lemma obeys_deref: "(\<And>x. p = Some x \<Longrightarrow> obeys I P (f x)) \<Longrightarrow> obeys I P (bindM (deref p) f)"
  by (rule obeys_bind [OF obeys_basic(6)]) (auto simp: monad_defs split: option.splits)

lemma obeys_lift: "(\<And>x. r = Inr x \<Longrightarrow> obeys I P (f x)) \<Longrightarrow> obeys I P (bindM (liftM r) f)"
  by (rule obeys_bind [OF obeys_basic(7)]) (auto simp: monad_defs split: sum.splits)

lemma obeys_range:
  assumes "\<And>s cs. I s \<Longrightarrow> I (s\<lparr>choices := cs\<rparr>)" and "\<And>ys. set ys = set m \<Longrightarrow> obeys I P (f ys)"
  shows "obeys I P (bindM (range_map m) f)"
proof (rule obeys_bind_yields [where Q = "\<lambda>ys. set ys = set m"])
  show "obeys I P (range_map m)"
    by (rule obeys_keeps [OF emits_range_map]) (use assms(1) in \<open>auto intro: yields_range_map\<close>)
qed (auto intro: yields_range_map assms(2))

lemma obeys_forM: "(\<And>x. x \<in> set xs \<Longrightarrow> obeys I P (f x)) \<Longrightarrow> obeys I P (forM xs f)"
  by (induction xs) (auto intro: obeys_bind_any)

lemma obeys_foldM: "(\<And>x a. obeys I P (f x a)) \<Longrightarrow> obeys I P (foldM f xs a)"
  by (induction xs arbitrary: a) (auto intro: obeys_bind_any)

lemma obeys_collect_names: "obeys I P (collect_names f xs)"
  by (auto simp: collect_names_def intro!: obeys_foldM obeys_bind_any)

lemma obeys_ConvertToIAMTags: "obeys I P (ConvertToIAMTags ts)"
  by (induction ts) (auto intro!: obeys_bind_any)

end
