(* ===== verification/MemoryIam.thy ===== *)
theory MemoryIam
  imports IamService
begin

text \<open>
  The in-memory environment behaves as documented: its IAM satisfies every law of the service, for
  every state it can be in. So the hypotheses about the outside can be met, and statements that
  make them can be applied to concrete runs.
\<close>

section \<open>Its view\<close>

definition mem_view :: "mem \<Rightarrow> iam_view" where
  "mem_view w = \<lparr>v_roles = (\<lambda>n. map_option mr_doc (find_role w n)),
     v_policies = (\<lambda>n. map_option mp_tags (find_policy w (policy_arn mem_client n))),
     v_attached = {(n, r). \<exists>q. find_role w r = Some q \<and> policy_arn mem_client n \<in> set (mr_attached q)},
     v_foreign = (\<lambda>r. {})\<rparr>"

fun mem_names :: "iam_view \<Rightarrow> mem_pager \<Rightarrow> string set" where
  "mem_names v (Some (ListAttachedRolePoliciesReq k (Some r))) = {n. (n, r) \<in> v_attached v \<and> v_policies v n \<noteq> None}"
| "mem_names v _ = {}"

lemma mem_view_eqI:
  assumes "\<And>n. map_option mr_doc (find_role w n) = v_roles v n"
    and "\<And>n. map_option mp_tags (find_policy w (policy_arn mem_client n)) = v_policies v n"
    and "\<And>n r. (\<exists>q. find_role w r = Some q \<and> policy_arn mem_client n \<in> set (mr_attached q)) \<longleftrightarrow> (n, r) \<in> v_attached v"
    and "v_foreign v = (\<lambda>r. {})"
  shows "mem_view w = v"
  using assms by (intro iam_view.equality) (auto simp: mem_view_def)

lemma mem_view_sel:
  "v_roles (mem_view w) n = map_option mr_doc (find_role w n)"
  "v_policies (mem_view w) n = map_option mp_tags (find_policy w (policy_arn mem_client n))"
  "(n, r) \<in> v_attached (mem_view w) \<longleftrightarrow> (\<exists>q. find_role w r = Some q \<and> policy_arn mem_client n \<in> set (mr_attached q))"
  "v_foreign (mem_view w) = (\<lambda>r. {})"
  by (simp_all add: mem_view_def)

lemma find_append: "find P (xs @ ys) = (case find P xs of None \<Rightarrow> find P ys | Some x \<Rightarrow> Some x)"
  by (induction xs) auto

lemma find_map_put:
  "find (\<lambda>q. mr_name q = n) (map (\<lambda>q. if mr_name q = mr_name r then r else q) xs) =
     (if n = mr_name r \<and> find (\<lambda>q. mr_name q = n) xs \<noteq> None then Some r else find (\<lambda>q. mr_name q = n) xs)"
  by (induction xs) auto

lemma find_role_put:
  "find_role (put_role r w) n = (if n = mr_name r \<and> find_role w n \<noteq> None then Some r else find_role w n)"
  by (auto simp: find_role_def put_role_def find_map_put)

lemma find_policy_put [simp]: "find_policy (put_role r w) arn = find_policy w arn"
  by (simp add: find_policy_def put_role_def)

lemma find_role_SomeD: "find_role w n = Some r \<Longrightarrow> mr_name r = n \<and> r \<in> set (m_roles w)"
  by (auto simp: find_role_def find_Some_iff)

lemma find_policy_SomeD: "find_policy w arn = Some p \<Longrightarrow> mp_arn p = arn \<and> p \<in> set (m_policies w)"
  by (auto simp: find_policy_def find_Some_iff)

section \<open>What each change does to the view\<close>

lemma view_put_attached:
  assumes "find_role w n = Some r"
  shows "mem_view (put_role (r\<lparr>mr_attached := A\<rparr>) w) = (mem_view w)\<lparr>v_attached :=
    {(m, x) \<in> v_attached (mem_view w). x \<noteq> n} \<union> {(m, x). x = n \<and> policy_arn mem_client m \<in> set A}\<rparr>"
proof -
  have "mr_name r = n" using find_role_SomeD [OF assms] by simp
  then show ?thesis
    using assms by (intro mem_view_eqI) (auto simp: mem_view_sel find_role_put)
qed

lemma view_put_doc:
  assumes "find_role w n = Some r"
  shows "mem_view (put_role (r\<lparr>mr_doc := d\<rparr>) w) = role_view n (Some d) (mem_view w)"
proof -
  have "mr_name r = n" using find_role_SomeD [OF assms] by simp
  then show ?thesis
    using assms by (intro mem_view_eqI) (auto simp: mem_view_sel find_role_put role_view_def)
qed

lemma view_add_role:
  "find_role w n = None \<Longrightarrow>
   mem_view (w\<lparr>m_roles := m_roles w @ [\<lparr>mr_name = n, mr_doc = d, mr_tags = ts, mr_attached = []\<rparr>]\<rparr>) =
     role_view n (Some d) (mem_view w)"
  by (intro mem_view_eqI) (auto simp: mem_view_sel find_role_def find_policy_def role_view_def find_append split: option.splits)

lemma view_remove_role:
  assumes "find_role w n = Some r" and "mr_attached r = []"
  shows "mem_view (w\<lparr>m_roles := filter (\<lambda>q. mr_name q \<noteq> n) (m_roles w)\<rparr>) = role_view n None (mem_view w)"
proof -
  have "find (\<lambda>q. mr_name q = x) (filter (\<lambda>q. mr_name q \<noteq> n) xs) =
      (if x = n then None else find (\<lambda>q. mr_name q = x) xs)" for x and xs :: "mem_role list"
    by (induction xs) auto
  then show ?thesis
    using assms by (intro mem_view_eqI) (auto simp: mem_view_sel find_role_def find_policy_def role_view_def)
qed

lemma view_add_policy:
  assumes "find_policy w (policy_arn mem_client n) = None"
  shows "mem_view (w\<lparr>m_policies := m_policies w @ [\<lparr>mp_name = n, mp_doc = d, mp_tags = ts\<rparr>]\<rparr>) =
    policy_view n (Some ts) (mem_view w)"
  using assms
  by (intro mem_view_eqI)
    (auto simp: mem_view_sel find_role_def find_policy_def policy_view_def find_append mp_arn_def policy_arn_inj
      split: option.splits)

lemma view_remove_policy:
  "mem_view (w\<lparr>m_policies := filter (\<lambda>p. mp_arn p \<noteq> policy_arn mem_client n) (m_policies w)\<rparr>) =
    policy_view n None (mem_view w)"
proof -
  have "find (\<lambda>p. mp_arn p = policy_arn mem_client x) (filter (\<lambda>p. mp_arn p \<noteq> policy_arn mem_client n) ps) =
      (if x = n then None else find (\<lambda>p. mp_arn p = policy_arn mem_client x) ps)" for x and ps :: "mem_policy list"
    by (induction ps) (auto simp: policy_arn_inj)
  then show ?thesis
    by (intro mem_view_eqI) (auto simp: mem_view_sel find_role_def find_policy_def policy_view_def)
qed

lemma no_such_entity_codes [simp]:
  "is_no_such_entity no_such_entity" "\<not> is_no_such_entity delete_conflict" "\<not> is_no_such_entity bad_request"
  by (simp_all add: is_no_such_entity_def no_such_entity_def delete_conflict_def bad_request_def)

lemma view_attach:
  assumes "find_role w r = Some q"
  shows "mem_view (put_role (q\<lparr>mr_attached := set_put (policy_arn mem_client n) (mr_attached q)\<rparr>) w) =
    attach_view n r (mem_view w)"
  unfolding view_put_attached [OF assms] attach_view_def
  by (rule arg_cong [where f = "\<lambda>A. (mem_view w)\<lparr>v_attached := A\<rparr>"])
    (use assms in \<open>auto simp: mem_view_sel policy_arn_inj\<close>)

lemma view_detach:
  assumes "find_role w r = Some q"
  shows "mem_view (put_role (q\<lparr>mr_attached := set_delete (policy_arn mem_client n) (mr_attached q)\<rparr>) w) =
    detach_view n r (mem_view w)"
  unfolding view_put_attached [OF assms] detach_view_def
  by (rule arg_cong [where f = "\<lambda>A. (mem_view w)\<lparr>v_attached := A\<rparr>"])
    (use assms in \<open>auto simp: mem_view_sel policy_arn_inj\<close>)

section \<open>The laws\<close>

lemma mem_attach_law: "attach_law mem_env mem_client mem_view"
  by (auto simp: attach_law_def mem_env_simps mem_view_sel view_attach split: option.splits)

lemma mem_detach_law: "detach_law mem_env mem_client mem_view"
  by (auto simp: detach_law_def mem_env_simps mem_view_sel view_detach split: option.splits if_splits)

lemma mem_get_policy_law: "get_policy_law mem_env mem_client mem_view"
  by (auto simp: get_policy_law_def mem_env_simps mem_view_sel sdk_policy_def mp_arn_def policy_arn_inj
      split: option.splits dest: find_policy_SomeD)

lemma mem_get_role_law: "get_role_law mem_env mem_view"
  by (auto simp: get_role_law_def mem_env_simps mem_view_sel sdk_role_def split: option.splits
      dest: find_role_SomeD)

lemma mem_create_role_law: "create_role_law mem_env mem_view"
  by (auto simp: create_role_law_def mem_env_simps mem_view_sel view_add_role sdk_role_def Let_def split: if_splits)

lemma mem_delete_role_law: "delete_role_law mem_env mem_view"
  by (auto simp: delete_role_law_def mem_env_simps mem_view_sel view_remove_role split: option.splits if_splits)

lemma mem_update_role_law: "update_role_law mem_env mem_view"
  by (auto simp: update_role_law_def mem_env_simps mem_view_sel view_put_doc split: option.splits)

lemma mem_create_policy_law: "create_policy_law mem_env mem_view"
proof -
  have "find_policy w (policy_arn mem_client n) = None" if "\<forall>q \<in> set (m_policies w). mp_name q \<noteq> n" for w n
    using that by (auto simp: find_policy_def find_None_iff mp_arn_def policy_arn_inj)
  then show ?thesis
    by (auto simp: create_policy_law_def mem_env_simps mem_view_sel view_add_policy Let_def split: if_splits
        elim!: mem_create_policy.elims)
qed

lemma mem_delete_policy_law: "delete_policy_law mem_env mem_client mem_view"
proof -
  have "\<nexists>q. find_role w r = Some q \<and> arn \<in> set (mr_attached q)" if "attached_to w arn = []" for w arn r
    using that by (auto simp: attached_to_def filter_empty_conv dest: find_role_SomeD)
  then show ?thesis
    by (auto simp: delete_policy_law_def mem_env_simps mem_view_sel view_remove_policy split: if_splits)
qed

lemma mem_page_names:
  assumes "mem_attached_page p w = (r, p', w')"
  shows "w' = w" and "r = Inr items \<Longrightarrow> \<exists>ns. map ap_PolicyName items = map Some ns \<and>
      mem_names (mem_view w) p = set ns \<union> mem_names (mem_view w) p'"
proof -
  show "w' = w" using assms by (cases "(p, w)" rule: mem_attached_page.cases) (auto split: option.splits)
  assume "r = Inr items"
  then obtain k n q where p: "p = Some (ListAttachedRolePoliciesReq k (Some n))" "find_role w n = Some q"
    and items: "p' = None" "items = map (\<lambda>p. \<lparr>ap_PolicyName = Some (mp_name p)\<rparr>)
       (filter (\<lambda>p. mp_arn p \<in> set (mr_attached q)) (m_policies w))"
    using assms by (cases "(p, w)" rule: mem_attached_page.cases) (auto split: option.splits)
  let ?ns = "map mp_name (filter (\<lambda>p. mp_arn p \<in> set (mr_attached q)) (m_policies w))"
  have "find_policy w (policy_arn mem_client m) \<noteq> None \<longleftrightarrow> m \<in> mp_name ` set (m_policies w)" for m
    by (auto simp: find_policy_def find_None_iff mp_arn_def policy_arn_inj)
  then have "mem_names (mem_view w) p = set ?ns \<union> mem_names (mem_view w) p'"
    using p items(1) by (auto simp: mem_view_sel mp_arn_def)
  then show "\<exists>ns. map ap_PolicyName items = map Some ns \<and>
      mem_names (mem_view w) p = set ns \<union> mem_names (mem_view w) p'"
    using items(2) by (intro exI [of _ ?ns]) simp
qed

lemma mem_pages_law: "attached_pages_law mem_env mem_view mem_names"
  unfolding attached_pages_law_def
proof (intro conjI allI impI)
  fix p w r p' w'
  assume "sdk_NextAttachedPolicies mem_env p w = (r, p', w')"
  then have page: "mem_attached_page p w = (r, p', w')" by (simp add: mem_env_simps)
  show "mem_view w' = mem_view w" using mem_page_names(1) [OF page] by simp
  show "\<exists>ns. map ap_PolicyName items = map Some ns \<and>
      mem_names (mem_view w) p = set ns \<union> mem_names (mem_view w) p'" if "r = Inr items" for items
    using mem_page_names(2) [OF page that] .
qed (auto simp: mem_env_simps)

lemma mem_other_law: "other_calls_law mem_env mem_view"
  by (auto simp: other_calls_law_def unseen_def mem_env_simps mem_update_def mem_update_status_def Let_def mem_view_def
      find_role_def find_policy_def split: option.splits)

lemma mem_documented: "iam_documented mem_env mem_client mem_view mem_names"
  by (simp add: iam_documented_def mem_attach_law mem_detach_law mem_get_policy_law mem_get_role_law
      mem_create_role_law mem_delete_role_law mem_update_role_law mem_create_policy_law mem_delete_policy_law
      mem_pages_law mem_other_law)

end
