(* ===== verification/Tending.thy ===== *)
theory Tending
  imports MemoryIam
begin

text \<open>
  What a reconciliation does to IAM before it goes through the roles of the specification: reading
  the resources, making the client, storing the finalizer, and the clean-up
  (\<open>syncAWSIAMResources\<close>) of what the specification no longer lists. Up to there it only takes away:
  no policy appears or changes, and attachments of foreign policies stay as they are.
\<close>

section \<open>Reads\<close>

definition page_unseen :: "('w \<Rightarrow> iam_view) \<Rightarrow> ('w, 'p, 'x) pager \<Rightarrow> bool" where
  "page_unseen view fetch = (\<forall>p w. view (snd (snd (fetch p w))) = view w)"

text \<open>The calls that only read, beside those the laws of the service speak of, leave IAM as it is.\<close>

definition reads_leave_iam :: "('w, 'p) env \<Rightarrow> ('w \<Rightarrow> iam_view) \<Rightarrow> bool" where
  "reads_leave_iam E view =
     ((\<forall>rq. unseen view (k8s_GetProvision E rq)) \<and> (\<forall>rq. unseen view (k8s_GetControlPlane E rq)) \<and>
      (\<forall>r. unseen view (sdk_LoadDefaultConfig E r)) \<and> (\<forall>r. unseen view (sdk_GetCallerIdentity E r)) \<and>
      (\<forall>rq. unseen view (sdk_ListPolicyTags E rq)) \<and> (\<forall>rq. unseen view (sdk_ListRoleTags E rq)) \<and>
      page_unseen view (sdk_NextRoles E) \<and> page_unseen view (sdk_NextPolicies E) \<and>
      page_unseen view (sdk_NextEntities E))"

lemma reads_leave_iamD:
  assumes "reads_leave_iam E view"
  shows "unseen view (k8s_GetProvision E rq)" "unseen view (k8s_GetControlPlane E rq)"
    "unseen view (sdk_LoadDefaultConfig E r)" "unseen view (sdk_GetCallerIdentity E r)"
    "unseen view (sdk_ListPolicyTags E irq)" "unseen view (sdk_ListRoleTags E irq)"
    "page_unseen view (sdk_NextRoles E)" "page_unseen view (sdk_NextPolicies E)"
    "page_unseen view (sdk_NextEntities E)"
  using assms by (simp_all add: reads_leave_iam_def)

lemma same_view_page: "page_unseen view fetch \<Longrightarrow> keeps (same_view view) (page_call rq fetch p)"
  by (auto simp: keeps_def same_view_def page_call_def page_unseen_def split: prod.splits) (metis snd_conv)

lemma same_view_pages_loop:
  assumes "page_unseen view fetch" and "\<And>x a. keeps (same_view view) (body x a)"
  shows "keeps (same_view view) (pages_loop E rq fetch body n p acc)"
proof (induction n arbitrary: p acc)
  case (Suc n)
  then show ?case
    using assms by (auto intro!: sv.keeps_rules same_view_page split: sum.splits)
qed auto

lemma mem_reads_leave_iam: "reads_leave_iam mem_env mem_view"
proof -
  have "snd (mem_policy_tags rq w) = w" "snd (mem_role_tags rq w) = w" for rq w
    by (cases "(rq, w)" rule: mem_policy_tags.cases; simp split: option.splits)
      (cases "(rq, w)" rule: mem_role_tags.cases; simp split: option.splits)
  moreover have "snd (snd (mem_entities_page p w)) = w" for p w
    by (cases "(p, w)" rule: mem_entities_page.cases; simp)
  ultimately show ?thesis
    by (simp add: reads_leave_iam_def unseen_def page_unseen_def mem_env_simps mem_roles_page_def
        mem_policies_page_def mem_get_prov_def mem_get_cp_def split: option.splits)
qed

section \<open>Only taking away\<close>

definition pared :: "iam_view \<Rightarrow> iam_view \<Rightarrow> bool" where
  "pared v v' = (v_foreign v' = v_foreign v \<and> v_policies v' \<subseteq>\<^sub>m v_policies v)"

definition pares :: "('w \<Rightarrow> iam_view) \<Rightarrow> 'w gstate \<Rightarrow> 'w gstate \<Rightarrow> bool" where
  "pares view s t = pared (view (world s)) (view (world t))"

interpretation pa: step_relation "pares view :: 'w gstate \<Rightarrow> 'w gstate \<Rightarrow> bool" for view
  by standard (auto simp: pares_def pared_def intro: map_le_trans)

lemma same_view_pares: "keeps (same_view view) m \<Longrightarrow> keeps (pares view) m"
  by (simp add: keeps_def same_view_def pares_def pared_def)

lemma pares_deref: "(\<And>x. p = Some x \<Longrightarrow> keeps (pares view) (f x)) \<Longrightarrow> keeps (pares view) (bindM (deref p) f)"
  by (cases p) auto

lemma pared_views [simp]: "pared v (detach_view n r v)" "pared v (role_view n doc v)"
  "pared v (policy_view n None v)" "pared v v"
  by (auto simp: pared_def view_defs map_le_def)

lemma pares_request:
  "(\<And>w a w'. f w = (a, w') \<Longrightarrow> pared (view w) (view w')) \<Longrightarrow> keeps (pares view) (request_call rq f)"
  by (auto simp: keeps_def pares_def request_call_def split: prod.splits)

lemma pares_deletions:
  assumes "iam_documented E c view names"
  shows "keeps (pares view) (DetachRolePolicy E c n (Some r))" "keeps (pares view) (DeletePolicy E c n)"
    "keeps (pares view) (DeleteRole E (Some r))"
proof -
  have "pared (view w) (view w')"
    if "sdk_DetachRolePolicy E (DetachRolePolicyReq (Some (policy_arn c m)) (Some r)) w = (a, w')" for m w a w'
  proof -
    have "view w' = view w \<or> view w' = detach_view m r (view w)"
      using assms that unfolding iam_documented_def detach_law_def by (cases a) blast+
    then show ?thesis by auto
  qed
  then show "keeps (pares view) (DetachRolePolicy E c n (Some r))"
    by (auto simp: DetachRolePolicy_def generatePolicyARN_bind Let_def split: option.splits
        intro!: pa.keeps_rules pares_request)
  have "pared (view w) (view w')"
    if "sdk_DeletePolicy E (DeletePolicyReq (Some (policy_arn c m))) w = (a, w')" for m w a w'
  proof -
    have "view w' = view w \<or> view w' = policy_view m None (view w)"
      using assms that unfolding iam_documented_def delete_policy_law_def by (cases a) blast+
    then show ?thesis by auto
  qed
  then show "keeps (pares view) (DeletePolicy E c n)"
    by (auto simp: DeletePolicy_def generatePolicyARN_bind Let_def split: option.splits
        intro!: pa.keeps_rules pares_request)
  have "pared (view w) (view w')" if "sdk_DeleteRole E (DeleteRoleReq (Some r)) w = (a, w')" for w a w'
  proof -
    have "view w' = view w \<or> view w' = role_view r None (view w)"
      using assms that unfolding iam_documented_def delete_role_law_def by (cases a) blast+
    then show ?thesis by auto
  qed
  then show "keeps (pares view) (DeleteRole E (Some r))"
    by (auto simp: DeleteRole_def Let_def intro!: pa.keeps_rules pares_request)
qed

section \<open>Everything before the roles\<close>

lemma same_view_status_NoResult:
  assumes "iam_documented E c view names"
  shows "keeps (same_view view) (updateCRDStatus E iam crdPhase phase message NoResult)"
  by (auto simp: updateCRDStatus_def intro!: sv.keeps_rules laws_other [OF assms] same_view_local)

lemma same_view_start:
  assumes "iam_documented E c view names" and "reads_leave_iam E view"
  shows "keeps (same_view view) (getClusterResources E iam rq)" "keeps (same_view view) (make_client E)"
    "keeps (same_view view) (ensure_finalizer E)"
proof -
  have "unseen view (k8s_Update E p)" for p
    using assms(1) by (simp add: iam_documented_def other_calls_law_def)
  then show "keeps (same_view view) (getClusterResources E iam rq)" "keeps (same_view view) (make_client E)"
    "keeps (same_view view) (ensure_finalizer E)"
    by (auto simp: getClusterResources_def make_client_def NewIAMClient_def ensure_finalizer_def Let_def
        intro!: sv.keeps_rules same_view_request same_view_local reads_leave_iamD [OF assms(2)]
          same_view_status_NoResult [OF assms(1)])
qed

lemma same_view_get_policy:
  assumes "iam_documented E c view names"
  shows "keeps (same_view view) (GetPolicyByName E c n)"
  using same_view_lookups(1) [OF assms] by (cases n) (auto simp: GetPolicyByName_None)

lemma same_view_listings:
  assumes "iam_documented E c view names" and "reads_leave_iam E view"
  shows "keeps (same_view view) (ListRolesByTags E ts)" "keeps (same_view view) (ListPoliciesByTags E ts)"
    "keeps (same_view view) (ListEntitiesForPolicy E p)" "keeps (same_view view) (ListAttachedRolePolicies E c n)"
proof -
  have "page_unseen view (sdk_NextAttachedPolicies E)"
    using assms(1) unfolding iam_documented_def attached_pages_law_def page_unseen_def by (metis prod.collapse)
  then show "keeps (same_view view) (ListAttachedRolePolicies E c n)"
    by (auto simp: ListAttachedRolePolicies_def Let_def
        intro!: sv.keeps_rules same_view_pages_loop same_view_get_policy [OF assms(1)])
  show "keeps (same_view view) (ListRolesByTags E ts)" "keeps (same_view view) (ListPoliciesByTags E ts)"
    "keeps (same_view view) (ListEntitiesForPolicy E p)"
    by (auto simp: ListRolesByTags_def ListPoliciesByTags_def ListEntitiesForPolicy_def getSimilarRoleTags_def
        getSimilarPolicyTags_def getSimilarTags_def tag_matches_def Let_def
        intro!: sv.keeps_rules same_view_pages_loop same_view_request reads_leave_iamD [OF assms(2)])
qed

lemma same_view_names: "keeps (same_view view) (collect_names f xs)" "keeps (same_view view) (remove_names f xs m)"
  by (auto simp: collect_names_def remove_names_def intro!: sv.keeps_rules)

lemma pares_delete_stale_role:
  assumes "iam_documented E c view names" and "reads_leave_iam E view"
  shows "keeps (pares view) (delete_stale_role E c role)"
proof -
  show ?thesis
    unfolding delete_stale_role_def
    by (auto intro!: pares_deref pa.keeps_rules pares_deletions [OF assms(1)]
        same_view_pares [OF same_view_listings(4) [OF assms]]
        same_view_pares [OF same_view_lookups(2) [OF assms(1)]]
        same_view_pares [OF same_view_status [OF assms(1)]])
qed

lemma pares_sync:
  assumes "iam_documented E c view names" and "reads_leave_iam E view"
  shows "keeps (pares view) (syncAWSIAMResources E c)"
proof -
  note [intro!] = pa.keeps_rules pares_deletions [OF assms(1)] pares_delete_stale_role [OF assms]
    same_view_pares [OF same_view_listings(1) [OF assms]] same_view_pares [OF same_view_listings(2) [OF assms]]
    same_view_pares [OF same_view_listings(3) [OF assms]] same_view_pares [OF same_view_get_policy [OF assms(1)]]
    same_view_pares [OF same_view_status [OF assms(1)]] same_view_pares [OF same_view_names(1)]
    same_view_pares [OF same_view_names(2)] same_view_pares [OF same_view_local(2)]
  have "keeps (pares view) (delete_stale_policy E c n)" for n
    by (auto simp: delete_stale_policy_def delete_policy_and_report_def intro!: pares_deref)
  then show ?thesis
    by (auto simp: syncAWSIAMResources_def sync_spec_roles_def sync_role_attachments_def
        attached_policies_def unlisted_policies_def Let_def)
qed

text \<open>The state in which the roles of the specification are gone through.\<close>

lemma pares_before_roles:
  assumes "iam_documented E c view names" and "reads_leave_iam E view"
    and "getClusterResources E iam rq s = (x, s1)" and "make_client E s1 = (y, s2)"
    and "bindM (ensure_finalizer E) (\<lambda>_. syncAWSIAMResources E c) s2 = (z, s3)"
  shows "pares view s s3"
proof -
  have "keeps (pares view) (bindM (ensure_finalizer E) (\<lambda>_. syncAWSIAMResources E c))"
    by (intro pa.keeps_bindM same_view_pares [OF same_view_start(3) [OF assms(1,2)]] pares_sync [OF assms(1,2)])
  moreover have "keeps (pares view) (getClusterResources E iam rq)" "keeps (pares view) (make_client E)"
    by (intro same_view_pares same_view_start [OF assms(1,2)])+
  ultimately show ?thesis
    using assms(3-5) unfolding keeps_def by (metis pa.R_trans snd_conv)
qed

end
