(* ===== verification/Convergence.thy ===== *)
theory Convergence
  imports Tending
begin

text \<open>
  What a reconciliation achieves: when it succeeds against an IAM that behaves as documented, the
  roles, policies and attachments of IAM are what the specification asks for.
\<close>

section \<open>What the specification asks for\<close>

definition spec_policies :: "AWSIAMProvisionSpec \<Rightarrow> PolicySpec list" where
  "spec_policies sp = map (\<lambda>e. policy_Spec (snd e)) (spec_Policies sp)"

definition spec_roles :: "AWSIAMProvisionSpec \<Rightarrow> RoleSpec list" where
  "spec_roles sp = map (\<lambda>e. role_Spec (snd e)) (spec_Roles sp)"

text \<open>
  A policy is in step when it exists under the operator's path and none of its tags contradicts the
  specified document; the checksum tag stands for the document, which IAM does not return.
\<close>

definition policy_in_step :: "('w, 'p) env \<Rightarrow> iam_view \<Rightarrow> PolicySpec \<Rightarrow> bool" where
  "policy_in_step E v policy = (case Option.bind (ps_Name policy) (v_policies v) of
     None \<Rightarrow> False
   | Some tags \<Rightarrow> list_all (agrees (NewChecksumTag E (ps_PolicyDocument policy))) tags)"

text \<open>The trust policy a role is to have: its template with the provider of the control plane.\<close>

definition wanted_document :: "('w, 'p) env \<Rightarrow> awsIAMResources \<Rightarrow> RoleSpec \<Rightarrow> string option" where
  "wanted_document E air role =
     (case strings_Cut (cp_OIDCProviderARN (air_eksCP air)) ''/'' of (_, name, found) \<Rightarrow>
        (case (found, rs_AssumeRolePolicyDocument role) of
           (True, Some doc) \<Rightarrow>
             (case renderOIDCProviderTemplate E doc (cp_OIDCProviderARN (air_eksCP air)) name of
                Inl err \<Rightarrow> None
              | Inr text \<Rightarrow> Some text)
         | _ \<Rightarrow> None))"

text \<open>A stored document is as wanted when it is the same text, or the same JSON up to spaces.\<close>

definition same_document :: "('w, 'p) env \<Rightarrow> string \<Rightarrow> string \<Rightarrow> bool" where
  "same_document E have want =
     (have = want \<or> json_Compact have = compactRolePolicyDocument E (Some want))"

definition trust_in_step :: "('w, 'p) env \<Rightarrow> iam_view \<Rightarrow> string option \<Rightarrow> string \<Rightarrow> bool" where
  "trust_in_step E v want r = (case (v_roles v r, want) of
     (Some doc, Some w) \<Rightarrow> same_document E doc w
   | _ \<Rightarrow> False)"

text \<open>The policies of a role that the specification lists: in step, and attached to the role.\<close>

definition policies_attached :: "('w, 'p) env \<Rightarrow> AWSIAMProvisionSpec \<Rightarrow> iam_view \<Rightarrow> RoleSpec \<Rightarrow> bool" where
  "policies_attached E sp v role = (\<forall>policy \<in> set (spec_policies sp).
     ps_Name policy \<in> set (rs_Policies role) \<longrightarrow>
       policy_in_step E v policy \<and> (the (ps_Name policy), the (rs_Name role)) \<in> v_attached v)"

definition role_in_step ::
  "('w, 'p) env \<Rightarrow> AWSIAMProvisionSpec \<Rightarrow> awsIAMResources \<Rightarrow> iam_view \<Rightarrow> RoleSpec \<Rightarrow> bool" where
  "role_in_step E sp air v role =
     (rs_Name role \<noteq> None \<and> trust_in_step E v (wanted_document E air role) (the (rs_Name role)) \<and>
      policies_attached E sp v role)"

definition iam_in_step :: "('w, 'p) env \<Rightarrow> AWSIAMProvisionSpec \<Rightarrow> awsIAMResources \<Rightarrow> iam_view \<Rightarrow> bool" where
  "iam_in_step E sp air v = (\<forall>role \<in> set (spec_roles sp). role_in_step E sp air v role)"

text \<open>
  A specification that does not contradict itself: every role has a name, no two roles and no two policies have the same
  name, and no policy sets the checksum tag by hand (IAM refuses two tags with one key).
\<close>

definition spec_coherent :: "AWSIAMProvisionSpec \<Rightarrow> bool" where
  "spec_coherent sp =
     (distinct (spec_role_names sp) \<and> distinct (spec_policy_names sp) \<and>
      (\<forall>role \<in> set (spec_roles sp). rs_Name role \<noteq> None) \<and>
      (\<forall>policy \<in> set (spec_policies sp). \<forall>t. Some t \<in> set (ps_Tags policy) \<longrightarrow>
         tag_Key t \<noteq> None \<and> tag_Key t \<noteq> Some TagKeyPolicyDocument))"

text \<open>
  No foreign policy with the name of a specified one is attached to a specified role: the handler
  goes by the name alone.
\<close>

definition no_lookalikes :: "AWSIAMProvisionSpec \<Rightarrow> iam_view \<Rightarrow> bool" where
  "no_lookalikes sp v = (\<forall>r \<in> set (spec_role_names sp). \<forall>n \<in> set (spec_policy_names sp). n \<notin> v_foreign v r)"

lemma in_spec_policies_name:
  "policy \<in> set (spec_policies sp) \<Longrightarrow> ps_Name policy = Some n \<Longrightarrow> n \<in> set (spec_policy_names sp)"
  by (auto simp: spec_policies_def in_spec_policy_names)

lemma in_spec_roles_name:
  "role \<in> set (spec_roles sp) \<Longrightarrow> rs_Name role = Some n \<Longrightarrow> n \<in> set (spec_role_names sp)"
  by (auto simp: spec_roles_def in_spec_role_names)

lemma distinct_map_filter_inj:
  "distinct (List.map_filter f xs) \<Longrightarrow> x \<in> set xs \<Longrightarrow> y \<in> set xs \<Longrightarrow> f x = Some n \<Longrightarrow> f y = Some n \<Longrightarrow> x = y"
  by (induction xs) (auto simp: List.map_filter_simps set_map_filter split: option.splits)

lemma policy_by_name:
  assumes "spec_coherent sp" and "p \<in> set (spec_policies sp)" and "q \<in> set (spec_policies sp)"
    and "ps_Name p = Some n" and "ps_Name q = Some n"
  shows "p = q"
proof -
  obtain x y where "x \<in> set (spec_Policies sp)" "p = policy_Spec (snd x)"
    "y \<in> set (spec_Policies sp)" "q = policy_Spec (snd y)"
    using assms(2,3) by (auto simp: spec_policies_def)
  moreover have "distinct (List.map_filter (\<lambda>e. ps_Name (policy_Spec (snd e))) (spec_Policies sp))"
    using assms(1) by (simp add: spec_coherent_def spec_policy_names_def)
  ultimately show ?thesis using assms(4,5) distinct_map_filter_inj by metis
qed

lemma role_by_name:
  assumes "spec_coherent sp" and "x \<in> set (spec_Roles sp)" and "y \<in> set (spec_Roles sp)"
    and "rs_Name (role_Spec (snd x)) = Some n" and "rs_Name (role_Spec (snd y)) = Some n"
  shows "x = y"
proof -
  have "distinct (List.map_filter (\<lambda>e. rs_Name (role_Spec (snd e))) (spec_Roles sp))"
    using assms(1) by (simp add: spec_coherent_def spec_role_names_def)
  then show ?thesis using assms(2-5) distinct_map_filter_inj by metis
qed

section \<open>Progress\<close>

text \<open>
  A policy is stamped when it carries a checksum tag, as those the operator creates do. A policy of
  that name made by someone else may lack it; the handler, which only compares the checksum tags it
  finds, then takes its document for the specified one.
\<close>

definition stamped :: "iamTag list \<Rightarrow> bool" where
  "stamped tags = list_ex (\<lambda>t. it_Key t = Some TagKeyPolicyDocument) tags"

definition policies_stamped :: "AWSIAMProvisionSpec \<Rightarrow> iam_view \<Rightarrow> bool" where
  "policies_stamped sp v = (\<forall>n \<in> set (spec_policy_names sp). \<forall>tags. v_policies v n = Some tags \<longrightarrow> stamped tags)"

text \<open>Tags that record the specified document: a checksum tag is there, and none is of another document.\<close>

definition records :: "('w, 'p) env \<Rightarrow> PolicySpec \<Rightarrow> iamTag list \<Rightarrow> bool" where
  "records E policy tags =
     (stamped tags \<and> list_all (agrees (NewChecksumTag E (ps_PolicyDocument policy))) tags)"

lemma records_checksum: "records E policy tags \<Longrightarrow> NewChecksumTag E (ps_PolicyDocument policy) \<in> set tags"
  by (auto simp: records_def stamped_def list_all_iff list_ex_iff agrees_def NewChecksumTag_def)
    (metis (full_types) iamTag.surjective old.unit.exhaust option.distinct(1))

text \<open>
  What the handlers of policies do to the view: attachments stay, policies in step stay in step,
  specified policies stay stamped, roles and foreign attachments are not touched.
\<close>

definition advances :: "('w, 'p) env \<Rightarrow> AWSIAMProvisionSpec \<Rightarrow> iam_view \<Rightarrow> iam_view \<Rightarrow> bool" where
  "advances E sp v v' =
     (v_attached v \<subseteq> v_attached v' \<and> v_foreign v' = v_foreign v \<and>
      (policies_stamped sp v \<longrightarrow> policies_stamped sp v') \<and>
      (\<forall>policy \<in> set (spec_policies sp). policy_in_step E v policy \<longrightarrow> policy_in_step E v' policy))"

lemma advances_refl [simp]: "advances E sp v v"
  by (simp add: advances_def)

lemma advances_trans: "advances E sp u v \<Longrightarrow> advances E sp v w \<Longrightarrow> advances E sp u w"
  by (auto simp: advances_def)

lemma policies_attached_mono:
  "advances E sp v v' \<Longrightarrow> policies_attached E sp v role \<Longrightarrow> policies_attached E sp v' role"
  by (auto simp: advances_def policies_attached_def)

lemma no_lookalikes_mono: "advances E sp v v' \<Longrightarrow> no_lookalikes sp v \<Longrightarrow> no_lookalikes sp v'"
  by (simp add: advances_def no_lookalikes_def)

lemma policy_in_step_roles [simp]: "policy_in_step E (role_view r doc v) policy = policy_in_step E v policy"
  by (simp add: policy_in_step_def role_view_def)

lemma policy_in_step_attach [simp]: "policy_in_step E (attach_view n r v) policy = policy_in_step E v policy"
  by (simp add: policy_in_step_def attach_view_def)

lemma policies_stamped_views [simp]:
  "policies_stamped sp (role_view r doc v) = policies_stamped sp v"
  "policies_stamped sp (attach_view n r v) = policies_stamped sp v"
  "policies_stamped sp (detach_view n r v) = policies_stamped sp v"
  by (simp_all add: policies_stamped_def view_defs)

lemma policies_stamped_put:
  "stamped tags \<Longrightarrow> policies_stamped sp v \<Longrightarrow> policies_stamped sp (policy_view n (Some tags) v)"
  by (simp add: policies_stamped_def policy_view_def)

lemma policies_stamped_drop: "policies_stamped sp v \<Longrightarrow> policies_stamped sp (policy_view n None v)"
  by (simp add: policies_stamped_def policy_view_def)

lemma policies_stamped_pared: "pared v v' \<Longrightarrow> policies_stamped sp v \<Longrightarrow> policies_stamped sp v'"
  unfolding pared_def policies_stamped_def map_le_def by (metis domI)

lemma advances_role_view [simp]: "advances E sp v (role_view r doc v)"
  by (simp add: advances_def) (simp add: role_view_def)

lemma advances_attach_view [simp]: "advances E sp v (attach_view n r v)"
  by (simp add: advances_def) (auto simp: attach_view_def)

text \<open>Making a policy anew from the specification.\<close>

lemma policy_view_in_step:
  assumes "ps_Name policy = Some n" and "records E policy tags"
  shows "policy_in_step E (policy_view n (Some tags) v) policy"
  using assms by (simp add: policy_in_step_def policy_view_def records_def)

lemma remade_advances:
  assumes "spec_coherent sp" and "policy \<in> set (spec_policies sp)" and "ps_Name policy = Some n"
    and "records E policy tags"
  shows "advances E sp v (attach_view n r (policy_view n (Some tags) (policy_view n None (detach_view n r v))))"
    (is "advances E sp v ?v'")
proof -
  have "policy_in_step E ?v' q" if q: "q \<in> set (spec_policies sp)" "policy_in_step E v q" for q
  proof (cases "ps_Name q = Some n")
    case True
    then have "q = policy" using policy_by_name [OF assms(1) q(1) assms(2) _ assms(3)] by simp
    then show ?thesis using assms(3,4) by (simp add: policy_in_step_def view_defs records_def)
  next
    case False
    then have "Option.bind (ps_Name q) (v_policies ?v') = Option.bind (ps_Name q) (v_policies v)"
      by (cases "ps_Name q") (auto simp: view_defs)
    then show ?thesis using q(2) by (simp add: policy_in_step_def)
  qed
  moreover have "policies_stamped sp ?v'" if "policies_stamped sp v"
    using that assms(4) by (simp add: policies_stamped_put policies_stamped_drop records_def)
  moreover have "v_attached v \<subseteq> v_attached ?v'" "v_foreign ?v' = v_foreign v" by (auto simp: view_defs)
  ultimately show ?thesis by (simp add: advances_def)
qed

lemma created_advances:
  assumes "spec_coherent sp" and "policy \<in> set (spec_policies sp)" and "ps_Name policy = Some n"
    and "records E policy tags"
  shows "advances E sp v (attach_view n r (policy_view n (Some tags) v))"
proof -
  have "attach_view n r (policy_view n (Some tags) (policy_view n None (detach_view n r v))) =
      attach_view n r (policy_view n (Some tags) v)"
    by (auto simp: view_defs)
  then show ?thesis using remade_advances [OF assms] by metis
qed

text \<open>The tags the operator gives a policy say nothing against its document.\<close>

lemma policy_tags_agree:
  assumes "spec_coherent sp" and "policy \<in> set (spec_policies sp)" and "ps_Tags policy = map Some tags"
  shows "records E policy (policy_tags E p policy tags)"
proof -
  have "tag_Key t \<noteq> None \<and> tag_Key t \<noteq> Some TagKeyPolicyDocument" if "t \<in> set tags" for t
    using assms that by (auto simp: spec_coherent_def)
  then have "list_all (agrees (NewChecksumTag E (ps_PolicyDocument policy)))
      (map (\<lambda>t. \<lparr>it_Key = tag_Key t, it_Value = tag_Value t\<rparr>) tags)"
    by (auto simp: list_all_iff agrees_def)
  then show ?thesis
    by (simp add: records_def stamped_def policy_tags_def TagsDefine_def agrees_def tag_keys) (simp add: NewChecksumTag_def tag_keys)
qed

section \<open>One policy of a role\<close>

text \<open>
  The state is one the handlers of policies lead to from view \<open>v\<close>, with the specification \<open>sp\<close> in
  memory.
\<close>

definition follows ::
  "('w, 'p) env \<Rightarrow> ('w \<Rightarrow> iam_view) \<Rightarrow> AWSIAMProvisionSpec \<Rightarrow> iam_view \<Rightarrow> 'w gstate \<Rightarrow> bool" where
  "follows E view sp v t =
     (Spec (prov t) = sp \<and> advances E sp v (view (world t)) \<and> v_roles (view (world t)) = v_roles v)"

lemma follows_refl: "Spec (prov s) = sp \<Longrightarrow> follows E view sp (view (world s)) s"
  by (simp add: follows_def)

lemma follows_trans:
  "follows E view sp v s \<Longrightarrow> follows E view sp (view (world s)) t \<Longrightarrow> follows E view sp v t"
  by (auto simp: follows_def intro: advances_trans)

lemma follows_choices [simp]: "follows E view sp v (s\<lparr>choices := cs\<rparr>) = follows E view sp v s"
  by (simp add: follows_def)

text \<open>Writing the status of a policy changes neither the view nor the specification.\<close>

lemma status_yields:
  assumes "iam_documented E c view names" and "status_keeps_spec E"
    and "\<And>r. result = RoleResult (Some r) \<Longrightarrow> ir_RoleName r \<noteq> None"
  shows "yields (\<lambda>_ t. view (world t) = view (world s) \<and> Spec (prov t) = Spec (prov s))
    (updateCRDStatus E (Some c) crdPhase phase message result) s"
proof -
  have "keeps (same_view view) (updateCRDStatus E (Some c) crdPhase phase message result)"
    using same_view_status [OF assms(1,3)] by blast
  moreover have "keeps same_spec (updateCRDStatus E (Some c) crdPhase phase message result)"
    by (rule same_spec_status [OF assms(2)])
  ultimately show ?thesis
    unfolding yields_def keeps_def same_view_def same_spec_def by (metis snd_conv)
qed

lemma yieldsD: "yields Q m s \<Longrightarrow> m s = (Ok x, t) \<Longrightarrow> Q x t"
  by (simp add: yields_def)

lemma collect_names_set:
  assumes "collect_names f xs s = (Ok ns, t)"
  shows "t = s" and "Some ` set ns = f ` set xs"
proof -
  have "t = s \<and> Some ` set ns = Some ` set acc \<union> f ` set xs"
    if "foldM (\<lambda>x acc. bindM (deref (f x)) (\<lambda>n. returnM (set_put n acc))) xs acc s = (Ok ns, t)" for acc
    using that
  proof (induction xs arbitrary: acc)
    case Nil
    then show ?case by (simp add: returnM_def)
  next
    case (Cons x xs)
    then obtain n where n: "f x = Some n"
      by (cases "f x") (auto simp: panicM_def bindM_def)
    then show ?case using Cons.prems Cons.IH [of "set_put n acc"] by auto
  qed
  from this [of "[]"] assms show "t = s" and "Some ` set ns = f ` set xs"
    by (simp_all add: collect_names_def)
qed

lemma replace_policy_yields:
  assumes W: "iam_documented E c view names" "status_keeps_spec E" "spec_coherent sp"
    and sp: "Spec (prov s) = sp" and policy: "policy \<in> set (spec_policies sp)" "ps_Name policy = Some n"
    and role: "rs_Name role = Some r" and p: "ip_PolicyName p = Some n"
    and tags: "records E policy tags"
  shows "yields (\<lambda>_ t. follows E view sp (view (world s)) t \<and> policy_in_step E (view (world t)) policy \<and>
      (n, r) \<in> v_attached (view (world t)))
    (replace_policy E c role policy p desc tags) s"
  unfolding yields_def
proof (intro allI impI)
  fix x t
  let ?v = "view (world s)"
  assume "replace_policy E c role policy p desc tags s = (Ok x, t)"
  then obtain s1 s2 s3 s4 res where
    detach: "DetachRolePolicy E c (Some n) (Some r) s = (Ok (), s1)" and
    delete: "DeletePolicy E c (Some n) s1 = (Ok (), s2)" and
    create: "CreatePolicy E (Some n) (ps_PolicyDocument policy) (Some desc) tags s2 = (Ok res, s3)" and
    attach: "AttachRolePolicy E c (Some n) (Some r) s3 = (Ok (), s4)" and
    status: "updateCRDStatus E (Some c) provisionPhase updatePhase
      (''Policy document for policy '' @ n @ '' was updated.'') (PolicyResult (Some p)) s4 = (Ok x, t)"
    using policy role p by (auto simp: replace_policy_def elim!: bindM_Ok_cases)
  have v2: "view (world s2) = policy_view n None (detach_view n r ?v)" and "prov s2 = prov s"
    using yieldsD [OF view_DetachRolePolicy [OF W(1)] detach] yieldsD [OF view_DeletePolicy [OF W(1)] delete] by simp_all
  note v3 = yieldsD [OF view_CreatePolicy [OF W(1)] create]
  note v4 = yieldsD [OF view_AttachRolePolicy [OF W(1)] attach]
  have "res \<noteq> None" using v2 v3 v4 by (cases res) (auto simp: policy_view_def)
  then have view4: "view (world s4) =
      attach_view n r (policy_view n (Some tags) (policy_view n None (detach_view n r ?v)))" and "prov s4 = prov s"
    using v2 v3 v4 \<open>prov s2 = prov s\<close> by auto
  moreover have "view (world t) = view (world s4)" "Spec (prov t) = Spec (prov s4)"
    using yieldsD [OF status_yields [OF W(1,2)] status] by auto
  moreover have "v_roles (view (world s4)) = v_roles ?v" "(n, r) \<in> v_attached (view (world s4))"
    by (simp_all add: view4 view_defs)
  moreover have "policy_in_step E (view (world s4)) policy"
    by (simp add: view4 policy_view_in_step [OF policy(2) tags])
  ultimately show "follows E view sp ?v t \<and> policy_in_step E (view (world t)) policy \<and>
      (n, r) \<in> v_attached (view (world t))"
    using remade_advances [OF W(3) policy tags] sp by (simp add: follows_def)
qed

lemma create_and_attach_yields:
  assumes W: "iam_documented E c view names" "status_keeps_spec E" "spec_coherent sp"
    and sp: "Spec (prov s) = sp" and policy: "policy \<in> set (spec_policies sp)" "ps_Name policy = Some n"
    and role: "rs_Name role = Some r" and absent: "v_policies (view (world s)) n = None"
    and tags: "records E policy tags"
  shows "yields (\<lambda>_ t. follows E view sp (view (world s)) t \<and> policy_in_step E (view (world t)) policy \<and>
      (n, r) \<in> v_attached (view (world t)))
    (create_and_attach E c role policy desc tags) s"
  unfolding yields_def
proof (intro allI impI)
  fix x t
  let ?v = "view (world s)"
  assume "create_and_attach E c role policy desc tags s = (Ok x, t)"
  then obtain s3 s4 res where
    create: "CreatePolicy E (Some n) (ps_PolicyDocument policy) (Some desc) tags s = (Ok res, s3)" and
    attach: "AttachRolePolicy E c (Some n) (Some r) s3 = (Ok (), s4)" and
    status: "updateCRDStatus E (Some c) provisionPhase (createPhase @ attachPhase)
      (''Policy '' @ n @ '' was created and attached to role '' @ r @ ''.'') (PolicyResult res) s4 = (Ok x, t)"
    using policy role by (auto simp: create_and_attach_def elim!: bindM_Ok_cases)
  note v3 = yieldsD [OF view_CreatePolicy [OF W(1)] create]
  note v4 = yieldsD [OF view_AttachRolePolicy [OF W(1)] attach]
  have "res \<noteq> None" using absent v3 v4 by (cases res) auto
  then have view4: "view (world s4) = attach_view n r (policy_view n (Some tags) ?v)" and "prov s4 = prov s"
    using v3 v4 by auto
  moreover have "view (world t) = view (world s4)" "Spec (prov t) = Spec (prov s4)"
    using yieldsD [OF status_yields [OF W(1,2)] status] by auto
  moreover have "v_roles (view (world s4)) = v_roles ?v" "(n, r) \<in> v_attached (view (world s4))"
    by (simp_all add: view4 view_defs)
  moreover have "policy_in_step E (view (world s4)) policy"
    by (simp add: view4 policy_view_in_step [OF policy(2) tags])
  ultimately show "follows E view sp ?v t \<and> policy_in_step E (view (world t)) policy \<and>
      (n, r) \<in> v_attached (view (world t))"
    using created_advances [OF W(3) policy tags] sp by (simp add: follows_def)
qed

lemma attach_if_missing_yields:
  assumes W: "iam_documented E c view names" "status_keeps_spec E"
    and sp: "Spec (prov s) = sp" and policy: "ps_Name policy = Some n" and role: "rs_Name role = Some r"
    and own: "n \<notin> v_foreign (view (world s)) r"
  shows "yields (\<lambda>_ t. follows E view sp (view (world s)) t \<and> (n, r) \<in> v_attached (view (world t)))
    (attach_if_missing E c role policy n p) s"
  unfolding yields_def
proof (intro allI impI)
  fix x t
  let ?v = "view (world s)"
  assume "attach_if_missing E c role policy n p s = (Ok x, t)"
  then obtain ps ns s1 s2 where
    list: "ListAttachedRolePolicies E c (Some r) s = (Ok ps, s1)" and
    collect: "collect_names ip_PolicyName ps s1 = (Ok ns, s2)" and
    rest: "(if n \<notin> set ns then
       bindM (AttachRolePolicy E c (Some n) (Some r)) (\<lambda>_.
         updateCRDStatus E (Some c) provisionPhase attachPhase
           (''Policy '' @ n @ '' was attached to role '' @ r @ ''.'') (PolicyResult (Some p)))
       else returnM ()) s2 = (Ok x, t)"
    by (auto simp: attach_if_missing_def policy role cong: if_cong elim!: bindM_Ok_cases)
  obtain ms where s1: "view (world s1) = ?v" "prov s1 = prov s" and ms: "ip_PolicyName ` set ps = Some ` ms"
    "ms \<subseteq> {m. (m, r) \<in> v_attached ?v} \<union> v_foreign ?v r"
    using yieldsD [OF view_ListAttachedRolePolicies [OF W(1)] list] by blast
  have "s2 = s1" and "set ns \<subseteq> ms"
    using collect_names_set [OF collect] ms(1) by auto
  show "follows E view sp ?v t \<and> (n, r) \<in> v_attached (view (world t))"
  proof (cases "n \<in> set ns")
    case True
    then have "(n, r) \<in> v_attached ?v" using \<open>set ns \<subseteq> ms\<close> ms(2) own by auto
    then show ?thesis using rest True s1 sp \<open>s2 = s1\<close> by (simp add: returnM_def follows_def)
  next
    case False
    then obtain s3 where attach: "AttachRolePolicy E c (Some n) (Some r) s2 = (Ok (), s3)"
      and status: "updateCRDStatus E (Some c) provisionPhase attachPhase
           (''Policy '' @ n @ '' was attached to role '' @ r @ ''.'') (PolicyResult (Some p)) s3 = (Ok x, t)"
      using rest by (auto elim!: bindM_Ok_cases)
    have "view (world s3) = attach_view n r ?v" "prov s3 = prov s"
      using yieldsD [OF view_AttachRolePolicy [OF W(1)] attach] s1 \<open>s2 = s1\<close> by simp_all
    moreover have "view (world t) = view (world s3)" "Spec (prov t) = Spec (prov s3)"
      using yieldsD [OF status_yields [OF W(1,2)] status] by auto
    ultimately show ?thesis using sp by (simp add: follows_def) (simp add: attach_view_def)
  qed
qed

text \<open>The loop over the tags of an existing policy: afterwards the policy is in step.\<close>

lemma checksum_differs_yields:
  "yields (\<lambda>differs t. t = s \<and> (\<not> differs \<longrightarrow> agrees (NewChecksumTag E d) tag)) (checksum_differs (NewChecksumTag E d) tag) s"
  by (auto simp: checksum_differs_def agrees_def NewChecksumTag_def intro!: yields_bindM [OF yields_deref [where Q = "\<lambda>x t. t = s \<and> _ x"]])

lemma tag_loop_yields:
  assumes W: "iam_documented E c view names" "status_keeps_spec E" "spec_coherent sp"
    and sp: "Spec (prov s) = sp" and policy: "policy \<in> set (spec_policies sp)" "ps_Name policy = Some n"
    and role: "rs_Name role = Some r" and p: "ip_PolicyName p = Some n"
    and tags: "records E policy tags"
    and now: "policy_in_step E (view (world s)) policy \<or>
      (\<exists>pre. v_policies (view (world s)) n = Some (pre @ ts) \<and>
         list_all (agrees (NewChecksumTag E (ps_PolicyDocument policy))) pre)"
  shows "yields (\<lambda>_ t. follows E view sp (view (world s)) t \<and> policy_in_step E (view (world t)) policy)
    (forM ts (\<lambda>tag. bindM (checksum_differs (NewChecksumTag E (ps_PolicyDocument policy)) tag) (\<lambda>differs.
       if differs then replace_policy E c role policy p desc tags else returnM ()))) s"
  using sp now
proof (induction ts arbitrary: s)
  case Nil
  then show ?case by (auto simp: policy_in_step_def policy(2) follows_refl)
next
  case (Cons tag ts)
  let ?ct = "NewChecksumTag E (ps_PolicyDocument policy)"
  let ?body = "\<lambda>tag. bindM (checksum_differs ?ct tag) (\<lambda>differs.
    if differs then replace_policy E c role policy p desc tags else returnM ())"
  show ?case
    unfolding yields_def
  proof (intro allI impI)
    fix x t
    assume "forM (tag # ts) ?body s = (Ok x, t)"
    then obtain differs s1 s2 where d: "checksum_differs ?ct tag s = (Ok differs, s1)"
      and b: "(if differs then replace_policy E c role policy p desc tags else returnM ()) s1 = (Ok (), s2)"
      and rest: "forM ts ?body s2 = (Ok x, t)"
      by (auto elim!: bindM_Ok_cases)
    have s1: "s1 = s" "\<not> differs \<Longrightarrow> agrees ?ct tag" using yieldsD [OF checksum_differs_yields d] by auto
    have s2: "follows E view sp (view (world s)) s2" and
      now2: "policy_in_step E (view (world s2)) policy \<or>
        (\<exists>pre. v_policies (view (world s2)) n = Some (pre @ ts) \<and> list_all (agrees ?ct) pre)"
    proof -
      show "follows E view sp (view (world s)) s2"
        using b s1(1) Cons.prems(1) yieldsD [OF replace_policy_yields [OF W Cons.prems(1) policy role p tags]]
        by (cases differs) (auto simp: returnM_def follows_refl)
      show "policy_in_step E (view (world s2)) policy \<or>
        (\<exists>pre. v_policies (view (world s2)) n = Some (pre @ ts) \<and> list_all (agrees ?ct) pre)"
      proof (cases differs)
        case True
        then show ?thesis
          using b s1(1) yieldsD [OF replace_policy_yields [OF W Cons.prems(1) policy role p tags]] by auto
      next
        case False
        then have "s2 = s" using b s1(1) by (simp add: returnM_def)
        moreover have "\<exists>pre'. pre @ tag # ts = pre' @ ts \<and> list_all (agrees ?ct) pre'"
          if "list_all (agrees ?ct) pre" for pre
          using that s1(2) [OF False] by (intro exI [of _ "pre @ [tag]"]) simp
        ultimately show ?thesis using Cons.prems(2) by metis
      qed
    qed
    have "Spec (prov s2) = sp" using s2 by (simp add: follows_def)
    from yieldsD [OF Cons.IH [OF this now2] rest] s2
    show "follows E view sp (view (world s)) t \<and> policy_in_step E (view (world t)) policy"
      using follows_trans by blast
  qed
qed

lemma policy_tags_unfold:
  "TagsDefine (spec_EKSClusterName (Spec p)) (om_Namespace (ObjectMeta p))
     (map (\<lambda>t. \<lparr>it_Key = tag_Key t, it_Value = tag_Value t\<rparr>) tags @ [NewChecksumTag E (ps_PolicyDocument policy)]) =
   policy_tags E p policy tags"
  by (simp add: policy_tags_def)

lemma ConvertToIAMTags_Ok:
  assumes "ConvertToIAMTags xs s = (Ok ts, t)"
  shows "t = s \<and> (\<exists>tags. xs = map Some tags \<and> ts = map (\<lambda>t. \<lparr>it_Key = tag_Key t, it_Value = tag_Value t\<rparr>) tags)"
  using assms
proof (induction xs arbitrary: ts t)
  case Nil
  then show ?case by (simp add: returnM_def)
next
  case (Cons x xs)
  then obtain y where x: "x = Some y" by (cases x) (auto simp: panicM_def bindM_def)
  with Cons.prems obtain ts' u where run: "ConvertToIAMTags xs s = (Ok ts', u)"
    and "ts = \<lparr>it_Key = tag_Key y, it_Value = tag_Value y\<rparr> # ts'" "t = u"
    by (auto elim!: bindM_Ok_cases simp: returnM_def)
  with Cons.IH [OF run] obtain tags where "t = s" "xs = map Some tags"
    "ts' = map (\<lambda>t. \<lparr>it_Key = tag_Key t, it_Value = tag_Value t\<rparr>) tags" by blast
  then show ?case using x \<open>ts = _\<close> by (intro conjI exI [of _ "y # tags"]) simp_all
qed

lemma sync_listed_policy_yields:
  assumes W: "iam_documented E c view names" "status_keeps_spec E" "spec_coherent sp"
    and sp: "Spec (prov s) = sp" and policy: "policy \<in> set (spec_policies sp)" "ps_Name policy = Some n"
    and role: "rs_Name role = Some r" and own: "n \<notin> v_foreign (view (world s)) r"
  shows "yields (\<lambda>_ t. follows E view sp (view (world s)) t \<and> policy_in_step E (view (world t)) policy \<and>
      (n, r) \<in> v_attached (view (world t)))
    (sync_listed_policy E c role policy n) s"
  unfolding yields_def
proof (intro allI impI)
  fix x t
  let ?v = "view (world s)" and ?ct = "NewChecksumTag E (ps_PolicyDocument policy)"
  assume "sync_listed_policy E c role policy n s = (Ok x, t)"
  then obtain got found s1 specTags s2 where get: "GetPolicyByName E c (Some n) s = (Ok (got, found), s1)"
    and conv: "ConvertToIAMTags (ps_Tags policy) s1 = (Ok specTags, s2)"
    and rest: "(if \<not> found then create_and_attach E c role policy (policy_description (prov s1))
          (TagsDefine (spec_EKSClusterName (Spec (prov s1))) (om_Namespace (ObjectMeta (prov s1))) (specTags @ [?ct]))
       else bindM (deref got) (\<lambda>iamPolicy.
         bindM (forM (ip_Tags iamPolicy) (\<lambda>tag. bindM (checksum_differs ?ct tag) (\<lambda>differs.
           if differs then replace_policy E c role policy iamPolicy (policy_description (prov s1))
             (TagsDefine (spec_EKSClusterName (Spec (prov s1))) (om_Namespace (ObjectMeta (prov s1))) (specTags @ [?ct]))
           else returnM ()))) (\<lambda>_. attach_if_missing E c role policy n iamPolicy))) s2 = (Ok x, t)"
    by (auto simp: sync_listed_policy_def policy(2) getM_def policy_description_def Let_def cong: if_cong elim!: bindM_Ok_cases)
  have s1: "view (world s1) = ?v" "prov s1 = prov s"
    and answer: "if found then \<exists>q. got = Some q \<and> ip_PolicyName q = Some n \<and> v_policies ?v n = Some (ip_Tags q)
       else v_policies ?v n = None"
    using yieldsD [OF view_GetPolicyByName [OF W(1)] get] by auto
  obtain tags where "s2 = s1" and tags: "ps_Tags policy = map Some tags"
    and specTags: "specTags = map (\<lambda>t. \<lparr>it_Key = tag_Key t, it_Value = tag_Value t\<rparr>) tags"
    using ConvertToIAMTags_Ok [OF conv] by blast
  note agree = policy_tags_agree [OF W(3) policy(1) tags, of E "prov s1"]
  have sp1: "Spec (prov s1) = sp" using s1 sp by simp
  show "follows E view sp ?v t \<and> policy_in_step E (view (world t)) policy \<and> (n, r) \<in> v_attached (view (world t))"
  proof (cases found)
    case False
    then have run: "create_and_attach E c role policy (policy_description (prov s1))
        (policy_tags E (prov s1) policy tags) s1 = (Ok x, t)"
      using rest \<open>s2 = s1\<close> by (simp add: specTags policy_tags_unfold)
    have "v_policies (view (world s1)) n = None" using answer False s1(1) by simp
    from yieldsD [OF create_and_attach_yields [OF W sp1 policy role this agree] run] show ?thesis using s1(1) by simp
  next
    case True
    then obtain q where q: "got = Some q" "ip_PolicyName q = Some n" "v_policies ?v n = Some (ip_Tags q)"
      using answer by auto
    then obtain s3 where loop: "forM (ip_Tags q) (\<lambda>tag. bindM (checksum_differs ?ct tag) (\<lambda>differs.
        if differs then replace_policy E c role policy q (policy_description (prov s1))
          (policy_tags E (prov s1) policy tags) else returnM ())) s1 = (Ok (), s3)"
      and attach: "attach_if_missing E c role policy n q s3 = (Ok x, t)"
      using rest [unfolded specTags policy_tags_unfold] True \<open>s2 = s1\<close> by (auto elim!: bindM_Ok_cases)
    have "policy_in_step E (view (world s1)) policy \<or>
        (\<exists>pre. v_policies (view (world s1)) n = Some (pre @ ip_Tags q) \<and> list_all (agrees ?ct) pre)"
      using q(3) s1(1) by (intro disjI2 exI [of _ "[]"]) simp
    from yieldsD [OF tag_loop_yields [OF W sp1 policy role q(2) agree this] loop]
    have s3: "follows E view sp ?v s3" "policy_in_step E (view (world s3)) policy" using s1(1) by simp_all
    then have "Spec (prov s3) = sp" "n \<notin> v_foreign (view (world s3)) r"
      using own by (auto simp: follows_def advances_def)
    from yieldsD [OF attach_if_missing_yields [OF W(1,2) this(1) policy(2) role this(2)] attach]
    have t: "follows E view sp (view (world s3)) t" "(n, r) \<in> v_attached (view (world t))" by simp_all
    then have "policy_in_step E (view (world t)) policy"
      using s3(2) policy(1) by (auto simp: follows_def advances_def)
    then show ?thesis using t s3(1) follows_trans by blast
  qed
qed

section \<open>All policies of a role\<close>

lemma syncPoliciesByRoleSpec_yields:
  fixes s :: "'w gstate"
  assumes W: "iam_documented E c view names" "status_keeps_spec E" "spec_coherent sp"
    and sp: "Spec (prov s) = sp" and role: "rs_Name role = Some r" "r \<in> set (spec_role_names sp)"
    and own: "no_lookalikes sp (view (world s))"
  shows "yields (\<lambda>_ t. follows E view sp (view (world s)) t \<and> policies_attached E sp (view (world t)) role)
    (syncPoliciesByRoleSpec E c role) s"
proof -
  let ?v = "view (world s)"
  define ok where "ok = (\<lambda>policy v. policy_in_step E v policy \<and> (the (ps_Name policy), r) \<in> v_attached v)"
  have ok_mono: "ok policy v'" if "policy \<in> set (spec_policies sp)" "ok policy v" "advances E sp v v'" for policy v v'
    using that by (auto simp: ok_def advances_def)
  have one: "yields (\<lambda>_ t. follows E view sp (view (world u)) t \<and> (rp = ps_Name policy \<longrightarrow> ok policy (view (world t))))
      (bindM (deref rp) (\<lambda>rp. bindM (deref (ps_Name policy)) (\<lambda>pn.
         if rp = pn then sync_listed_policy E c role policy rp else returnM ()))) u"
    if u: "follows E view sp ?v u" and policy: "policy \<in> set (spec_policies sp)" for rp policy u
  proof (cases "rp \<noteq> None \<and> rp = ps_Name policy")
    case True
    then obtain n where n: "rp = Some n" "ps_Name policy = Some n" by auto
    have "Spec (prov u) = sp" using u by (simp add: follows_def)
    moreover have "n \<notin> v_foreign (view (world u)) r"
      using own u in_spec_policies_name [OF policy n(2)] role(2) by (auto simp: no_lookalikes_def follows_def advances_def)
    ultimately show ?thesis
      using yields_weaken [OF sync_listed_policy_yields [OF W _ policy n(2) role(1)]] n by (simp add: ok_def)
  next
    case False
    then show ?thesis using u by (cases rp; cases "ps_Name policy") (auto simp: follows_def)
  qed
  let ?body = "\<lambda>rp e. case e of (k, policy) \<Rightarrow> bindM (deref rp) (\<lambda>rp. bindM (deref (ps_Name (policy_Spec policy))) (\<lambda>pn.
    if rp = pn then sync_listed_policy E c role (policy_Spec policy) rp else returnM ()))"
  let ?I = "follows E view sp ?v"
  let ?P = "\<lambda>rp e t. rp = ps_Name (policy_Spec (snd e)) \<longrightarrow> ok (policy_Spec (snd e)) (view (world t))"
  have round: "yields (\<lambda>_ t. follows E view sp (view (world u)) t \<and> ?P rp e t) (?body rp e) u"
    if "?I u" "e \<in> set (spec_Policies sp)" for rp e u
  proof -
    have "policy_Spec (snd e) \<in> set (spec_policies sp)" using that(2) by (simp add: spec_policies_def)
    from one [OF that(1) this, of rp] show ?thesis by (simp add: case_prod_beta)
  qed
  have loop: "yields (\<lambda>_ t. follows E view sp (view (world u)) t \<and> (\<forall>e \<in> set es. ?P rp e t)) (forM es (?body rp)) u"
    if u: "?I u" and es: "set es = set (spec_Policies sp)" for rp es u
  proof (rule yields_forM_each [where I = "follows E view sp (view (world u))" and P = "?P rp"])
    show "follows E view sp (view (world u)) u" using u by (simp add: follows_def)
    show "yields (\<lambda>_ t. follows E view sp (view (world u)) t \<and> ?P rp e t) (?body rp e) t"
      if "e \<in> set es" "follows E view sp (view (world u)) t" for e t
      using yields_weaken [OF round [of t e rp]] follows_trans [OF u that(2)] that es
        follows_trans [of E view sp "view (world u)" t] by simp
    show "yields (\<lambda>_. ?P rp e') (?body rp e) t"
      if "e \<in> set es" "e' \<in> set es" "follows E view sp (view (world u)) t" "?P rp e' t" for e e' t
      using yields_weaken [OF round [of t e rp], of "\<lambda>_. ?P rp e'"] follows_trans [OF u that(3)] that es
        ok_mono [of "policy_Spec (snd e')"] by (auto simp: follows_def spec_policies_def)
  qed
  let ?rounds = "\<lambda>rp. bindM (getM (\<lambda>s. spec_Policies (Spec (prov s)))) (\<lambda>m. bindM (range_map m) (\<lambda>es. forM es (?body rp)))"
  let ?Q = "\<lambda>rp t. \<forall>e \<in> set (spec_Policies sp). ?P rp e t"
  have inner: "yields (\<lambda>_ t. follows E view sp (view (world u)) t \<and> ?Q rp t) (?rounds rp) u" if u: "?I u" for rp u
  proof (rule yields_bindM [where Q = "\<lambda>m t. m = spec_Policies sp \<and> t = u"])
    show "yields (\<lambda>m t. m = spec_Policies sp \<and> t = u) (getM (\<lambda>s. spec_Policies (Spec (prov s)))) u"
      using u by (simp add: yields_getM follows_def)
    fix m and t :: "'w gstate" assume m: "m = spec_Policies sp \<and> t = u"
    show "yields (\<lambda>_ t. follows E view sp (view (world u)) t \<and> ?Q rp t) (bindM (range_map m) (\<lambda>es. forM es (?body rp))) t"
    proof (rule yields_bindM [where Q = "\<lambda>es w. set es = set (spec_Policies sp) \<and> world w = world u \<and> prov w = prov u"])
      show "yields (\<lambda>es w. set es = set (spec_Policies sp) \<and> world w = world u \<and> prov w = prov u) (range_map m) t"
        using m by (intro yields_range_map) simp
      fix es and w :: "'w gstate" assume w: "set es = set (spec_Policies sp) \<and> world w = world u \<and> prov w = prov u"
      then have "?I w" using u by (simp add: follows_def)
      then show "yields (\<lambda>_ t. follows E view sp (view (world u)) t \<and> ?Q rp t) (forM es (?body rp)) w"
        using loop [of w es rp] w by simp
    qed
  qed
  have outer: "yields (\<lambda>_ t. ?I t \<and> (\<forall>rp \<in> set (rs_Policies role). ?Q rp t)) (forM (rs_Policies role) ?rounds) s"
  proof (rule yields_forM_each [where I = ?I and P = ?Q])
    show "?I s" by (simp add: follows_refl sp)
    show "yields (\<lambda>_ t. ?I t \<and> ?Q rp t) (?rounds rp) t" if "?I t" for rp t
      using that by (intro yields_weaken [OF inner [OF that]]) (auto intro: follows_trans)
    show "yields (\<lambda>_. ?Q rp') (?rounds rp) t" if "?I t" "?Q rp' t" for rp rp' t
    proof (rule yields_weaken [OF inner [OF that(1)]], intro ballI impI)
      fix u :: "'w gstate" and e
      assume "follows E view sp (view (world t)) u \<and> ?Q rp u" and "e \<in> set (spec_Policies sp)"
        and "rp' = ps_Name (policy_Spec (snd e))"
      then show "ok (policy_Spec (snd e)) (view (world u))"
        using that(2) ok_mono [of "policy_Spec (snd e)"] by (auto simp: follows_def spec_policies_def)
    qed
  qed
  show ?thesis
    unfolding syncPoliciesByRoleSpec_def
    by (rule yields_weaken [OF outer]) (auto simp: policies_attached_def ok_def role(1) spec_policies_def)
qed


section \<open>One role\<close>

lemma setAssumeRolePolicyDocument_yields:
  "yields (\<lambda>role' t. t = s \<and> (\<exists>text. wanted_document E air role = Some text \<and>
      role' = role\<lparr>rs_AssumeRolePolicyDocument := Some text\<rparr>))
    (setAssumeRolePolicyDocument E c rq air role) s"
  unfolding yields_def
proof (intro allI impI)
  fix role' t
  assume run: "setAssumeRolePolicyDocument E c rq air role s = (Ok role', t)"
  obtain pre name found where cut: "strings_Cut (cp_OIDCProviderARN (air_eksCP air)) ''/'' = (pre, name, found)"
    by (metis prod_cases3)
  from run cut obtain d where "found" and d: "rs_AssumeRolePolicyDocument role = Some d"
    by (cases "rs_AssumeRolePolicyDocument role"; cases found)
      (auto simp: setAssumeRolePolicyDocument_def Let_def panicM_def errM_def elim!: bindM_Ok_cases)
  then show "t = s \<and> (\<exists>text. wanted_document E air role = Some text \<and>
      role' = role\<lparr>rs_AssumeRolePolicyDocument := Some text\<rparr>)"
    using run cut
    by (auto simp: setAssumeRolePolicyDocument_def wanted_document_def Let_def returnM_def errM_def
        split: sum.splits elim!: bindM_Ok_cases)
qed

text \<open>The trust policy after the lookup said whether the role exists.\<close>

definition role_follows ::
  "('w, 'p) env \<Rightarrow> ('w \<Rightarrow> iam_view) \<Rightarrow> AWSIAMProvisionSpec \<Rightarrow> string \<Rightarrow> iam_view \<Rightarrow> 'w gstate \<Rightarrow> bool" where
  "role_follows E view sp r v t =
     (Spec (prov t) = sp \<and> advances E sp v (view (world t)) \<and>
      (\<forall>x. x \<noteq> r \<longrightarrow> v_roles (view (world t)) x = v_roles v x))"

lemma role_follows_trans:
  "role_follows E view sp r v s \<Longrightarrow> follows E view sp (view (world s)) t \<Longrightarrow> role_follows E view sp r v t"
  by (auto simp: role_follows_def follows_def intro: advances_trans)

lemma trust_in_step_roles:
  "v_roles v' r = v_roles v r \<Longrightarrow> trust_in_step E v' want r = trust_in_step E v want r"
  by (simp add: trust_in_step_def)

lemma trust_in_step_put [simp]: "trust_in_step E (role_view r (Some text) v) (Some text) r"
  by (simp add: trust_in_step_def role_view_def same_document_def)

lemma status_nil_role: "updateCRDStatus E (Some c) crdPhase phase message (RoleResult None) = panicM"
  by (simp add: updateCRDStatus_def update_role_status_def)

lemma create_role_yields:
  fixes s :: "'w gstate"
  assumes W: "iam_documented E c view names" "status_keeps_spec E" "spec_coherent sp"
    and sp: "Spec (prov s) = sp" and role: "rs_Name role = Some r" "r \<in> set (spec_role_names sp)"
    and doc: "rs_AssumeRolePolicyDocument role = Some text"
    and own: "no_lookalikes sp (view (world s))"
  shows "yields (\<lambda>_ t. role_follows E view sp r (view (world s)) t \<and> trust_in_step E (view (world t)) (Some text) r)
    (create_role_and_policies E c role tags) s"
  unfolding yields_def
proof (intro allI impI)
  fix x t
  let ?v = "view (world s)"
  assume "create_role_and_policies E c role tags s = (Ok x, t)"
  then obtain res s1 s2 where
    create: "CreateRole E (Some r) (Some text)
      (Some (RoleDescriptionPrefix @ spec_EKSClusterName (Spec (prov s)) @ ''. '' @ IAMDescription)) tags s = (Ok res, s1)"
    and status: "updateCRDStatus E (Some c) provisionPhase createPhase (''Role '' @ r @ '' was created.'')
      (RoleResult res) s1 = (Ok (), s2)"
    and sync: "syncPoliciesByRoleSpec E c role s2 = (Ok x, t)"
    by (auto simp: create_role_and_policies_def getM_def role doc Let_def elim!: bindM_Ok_cases)
  note v1 = yieldsD [OF view_CreateRole [OF W(1)] create]
  have "res \<noteq> None"
    using status by (cases res) (auto simp: status_nil_role panicM_def)
  then obtain q where q: "res = Some q" "ir_RoleName q = Some r" "view (world s1) = role_view r (Some text) ?v"
    "prov s1 = prov s" using v1 by auto
  then have s2: "view (world s2) = role_view r (Some text) ?v" "Spec (prov s2) = sp"
    using yieldsD [OF status_yields [OF W(1,2)] status] sp by auto
  then have "role_follows E view sp r ?v s2" by (simp add: role_follows_def) (simp add: role_view_def)
  moreover have "no_lookalikes sp (view (world s2))"
    using own by (simp add: s2(1) no_lookalikes_def role_view_def)
  from yieldsD [OF syncPoliciesByRoleSpec_yields [OF W s2(2) role this] sync]
  have "follows E view sp (view (world s2)) t" by simp
  moreover have "trust_in_step E (view (world s2)) (Some text) r" by (simp add: s2(1))
  ultimately show "role_follows E view sp r ?v t \<and> trust_in_step E (view (world t)) (Some text) r"
    using role_follows_trans trust_in_step_roles by (metis follows_def)
qed

lemma update_role_yields:
  fixes s :: "'w gstate"
  assumes W: "iam_documented E c view names" "status_keeps_spec E" "spec_coherent sp"
    and sp: "Spec (prov s) = sp" and role: "rs_Name role = Some r" "r \<in> set (spec_role_names sp)"
    and doc: "rs_AssumeRolePolicyDocument role = Some text"
    and own: "no_lookalikes sp (view (world s))" and to: "tostring_documented E"
    and q: "ir_RoleName q = Some r" "v_roles (view (world s)) r = Some have"
      "ir_AssumeRolePolicyDocument q = Some (percent_encode must have)"
  shows "yields (\<lambda>_ t. role_follows E view sp r (view (world s)) t \<and> trust_in_step E (view (world t)) (Some text) r)
    (update_role_and_policies E c role q) s"
  unfolding yields_def
proof (intro allI impI)
  fix x t
  let ?v = "view (world s)"
  assume "update_role_and_policies E c role q s = (Ok x, t)"
  then obtain diff s0 s2 where
    diff: "liftM (DiffRoleByPolicyDocument E (Some (percent_encode must have)) (Some text)) s = (Ok diff, s0)"
    and update: "(if diff then bindM (UpdateRole E (Some r) (Some text)) (\<lambda>_.
         updateCRDStatus E (Some c) provisionPhase updatePhase
           (''The trust relationship policy document for role '' @ r @ '' was updated.'') (RoleResult (Some q)))
       else returnM ()) s0 = (Ok (), s2)"
    and sync: "syncPoliciesByRoleSpec E c role s2 = (Ok x, t)"
    by (auto simp: update_role_and_policies_def role doc q(3) cong: if_cong elim!: bindM_Ok_cases)
  have s0: "s0 = s" and d: "DiffRoleByPolicyDocument E (Some (percent_encode must have)) (Some text) = Inr diff"
    using diff by (auto simp: liftM_def returnM_def errM_def split: sum.splits)
  have s2: "role_follows E view sp r ?v s2 \<and> trust_in_step E (view (world s2)) (Some text) r"
  proof (cases diff)
    case True
    then obtain s1 where up: "UpdateRole E (Some r) (Some text) s = (Ok (), s1)"
      and status: "updateCRDStatus E (Some c) provisionPhase updatePhase
           (''The trust relationship policy document for role '' @ r @ '' was updated.'') (RoleResult (Some q)) s1 = (Ok (), s2)"
      using update s0 by (auto elim!: bindM_Ok_cases)
    have "view (world s1) = role_view r (Some text) ?v" "prov s1 = prov s"
      using yieldsD [OF view_UpdateRole [OF W(1)] up] q(2) by simp_all
    moreover have "view (world s2) = view (world s1)" "Spec (prov s2) = Spec (prov s1)"
      using yieldsD [OF status_yields [OF W(1,2)] status] q(1) by auto
    ultimately show ?thesis using sp by (simp add: role_follows_def) (simp add: role_view_def)
  next
    case False
    then have "s2 = s" using update s0 by (simp add: returnM_def)
    moreover have "same_document E have text"
      using d False to
      by (auto simp: DiffRoleByPolicyDocument_def compactRolePolicyDocument_def same_document_def
          tostring_documented_def PathUnescape_percent_encode split: sum.splits)
    ultimately show ?thesis using sp q(2) by (simp add: role_follows_def trust_in_step_def)
  qed
  then have "no_lookalikes sp (view (world s2))" "Spec (prov s2) = sp"
    using own by (auto simp: role_follows_def intro: no_lookalikes_mono)
  from yieldsD [OF syncPoliciesByRoleSpec_yields [OF W this(2) role this(1)] sync]
  have "follows E view sp (view (world s2)) t" by simp
  with s2 show "role_follows E view sp r ?v t \<and> trust_in_step E (view (world t)) (Some text) r"
    using role_follows_trans trust_in_step_roles by (metis follows_def)
qed


lemma syncRole_yields:
  fixes s :: "'w gstate"
  assumes W: "iam_documented E c view names" "status_keeps_spec E" "spec_coherent sp"
    and sp: "Spec (prov s) = sp" and role: "rs_Name role = Some r" "r \<in> set (spec_role_names sp)"
    and own: "no_lookalikes sp (view (world s))" and to: "tostring_documented E"
  shows "yields (\<lambda>role' t. role_follows E view sp r (view (world s)) t \<and>
      trust_in_step E (view (world t)) (wanted_document E air role) r \<and>
      rs_Name role' = Some r \<and> rs_Policies role' = rs_Policies role)
    (syncRole E c rq air role) s"
  unfolding yields_def
proof (intro allI impI)
  fix role' t
  assume "syncRole E c rq air role s = (Ok role', t)"
  then obtain specTags s1 s2 got found s3 where tags: "ConvertToIAMTags (rs_Tags role) s = (Ok specTags, s1)"
    and set: "setAssumeRolePolicyDocument E c rq air role s1 = (Ok role', s2)"
    and get: "GetRoleByName E (rs_Name role') s2 = (Ok (got, found), s3)"
    and rest: "(if \<not> found then create_role_and_policies E c role'
          (TagsDefine (spec_EKSClusterName (Spec (prov s))) (om_Namespace (ObjectMeta (prov s))) specTags)
        else bindM (deref got) (\<lambda>q. update_role_and_policies E c role' q)) s3 = (Ok (), t)"
    by (auto simp: syncRole_def getM_def Let_def returnM_def elim!: bindM_Ok_cases)
  have "s1 = s" using ConvertToIAMTags_Ok [OF tags] by blast
  then obtain doc where want: "wanted_document E air role = Some doc" "s2 = s"
    and role': "role' = role\<lparr>rs_AssumeRolePolicyDocument := Some doc\<rparr>"
    using yieldsD [OF setAssumeRolePolicyDocument_yields set] by blast
  then have r': "rs_Name role' = Some r" "rs_AssumeRolePolicyDocument role' = Some doc"
    "rs_Policies role' = rs_Policies role" using role by simp_all
  have s3: "view (world s3) = view (world s)" "prov s3 = prov s"
    and answer: "if found then \<exists>q have must. got = Some q \<and> ir_RoleName q = Some r \<and>
          v_roles (view (world s)) r = Some have \<and> ir_AssumeRolePolicyDocument q = Some (percent_encode must have)
       else v_roles (view (world s)) r = None"
    using yieldsD [OF view_GetRoleByName [OF W(1)] get [unfolded r'(1)]] want(2) by auto
  have at: "Spec (prov s3) = sp" "no_lookalikes sp (view (world s3))" using s3 sp own by simp_all
  have "role_follows E view sp r (view (world s3)) t \<and> trust_in_step E (view (world t)) (Some doc) r"
  proof (cases found)
    case False
    then show ?thesis
      using yieldsD [OF create_role_yields [OF W at(1) r'(1) role(2) r'(2) at(2)]] rest by simp
  next
    case True
    then obtain q "have" must where q: "got = Some q" "ir_RoleName q = Some r"
      "v_roles (view (world s3)) r = Some have" "ir_AssumeRolePolicyDocument q = Some (percent_encode must have)"
      using answer s3(1) by auto
    then show ?thesis
      using yieldsD [OF update_role_yields [OF W at(1) r'(1) role(2) r'(2) at(2) to q(2,3,4)]] rest True by simp
  qed
  then show "role_follows E view sp r (view (world s)) t \<and>
      trust_in_step E (view (world t)) (wanted_document E air role) r \<and>
      rs_Name role' = Some r \<and> rs_Policies role' = rs_Policies role"
    using want(1) s3(1) r' by simp
qed

text \<open>One round of the loop over \<open>Spec.Roles\<close>.\<close>

lemma role_round_yields:
  fixes s :: "'w gstate"
  assumes W: "iam_documented E c view names" "status_keeps_spec E" "spec_coherent sp"
    and sp: "Spec (prov s) = sp" and role: "role \<in> set (spec_roles sp)" "rs_Name role = Some r"
    and own: "no_lookalikes sp (view (world s))" and to: "tostring_documented E"
  shows "yields (\<lambda>_ t. role_follows E view sp r (view (world s)) t \<and> role_in_step E sp air (view (world t)) role)
    (bindM (syncRole E c rq air role) (\<lambda>role. syncPoliciesByRoleSpec E c role)) s"
proof (rule yields_bindM [OF syncRole_yields [OF W sp role(2) in_spec_roles_name [OF role] own to]])
  fix role' :: RoleSpec and t :: "'w gstate"
  assume t: "role_follows E view sp r (view (world s)) t \<and>
      trust_in_step E (view (world t)) (wanted_document E air role) r \<and>
      rs_Name role' = Some r \<and> rs_Policies role' = rs_Policies role"
  then have at: "Spec (prov t) = sp" "no_lookalikes sp (view (world t))"
    using own by (auto simp: role_follows_def intro: no_lookalikes_mono)
  from t have "rs_Name role' = Some r" by simp
  note sync = syncPoliciesByRoleSpec_yields [OF W at(1) this in_spec_roles_name [OF role] at(2)]
  show "yields (\<lambda>_ t. role_follows E view sp r (view (world s)) t \<and> role_in_step E sp air (view (world t)) role)
      (syncPoliciesByRoleSpec E c role') t"
  proof (rule yields_weaken [OF sync])
    fix x u
    assume u: "follows E view sp (view (world t)) u \<and> policies_attached E sp (view (world u)) role'"
    have "policies_attached E sp (view (world u)) role"
      using u t role(2) by (auto simp: policies_attached_def)
    moreover have "trust_in_step E (view (world u)) (wanted_document E air role) r"
      using u t trust_in_step_roles by (metis follows_def)
    ultimately show "role_follows E view sp r (view (world s)) u \<and> role_in_step E sp air (view (world u)) role"
      using u t role(2) role_follows_trans by (auto simp: role_in_step_def)
  qed
qed

section \<open>All roles\<close>

text \<open>What all the rounds keep.\<close>

definition on_course :: "('w, 'p) env \<Rightarrow> ('w \<Rightarrow> iam_view) \<Rightarrow> AWSIAMProvisionSpec \<Rightarrow> iam_view \<Rightarrow> 'w gstate \<Rightarrow> bool" where
  "on_course E view sp v t = (Spec (prov t) = sp \<and> advances E sp v (view (world t)))"

lemma role_in_step_kept:
  assumes "role_follows E view sp r v t" and "role_in_step E sp air v role" and "rs_Name role \<noteq> Some r"
  shows "role_in_step E sp air (view (world t)) role"
proof -
  have "v_roles (view (world t)) (the (rs_Name role)) = v_roles v (the (rs_Name role))"
    using assms by (auto simp: role_follows_def role_in_step_def)
  note trust = trust_in_step_roles [OF this]
  show ?thesis
    using assms(1,2) trust by (auto simp: role_in_step_def role_follows_def intro: policies_attached_mono)
qed

lemma sync_all_roles_yields:
  fixes s :: "'w gstate"
  assumes W: "iam_documented E c view names" "status_keeps_spec E" "spec_coherent sp"
    and sp: "Spec (prov s) = sp" and own: "no_lookalikes sp (view (world s))" and to: "tostring_documented E"
  shows "yields (\<lambda>_ t. Spec (prov t) = sp \<and> advances E sp (view (world s)) (view (world t)) \<and>
      iam_in_step E sp air (view (world t)))
    (sync_all_roles E c rq air) s"
proof -
  let ?I = "on_course E view sp (view (world s))"
  let ?body = "\<lambda>e. case e of (k, role0) \<Rightarrow>
    bindM (syncRole E c rq air (role_Spec role0)) (\<lambda>role. syncPoliciesByRoleSpec E c role)"
  let ?P = "\<lambda>e t. role_in_step E sp air (view (world t)) (role_Spec (snd e))"
  have round: "\<exists>r. rs_Name (role_Spec (snd e)) = Some r \<and>
      yields (\<lambda>_ t. role_follows E view sp r (view (world u)) t \<and> ?P e t) (?body e) u"
    if u: "?I u" and e: "e \<in> set (spec_Roles sp)" for e u
  proof -
    have role: "role_Spec (snd e) \<in> set (spec_roles sp)" using e by (simp add: spec_roles_def)
    then obtain r where r: "rs_Name (role_Spec (snd e)) = Some r" using W(3) by (auto simp: spec_coherent_def)
    have "Spec (prov u) = sp" "no_lookalikes sp (view (world u))"
      using u own by (auto simp: on_course_def intro: no_lookalikes_mono)
    from role_round_yields [OF W this(1) role r this(2) to] r show ?thesis by (auto simp: case_prod_beta)
  qed
  have loop: "yields (\<lambda>_ t. ?I t \<and> (\<forall>e \<in> set es. ?P e t)) (forM es ?body) u"
    if u: "?I u" and es: "set es = set (spec_Roles sp)" for es u
  proof (rule yields_forM_each [where I = ?I and P = ?P])
    show "yields (\<lambda>_ t. ?I t \<and> ?P e t) (?body e) t" if e: "e \<in> set es" "?I t" for e t
    proof -
      obtain r where "yields (\<lambda>_ w. role_follows E view sp r (view (world t)) w \<and> ?P e w) (?body e) t"
        using round [OF e(2)] e(1) es by blast
      then show ?thesis
        by (rule yields_weaken) (use e(2) in \<open>auto simp: role_follows_def on_course_def intro: advances_trans\<close>)
    qed
    show "yields (\<lambda>_. ?P e') (?body e) t" if e: "e \<in> set es" "e' \<in> set es" "?I t" "?P e' t" for e e' t
    proof -
      obtain r where r: "rs_Name (role_Spec (snd e)) = Some r"
        and y: "yields (\<lambda>_ w. role_follows E view sp r (view (world t)) w \<and> ?P e w) (?body e) t"
        using round [OF e(3)] e(1) es by blast
      have "e' = e" if "rs_Name (role_Spec (snd e')) = Some r"
        using role_by_name [OF W(3)] e(1,2) es r that by metis
      then show ?thesis
        using e(4) by (intro yields_weaken [OF y]) (metis role_in_step_kept)
    qed
  qed (rule u)
  have start: "?I s" by (simp add: on_course_def sp)
  have "yields (\<lambda>_ t. ?I t \<and> (\<forall>e \<in> set (spec_Roles sp). ?P e t)) (sync_all_roles E c rq air) s"
    unfolding sync_all_roles_def
  proof (rule yields_bindM [where Q = "\<lambda>m t. m = spec_Roles sp \<and> t = s"])
    show "yields (\<lambda>m t. m = spec_Roles sp \<and> t = s) (getM (\<lambda>s. spec_Roles (Spec (prov s)))) s"
      using sp by (simp add: yields_getM)
    fix m and t :: "'w gstate" assume m: "m = spec_Roles sp \<and> t = s"
    show "yields (\<lambda>_ t. ?I t \<and> (\<forall>e \<in> set (spec_Roles sp). ?P e t)) (bindM (range_map m) (\<lambda>es. forM es ?body)) t"
    proof (rule yields_bindM [where Q = "\<lambda>es w. set es = set (spec_Roles sp) \<and> world w = world s \<and> prov w = prov s"])
      show "yields (\<lambda>es w. set es = set (spec_Roles sp) \<and> world w = world s \<and> prov w = prov s) (range_map m) t"
        using m by (intro yields_range_map) simp
      fix es and w :: "'w gstate" assume w: "set es = set (spec_Roles sp) \<and> world w = world s \<and> prov w = prov s"
      then have "?I w" using start by (simp add: on_course_def)
      then show "yields (\<lambda>_ t. ?I t \<and> (\<forall>e \<in> set (spec_Roles sp). ?P e t)) (forM es ?body) w"
        using loop [of w es] w by simp
    qed
  qed
  then show ?thesis
    by (rule yields_weaken) (auto simp: on_course_def iam_in_step_def spec_roles_def)
qed


section \<open>A whole reconciliation\<close>

lemmas same_spec_calls = same_spec_range_map same_spec_collect
  same_spec_ops [OF same_prov_role_ops(1)] same_spec_ops [OF same_prov_role_ops(2)]
  same_spec_ops [OF same_prov_role_ops(4)] same_spec_ops [OF same_prov_role_ops(6)]
  same_spec_ops [OF same_prov_role_ops(7)] same_spec_ops [OF same_prov_role_ops(8)]
  same_spec_ops [OF same_prov_policy_ops(1)] same_spec_ops [OF same_prov_policy_ops(2)]
  same_spec_ops [OF same_prov_policy_ops(4)] same_spec_ops [OF same_prov_ConvertToIAMTags]

lemma same_spec_sync_listed_policy:
  "status_keeps_spec E \<Longrightarrow> keeps same_spec (sync_listed_policy E c role policy rp)"
  by (auto simp: sync_listed_policy_def create_and_attach_def replace_policy_def attach_if_missing_def
      checksum_differs_def Let_def intro!: ss.keeps_rules same_spec_calls same_spec_status)

lemma same_spec_sync:
  assumes "status_keeps_spec E"
  shows "keeps same_spec (sync_all_roles E c rq air)"
proof -
  note [intro!] = ss.keeps_rules same_spec_calls same_spec_status [OF assms]
  have policies: "keeps same_spec (syncPoliciesByRoleSpec E c role)" for role
    by (auto simp: syncPoliciesByRoleSpec_def intro!: same_spec_sync_listed_policy [OF assms])
  have "keeps same_spec (setAssumeRolePolicyDocument E c rq air role)" for role
    by (auto simp: setAssumeRolePolicyDocument_def Let_def split: prod.splits)
  then show ?thesis
    by (auto simp: sync_all_roles_def syncRole_def create_role_and_policies_def update_role_and_policies_def
        Let_def policies)
qed

lemma report_synced_yields:
  assumes "iam_documented E c view names" and "status_keeps_spec E"
  shows "yields (\<lambda>_ t. view (world t) = view (world s) \<and> Spec (prov t) = Spec (prov s)) (report_synced E c) s"
proof -
  have "yields (\<lambda>_ t. view (world t) = view (world s) \<and> Spec (prov t) = Spec (prov s))
      (if b then updateCRDStatus E (Some c) provisionPhase [] synced_message NoResult else returnM ()) s" for b
    using status_yields [OF assms, of NoResult s] by simp
  then show ?thesis by (simp add: report_synced_def yields_def bindM_def getM_def)
qed

text \<open>
  Every listed policy carries the checksum of the specified document. Of a policy in step that has a
  checksum tag at all, this is so.
\<close>

definition documents_recorded :: "('w, 'p) env \<Rightarrow> AWSIAMProvisionSpec \<Rightarrow> iam_view \<Rightarrow> bool" where
  "documents_recorded E sp v = (\<forall>role \<in> set (spec_roles sp). \<forall>policy \<in> set (spec_policies sp).
     ps_Name policy \<in> set (rs_Policies role) \<longrightarrow>
       (\<exists>tags. Option.bind (ps_Name policy) (v_policies v) = Some tags \<and>
          NewChecksumTag E (ps_PolicyDocument policy) \<in> set tags))"

lemma in_step_recorded:
  assumes "iam_in_step E sp air v" and "policies_stamped sp v"
  shows "documents_recorded E sp v"
  unfolding documents_recorded_def
proof (intro ballI impI)
  fix role policy
  assume role: "role \<in> set (spec_roles sp)" and policy: "policy \<in> set (spec_policies sp)"
    and listed: "ps_Name policy \<in> set (rs_Policies role)"
  then have "policy_in_step E v policy"
    using assms(1) by (auto simp: iam_in_step_def role_in_step_def policies_attached_def)
  then obtain n tags where n: "ps_Name policy = Some n" "v_policies v n = Some tags"
    "list_all (agrees (NewChecksumTag E (ps_PolicyDocument policy))) tags"
    by (cases "ps_Name policy") (auto simp: policy_in_step_def split: option.splits)
  then have "stamped tags"
    using assms(2) in_spec_policies_name [OF policy n(1)] by (auto simp: policies_stamped_def)
  with n show "\<exists>tags. Option.bind (ps_Name policy) (v_policies v) = Some tags \<and>
      NewChecksumTag E (ps_PolicyDocument policy) \<in> set tags"
    using records_checksum [of E policy tags] by (simp add: records_def)
qed



section \<open>A first reconciliation of an empty account\<close>

definition conv_spec :: AWSIAMProvisionSpec where
  "conv_spec = \<lparr>spec_EKSClusterName = ''eks'', spec_Frequency = None, spec_Region = ''eu'',
     spec_Policies = [(''p'', \<lparr>policy_Spec = \<lparr>ps_Name = Some ''p'', ps_PolicyDocument = Some ''{}'', ps_Tags = []\<rparr>\<rparr>)],
     spec_Roles = [(''r'', \<lparr>role_Spec = \<lparr>rs_AssumeRolePolicyDocument = Some ''{}'', rs_Name = Some ''r'',
       rs_Policies = [Some ''p''], rs_Tags = []\<rparr>\<rparr>)]\<rparr>"

definition conv_prov :: AWSIAMProvision where
  "conv_prov = zero_AWSIAMProvision\<lparr>Spec := conv_spec,
     ObjectMeta := (ObjectMeta zero_AWSIAMProvision)\<lparr>om_Namespace := ''ns'',
       om_Finalizers := [awsIAMProvisionFinalizerName]\<rparr>\<rparr>"

definition conv_rq :: NamespacedName where
  "conv_rq = \<lparr>nn_Namespace = ''ns'', nn_Name = ''n''\<rparr>"

definition conv_air :: awsIAMResources where
  "conv_air = \<lparr>air_eksCP = \<lparr>cp_Ready = True, cp_OIDCProviderARN = ''a/b''\<rparr>,
     air_eksCPNamespace = \<lparr>nn_Namespace = ''ns'', nn_Name = ''eks''\<rparr>\<rparr>"

definition conv_start :: "mem gstate" where
  "conv_start = mem_state (mem_empty\<lparr>m_prov := Some conv_prov, m_cp := Some (air_eksCP conv_air)\<rparr>)"

text \<open>
  The runs below are evaluated with the checksum left as the term it is: only whether it equals
  itself matters to them.
\<close>

declare sha1_Sum_def [code del]

lemma conv_runs:
  "fst (getClusterResources mem_env None conv_rq conv_start) = Ok (Some conv_air)"
  "fst (make_client mem_env (snd (getClusterResources mem_env None conv_rq conv_start))) = Ok mem_client"
  "time_IsZero (om_DeletionTimestamp (ObjectMeta (prov (snd (make_client mem_env
     (snd (getClusterResources mem_env None conv_rq conv_start)))))))"
  "fst (Reconcile mem_env None conv_rq conv_start) = Ok 30000000000"
  "Spec (prov (snd (Reconcile mem_env None conv_rq conv_start))) = conv_spec"
  by code_simp+

declare sha1_Sum_def [code]

lemma run_pair: "fst x = r \<Longrightarrow> x = (r, snd x)"
  by auto

lemma conv_hypotheses:
  "tostring_documented mem_env" "spec_coherent conv_spec" "no_lookalikes sp (mem_view w)"
  by (simp_all add: tostring_documented_def mem_env_simps spec_coherent_def no_lookalikes_def mem_view_def conv_spec_def
      spec_role_names_def spec_policy_names_def List.map_filter_def spec_roles_def spec_policies_def)

lemma conv_start_stamped: "policies_stamped sp (mem_view (world conv_start))"
  by (simp add: policies_stamped_def conv_start_def mem_state_def mem_empty_def mem_view_def find_policy_def)


end
