(* ===== verification/SpecRequests.thy ===== *)
theory SpecRequests
  imports Conduct Convergence
begin

text \<open>
  What bringing IAM in line with the specification asks of IAM: nothing but what the specification
  says, and nothing beyond IAM's limits.
\<close>

section \<open>Requests the specification calls for\<close>

definition status_keeps_namespace :: "('w, 'p) env \<Rightarrow> bool" where
  "status_keeps_namespace E = (\<forall>p w. case k8s_UpdateStatus E p w of
     (Inr q, w') \<Rightarrow> om_Namespace (ObjectMeta q) = om_Namespace (ObjectMeta p)
   | _ \<Rightarrow> True)"

text \<open>The custom resource in memory has specification \<open>sp\<close> and lies in namespace \<open>ns\<close>.\<close>

definition of_spec :: "AWSIAMProvisionSpec \<Rightarrow> string \<Rightarrow> 'w gstate \<Rightarrow> bool" where
  "of_spec sp ns s = (Spec (prov s) = sp \<and> om_Namespace (ObjectMeta (prov s)) = ns)"

definition iam_tags :: "Tag list \<Rightarrow> iamTag list" where
  "iam_tags ts = map (\<lambda>t. \<lparr>it_Key = tag_Key t, it_Value = tag_Value t\<rparr>) ts"

definition owner_description :: "string \<Rightarrow> AWSIAMProvisionSpec \<Rightarrow> string option" where
  "owner_description pre sp = Some (pre @ spec_EKSClusterName sp @ ''. '' @ IAMDescription)"

text \<open>A policy of a role, both of the specification.\<close>

definition pairs :: "AWSIAMProvisionSpec \<Rightarrow> IAMClient \<Rightarrow> string option \<Rightarrow> string option \<Rightarrow> bool" where
  "pairs sp c arn r = (\<exists>role \<in> set (spec_roles sp). \<exists>policy \<in> set (spec_policies sp). \<exists>n.
     r = rs_Name role \<and> ps_Name policy = Some n \<and> Some n \<in> set (rs_Policies role) \<and>
     arn = Some (policy_arn c n))"

text \<open>
  The requests that change something: a role is created, or its trust policy overwritten, with the
  document rendered from the specification; a policy is created with the specified document; both
  with the tags specified, those of the owner and the checksum; policies are attached as the roles
  list them, and detached and deleted, to be replaced, only if some role lists them. No role is
  deleted.
\<close>

fun asked_for ::
  "('w, 'p) env \<Rightarrow> IAMClient \<Rightarrow> AWSIAMProvisionSpec \<Rightarrow> string \<Rightarrow> awsIAMResources \<Rightarrow> event \<Rightarrow> bool" where
  "asked_for E c sp ns air (Event (IAM (CreateRoleReq n doc desc path tags)) err) =
     (\<exists>role \<in> set (spec_roles sp). \<exists>ts. n = rs_Name role \<and> doc = wanted_document E air role \<and> doc \<noteq> None \<and>
        desc = owner_description RoleDescriptionPrefix sp \<and> path = Some pathPrefix \<and>
        rs_Tags role = map Some ts \<and> tags = TagsDefine (spec_EKSClusterName sp) ns (iam_tags ts))"
| "asked_for E c sp ns air (Event (IAM (UpdateAssumeRolePolicyReq n doc)) err) =
     (\<exists>role \<in> set (spec_roles sp). n = rs_Name role \<and> doc = wanted_document E air role \<and> doc \<noteq> None)"
| "asked_for E c sp ns air (Event (IAM (CreatePolicyReq n doc desc path tags)) err) =
     (\<exists>policy \<in> set (spec_policies sp). \<exists>ts. n = ps_Name policy \<and> doc = ps_PolicyDocument policy \<and>
        desc = owner_description PolicyDescriptionPrefix sp \<and> path = Some pathPrefix \<and>
        ps_Tags policy = map Some ts \<and>
        tags = TagsDefine (spec_EKSClusterName sp) ns (iam_tags ts @ [NewChecksumTag E doc]))"
| "asked_for E c sp ns air (Event (IAM (AttachRolePolicyReq arn r)) err) = pairs sp c arn r"
| "asked_for E c sp ns air (Event (IAM (DetachRolePolicyReq arn r)) err) = pairs sp c arn r"
| "asked_for E c sp ns air (Event (IAM (DeletePolicyReq arn)) err) = (\<exists>r. pairs sp c arn r)"
| "asked_for E c sp ns air (Event (IAM (DeleteRoleReq n)) err) = False"
| "asked_for E c sp ns air _ = True"

section \<open>The handlers keep to it\<close>

definition same_id :: "'w gstate \<Rightarrow> 'w gstate \<Rightarrow> bool" where
  "same_id s t = (Spec (prov t) = Spec (prov s) \<and>
     om_Namespace (ObjectMeta (prov t)) = om_Namespace (ObjectMeta (prov s)))"

interpretation si: step_relation "same_id :: 'w gstate \<Rightarrow> 'w gstate \<Rightarrow> bool"
  by standard (auto simp: same_id_def)

lemma same_id_ops: "keeps same_prov m \<Longrightarrow> keeps same_id m"
  by (auto simp: keeps_def same_prov_def same_id_def)

lemma same_id_local: "keeps same_id (update_status f)" "keeps same_id (now E)"
  by (auto simp: keeps_def same_id_def update_status_def modifyM_def now_def split: prod.splits)

lemma same_id_write:
  "status_keeps_spec E \<Longrightarrow> status_keeps_namespace E \<Longrightarrow> keeps same_id (write_status E)"
  by (auto simp: keeps_def same_id_def write_status_def monad_defs request_call_def status_keeps_spec_def
      status_keeps_namespace_def split: prod.splits sum.splits) metis+

lemma same_id_status:
  assumes "status_keeps_spec E" and "status_keeps_namespace E"
  shows "keeps same_id (updateCRDStatus E iam crdPhase phase message result)"
  by (cases result) (auto simp: updateCRDStatus_def update_role_status_def update_policy_status_def
      intro!: si.keeps_rules same_id_write [OF assms] same_id_local
        same_id_ops [OF same_prov_role_ops(7)] same_id_ops [OF same_prov_policy_ops(4)])

lemma of_spec_choices [simp]: "of_spec sp ns (s\<lparr>choices := cs\<rparr>) = of_spec sp ns s"
  by (simp add: of_spec_def)

lemma obeys_of_spec:
  "emits P m \<Longrightarrow> keeps same_prov m \<Longrightarrow> obeys (of_spec sp ns) P m"
  by (rule obeys_closed [where R = same_prov]) (auto simp: of_spec_def same_prov_def)

lemma asks_status:
  assumes "status_keeps_spec E" and "status_keeps_namespace E"
  shows "obeys (of_spec sp ns) (asked_for E c sp ns air) (updateCRDStatus E (Some c) crdPhase phase message result)"
  by (rule obeys_closed [OF _ same_id_status [OF assms]])
    (auto simp: of_spec_def same_id_def intro: emits_updateCRDStatus)

lemma asks_reads:
  "obeys (of_spec sp ns) (asked_for E c sp ns air) (GetRoleByName E n)"
  "obeys (of_spec sp ns) (asked_for E c sp ns air) (GetPolicyByName E c n)"
  "obeys (of_spec sp ns) (asked_for E c sp ns air) (ListAttachedRolePolicies E c n)"
  by (rule obeys_of_spec; auto intro: emits_GetRoleByName emits_GetPolicyByName emits_ListAttachedRolePolicies
      same_prov_ops)+

lemma asks_writes:
  assumes "role \<in> set (spec_roles sp)" and "policy \<in> set (spec_policies sp)" and "ps_Name policy = Some n"
    and "Some n \<in> set (rs_Policies role)" and "ps_Tags policy = map Some ts"
  shows "obeys (of_spec sp ns) (asked_for E c sp ns air) (AttachRolePolicy E c (Some n) (rs_Name role))"
    "obeys (of_spec sp ns) (asked_for E c sp ns air) (DetachRolePolicy E c (Some n) (rs_Name role))"
    "obeys (of_spec sp ns) (asked_for E c sp ns air) (DeletePolicy E c (Some n))"
    "obeys (of_spec sp ns) (asked_for E c sp ns air) (CreatePolicy E (Some n) (ps_PolicyDocument policy)
       (owner_description PolicyDescriptionPrefix sp)
       (TagsDefine (spec_EKSClusterName sp) ns (iam_tags ts @ [NewChecksumTag E (ps_PolicyDocument policy)])))"
proof -
  have "pairs sp c (Some (policy_arn c n)) (rs_Name role)" using assms by (auto simp: pairs_def)
  then show "obeys (of_spec sp ns) (asked_for E c sp ns air) (AttachRolePolicy E c (Some n) (rs_Name role))"
    "obeys (of_spec sp ns) (asked_for E c sp ns air) (DetachRolePolicy E c (Some n) (rs_Name role))"
    "obeys (of_spec sp ns) (asked_for E c sp ns air) (DeletePolicy E c (Some n))"
    by (auto intro!: obeys_of_spec emits_AttachRolePolicy emits_DetachRolePolicy emits_DeletePolicy same_prov_ops)
  show "obeys (of_spec sp ns) (asked_for E c sp ns air) (CreatePolicy E (Some n) (ps_PolicyDocument policy)
       (owner_description PolicyDescriptionPrefix sp)
       (TagsDefine (spec_EKSClusterName sp) ns (iam_tags ts @ [NewChecksumTag E (ps_PolicyDocument policy)])))"
    using assms(2,3,5) by (intro obeys_of_spec emits_CreatePolicy same_prov_ops) (auto intro!: bexI [of _ policy])
qed

lemma answered_name:
  assumes "arn_ends_in_name E c"
  shows "yields (\<lambda>x _. \<forall>q. fst x = Some q \<longrightarrow> ip_PolicyName q = Some n) (GetPolicyByName E c (Some n)) s"
  using assms by (intro yields_wp)
    (auto simp: wp_simps Let_def arn_ends_in_name_def split: prod.splits sum.splits,
      metis (mono_tags, lifting) case_prod_conv old.sum.simps(6) option.simps(5))


section \<open>Policies and roles\<close>

lemma asks_replace_policy:
  assumes W: "status_keeps_spec E" "status_keeps_namespace E"
    and spec: "role \<in> set (spec_roles sp)" "policy \<in> set (spec_policies sp)" "ps_Name policy = Some n"
      "Some n \<in> set (rs_Policies role)" "ps_Tags policy = map Some ts"
    and p: "ip_PolicyName p = Some n" and role': "rs_Name role' = rs_Name role"
  shows "obeys (of_spec sp ns) (asked_for E c sp ns air) (replace_policy E c role' policy p
    (the (owner_description PolicyDescriptionPrefix sp))
    (TagsDefine (spec_EKSClusterName sp) ns (iam_tags ts @ [NewChecksumTag E (ps_PolicyDocument policy)])))"
  using asks_writes [OF spec, of ns E c air] asks_status [OF W, of sp ns c air]
  unfolding replace_policy_def p role' spec(3)
  by (intro obeys_bind_any) (auto simp: owner_description_def)

text \<open>What follows the lookup of a listed policy.\<close>

definition after_lookup ::
  "('w, 'p) env \<Rightarrow> IAMClient \<Rightarrow> RoleSpec \<Rightarrow> PolicySpec \<Rightarrow> string \<Rightarrow> iamPolicy option \<times> bool \<Rightarrow>
   string \<Rightarrow> iamTag list \<Rightarrow> ('w, unit) op" where
  "after_lookup E c role policy rp x desc tags =
     (if \<not> snd x then create_and_attach E c role policy desc tags
      else bindM (deref (fst x)) (\<lambda>iamPolicy.
        bindM (forM (ip_Tags iamPolicy) (\<lambda>tag.
          bindM (checksum_differs (NewChecksumTag E (ps_PolicyDocument policy)) tag) (\<lambda>differs.
          if differs then replace_policy E c role policy iamPolicy desc tags else returnM ()))) (\<lambda>_.
        attach_if_missing E c role policy rp iamPolicy)))"

lemma sync_listed_policy_lookup:
  "sync_listed_policy E c role policy rp =
     bindM (GetPolicyByName E c (ps_Name policy)) (\<lambda>x.
     bindM (getM prov) (\<lambda>p.
     bindM (ConvertToIAMTags (ps_Tags policy)) (\<lambda>specTags.
     after_lookup E c role policy rp x
       (PolicyDescriptionPrefix @ spec_EKSClusterName (Spec p) @ ''. '' @ IAMDescription)
       (TagsDefine (spec_EKSClusterName (Spec p)) (om_Namespace (ObjectMeta p))
         (specTags @ [NewChecksumTag E (ps_PolicyDocument policy)])))))"
  by (simp add: sync_listed_policy_def after_lookup_def Let_def case_prod_unfold cong: if_cong)

lemma asks_sync_listed_policy:
  assumes W: "status_keeps_spec E" "status_keeps_namespace E" "arn_ends_in_name E c"
    and spec: "role \<in> set (spec_roles sp)" "policy \<in> set (spec_policies sp)" "ps_Name policy = Some n"
      "Some n \<in> set (rs_Policies role)"
    and role': "rs_Name role' = rs_Name role"
  shows "obeys (of_spec sp ns) (asked_for E c sp ns air) (sync_listed_policy E c role' policy n)"
  unfolding sync_listed_policy_lookup spec(3)
proof (rule obeys_bind_yields [OF asks_reads(2) answered_name [OF W(3)]], rule obeys_get,
    rule obeys_bind [OF obeys_ConvertToIAMTags])
  fix x :: "iamPolicy option \<times> bool" and s u :: "'a gstate" and specTags
  let ?P = "asked_for E c sp ns air" and ?I = "of_spec sp ns"
  assume x: "\<forall>q. fst x = Some q \<longrightarrow> ip_PolicyName q = Some n" and s: "?I s"
    and conv: "fst (ConvertToIAMTags (ps_Tags policy) u) = Ok specTags"
  obtain ts where ts: "ps_Tags policy = map Some ts" "specTags = iam_tags ts"
    using ConvertToIAMTags_Ok [of "ps_Tags policy" u specTags] conv by (metis iam_tags_def prod.collapse)
  let ?d = "the (owner_description PolicyDescriptionPrefix sp)"
    and ?t = "TagsDefine (spec_EKSClusterName sp) ns (iam_tags ts @ [NewChecksumTag E (ps_PolicyDocument policy)])"
  note status = asks_status [OF W(1,2), of sp ns c air] and writes = asks_writes [OF spec ts(1), of ns E c air]
  have attach: "obeys ?I ?P (attach_if_missing E c role' policy n q)" for q
    using writes(1) status
    by (auto simp: attach_if_missing_def role' spec(3) intro!: obeys_bind_any asks_reads obeys_collect_names)
  have "obeys ?I ?P (create_and_attach E c role' policy ?d ?t)"
    using writes status unfolding create_and_attach_def role' spec(3)
    by (intro obeys_bind_any) (auto simp: owner_description_def)
  then have "obeys ?I ?P (after_lookup E c role' policy n x ?d ?t)"
    using attach asks_replace_policy [OF W(1,2) spec ts(1) _ role', of _ ns c air] x
    by (auto simp: after_lookup_def checksum_differs_def intro!: obeys_deref obeys_bind_any obeys_forM)
  then show "obeys ?I ?P (after_lookup E c role' policy n x
      (PolicyDescriptionPrefix @ spec_EKSClusterName (Spec (prov s)) @ ''. '' @ IAMDescription)
      (TagsDefine (spec_EKSClusterName (Spec (prov s))) (om_Namespace (ObjectMeta (prov s)))
        (specTags @ [NewChecksumTag E (ps_PolicyDocument policy)])))"
    using s ts(2) by (simp add: of_spec_def owner_description_def)
qed

lemma asks_syncPoliciesByRoleSpec:
  assumes W: "status_keeps_spec E" "status_keeps_namespace E" "arn_ends_in_name E c"
    and role: "role \<in> set (spec_roles sp)"
    and role': "rs_Name role' = rs_Name role" "rs_Policies role' = rs_Policies role"
  shows "obeys (of_spec sp ns) (asked_for E c sp ns air) (syncPoliciesByRoleSpec E c role')"
proof -
  have "obeys (of_spec sp ns) (asked_for E c sp ns air) (sync_listed_policy E c role' (policy_Spec (snd e)) n)"
    if "e \<in> set (spec_Policies sp)" "Some n \<in> set (rs_Policies role)" "ps_Name (policy_Spec (snd e)) = Some n" for e n
    using that by (intro asks_sync_listed_policy [OF W role]) (auto simp: spec_policies_def role'(1))
  then show ?thesis
    unfolding syncPoliciesByRoleSpec_def role'(2)
    by (auto simp: of_spec_def split: prod.splits
        intro!: obeys_forM obeys_get obeys_range obeys_deref)
qed

text \<open>A role of the specification, with its document rendered.\<close>

definition rendered :: "('w, 'p) env \<Rightarrow> awsIAMResources \<Rightarrow> RoleSpec \<Rightarrow> RoleSpec \<Rightarrow> bool" where
  "rendered E air role role' = (\<exists>text. wanted_document E air role = Some text \<and>
     role' = role\<lparr>rs_AssumeRolePolicyDocument := Some text\<rparr>)"

lemma asks_setAssumeRolePolicyDocument:
  assumes "status_keeps_spec E" and "status_keeps_namespace E"
  shows "obeys (of_spec sp ns) (asked_for E c sp ns air) (setAssumeRolePolicyDocument E c rq air role)"
  using asks_status [OF assms, of sp ns c air]
  by (auto simp: setAssumeRolePolicyDocument_def Let_def intro!: obeys_bind_any split: prod.splits sum.splits)

lemma asks_role_writes:
  assumes "role \<in> set (spec_roles sp)" and "wanted_document E air role = Some doc"
  shows "obeys (of_spec sp ns) (asked_for E c sp ns air) (UpdateRole E (rs_Name role) (Some doc))"
    and "rs_Tags role = map Some ts \<Longrightarrow> obeys (of_spec sp ns) (asked_for E c sp ns air)
      (CreateRole E (rs_Name role) (Some doc) (owner_description RoleDescriptionPrefix sp)
        (TagsDefine (spec_EKSClusterName sp) ns (iam_tags ts)))"
  using assms by (auto intro!: obeys_of_spec emits_UpdateRole emits_CreateRole same_prov_ops bexI [of _ role])

lemma asks_update_role:
  assumes W: "status_keeps_spec E" "status_keeps_namespace E" "arn_ends_in_name E c"
    and role: "role \<in> set (spec_roles sp)" "rendered E air role role'"
  shows "obeys (of_spec sp ns) (asked_for E c sp ns air) (update_role_and_policies E c role' q)"
proof -
  obtain doc where doc: "wanted_document E air role = Some doc"
    and role': "role' = role\<lparr>rs_AssumeRolePolicyDocument := Some doc\<rparr>"
    using role(2) by (auto simp: rendered_def)
  show ?thesis
    using asks_role_writes(1) [OF role(1) doc] asks_syncPoliciesByRoleSpec [OF W role(1), of role' ns air]
      asks_status [OF W(1,2), of sp ns c air]
    by (auto simp: update_role_and_policies_def role' intro!: obeys_bind_any)
qed

lemma asks_create_role:
  assumes W: "status_keeps_spec E" "status_keeps_namespace E" "arn_ends_in_name E c"
    and role: "role \<in> set (spec_roles sp)" "rendered E air role role'" "rs_Tags role = map Some ts"
  shows "obeys (of_spec sp ns) (asked_for E c sp ns air)
    (create_role_and_policies E c role' (TagsDefine (spec_EKSClusterName sp) ns (iam_tags ts)))"
proof -
  obtain doc where doc: "wanted_document E air role = Some doc"
    and role': "role' = role\<lparr>rs_AssumeRolePolicyDocument := Some doc\<rparr>"
    using role(2) by (auto simp: rendered_def)
  show ?thesis
    unfolding create_role_and_policies_def Let_def
    using asks_role_writes(2) [OF role(1) doc role(3)] asks_syncPoliciesByRoleSpec [OF W role(1), of role' ns air]
      asks_status [OF W(1,2), of sp ns c air]
    by (intro obeys_get obeys_bind_any) (auto simp: role' of_spec_def owner_description_def intro!: obeys_bind_any)
qed

lemma asks_syncRole:
  assumes W: "status_keeps_spec E" "status_keeps_namespace E" "arn_ends_in_name E c"
    and role: "role \<in> set (spec_roles sp)"
  shows "obeys (of_spec sp ns) (asked_for E c sp ns air) (syncRole E c rq air role)"
  unfolding syncRole_def
proof (rule obeys_get, rule obeys_bind [OF obeys_ConvertToIAMTags])
  fix s u :: "'a gstate" and specTags
  let ?P = "asked_for E c sp ns air" and ?I = "of_spec sp ns"
  assume s: "?I s" and "fst (ConvertToIAMTags (rs_Tags role) u) = Ok specTags"
  then obtain ts where ts: "rs_Tags role = map Some ts" "specTags = iam_tags ts"
    using ConvertToIAMTags_Ok [of "rs_Tags role" u specTags] by (metis iam_tags_def prod.collapse)
  have rest: "obeys ?I ?P (bindM (GetRoleByName E (rs_Name role')) (\<lambda>(iamRole, exists).
     bindM (if \<not> exists then create_role_and_policies E c role' (TagsDefine (spec_EKSClusterName sp) ns specTags)
            else bindM (deref iamRole) (\<lambda>r. update_role_and_policies E c role' r)) (\<lambda>_.
     returnM role')))" if "rendered E air role role'" for role'
    using asks_create_role [OF W role that ts(1)] asks_update_role [OF W role that] ts(2)
    by (auto intro!: obeys_bind_any asks_reads)
  have "obeys ?I ?P (bindM (setAssumeRolePolicyDocument E c rq air role) (\<lambda>role'.
     bindM (GetRoleByName E (rs_Name role')) (\<lambda>(iamRole, exists).
     bindM (if \<not> exists then create_role_and_policies E c role' (TagsDefine (spec_EKSClusterName sp) ns specTags)
            else bindM (deref iamRole) (\<lambda>r. update_role_and_policies E c role' r)) (\<lambda>_.
     returnM role'))))"
    by (rule obeys_bind_yields [OF asks_setAssumeRolePolicyDocument [OF W(1,2)]
        yields_weaken [OF setAssumeRolePolicyDocument_yields] rest]) (auto simp: rendered_def)
  then show "obeys ?I ?P (let tags = TagsDefine (spec_EKSClusterName (Spec (prov s))) (om_Namespace (ObjectMeta (prov s))) specTags in
     bindM (setAssumeRolePolicyDocument E c rq air role) (\<lambda>role.
     bindM (GetRoleByName E (rs_Name role)) (\<lambda>(iamRole, exists).
     bindM (if \<not> exists then create_role_and_policies E c role tags
            else bindM (deref iamRole) (\<lambda>r. update_role_and_policies E c role r)) (\<lambda>_.
     returnM role))))"
    using s by (simp add: of_spec_def)
qed

lemma syncRole_returns:
  "yields (\<lambda>role' _. rendered E air role role') (syncRole E c rq air role) s"
  unfolding yields_def
proof (intro allI impI)
  fix role' t
  assume "syncRole E c rq air role s = (Ok role', t)"
  then obtain u v where "setAssumeRolePolicyDocument E c rq air role u = (Ok role', v)"
    by (auto simp: syncRole_def getM_def Let_def returnM_def case_prod_unfold elim!: bindM_Ok_cases)
  then show "rendered E air role role'"
    using yieldsD [OF setAssumeRolePolicyDocument_yields] by (fastforce simp: rendered_def)
qed

lemma asks_sync_all_roles:
  assumes W: "status_keeps_spec E" "status_keeps_namespace E" "arn_ends_in_name E c"
  shows "obeys (of_spec sp ns) (asked_for E c sp ns air) (sync_all_roles E c rq air)"
proof -
  have "obeys (of_spec sp ns) (asked_for E c sp ns air)
      (bindM (syncRole E c rq air role) (syncPoliciesByRoleSpec E c))" if "role \<in> set (spec_roles sp)" for role
    using asks_syncPoliciesByRoleSpec [OF W that]
    by (intro obeys_bind_yields [OF asks_syncRole [OF W that] syncRole_returns]) (auto simp: rendered_def)
  then show ?thesis
    unfolding sync_all_roles_def
    by (auto simp: of_spec_def spec_roles_def split: prod.splits intro!: obeys_get obeys_range obeys_forM) force
qed

text \<open>
  C2. Bringing IAM in line with the specification asks IAM for nothing that the specification does
  not call for: whatever is answered and however far it gets, every role it creates or whose trust
  policy it overwrites is one of the specification, with the document rendered from the specified
  template; every policy it creates is one of the specification, with the specified document and
  tags; it attaches a policy to a role only if the specification lists it there, detaches and
  deletes, for replacement, only such policies, and deletes no role.
\<close>

theorem sync_asks_only_for_spec:
  assumes "status_keeps_spec E" and "status_keeps_namespace E" and "arn_ends_in_name E c"
  shows "\<exists>es. log (snd (sync_all_roles E c rq air s)) = log s @ es \<and>
    list_all (asked_for E c (Spec (prov s)) (om_Namespace (ObjectMeta (prov s))) air) es"
  by (rule obeys_log [OF asks_sync_all_roles [OF assms]]) (simp add: of_spec_def)

lemma mem_status_keeps_namespace: "status_keeps_namespace mem_env"
  by (simp add: status_keeps_namespace_def mem_env_simps mem_update_status_def Let_def split: option.splits)

definition sync_start :: "mem gstate" where
  "sync_start = conv_start\<lparr>prov := conv_prov\<rparr>"

declare sha1_Sum_def [code del]

lemma sync_run: "length (log sync_start) = 0"
  "length (log (snd (sync_all_roles mem_env mem_client conv_rq conv_air sync_start))) = 12"
  by code_simp+

declare sha1_Sum_def [code]

theorem sync_asks_only_for_spec_witness:
  "\<exists>es. log (snd (sync_all_roles mem_env mem_client conv_rq conv_air sync_start)) = log sync_start @ es \<and>
    list_all (asked_for mem_env mem_client (Spec (prov sync_start)) (om_Namespace (ObjectMeta (prov sync_start))) conv_air) es \<and>
    length es = 12"
  using sync_asks_only_for_spec [OF mem_status_keeps_spec mem_status_keeps_namespace mem_arn_ends_in_name,
      of conv_rq conv_air sync_start] sync_run by (metis add_0 length_append)

section \<open>IAM's limits\<close>

text \<open>
  IAM takes at most fifty tags, no two with one key, with keys of 1 to 128 and values of at most
  256 characters, and a description of at most 1000 characters.
\<close>

definition tags_accepted :: "iamTag list \<Rightarrow> bool" where
  "tags_accepted tags = (length tags \<le> 50 \<and> distinct (map it_Key tags) \<and>
     (\<forall>t \<in> set tags. \<exists>k v. it_Key t = Some k \<and> it_Value t = Some v \<and>
        1 \<le> length k \<and> length k \<le> 128 \<and> length v \<le> 256))"

definition description_accepted :: "string option \<Rightarrow> bool" where
  "description_accepted d = (case d of Some x \<Rightarrow> length x \<le> 1000 | None \<Rightarrow> True)"

fun within_iam_limits :: "event \<Rightarrow> bool" where
  "within_iam_limits (Event (IAM (CreateRoleReq n doc desc path tags)) err) =
     (description_accepted desc \<and> tags_accepted tags)"
| "within_iam_limits (Event (IAM (CreatePolicyReq n doc desc path tags)) err) =
     (description_accepted desc \<and> tags_accepted tags)"
| "within_iam_limits _ = True"

text \<open>
  What that leaves to the specification: two tags of a role and three of a policy are the
  operator's own. The name of an EKS cluster has at most 100 characters, that of a namespace 63.
\<close>

definition own_tags_left :: "nat \<Rightarrow> Tag option list \<Rightarrow> bool" where
  "own_tags_left k ts = (length ts \<le> k \<and>
     (\<exists>tags. ts = map Some tags \<and> tags_accepted (iam_tags tags) \<and>
        (\<forall>t \<in> set tags. tag_Key t \<notin> {Some TagKeyEKSClusterName, Some TagKeyNamespace, Some TagKeyPolicyDocument})))"

definition spec_moderate :: "AWSIAMProvisionSpec \<Rightarrow> string \<Rightarrow> bool" where
  "spec_moderate sp ns = (length (spec_EKSClusterName sp) \<le> 100 \<and> length ns \<le> 63 \<and>
     (\<forall>role \<in> set (spec_roles sp). own_tags_left 48 (rs_Tags role)) \<and>
     (\<forall>policy \<in> set (spec_policies sp). own_tags_left 47 (ps_Tags policy)))"

lemma owner_description_accepted:
  "length (spec_EKSClusterName sp) \<le> 100 \<Longrightarrow> description_accepted (owner_description RoleDescriptionPrefix sp)"
  "length (spec_EKSClusterName sp) \<le> 100 \<Longrightarrow> description_accepted (owner_description PolicyDescriptionPrefix sp)"
  by (simp_all add: description_accepted_def owner_description_def RoleDescriptionPrefix_def
      PolicyDescriptionPrefix_def IAMDescription_def)

lemma iam_tags_keys: "map it_Key (iam_tags ts) = map tag_Key ts" "length (iam_tags ts) = length ts"
  by (simp_all add: iam_tags_def)

lemma role_tags_accepted:
  assumes "own_tags_left 48 (map Some ts)" and "length cluster \<le> 100" and "length ns \<le> 63"
  shows "tags_accepted (TagsDefine cluster ns (iam_tags ts))"
proof -
  have "inj Some" by simp
  then have ts: "length ts \<le> 48" "tags_accepted (iam_tags ts)"
    "\<forall>t \<in> set ts. tag_Key t \<notin> {Some TagKeyEKSClusterName, Some TagKeyNamespace, Some TagKeyPolicyDocument}"
    using assms(1) by (auto simp: own_tags_left_def inj_map_eq_map)
  then have "Some TagKeyEKSClusterName \<notin> set (map it_Key (iam_tags ts))"
    "Some TagKeyNamespace \<notin> set (map it_Key (iam_tags ts))" unfolding iam_tags_keys by auto
  then show ?thesis
    using ts assms(2,3) by (auto simp: tags_accepted_def TagsDefine_def iam_tags_keys(2)) (simp_all add: tag_keys)
qed

lemma policy_tags_accepted:
  assumes "own_tags_left 47 (map Some ts)" and "length cluster \<le> 100" and "length ns \<le> 63"
  shows "tags_accepted (TagsDefine cluster ns (iam_tags ts @ [NewChecksumTag E doc]))"
proof -
  have "inj Some" by simp
  then have ts: "length ts \<le> 47" "tags_accepted (iam_tags ts)"
    "\<forall>t \<in> set ts. tag_Key t \<notin> {Some TagKeyEKSClusterName, Some TagKeyNamespace, Some TagKeyPolicyDocument}"
    using assms(1) by (auto simp: own_tags_left_def inj_map_eq_map)
  then have "Some TagKeyEKSClusterName \<notin> set (map it_Key (iam_tags ts))"
    "Some TagKeyNamespace \<notin> set (map it_Key (iam_tags ts))"
    "Some TagKeyPolicyDocument \<notin> set (map it_Key (iam_tags ts))" unfolding iam_tags_keys by auto
  moreover obtain v where "NewChecksumTag E doc = \<lparr>it_Key = Some TagKeyPolicyDocument, it_Value = Some v\<rparr>" "length v = 40"
    using length_checksum [of E doc] by (auto simp: NewChecksumTag_def)
  ultimately show ?thesis
    using ts assms(2,3) by (auto simp: tags_accepted_def TagsDefine_def iam_tags_keys(2)) (simp_all add: tag_keys)
qed

lemma asked_for_within_limits:
  assumes "spec_moderate sp ns" and "asked_for E c sp ns air ev"
  shows "within_iam_limits ev"
  using assms
  by (cases ev rule: within_iam_limits.cases)
    (auto simp: spec_moderate_def owner_description_accepted intro!: role_tags_accepted policy_tags_accepted)

text \<open>
  C18. The operator's additions do not break IAM's limits: if the specification's own tags are at most
  48 for each role and 47 for each policy, keep to IAM's limits on keys and values, have no key twice and
  none of the operator's three keys, the cluster name has at most 100 characters and the namespace
  at most 63, then every request that creates something keeps to the limits: at most fifty tags, no key
  twice, keys and values no longer than IAM takes, the checksum included, and a description of at most
  1000 characters.
\<close>

theorem creations_within_limits:
  assumes "status_keeps_spec E" and "status_keeps_namespace E" and "arn_ends_in_name E c"
    and "spec_moderate (Spec (prov s)) (om_Namespace (ObjectMeta (prov s)))"
  shows "\<exists>es. log (snd (sync_all_roles E c rq air s)) = log s @ es \<and> list_all within_iam_limits es"
proof -
  obtain es where "log (snd (sync_all_roles E c rq air s)) = log s @ es"
    and "list_all (asked_for E c (Spec (prov s)) (om_Namespace (ObjectMeta (prov s))) air) es"
    using obeys_log [OF asks_sync_all_roles [OF assms(1-3)]] by (metis of_spec_def)
  then show ?thesis
    using asked_for_within_limits [OF assms(4)] by (metis list.pred_mono_strong)
qed

theorem creations_within_limits_witness:
  "\<exists>es. log (snd (sync_all_roles mem_env mem_client conv_rq conv_air sync_start)) = log sync_start @ es \<and>
    list_all within_iam_limits es \<and> length es = 12"
proof -
  have "spec_moderate (Spec (prov sync_start)) (om_Namespace (ObjectMeta (prov sync_start)))"
    by (simp add: sync_start_def conv_prov_def conv_spec_def spec_moderate_def spec_roles_def spec_policies_def
        own_tags_left_def tags_accepted_def iam_tags_def)
  from creations_within_limits [OF mem_status_keeps_spec mem_status_keeps_namespace mem_arn_ends_in_name this,
      of conv_rq conv_air]
  show ?thesis using sync_run by (metis add_0 length_append)
qed

end
