(* ===== verification/Scope.thy ===== *)
theory Scope
  imports SpecRequests
begin

text \<open>
  What a reconciliation asks of IAM, whatever IAM and Kubernetes answer: the policies it names lie
  under the operator's path in the caller's account; what it creates, attaches to or overwrites is of
  the specification; everything it creates is created under that path with the tags that mark the
  owner; and its listings are confined to the path. Roles are looked up, cleared and deleted by their
  name alone, and there the statement says nothing.
\<close>

section \<open>Requests in scope\<close>

text \<open>The first two tags of a created resource name the cluster and the namespace of the owner.\<close>

definition owner_tagged :: "AWSIAMProvisionSpec \<Rightarrow> string \<Rightarrow> iamTag list \<Rightarrow> bool" where
  "owner_tagged sp ns tags =
     (take 2 tags = [\<lparr>it_Key = Some TagKeyEKSClusterName, it_Value = Some (spec_EKSClusterName sp)\<rparr>,
                     \<lparr>it_Key = Some TagKeyNamespace, it_Value = Some ns\<rparr>])"

text \<open>A created policy carries the checksum of the document it is created from.\<close>

definition checksummed :: "('w, 'p) env \<Rightarrow> string option \<Rightarrow> iamTag list \<Rightarrow> bool" where
  "checksummed E doc tags = (NewChecksumTag E doc \<in> set tags)"

definition role_of :: "AWSIAMProvisionSpec \<Rightarrow> string option \<Rightarrow> bool" where
  "role_of sp name = (name \<in> rs_Name ` set (spec_roles sp))"

definition policy_of :: "AWSIAMProvisionSpec \<Rightarrow> string option \<Rightarrow> bool" where
  "policy_of sp name = (name \<in> ps_Name ` set (spec_policies sp))"

fun iam_in_scope ::
  "('w, 'p) env \<Rightarrow> AWSIAMProvisionSpec \<Rightarrow> string \<Rightarrow> IAMClient \<Rightarrow> iam_request \<Rightarrow> bool" where
  "iam_in_scope E sp ns c (AttachRolePolicyReq arn role) = (own_policy_arn c arn \<and> role_of sp role)"
| "iam_in_scope E sp ns c (DetachRolePolicyReq arn role) = own_policy_arn c arn"
| "iam_in_scope E sp ns c (DeletePolicyReq arn) = own_policy_arn c arn"
| "iam_in_scope E sp ns c (GetPolicyReq arn) = own_policy_arn c arn"
| "iam_in_scope E sp ns c (CreatePolicyReq name doc desc path tags) =
     (policy_of sp name \<and> path = Some pathPrefix \<and> owner_tagged sp ns tags \<and> checksummed E doc tags)"
| "iam_in_scope E sp ns c (CreateRoleReq name doc desc path tags) =
     (role_of sp name \<and> path = Some pathPrefix \<and> owner_tagged sp ns tags)"
| "iam_in_scope E sp ns c (UpdateAssumeRolePolicyReq name doc) = role_of sp name"
| "iam_in_scope E sp ns c (ListRolesReq n path) = (path = Some pathPrefix)"
| "iam_in_scope E sp ns c (ListPoliciesReq n path usage scope) = (path = Some pathPrefix \<and> scope = ''Local'')"
| "iam_in_scope E sp ns c (ListEntitiesForPolicyReq arn entity n path usage) = (path = Some pathPrefix)"
| "iam_in_scope E sp ns c (GetRoleReq name) = True"
| "iam_in_scope E sp ns c (DeleteRoleReq name) = True"
| "iam_in_scope E sp ns c (ListAttachedRolePoliciesReq n name) = True"
| "iam_in_scope E sp ns c (ListRoleTagsReq n name) = True"
| "iam_in_scope E sp ns c (ListPolicyTagsReq n arn) = True"

fun in_scope :: "('w, 'p) env \<Rightarrow> AWSIAMProvisionSpec \<Rightarrow> string \<Rightarrow> IAMClient \<Rightarrow> event \<Rightarrow> bool" where
  "in_scope E sp ns c (Event (IAM rq) err) = iam_in_scope E sp ns c rq"
| "in_scope E sp ns c _ = True"

fun no_iam :: "event \<Rightarrow> bool" where
  "no_iam (Event (IAM rq) err) = False"
| "no_iam _ = True"

lemma in_scope_k8s [simp]: "in_scope E sp ns c (Event (UpdateStatus p) err)"
  "in_scope E sp ns c (Event (UpdateProvision p) err)" "in_scope E sp ns c (Event (GetProvision n) err)"
  "in_scope E sp ns c (Event (GetControlPlane n) err)" "in_scope E sp ns c (Event (LoadDefaultConfig r) err)"
  "in_scope E sp ns c (Event GetCallerIdentity err)"
  by simp_all

lemma no_iam_in_scope: "no_iam ev \<Longrightarrow> in_scope E sp ns c ev"
  by (cases ev rule: no_iam.cases) simp_all

lemma TagsDefine_owner [simp]: "owner_tagged sp ns (TagsDefine (spec_EKSClusterName sp) ns tags)"
  by (simp add: owner_tagged_def TagsDefine_def)

lemma TagsDefine_checksummed [simp]:
  "checksummed E doc (TagsDefine cl ns (tags @ [NewChecksumTag E doc]))"
  by (simp add: checksummed_def TagsDefine_def)

section \<open>What does not depend on the specification\<close>

lemma scope_ops:
  "emits (in_scope E sp ns c) (DeletePolicy E c n)"
  "emits (in_scope E sp ns c) (BatchDeletePolicies E c ps)"
  "emits (in_scope E sp ns c) (GetPolicyByName E c n)"
  "emits (in_scope E sp ns c) (ListPoliciesByTags E ts)"
  "emits (in_scope E sp ns c) (ListEntitiesForPolicy E p)"
  "emits (in_scope E sp ns c) (DetachRolePolicy E c n r)"
  "emits (in_scope E sp ns c) (BatchAttachDetachRolePolicies E c ButchDetachProc ps r)"
  "emits (in_scope E sp ns c) (DeleteRole E r)"
  "emits (in_scope E sp ns c) (GetRoleByName E r)"
  "emits (in_scope E sp ns c) (ListAttachedRolePolicies E c r)"
  "emits (in_scope E sp ns c) (ListRolesByTags E ts)"
  "emits (in_scope E sp ns c) (ConvertToIAMTags spec_tags)"
  by (auto simp: BatchAttachDetachRolePolicies_def ButchDetachProc_def ButchAttachProc_def
      intro!: emits_rules emits_DeletePolicy emits_BatchDeletePolicies emits_GetPolicyByName emits_ListPoliciesByTags
        emits_ListEntitiesForPolicy emits_DetachRolePolicy emits_DeleteRole emits_GetRoleByName
        emits_ListAttachedRolePolicies emits_ListRolesByTags emits_ConvertToIAMTags)

lemma scope_writes:
  "role_of sp r \<Longrightarrow> emits (in_scope E sp ns c) (AttachRolePolicy E c n r)"
  "role_of sp r \<Longrightarrow> emits (in_scope E sp ns c) (UpdateRole E r d)"
  "role_of sp r \<Longrightarrow> owner_tagged sp ns tags \<Longrightarrow> emits (in_scope E sp ns c) (CreateRole E r d desc tags)"
  "policy_of sp n \<Longrightarrow> owner_tagged sp ns tags \<Longrightarrow> checksummed E d tags \<Longrightarrow>
     emits (in_scope E sp ns c) (CreatePolicy E n d desc tags)"
  by (auto intro!: emits_AttachRolePolicy emits_UpdateRole emits_CreateRole emits_CreatePolicy)

lemma scope_status: "emits (in_scope E sp ns c) (updateCRDStatus E (Some c) crdPhase phase message result)"
  by (rule emits_updateCRDStatus) auto

lemmas scope_intros = emits_rules scope_ops scope_status

lemma scope_deleteIAMResources: "emits (in_scope E sp ns c) (deleteIAMResources E c)"
  by (auto simp: deleteIAMResources_def delete_role_resources_def Let_def intro!: scope_intros)

lemma scope_names: "emits P (collect_names f xs)" "emits P (remove_names f xs m)"
  by (auto simp: collect_names_def remove_names_def intro!: emits_rules)

lemma scope_finalize: "emits (in_scope E sp ns c) (finalize E c)"
  by (auto simp: finalize_def Let_def intro!: scope_intros scope_deleteIAMResources split: sum.splits)

lemma scope_sync: "emits (in_scope E sp ns c) (syncAWSIAMResources E c)"
  by (auto simp: syncAWSIAMResources_def sync_spec_roles_def sync_role_attachments_def
      attached_policies_def delete_stale_role_def delete_stale_policy_def
      delete_policy_and_report_def unlisted_policies_def Let_def
      intro!: scope_intros scope_names)

lemma scope_report_synced: "emits (in_scope E sp ns c) (report_synced E c)"
  by (auto simp: report_synced_def intro!: scope_intros)

section \<open>What goes by the specification\<close>

text \<open>Kubernetes hands back the resource it was given when only the finalizers are changed.\<close>

definition finalizer_keeps_id :: "('w, 'p) env \<Rightarrow> bool" where
  "finalizer_keeps_id E =
     ((\<forall>p f. Spec (k8s_AddFinalizer E p f) = Spec p \<and>
        om_Namespace (ObjectMeta (k8s_AddFinalizer E p f)) = om_Namespace (ObjectMeta p)) \<and>
      (\<forall>p w q w'. k8s_Update E p w = (Inr q, w') \<longrightarrow>
         Spec q = Spec p \<and> om_Namespace (ObjectMeta q) = om_Namespace (ObjectMeta p)))"

lemma same_id_local_ops: "keeps same_id (range_map m)"
  by (auto simp: keeps_def same_id_def range_map_def split: list.splits)

lemma same_id_names: "keeps same_id (collect_names f xs)" "keeps same_id (remove_names f xs m)"
  by (auto simp: collect_names_def remove_names_def intro!: si.keeps_rules)

lemma same_id_finalizer:
  fixes E :: "('w, 'p) env"
  assumes "finalizer_keeps_id E"
  shows "keeps same_id (ensure_finalizer E)"
  unfolding keeps_def
proof
  fix s :: "'w gstate"
  let ?p = "k8s_AddFinalizer E (prov s) awsIAMProvisionFinalizerName"
  obtain r w where upd: "k8s_Update E ?p (world s) = (r, w)" by fastforce
  have p: "Spec ?p = Spec (prov s)" "om_Namespace (ObjectMeta ?p) = om_Namespace (ObjectMeta (prov s))"
    using assms by (simp_all add: finalizer_keeps_id_def)
  have q: "Spec q = Spec ?p \<and> om_Namespace (ObjectMeta q) = om_Namespace (ObjectMeta ?p)" if "r = Inr q" for q
    using assms upd [unfolded that] unfolding finalizer_keeps_id_def by blast
  have "wp (ensure_finalizer E) (\<lambda>_ t. same_id s t) s"
  proof (cases r)
    case (Inl err)
    then show ?thesis using p by (simp add: ensure_finalizer_def wp_simps Let_def same_id_def upd)
  next
    case (Inr q)
    then show ?thesis using p q by (simp add: ensure_finalizer_def wp_simps Let_def same_id_def upd)
  qed
  then show "same_id s (snd (ensure_finalizer E s))" by (simp add: wp_def case_prod_beta)
qed

lemma same_id_sync:
  assumes "status_keeps_spec E" and "status_keeps_namespace E"
  shows "keeps same_id (syncAWSIAMResources E c)"
  by (auto simp: syncAWSIAMResources_def sync_spec_roles_def sync_role_attachments_def
      attached_policies_def delete_stale_role_def delete_stale_policy_def
      delete_policy_and_report_def unlisted_policies_def Let_def
      intro!: si.keeps_rules same_id_status [OF assms] same_id_local_ops same_id_names
        same_id_ops [OF same_prov_role_ops(2)] same_id_ops [OF same_prov_role_ops(5)]
        same_id_ops [OF same_prov_role_ops(7)] same_id_ops [OF same_prov_role_ops(8)]
        same_id_ops [OF same_prov_role_ops(9)] same_id_ops [OF same_prov_policy_ops(2)]
        same_id_ops [OF same_prov_policy_ops(4)] same_id_ops [OF same_prov_policy_ops(5)]
        same_id_ops [OF same_prov_policy_ops(6)])

lemma of_spec_same_id: "of_spec sp ns s \<Longrightarrow> same_id s t \<Longrightarrow> of_spec sp ns t"
  by (simp add: of_spec_def same_id_def)

abbreviation scoped ::
  "('w, 'p) env \<Rightarrow> AWSIAMProvisionSpec \<Rightarrow> string \<Rightarrow> IAMClient \<Rightarrow> ('w, 'a) op \<Rightarrow> bool" where
  "scoped E sp ns c \<equiv> obeys (of_spec sp ns) (in_scope E sp ns c)"

lemma scoped_ops:
  "scoped E sp ns c (DeletePolicy E c n)" "scoped E sp ns c (DetachRolePolicy E c n r)"
  "scoped E sp ns c (GetPolicyByName E c n)" "scoped E sp ns c (GetRoleByName E r)"
  "scoped E sp ns c (ListAttachedRolePolicies E c r)"
  by (intro obeys_of_spec scope_ops same_prov_ops)+

lemma scoped_writes:
  "role_of sp r \<Longrightarrow> scoped E sp ns c (AttachRolePolicy E c n r)"
  "role_of sp r \<Longrightarrow> scoped E sp ns c (UpdateRole E r d)"
  "role_of sp r \<Longrightarrow> owner_tagged sp ns tags \<Longrightarrow> scoped E sp ns c (CreateRole E r d desc tags)"
  "policy_of sp n \<Longrightarrow> owner_tagged sp ns tags \<Longrightarrow> checksummed E d tags \<Longrightarrow>
     scoped E sp ns c (CreatePolicy E n d desc tags)"
  by (intro obeys_of_spec scope_writes same_prov_ops; assumption)+

lemma scoped_status:
  assumes "status_keeps_spec E" and "status_keeps_namespace E"
  shows "scoped E sp ns c (updateCRDStatus E (Some c) crdPhase phase message result)"
  by (rule obeys_closed [OF scope_status same_id_status [OF assms] of_spec_same_id])

lemma scoped_sync_listed_policy:
  assumes W: "status_keeps_spec E" "status_keeps_namespace E"
    and spec: "policy_of sp (ps_Name policy)" "role_of sp (rs_Name role)"
  shows "scoped E sp ns c (sync_listed_policy E c role policy rp)"
proof -
  note [intro!] = scoped_ops scoped_writes scoped_status [OF W] obeys_collect_names obeys_bind_any obeys_forM
  have attach: "scoped E sp ns c (attach_if_missing E c role policy rp q)" for q
    using spec(2) by (auto simp: attach_if_missing_def)
  have made: "scoped E sp ns c (create_and_attach E c role policy desc tags)"
    "scoped E sp ns c (replace_policy E c role policy q desc tags)"
    if "owner_tagged sp ns tags" "checksummed E (ps_PolicyDocument policy) tags" for q desc tags
    using that spec by (auto simp: create_and_attach_def replace_policy_def)
  have "scoped E sp ns c (after_lookup E c role policy rp x desc tags)"
    if "owner_tagged sp ns tags" "checksummed E (ps_PolicyDocument policy) tags" for x desc tags
    using made [OF that] attach by (auto simp: after_lookup_def checksum_differs_def)
  then show ?thesis
    unfolding sync_listed_policy_lookup
    by (intro obeys_bind_any scoped_ops obeys_get obeys_ConvertToIAMTags) (simp add: of_spec_def)
qed

lemma scoped_syncPoliciesByRoleSpec:
  assumes W: "status_keeps_spec E" "status_keeps_namespace E" and role: "role_of sp (rs_Name role)"
  shows "scoped E sp ns c (syncPoliciesByRoleSpec E c role)"
proof -
  have "scoped E sp ns c (sync_listed_policy E c role (policy_Spec (snd e)) rp)"
    if "e \<in> set (spec_Policies sp)" for e rp
    using that by (intro scoped_sync_listed_policy [OF W _ role]) (auto simp: policy_of_def spec_policies_def)
  then show ?thesis
    unfolding syncPoliciesByRoleSpec_def
    by (auto simp: of_spec_def split: prod.splits intro!: obeys_forM obeys_get obeys_range obeys_deref)
qed

lemma setAssumeRolePolicyDocument_keeps_name:
  "yields (\<lambda>role' _. rs_Name role' = rs_Name role) (setAssumeRolePolicyDocument E c rq air role) s"
  by (rule yields_weaken [OF setAssumeRolePolicyDocument_yields]) auto

lemma scoped_setAssumeRolePolicyDocument:
  assumes "status_keeps_spec E" and "status_keeps_namespace E"
  shows "scoped E sp ns c (setAssumeRolePolicyDocument E c rq air role)"
  using scoped_status [OF assms]
  by (auto simp: setAssumeRolePolicyDocument_def Let_def intro!: obeys_bind_any split: prod.splits sum.splits)

lemma scoped_syncRole:
  assumes W: "status_keeps_spec E" "status_keeps_namespace E" and role: "role_of sp (rs_Name role)"
  shows "scoped E sp ns c (syncRole E c rq air role)"
proof -
  note [intro!] = scoped_ops scoped_writes scoped_status [OF W] obeys_bind_any
  have create: "scoped E sp ns c (create_role_and_policies E c role' tags)"
    and update: "scoped E sp ns c (update_role_and_policies E c role' q)"
    if "role_of sp (rs_Name role')" "owner_tagged sp ns tags" for role' tags q
    using that scoped_syncPoliciesByRoleSpec [OF W that(1)]
    by (auto simp: create_role_and_policies_def update_role_and_policies_def Let_def intro!: obeys_get)
  have rest: "scoped E sp ns c (bindM (GetRoleByName E (rs_Name role')) (\<lambda>(iamRole, exists).
     bindM (if \<not> exists then create_role_and_policies E c role' tags
            else bindM (deref iamRole) (\<lambda>r. update_role_and_policies E c role' r)) (\<lambda>_. returnM role')))"
    if "rs_Name role' = rs_Name role" "owner_tagged sp ns tags" for role' tags
    using create [of role'] update [of role'] that role by auto
  have "scoped E sp ns c (bindM (setAssumeRolePolicyDocument E c rq air role) (\<lambda>role'.
     bindM (GetRoleByName E (rs_Name role')) (\<lambda>(iamRole, exists).
     bindM (if \<not> exists then create_role_and_policies E c role' tags
            else bindM (deref iamRole) (\<lambda>r. update_role_and_policies E c role' r)) (\<lambda>_. returnM role'))))"
    if "owner_tagged sp ns tags" for tags
    by (rule obeys_bind_yields [OF scoped_setAssumeRolePolicyDocument [OF W] setAssumeRolePolicyDocument_keeps_name
        rest [OF _ that]])
  note set = this
  show ?thesis
    unfolding syncRole_def Let_def
    by (rule obeys_get, rule obeys_bind_any [OF obeys_ConvertToIAMTags], rule set) (simp add: of_spec_def)
qed

lemma scoped_sync_all_roles:
  assumes W: "status_keeps_spec E" "status_keeps_namespace E"
  shows "scoped E sp ns c (sync_all_roles E c rq air)"
proof -
  have "scoped E sp ns c (bindM (syncRole E c rq air role) (syncPoliciesByRoleSpec E c))"
    if "role \<in> set (spec_roles sp)" for role
  proof (rule obeys_bind_yields [OF scoped_syncRole [OF W] syncRole_returns])
    show "role_of sp (rs_Name role)" using that by (simp add: role_of_def)
    fix role' assume "rendered E air role role'"
    then show "scoped E sp ns c (syncPoliciesByRoleSpec E c role')"
      using that by (intro scoped_syncPoliciesByRoleSpec [OF W]) (auto simp: role_of_def rendered_def)
  qed
  then show ?thesis
    unfolding sync_all_roles_def
    by (auto simp: of_spec_def spec_roles_def split: prod.splits intro!: obeys_get obeys_range obeys_forM) force
qed

lemma ensures_in_scope: "emits P m \<Longrightarrow> \<exists>es. log (snd (m s)) = log s @ es \<and> list_all P es"
  by (rule ensures_log [OF ensures_emits])

lemma scoped_reconcile_with_client:
  fixes s :: "'w gstate"
  assumes W: "status_keeps_spec E" "status_keeps_namespace E" "finalizer_keeps_id E" and s: "of_spec sp ns s"
  shows "\<exists>es. log (snd (reconcile_with_client E c rq air s)) = log s @ es \<and> list_all (in_scope E sp ns c) es"
proof -
  have finalizer: "emits (in_scope E sp ns c) (ensure_finalizer E)"
    by (auto simp: ensure_finalizer_def Let_def intro!: scope_intros split: sum.splits)
  have "scoped E sp ns c (bindM (ensure_finalizer E) (\<lambda>_. bindM (syncAWSIAMResources E c) (\<lambda>_.
      bindM (sync_all_roles E c rq air) (\<lambda>_. bindM (report_synced E c) (\<lambda>_.
      bindM (getM prov) (\<lambda>p'. returnM (setFrequency (Some air) p')))))))"
    by (intro obeys_bind_any obeys_closed [OF finalizer same_id_finalizer [OF W(3)] of_spec_same_id]
        obeys_closed [OF scope_sync same_id_sync [OF W(1,2)] of_spec_same_id] scoped_sync_all_roles [OF W(1,2)])
      (auto simp: report_synced_def intro!: obeys_bind_any scoped_status [OF W(1,2)])
  note synced = obeys_log [OF this s]
  have "emits (in_scope E sp ns c) (bindM (finalize E c) (\<lambda>_. returnM 0))"
    by (intro em.keeps_bindM scope_finalize em.keeps_returnM)
  note finalized = ensures_in_scope [OF this, of s]
  show ?thesis
  proof (cases "time_IsZero (om_DeletionTimestamp (ObjectMeta (prov s)))")
    case True
    then show ?thesis using synced by (simp add: reconcile_with_client_def getM_def bindM_Ok)
  next
    case False
    then show ?thesis using finalized by (simp add: reconcile_with_client_def getM_def bindM_Ok)
  qed
qed

section \<open>A whole reconciliation\<close>

lemma no_iam_start:
  "emits no_iam (getClusterResources E iam rq)" "emits no_iam (make_client E)"
  by (auto simp: getClusterResources_def make_client_def Let_def
      intro!: emits_rules emits_updateCRDStatus_NoResult emits_NewIAMClient split: sum.splits)

lemma same_id_make_client:
  assumes "status_keeps_spec E" and "status_keeps_namespace E"
  shows "keeps same_id (make_client E)"
  by (auto simp: make_client_def intro!: si.keeps_rules same_id_status [OF assms] same_id_ops [OF same_prov_role_ops(10)])


lemma mem_finalizer_keeps_id: "finalizer_keeps_id mem_env"
  by (auto simp: finalizer_keeps_id_def mem_env_simps mem_update_def meta_finalizers_def Let_def split: option.splits)

declare sha1_Sum_def [code del]

lemma scope_run:
  "log conv_start = []"
  "length (filter (\<lambda>ev. \<not> no_iam ev) (log (snd (Reconcile mem_env None conv_rq conv_start)))) = 12"
  "Spec (prov (snd (getClusterResources mem_env None conv_rq conv_start))) = conv_spec"
  "om_Namespace (ObjectMeta (prov (snd (getClusterResources mem_env None conv_rq conv_start)))) = ''ns''"
  by code_simp+

declare sha1_Sum_def [code]


end
