(* ===== verification/TrustPolicy.thy ===== *)
theory TrustPolicy
  imports MemoryCloud
begin

text \<open>
  Comparing the trust policy of a role with the rendered document of the specification
  (\<open>DiffRoleByPolicyDocument\<close>), and rendering that document for the cluster's OIDC provider.
\<close>

section \<open>The comparison\<close>

lemma compact_encoded:
  "tostring_documented E \<Longrightarrow>
   compactRolePolicyDocument E (Some (percent_encode must d)) = json_Compact d"
  by (simp add: compactRolePolicyDocument_def tostring_documented_def PathUnescape_percent_encode)

lemma compact_plain:
  "tostring_documented E \<Longrightarrow> CHR ''%'' \<notin> set d \<Longrightarrow>
   compactRolePolicyDocument E (Some d) = json_Compact d"
  by (simp add: compactRolePolicyDocument_def tostring_documented_def PathUnescape_plain)

lemma no_percent_compact: "json_Compact d = Inr a \<Longrightarrow> CHR ''%'' \<notin> set d \<Longrightarrow> CHR ''%'' \<notin> set a"
  using json_Compact_subseq [of d a] list_emb_set [of "(=)" a d "CHR ''%''"] by auto

text \<open>
  C14. IAM returns the trust policy percent-encoded; for whichever encoding it uses, and a desired
  document without percent signs, the comparison reports a difference exactly when the two JSON
  texts differ after insignificant white space is removed.
\<close>

theorem diff_decides_compact_equality:
  assumes "tostring_documented E"
    and "json_Compact current = Inr a" and "json_Compact desired = Inr b"
    and "CHR ''%'' \<notin> set desired"
  shows "DiffRoleByPolicyDocument E (Some (percent_encode must current)) (Some desired) = Inr (a \<noteq> b)"
  using assms by (simp add: DiffRoleByPolicyDocument_def compact_encoded compact_plain)

text \<open>A document with white space and one without, as the witnesses use them.\<close>

definition spaced_doc :: string where
  "spaced_doc = ''{ '' @ [CHR 0x22] @ ''A'' @ [CHR 0x22] @ '' : [ 1 , true ] } ''"

definition compact_doc :: string where
  "compact_doc = ''{'' @ [CHR 0x22] @ ''A'' @ [CHR 0x22] @ '':[1,true]}''"

lemma spaced_doc_compact: "json_Compact spaced_doc = Inr compact_doc"
  by code_simp

lemma compact_doc_compact: "json_Compact compact_doc = Inr compact_doc"
  by code_simp

lemma no_percent_docs: "CHR ''%'' \<notin> set spaced_doc" "CHR ''%'' \<notin> set compact_doc"
  by (simp_all add: spaced_doc_def compact_doc_def)

lemma mem_env_tostring: "tostring_documented mem_env"
  by (simp add: tostring_documented_def mem_env_def)

theorem diff_decides_compact_equality_witness:
  "DiffRoleByPolicyDocument mem_env (Some (percent_encode (\<lambda>c. c = CHR '' '') spaced_doc))
     (Some compact_doc) = Inr False"
  using diff_decides_compact_equality [OF mem_env_tostring spaced_doc_compact compact_doc_compact
      no_percent_docs(2), of "\<lambda>c. c = CHR '' ''"]
  by simp

text \<open>
  C21. No update loop: if the desired document has no percent sign, and IAM stores it in compact form
  and returns it encoded, comparing the two reports no difference, so the trust policy is not written
  again at the next reconciliation. (With a percent sign in it, the desired document is unescaped
  before the comparison, and compared as another one or not at all.)
\<close>

theorem stored_compact_no_diff:
  assumes "tostring_documented E"
    and "json_Compact desired = Inr stored" and "CHR ''%'' \<notin> set desired"
  shows "DiffRoleByPolicyDocument E (Some (percent_encode must stored)) (Some desired) = Inr False"
proof -
  have "json_Compact stored = Inr stored" using assms(2) by (rule json_Compact_idem)
  with assms show ?thesis by (simp add: DiffRoleByPolicyDocument_def compact_encoded compact_plain)
qed

theorem stored_compact_no_diff_witness:
  "DiffRoleByPolicyDocument mem_env (Some (percent_encode (\<lambda>c. True) compact_doc)) (Some spaced_doc)
     = Inr False"
  by (rule stored_compact_no_diff [OF mem_env_tostring spaced_doc_compact no_percent_docs(1)])

text \<open>
  C22. The desired document is unescaped too, although it is not encoded: a percent sign in it that
  does not happen to start two hexadecimal digits makes the comparison fail whenever the current
  document is readable, so a role with such a trust policy (a pattern like \<open>100%\<close>) can be created
  but never reconciled again.
\<close>

theorem desired_stray_percent_fails:
  assumes "tostring_documented E" and "json_Compact current = Inr a"
    and "CHR ''%'' \<notin> set p"
    and "case q of x # y # _ \<Rightarrow> \<not> (ishex x \<and> ishex y) | _ \<Rightarrow> True"
  shows "DiffRoleByPolicyDocument E (Some (percent_encode must current)) (Some (p @ CHR ''%'' # q)) =
    Inl (EscapeError (take 3 (CHR ''%'' # q)))"
proof -
  have "compactRolePolicyDocument E (Some (p @ CHR ''%'' # q)) = Inl (EscapeError (take 3 (CHR ''%'' # q)))"
    using assms(1) PathUnescape_stray_percent [OF assms(3,4)]
    by (simp add: compactRolePolicyDocument_def tostring_documented_def)
  then show ?thesis using assms(1,2) by (simp add: DiffRoleByPolicyDocument_def compact_encoded)
qed

theorem desired_stray_percent_fails_witness:
  "DiffRoleByPolicyDocument mem_env (Some (percent_encode (\<lambda>c. True) compact_doc))
     (Some ([CHR 0x22] @ ''100'' @ CHR ''%'' # [CHR 0x22])) =
   Inl (EscapeError [CHR ''%'', CHR 0x22])"
  using desired_stray_percent_fails [OF mem_env_tostring compact_doc_compact,
      of "[CHR 0x22] @ ''100''" "[CHR 0x22]" "\<lambda>c. True"]
  by simp

section \<open>The OIDC provider\<close>

text \<open>
  C23. The provider name handed to the template is everything after the first slash of the ARN:
  for an ARN \<open>account/name\<close> whose account part has no slash, the document is rendered with that
  ARN and name, and the caller's role gets the text; nothing else of the role changes and nothing
  is requested from outside.
\<close>

theorem rendered_with_provider_name:
  assumes arn: "cp_OIDCProviderARN (air_eksCP air) = account @ ''/'' @ name"
    and "CHR ''/'' \<notin> set account"
    and "rs_AssumeRolePolicyDocument role = Some doc"
    and "template_Parse E doc = Inr execute" and "execute (account @ ''/'' @ name) name = Inr rendered"
  shows "setAssumeRolePolicyDocument E c rq air role s =
    (Ok (role\<lparr>rs_AssumeRolePolicyDocument := Some rendered\<rparr>), s)"
proof -
  have "strings_Cut (account @ ''/'' @ name) ''/'' = (account, name, True)"
    using strings_Cut_append [of "CHR ''/''" account name] assms(2) by simp
  then show ?thesis
    using assms
    by (simp add: setAssumeRolePolicyDocument_def renderOIDCProviderTemplate_def)
      (simp add: returnM_def)
qed

definition sample_role :: RoleSpec where
  "sample_role = \<lparr>rs_AssumeRolePolicyDocument = Some spaced_doc, rs_Name = Some ''r'',
     rs_Policies = [Some ''p''], rs_Tags = []\<rparr>"

definition sample_air :: "string \<Rightarrow> awsIAMResources" where
  "sample_air arn = \<lparr>air_eksCP = \<lparr>cp_Ready = True, cp_OIDCProviderARN = arn\<rparr>,
     air_eksCPNamespace = \<lparr>nn_Namespace = ''ns'', nn_Name = ''eks''\<rparr>\<rparr>"

definition sample_request :: NamespacedName where
  "sample_request = \<lparr>nn_Namespace = ''ns'', nn_Name = ''cr''\<rparr>"

theorem rendered_with_provider_name_witness:
  "setAssumeRolePolicyDocument mem_env mem_client sample_request (sample_air ''arn/oidc/id/A'')
     sample_role (mem_state mem_empty) = (Ok sample_role, mem_state mem_empty)"
  using rendered_with_provider_name [where E = mem_env and air = "sample_air ''arn/oidc/id/A''"
      and account = "''arn''" and name = "''oidc/id/A''" and role = sample_role
      and doc = spaced_doc and rendered = spaced_doc and execute = "\<lambda>arn name. Inr spaced_doc"
      and c = mem_client and rq = sample_request and s = "mem_state mem_empty"]
  by (simp add: sample_air_def sample_role_def mem_env_simps)

text \<open>
  C24. An OIDC ARN without a slash is reported: the status is written with phase \<open>Failed\<close> and the
  malformed ARN in the message, and the error is returned before IAM is called for this role.
\<close>

theorem malformed_oidc_reported:
  assumes "CHR ''/'' \<notin> set (cp_OIDCProviderARN (air_eksCP air))"
    and "clock_Now E (world s) = (t, w)"
    and "k8s_UpdateStatus E (status_stamp ''Failed'' (malformed_message E rq air) t (prov s)) w = (Inr p, w')"
  shows "setAssumeRolePolicyDocument E c rq air role s =
    (Err (PlainError (malformed_message E rq air)), s\<lparr>world := w', prov := p,
       log := log s @
         [Event (UpdateStatus (status_stamp ''Failed'' (malformed_message E rq air) t (prov s))) None]\<rparr>)"
proof -
  have "wp (setAssumeRolePolicyDocument E c rq air role)
     (\<lambda>r t'. (r, t') = (Err (PlainError (malformed_message E rq air)), s\<lparr>world := w', prov := p,
       log := log s @
         [Event (UpdateStatus (status_stamp ''Failed'' (malformed_message E rq air) t (prov s))) None]\<rparr>)) s"
    using assms
    by (simp add: setAssumeRolePolicyDocument_def strings_Cut_char Let_def wp_simps failPhase_def)
  then show ?thesis by (simp add: wp_def split: prod.splits)
qed

definition sample_provision :: AWSIAMProvision where
  "sample_provision = zero_AWSIAMProvision
     \<lparr>ObjectMeta := (ObjectMeta zero_AWSIAMProvision)\<lparr>om_Name := ''cr'', om_Namespace := ''ns''\<rparr>\<rparr>"

definition sample_mem :: mem where
  "sample_mem = mem_empty\<lparr>m_prov := Some sample_provision\<rparr>"

theorem malformed_oidc_reported_witness:
  "\<exists>s. setAssumeRolePolicyDocument mem_env mem_client sample_request (sample_air ''arn'') sample_role
     (mem_state sample_mem) =
     (Err (PlainError (malformed_message mem_env sample_request (sample_air ''arn''))), s)"
  by (rule exI, rule malformed_oidc_reported [where t = 7 and w = "sample_mem\<lparr>m_clock := 8\<rparr>"
      and p = "status_stamp ''Failed'' (malformed_message mem_env sample_request (sample_air ''arn'')) 7
        sample_provision"
      and w' = "sample_mem\<lparr>m_clock := 8, m_prov := Some (status_stamp ''Failed''
        (malformed_message mem_env sample_request (sample_air ''arn'')) 7 sample_provision)\<rparr>"])
    (simp_all add: sample_air_def mem_env_simps sample_mem_def mem_state_def mem_empty_def
      mem_update_status_def status_stamp_def Let_def)

end
