(* ===== verification/Listings.thy ===== *)
theory Listings
  imports MemoryCloud
begin

text \<open>
  The listing operations against a service that serves a list of pages: what they return, and that
  they end. A listing reads only, so the service's state is taken not to change under it.
\<close>

section \<open>A service that serves pages\<close>

text \<open>
  \<open>serves has_more next w pss p\<close>: from paginator \<open>p\<close>, \<open>NextPage\<close> yields the pages \<open>pss\<close> in order,
  \<open>HasMorePages\<close> tells when to stop, and the state \<open>w\<close> outside is left as it is.
\<close>

fun serves :: "('p \<Rightarrow> bool) \<Rightarrow> ('w, 'p, 'x) pager \<Rightarrow> 'w \<Rightarrow> 'x list list \<Rightarrow> 'p \<Rightarrow> bool" where
  "serves has_more next w [] p = (\<not> has_more p)"
| "serves has_more next w (ps # pss) p =
     (has_more p \<and>
      (case next p w of (r, p', w') \<Rightarrow> r = Inr ps \<and> w' = w \<and> serves has_more next w pss p'))"

text \<open>
  A loop body that reads: its answer is \<open>g\<close>, and of the state only the log grows.
\<close>

definition reads :: "('w gstate, 'a) gop \<Rightarrow> 'a \<Rightarrow> 'w gstate \<Rightarrow> bool" where
  "reads m x s = (\<exists>es. m s = (Ok x, s\<lparr>log := log s @ es\<rparr>))"

lemma reads_returnM [intro]: "reads (returnM x) x s"
  by (auto simp: reads_def returnM_def intro: exI [of _ "[]"])

lemma reads_bindM:
  assumes "reads m x s" and "\<And>es. reads (f x) y (s\<lparr>log := log s @ es\<rparr>)"
  shows "reads (bindM m f) y s"
proof -
  obtain es where m: "m s = (Ok x, s\<lparr>log := log s @ es\<rparr>)" using assms(1) by (auto simp: reads_def)
  obtain es' where "f x (s\<lparr>log := log s @ es\<rparr>) = (Ok y, s\<lparr>log := (log s @ es) @ es'\<rparr>)"
    using assms(2) [of es] by (auto simp: reads_def)
  then show ?thesis using m by (auto simp: reads_def bindM_def intro: exI [of _ "es @ es'"])
qed

lemma reads_bind_returnM: "reads m x s \<Longrightarrow> y = f x \<Longrightarrow> reads (bindM m (\<lambda>x. returnM (f x))) y s"
  by (rule reads_bindM) auto

lemma reads_request:
  assumes "f (world s) = (r, world s)"
  shows "reads (request_call rq f) r s"
  unfolding reads_def request_call_def using assms
  by (auto intro!: exI [of _ "[Event rq (error_of r)]"])

lemma reads_foldM:
  assumes "\<And>x acc es. x \<in> set xs \<Longrightarrow> reads (body x acc) (g x acc) (s\<lparr>log := log s @ es\<rparr>)"
  shows "reads (foldM body xs acc) (fold g xs acc) s"
  using assms
proof (induction xs arbitrary: s acc)
  case Nil
  then show ?case by auto
next
  case (Cons x xs)
  have "reads (body x acc) (g x acc) s" using Cons.prems [of x acc "[]"] by simp
  moreover have "reads (foldM body xs (g x acc)) (fold g xs (g x acc)) (s\<lparr>log := log s @ es\<rparr>)" for es
    using Cons.prems [where es = "es @ es'" for es'] by (intro Cons.IH) simp
  ultimately show ?case by (auto intro: reads_bindM)
qed

text \<open>A listing over served pages is a fold over their items, if the fuel is at least the number of pages.\<close>

lemma reads_pages_loop:
  assumes "serves (sdk_HasMorePages E) next (world s) pss p" and "length pss \<le> n"
    and "\<And>x acc es. x \<in> set (concat pss) \<Longrightarrow> reads (body x acc) (g x acc) (s\<lparr>log := log s @ es\<rparr>)"
  shows "reads (pages_loop E rq next body n p acc) (fold g (concat pss) acc) s"
  using assms
proof (induction n arbitrary: pss p acc s)
  case 0
  then show ?case by auto
next
  case (Suc n)
  show ?case
  proof (cases pss)
    case Nil
    then show ?thesis using Suc.prems(1) by auto
  next
    case (Cons ps rest)
    obtain r p' w' where next': "next p (world s) = (r, p', w')" by (metis prod_cases3)
    have sv: "sdk_HasMorePages E p" "r = Inr ps" "w' = world s"
      "serves (sdk_HasMorePages E) next (world s) rest p'"
      using Suc.prems(1) Cons next' by auto
    let ?s1 = "\<lambda>es. s\<lparr>log := log s @ es\<rparr>"
    have page: "reads (page_call rq next p) (r, p') s"
      unfolding reads_def page_call_def using next' sv(3)
      by (auto intro!: exI [of _ "[Event rq (error_of r)]"])
    have body: "reads (foldM body ps acc) (fold g ps acc) (?s1 es)" for es
      using Suc.prems(3) Cons by (intro reads_foldM) simp
    have tail: "reads (pages_loop E rq next body n p' (fold g ps acc))
        (fold g (concat rest) (fold g ps acc)) (?s1 es)" for es
      using sv(4) Suc.prems(2,3) Cons by (intro Suc.IH) simp_all
    have "reads (bindM (foldM body ps acc) (\<lambda>acc'. pages_loop E rq next body n p' acc'))
        (fold g (concat rest) (fold g ps acc)) (?s1 es)" for es
      using body tail [of "es @ es'" for es'] by (intro reads_bindM) simp_all
    then show ?thesis
      using sv(1,2) Cons page by (simp add: reads_bindM)
  qed
qed

section \<open>What the listings return\<close>

lemma fold_append_if: "fold (\<lambda>x acc. if P x then acc @ [x] else acc) xs acc = acc @ filter P xs"
  by (induction xs arbitrary: acc) simp_all

text \<open>
  The answer to a tag request: complete and pairwise different tags. The request asks for at most
  ten of them, so for a resource with more \<open>rs\<close> is the first part of its tags only.
\<close>

definition answers_tags :: "('w, iamTag list) call \<Rightarrow> 'w \<Rightarrow> iamTag list \<Rightarrow> bool" where
  "answers_tags f w rs = (f w = (Inr rs, w) \<and> list_all full_tag rs \<and> distinct rs)"

lemma compare_reads:
  fixes f :: "('w, iamTag list) call" and h :: "bool \<Rightarrow> 'x list" and s :: "'w gstate"
  assumes "answers_tags f (world s) rs" and "cmp_documented E" and "ts \<noteq> []" "list_all full_tag ts"
    and "\<And>b. h b = (if b then acc @ [x] else acc)"
  shows "reads (bindM (bindM (request_call rq f) (\<lambda>r. case r of Inl err \<Rightarrow> errM err
            | Inr resultTags \<Rightarrow> getSimilarTags ts resultTags))
          (\<lambda>similar. returnM (h (compareTags E similar ts))))
        (if carries_tags ts rs then acc @ [x] else acc) s"
proof -
  have cmp: "bindM (getSimilarTags ts rs) (\<lambda>similar. returnM (compareTags E similar ts)) =
      (returnM (carries_tags ts rs) :: ('w gstate, bool) gop)"
    using assms by (intro tag_comparison) (auto simp: answers_tags_def)
  have "bindM (getSimilarTags ts rs) (\<lambda>similar. returnM (h (compareTags E similar ts))) =
      bindM (bindM (getSimilarTags ts rs) (\<lambda>similar. returnM (compareTags E similar ts)))
        (\<lambda>b. returnM (h b) :: ('w gstate, 'x list) gop)"
    by (simp only: bindM_assoc bindM_returnM)
  also have "\<dots> = returnM (h (carries_tags ts rs))" by (simp only: cmp bindM_returnM)
  finally have body: "bindM (getSimilarTags ts rs) (\<lambda>similar. returnM (h (compareTags E similar ts))) =
      (returnM (h (carries_tags ts rs)) :: ('w gstate, 'x list) gop)" .
  have "f (world s) = (Inr rs, world s)" using assms(1) by (simp add: answers_tags_def)
  then show ?thesis
    unfolding bindM_assoc using assms(5) body
    by (intro reads_bindM [where x = "Inr rs"] reads_request) auto
qed

text \<open>
  C25. A role is the operator's for a cluster and a namespace exactly when both owner tags are among
  the tags IAM reports for it, in whatever order and among whatever others: \<open>ListRolesByTags\<close>
  returns those roles of all pages, in listing order, and only reads.
\<close>

theorem owned_roles_listed:
  assumes "serves (sdk_HasMorePages E) (sdk_NextRoles E) (world s) pss
             (sdk_NewPaginator E (ListRolesReq 50 (Some pathPrefix)))"
    and "length pss \<le> page_fuel E" and "cmp_documented E"
    and "list_all (\<lambda>r. answers_tags (sdk_ListRoleTags E (ListRoleTagsReq 10 (ir_RoleName r)))
            (world s) (tags_of r)) (concat pss)"
  shows "\<exists>es. ListRolesByTags E (TagsDefine cluster namespace []) s =
    (Ok (filter (\<lambda>r. carries_tags (TagsDefine cluster namespace []) (tags_of r)) (concat pss)),
     s\<lparr>log := log s @ es\<rparr>)"
proof -
  let ?ts = "TagsDefine cluster namespace []"
  have "reads (bindM (getSimilarRoleTags E ?ts r)
       (\<lambda>similar. returnM (if compareTags E similar ?ts then acc @ [r] else acc)))
     (if carries_tags ?ts (tags_of r) then acc @ [r] else acc) (s\<lparr>log := log s @ es\<rparr>)"
    if "r \<in> set (concat pss)" for r acc es
    using that assms(3,4) unfolding getSimilarRoleTags_def Let_def
    by (intro compare_reads) (auto simp: list_all_iff TagsDefine_def full_tag_def)
  then have "reads (ListRolesByTags E ?ts)
     (fold (\<lambda>r acc. if carries_tags ?ts (tags_of r) then acc @ [r] else acc) (concat pss) []) s"
    unfolding ListRolesByTags_def Let_def using assms(1,2) by (intro reads_pages_loop) auto
  then show ?thesis by (simp add: fold_append_if reads_def)
qed

text \<open>A world with a resource of the cluster \<open>eks\<close> in \<open>ns\<close>, and one of another cluster.\<close>

definition shared_mem :: mem where
  "shared_mem = mem_empty\<lparr>
     m_roles := [\<lparr>mr_name = ''mine'', mr_doc = [], mr_tags = TagsDefine ''eks'' ''ns'' [], mr_attached = []\<rparr>,
                 \<lparr>mr_name = ''other'', mr_doc = [], mr_tags = TagsDefine ''eks2'' ''ns'' [], mr_attached = []\<rparr>],
     m_policies := [\<lparr>mp_name = ''q'', mp_doc = [], mp_tags = TagsDefine ''eks2'' ''ns'' []\<rparr>,
                    \<lparr>mp_name = ''p'', mp_doc = [], mp_tags = TagsDefine ''eks'' ''ns'' []\<rparr>]\<rparr>"

lemma mem_cmp: "cmp_documented mem_env"
  by (simp add: cmp_documented_def mem_env_simps)

theorem owned_roles_listed_witness:
  "\<exists>es. ListRolesByTags mem_env (TagsDefine ''eks'' ''ns'' []) (mem_state shared_mem) =
     (Ok (filter (\<lambda>r. ir_RoleName r = Some ''mine'') (map sdk_role (m_roles shared_mem))),
      (mem_state shared_mem)\<lparr>log := log (mem_state shared_mem) @ es\<rparr>)"
  using owned_roles_listed [where E = mem_env and s = "mem_state shared_mem"
      and cluster = "''eks''" and namespace = "''ns''" and pss = "[map sdk_role (m_roles shared_mem)]"
      and tags_of = "\<lambda>r. TagsDefine (if ir_RoleName r = Some ''mine'' then ''eks'' else ''eks2'') ''ns'' []",
      OF _ _ mem_cmp]
  by (simp add: mem_defs shared_mem_def answers_tags_def carries_tags_def TagsDefine_def
      full_tag_def tag_keys)

text \<open>
  C26. The same for policies, by which obsolete policies are found.
\<close>

theorem owned_policies_listed:
  assumes "serves (sdk_HasMorePages E) (sdk_NextPolicies E) (world s) pss
             (sdk_NewPaginator E (ListPoliciesReq 50 (Some pathPrefix) ''PermissionsPolicy'' ''Local''))"
    and "length pss \<le> page_fuel E" and "cmp_documented E"
    and "list_all (\<lambda>p. answers_tags (sdk_ListPolicyTags E (ListPolicyTagsReq 10 (ip_Arn p)))
            (world s) (tags_of p)) (concat pss)"
  shows "\<exists>es. ListPoliciesByTags E (TagsDefine cluster namespace []) s =
    (Ok (filter (\<lambda>p. carries_tags (TagsDefine cluster namespace []) (tags_of p)) (concat pss)),
     s\<lparr>log := log s @ es\<rparr>)"
proof -
  let ?ts = "TagsDefine cluster namespace []"
  have "reads (bindM (getSimilarPolicyTags E ?ts p)
       (\<lambda>similar. returnM (if compareTags E similar ?ts then acc @ [p] else acc)))
     (if carries_tags ?ts (tags_of p) then acc @ [p] else acc) (s\<lparr>log := log s @ es\<rparr>)"
    if "p \<in> set (concat pss)" for p acc es
    using that assms(3,4) unfolding getSimilarPolicyTags_def Let_def
    by (intro compare_reads) (auto simp: list_all_iff TagsDefine_def full_tag_def)
  then have "reads (ListPoliciesByTags E ?ts)
     (fold (\<lambda>p acc. if carries_tags ?ts (tags_of p) then acc @ [p] else acc) (concat pss) []) s"
    unfolding ListPoliciesByTags_def Let_def using assms(1,2) by (intro reads_pages_loop) auto
  then show ?thesis by (simp add: fold_append_if reads_def)
qed

theorem owned_policies_listed_witness:
  "\<exists>es. ListPoliciesByTags mem_env (TagsDefine ''eks'' ''ns'' []) (mem_state shared_mem) =
     (Ok (filter (\<lambda>p. ip_PolicyName p = Some ''p'')
        (map (\<lambda>q. (sdk_policy q)\<lparr>ip_Tags := []\<rparr>) (m_policies shared_mem))),
      (mem_state shared_mem)\<lparr>log := log (mem_state shared_mem) @ es\<rparr>)"
  using owned_policies_listed [where E = mem_env and s = "mem_state shared_mem"
      and cluster = "''eks''" and namespace = "''ns''"
      and pss = "[map (\<lambda>q. (sdk_policy q)\<lparr>ip_Tags := []\<rparr>) (m_policies shared_mem)]"
      and tags_of = "\<lambda>p. TagsDefine (if ip_PolicyName p = Some ''p'' then ''eks'' else ''eks2'') ''ns'' []",
      OF _ _ mem_cmp]
  by (simp add: mem_defs shared_mem_def answers_tags_def carries_tags_def TagsDefine_def
      full_tag_def tag_keys)

end
