(* ===== verification/Termination.thy ===== *)
theory Termination
  imports Convergence
begin

text \<open>
  Every reconciliation ends. The model bounds the pages that a listing loop reads by a fuel; what is
  shown is that, for listings of finitely many pages, some fuel is enough from every state, and that
  more fuel than enough changes nothing: the run it gives is the run of the program, whose loops have
  no bound.
\<close>

section \<open>Runs that settle\<close>

text \<open>
  \<open>m k\<close> is an operation run with fuel \<open>k\<close>. It settles when from every state, from some fuel on, it
  ends in the same way, and not because the fuel ran out.
\<close>

definition settles :: "(nat \<Rightarrow> ('s, 'a) gop) \<Rightarrow> bool" where
  "settles m = (\<forall>s. \<exists>n r t. r \<noteq> Hang \<and> (\<forall>k \<ge> n. m k s = (r, t)))"

lemma settlesE:
  assumes "settles m"
  obtains n r t where "r \<noteq> Hang" and "\<And>k. n \<le> k \<Longrightarrow> m k s = (r, t)"
  using assms unfolding settles_def by blast

lemma settles_const: "(\<And>s. fst (m s) \<noteq> Hang) \<Longrightarrow> settles (\<lambda>k. m)"
  unfolding settles_def by (metis prod.collapse)

lemma settles_basic [intro!]:
  "settles (\<lambda>k. returnM x)" "settles (\<lambda>k. errM e)" "settles (\<lambda>k. panicM)" "settles (\<lambda>k. getM f)"
  "settles (\<lambda>k. modifyM g)" "settles (\<lambda>k. deref p)" "settles (\<lambda>k. liftM r)"
  "settles (\<lambda>k. request_call rq h)" "settles (\<lambda>k. range_map m)" "settles (\<lambda>k. now E)"
  by (rule settles_const; auto simp: monad_defs request_call_def range_map_def now_def
      split: option.splits sum.splits prod.splits list.splits)+

lemma settles_bindM:
  assumes "settles m" and "\<And>x. settles (\<lambda>k. f k x)"
  shows "settles (\<lambda>k. bindM (m k) (f k))"
  unfolding settles_def
proof
  fix s
  obtain n r t where m: "r \<noteq> Hang" "\<And>k. n \<le> k \<Longrightarrow> m k s = (r, t)"
    by (rule settlesE [OF assms(1), of s]) blast
  show "\<exists>n r t. r \<noteq> Hang \<and> (\<forall>k \<ge> n. bindM (m k) (f k) s = (r, t))"
  proof (cases r)
    case (Ok x)
    obtain n' r' t' where f: "r' \<noteq> Hang" "\<And>k. n' \<le> k \<Longrightarrow> f k x t = (r', t')"
      by (rule settlesE [OF assms(2), of x t]) blast
    have "\<forall>k \<ge> max n n'. bindM (m k) (f k) s = (r', t')" using m(2) f(2) Ok by (simp add: bindM_def)
    with f(1) show ?thesis by blast
  next
    case (Err e)
    then have "\<forall>k \<ge> n. bindM (m k) (f k) s = (Err e, t)" using m(2) by (simp add: bindM_def)
    then show ?thesis by blast
  next
    case Panic
    then have "\<forall>k \<ge> n. bindM (m k) (f k) s = (Panic, t)" using m(2) by (simp add: bindM_def)
    then show ?thesis by blast
  qed (use m(1) in simp)
qed

lemma settles_catchM:
  assumes "settles m" and "\<And>e. settles (\<lambda>k. f k e)"
  shows "settles (\<lambda>k. catchM (m k) (f k))"
  unfolding settles_def
proof
  fix s
  obtain n r t where m: "r \<noteq> Hang" "\<And>k. n \<le> k \<Longrightarrow> m k s = (r, t)"
    by (rule settlesE [OF assms(1), of s]) blast
  show "\<exists>n r t. r \<noteq> Hang \<and> (\<forall>k \<ge> n. catchM (m k) (f k) s = (r, t))"
  proof (cases r)
    case (Err e)
    obtain n' r' t' where f: "r' \<noteq> Hang" "\<And>k. n' \<le> k \<Longrightarrow> f k e t = (r', t')"
      by (rule settlesE [OF assms(2), of e t]) blast
    have "\<forall>k \<ge> max n n'. catchM (m k) (f k) s = (r', t')" using m(2) f(2) Err by (simp add: catchM_def)
    with f(1) show ?thesis by blast
  next
    case (Ok x)
    then have "\<forall>k \<ge> n. catchM (m k) (f k) s = (Ok x, t)" using m(2) by (simp add: catchM_def)
    then show ?thesis by blast
  next
    case Panic
    then have "\<forall>k \<ge> n. catchM (m k) (f k) s = (Panic, t)" using m(2) by (simp add: catchM_def)
    then show ?thesis by blast
  qed (use m(1) in simp)
qed

lemma settles_forM: "(\<And>x. settles (\<lambda>k. f k x)) \<Longrightarrow> settles (\<lambda>k. forM xs (f k))"
  by (induction xs) (auto intro: settles_bindM)

lemma settles_foldM: "(\<And>x a. settles (\<lambda>k. f k x a)) \<Longrightarrow> settles (\<lambda>k. foldM (f k) xs a)"
  by (induction xs arbitrary: a) (auto intro: settles_bindM)

lemma settles_if: "settles m \<Longrightarrow> settles m' \<Longrightarrow> settles (\<lambda>k. if b then m k else m' k)"
  by (cases b) simp_all

lemma settles_case_sum:
  "(\<And>y. settles (\<lambda>k. f k y)) \<Longrightarrow> (\<And>y. settles (\<lambda>k. g k y)) \<Longrightarrow>
   settles (\<lambda>k. case x of Inl y \<Rightarrow> f k y | Inr y \<Rightarrow> g k y)"
  by (cases x) auto

lemma settles_case_option:
  "settles m \<Longrightarrow> (\<And>y. settles (\<lambda>k. f k y)) \<Longrightarrow> settles (\<lambda>k. case x of None \<Rightarrow> m k | Some y \<Rightarrow> f k y)"
  by (cases x) auto

lemma settles_case_prod: "(\<And>a b. settles (\<lambda>k. f k a b)) \<Longrightarrow> settles (\<lambda>k. case x of (a, b) \<Rightarrow> f k a b)"
  by (cases x) auto

lemmas settles_rules = settles_bindM settles_catchM settles_forM settles_foldM settles_if
  settles_case_sum settles_case_option settles_case_prod

section \<open>Listings of finitely many pages\<close>

text \<open>
  A paginator ends when it has no more pages, or when every page that it may hand out leaves one that
  ends. Nothing bounds the number of pages beforehand: it may depend on what the service answers.
\<close>

inductive pager_ends :: "('w, 'p) env \<Rightarrow> ('w, 'p, 'x) pager \<Rightarrow> 'p \<Rightarrow> bool"
  for E :: "('w, 'p) env" and fetch :: "('w, 'p, 'x) pager" where
  no_more: "\<not> sdk_HasMorePages E p \<Longrightarrow> pager_ends E fetch p"
| pages: "(\<And>w items p' w'. fetch p w = (Inr items, p', w') \<Longrightarrow> pager_ends E fetch p') \<Longrightarrow> pager_ends E fetch p"

definition pagers_end :: "('w, 'p) env \<Rightarrow> bool" where
  "pagers_end E = (\<forall>rq. let p = sdk_NewPaginator E rq in
     pager_ends E (sdk_NextAttachedPolicies E) p \<and> pager_ends E (sdk_NextRoles E) p \<and>
     pager_ends E (sdk_NextPolicies E) p \<and> pager_ends E (sdk_NextEntities E) p)"

lemma pagers_endD:
  assumes "pagers_end E"
  shows "pager_ends E (sdk_NextAttachedPolicies E) (sdk_NewPaginator E rq)"
    "pager_ends E (sdk_NextRoles E) (sdk_NewPaginator E rq)"
    "pager_ends E (sdk_NextPolicies E) (sdk_NewPaginator E rq)"
    "pager_ends E (sdk_NextEntities E) (sdk_NewPaginator E rq)"
  using assms by (simp_all add: pagers_end_def Let_def)

text \<open>The loop over the pages of a paginator that ends; its body may itself need fuel.\<close>

lemma pages_loop_settles:
  assumes "pager_ends E next p" and body: "\<And>x a. settles (\<lambda>k. body k x a)"
  shows "\<exists>n r t. r \<noteq> Hang \<and> (\<forall>k \<ge> n. \<forall>j \<ge> n. pages_loop E rq next (body k) j p acc s = (r, t))"
  using assms(1)
proof (induction p arbitrary: acc s)
  case (no_more p)
  have "pages_loop E rq next (body k) j p acc s = (Ok acc, s)" for k j
    using no_more by (cases j) (simp_all add: returnM_def)
  then show ?case by blast
next
  case (pages p)
  obtain x p' w' where call: "next p (world s) = (x, p', w')" by (metis prod_cases3)
  let ?u = "after s rq (error_of x) w'"
  have step: "pages_loop E rq next (body k) (Suc j) p acc s = (case x of
       Inl err \<Rightarrow> errM err
     | Inr items \<Rightarrow> bindM (foldM (body k) items acc) (pages_loop E rq next (body k) j p')) ?u"
    if "sdk_HasMorePages E p" for k j
    using that call by (simp add: page_call_def bindM_Ok)
  show ?case
  proof (cases "sdk_HasMorePages E p")
    case False
    then have "pages_loop E rq next (body k) j p acc s = (Ok acc, s)" for k j
      by (cases j) (simp_all add: returnM_def)
    then show ?thesis by blast
  next
    case more: True
    show ?thesis
    proof (cases x)
      case (Inl err)
      have "pages_loop E rq next (body k) j p acc s = (Err err, ?u)" if "1 \<le> j" for k j
        using step [OF more, of k "j - 1"] that Inl by (simp add: errM_def)
      then show ?thesis by blast
    next
      case (Inr items)
      have "settles (\<lambda>k. foldM (body k) items acc)" by (rule settles_foldM [OF body])
      then obtain n r t where fold: "r \<noteq> Hang" "\<And>k. n \<le> k \<Longrightarrow> foldM (body k) items acc ?u = (r, t)"
        by (rule settlesE [where s = ?u]) blast
      show ?thesis
      proof (cases "\<exists>acc'. r = Ok acc'")
        case False
        have "pages_loop E rq next (body k) j p acc s = (case r of
            Ok acc' \<Rightarrow> undefined | Err e \<Rightarrow> (Err e, t) | Panic \<Rightarrow> (Panic, t) | Hang \<Rightarrow> (Hang, t))"
          if "Suc n \<le> k" "Suc n \<le> j" for k j
          using step [OF more, of k "j - 1"] that Inr fold(2) [of k] False
          by (cases r) (simp_all add: bindM_def)
        then show ?thesis using fold(1) False by (cases r) (auto intro!: exI [of _ "Suc n"])
      next
        case True
        then obtain acc' where acc': "r = Ok acc'" by blast
        from pages.IH [OF call [unfolded Inr], of acc' t] obtain n' r' t' where rest: "r' \<noteq> Hang"
          "\<And>k j. n' \<le> k \<Longrightarrow> n' \<le> j \<Longrightarrow> pages_loop E rq next (body k) j p' acc' t = (r', t')" by blast
        have "pages_loop E rq next (body k) j p acc s = (r', t')"
          if "Suc (max n n') \<le> k" "Suc (max n n') \<le> j" for k j
          using step [OF more, of k "j - 1"] that Inr fold(2) [of k] acc' rest(2) [of k "j - 1"]
          by (simp add: bindM_def)
        then show ?thesis using rest(1) by blast
      qed
    qed
  qed
qed

lemma pages_loop_fuel [simp]: "pages_loop (E\<lparr>page_fuel := k\<rparr>) rq fetch body n = pages_loop E rq fetch body n"
proof (induction n)
  case 0
  show ?case by (rule ext)+ simp
next
  case (Suc n)
  show ?case by (rule ext)+ (unfold pages_loop.simps Suc, simp)
qed

lemma settles_pages_loop:
  assumes "pager_ends E next p" and "\<And>x a. settles (\<lambda>k. body k x a)"
  shows "settles (\<lambda>k. pages_loop E rq next (body k) k p acc)"
  unfolding settles_def
proof
  fix s
  show "\<exists>n r t. r \<noteq> Hang \<and> (\<forall>k \<ge> n. pages_loop E rq next (body k) k p acc s = (r, t))"
    using pages_loop_settles [where body = body, OF assms, of rq acc s] by blast
qed

section \<open>The handlers\<close>

text \<open>What does not loop over pages does not read the fuel.\<close>

lemma fuel_unread [simp]:
  "now (E\<lparr>page_fuel := k\<rparr>) = now E"
  "compareTags (E\<lparr>page_fuel := k\<rparr>) = compareTags E"
  "NewChecksumTag (E\<lparr>page_fuel := k\<rparr>) = NewChecksumTag E"
  "compactRolePolicyDocument (E\<lparr>page_fuel := k\<rparr>) = compactRolePolicyDocument E"
  "DiffRoleByPolicyDocument (E\<lparr>page_fuel := k\<rparr>) = DiffRoleByPolicyDocument E"
  "renderOIDCProviderTemplate (E\<lparr>page_fuel := k\<rparr>) = renderOIDCProviderTemplate E"
  "malformed_message (E\<lparr>page_fuel := k\<rparr>) = malformed_message E"
  by (rule ext | simp add: now_def compareTags_def NewChecksumTag_def compactRolePolicyDocument_def
      DiffRoleByPolicyDocument_def renderOIDCProviderTemplate_def malformed_message_def cong: sum.case_cong)+


lemma settles_simple_ops [intro!]:
  "settles (\<lambda>k. getSimilarTags ts rs)"
  "settles (\<lambda>k. generatePolicyARN c n)"
  "settles (\<lambda>k. CreatePolicy (E\<lparr>page_fuel := k\<rparr>) n d desc tags)"
  "settles (\<lambda>k. DeletePolicy (E\<lparr>page_fuel := k\<rparr>) c n)"
  "settles (\<lambda>k. GetPolicyByName (E\<lparr>page_fuel := k\<rparr>) c n)"
  "settles (\<lambda>k. AttachRolePolicy (E\<lparr>page_fuel := k\<rparr>) c n r)"
  "settles (\<lambda>k. DetachRolePolicy (E\<lparr>page_fuel := k\<rparr>) c n r)"
  "settles (\<lambda>k. CreateRole (E\<lparr>page_fuel := k\<rparr>) n d desc tags)"
  "settles (\<lambda>k. DeleteRole (E\<lparr>page_fuel := k\<rparr>) n)"
  "settles (\<lambda>k. UpdateRole (E\<lparr>page_fuel := k\<rparr>) n d)"
  "settles (\<lambda>k. GetRoleByName (E\<lparr>page_fuel := k\<rparr>) n)"
  "settles (\<lambda>k. NewIAMClient (E\<lparr>page_fuel := k\<rparr>) region)"
  by (auto simp: getSimilarTags_def tag_matches_def generatePolicyARN_def CreatePolicy_def
      DeletePolicy_def GetPolicyByName_def AttachRolePolicy_def DetachRolePolicy_def CreateRole_def
      DeleteRole_def UpdateRole_def GetRoleByName_def NewIAMClient_def Let_def
      intro!: settles_rules)

lemma settles_ConvertToIAMTags [intro!]: "settles (\<lambda>k. ConvertToIAMTags ts)"
  by (induction ts) (auto intro!: settles_rules)

lemma settles_batches [intro!]:
  "settles (\<lambda>k. BatchDeletePolicies (E\<lparr>page_fuel := k\<rparr>) c ps)"
  "settles (\<lambda>k. BatchAttachDetachRolePolicies (E\<lparr>page_fuel := k\<rparr>) c proc ps r)"
  by (auto simp: BatchDeletePolicies_def BatchAttachDetachRolePolicies_def intro!: settles_rules)

lemma settles_status [intro!]:
  "settles (\<lambda>k. updateCRDStatus (E\<lparr>page_fuel := k\<rparr>) iam crdPhase phase message result)"
  by (cases result) (auto simp: updateCRDStatus_def update_role_status_def update_policy_status_def
      write_status_def update_status_def intro!: settles_rules)

lemma settles_listings:
  assumes "pagers_end E"
  shows "settles (\<lambda>k. ListAttachedRolePolicies (E\<lparr>page_fuel := k\<rparr>) c n)"
    "settles (\<lambda>k. ListRolesByTags (E\<lparr>page_fuel := k\<rparr>) ts)"
    "settles (\<lambda>k. ListPoliciesByTags (E\<lparr>page_fuel := k\<rparr>) ts)"
    "settles (\<lambda>k. ListEntitiesForPolicy (E\<lparr>page_fuel := k\<rparr>) p)"
  by (auto simp: ListAttachedRolePolicies_def ListRolesByTags_def ListPoliciesByTags_def
      ListEntitiesForPolicy_def getSimilarRoleTags_def getSimilarPolicyTags_def Let_def
      intro!: settles_rules settles_pages_loop pagers_endD [OF assms])

lemma settles_names [intro!]: "settles (\<lambda>k. collect_names f xs)" "settles (\<lambda>k. remove_names f xs m)"
  by (auto simp: collect_names_def remove_names_def intro!: settles_rules)

lemma settles_handlers:
  assumes "pagers_end E"
  shows "settles (\<lambda>k. deleteIAMResources (E\<lparr>page_fuel := k\<rparr>) c)"
    "settles (\<lambda>k. syncAWSIAMResources (E\<lparr>page_fuel := k\<rparr>) c)"
    "settles (\<lambda>k. syncPoliciesByRoleSpec (E\<lparr>page_fuel := k\<rparr>) c role)"
  by (auto simp: deleteIAMResources_def delete_role_resources_def
      syncAWSIAMResources_def sync_spec_roles_def sync_role_attachments_def
      attached_policies_def delete_stale_role_def delete_stale_policy_def
      delete_policy_and_report_def unlisted_policies_def
      syncPoliciesByRoleSpec_def sync_listed_policy_def create_and_attach_def
      replace_policy_def checksum_differs_def attach_if_missing_def Let_def
      intro!: settles_rules settles_listings [OF assms])

lemma settles_syncRole:
  assumes "pagers_end E"
  shows "settles (\<lambda>k. syncRole (E\<lparr>page_fuel := k\<rparr>) c rq air role)"
  by (auto simp: syncRole_def setAssumeRolePolicyDocument_def create_role_and_policies_def
      update_role_and_policies_def Let_def
      intro!: settles_rules settles_handlers [OF assms] split: prod.splits sum.splits)

lemma settles_getClusterResources: "settles (\<lambda>k. getClusterResources (E\<lparr>page_fuel := k\<rparr>) iam rq)"
  by (auto simp: getClusterResources_def Let_def intro!: settles_rules)

lemma settles_reconcile_with_client:
  assumes "pagers_end E"
  shows "settles (\<lambda>k. reconcile_with_client (E\<lparr>page_fuel := k\<rparr>) c rq air)"
  by (auto simp: reconcile_with_client_def ensure_finalizer_def finalize_def sync_all_roles_def
      report_synced_def Let_def
      intro!: settles_rules settles_handlers [OF assms] settles_syncRole [OF assms])

lemma settles_Reconcile:
  assumes "pagers_end E"
  shows "settles (\<lambda>k. Reconcile (E\<lparr>page_fuel := k\<rparr>) iam rq)"
proof -
  have "settles (\<lambda>k. make_client (E\<lparr>page_fuel := k\<rparr>))"
    by (auto simp: make_client_def intro!: settles_rules)
  then show ?thesis
    unfolding Reconcile_def
    by (auto intro!: settles_rules settles_getClusterResources settles_reconcile_with_client [OF assms])
qed

text \<open>
  C13. A reconciliation always ends, with a value, an error or a panic: if every listing of IAM has
  finitely many pages, then from every state, whatever the requests answer, finitely many rounds of the
  listing loops are enough for it to end, and it ends in the same result and state however many more
  rounds they are given.
\<close>

theorem reconcile_returns:
  assumes "pagers_end E"
  shows "\<exists>n r t. r \<noteq> Hang \<and> (\<forall>k. Reconcile (E\<lparr>page_fuel := n + k\<rparr>) iam rq s = (r, t))"
  by (rule settlesE [OF settles_Reconcile [OF assms], of iam rq s]) (metis le_add1)

lemma mem_pager_ends:
  assumes "\<And>p w. fst (snd (fetch p w)) = None"
  shows "pager_ends mem_env fetch p"
proof (rule pager_ends.pages)
  fix w items p' w'
  assume "fetch p w = (Inr items, p', w')"
  then have "p' = None" using assms [of p w] by simp
  then show "pager_ends mem_env fetch p'" by (intro pager_ends.no_more) (simp add: mem_env_simps)
qed

lemma mem_pagers_end: "pagers_end mem_env"
proof -
  have "fst (snd (mem_attached_page p w)) = None" "fst (snd (mem_entities_page p w)) = None" for p w
    by (cases "(p, w)" rule: mem_attached_page.cases; simp split: option.splits)
      (cases "(p, w)" rule: mem_entities_page.cases; simp)
  then show ?thesis
    unfolding pagers_end_def Let_def mem_env_simps
    by (simp add: mem_pager_ends mem_roles_page_def mem_policies_page_def)
qed

text \<open>The first reconciliation of an empty account, which goes through the listing loops.\<close>

fun lists :: "event \<Rightarrow> bool" where
  "lists (Event (IAM (ListRolesReq k p)) err) = (err = None)"
| "lists (Event (IAM (ListPoliciesReq k p usage sc)) err) = (err = None)"
| "lists (Event (IAM (ListAttachedRolePoliciesReq k n)) err) = (err = None)"
| "lists _ = False"

declare sha1_Sum_def [code del]

lemma conv_lists: "length (filter lists (log (snd (Reconcile mem_env None conv_rq conv_start)))) = 3"
  by code_simp

declare sha1_Sum_def [code]

theorem reconcile_returns_witness:
  "(\<exists>n r t. r \<noteq> Hang \<and> (\<forall>k. Reconcile (mem_env\<lparr>page_fuel := n + k\<rparr>) None conv_rq conv_start = (r, t))) \<and>
   length (filter lists (log (snd (Reconcile mem_env None conv_rq conv_start)))) = 3"
  using reconcile_returns [OF mem_pagers_end] conv_lists by blast

end
