(* ===== verification/StatusProps.thy ===== *)
theory StatusProps
  imports MemoryCloud
begin

text \<open>
  The status entries of roles and policies follow IAM: what an update of the status makes of the
  finite map from names to entries, and what happens where the result of a call is a nil pointer.
\<close>

section \<open>Entries follow the service\<close>

lemma store_entry_found:
  "store_entry name e es = Some es' \<Longrightarrow>
   \<exists>num. find_named (map name es) (name e) = Some num \<and> es' = upsert_at num e es"
  by (auto simp: store_entry_def)

lemma drop_entry_found:
  "drop_entry name n es = Some es' \<Longrightarrow>
   \<exists>num. find_named (map name es) (Some n) = Some num \<and> es' = remove_at num es"
  by (auto simp: drop_entry_def)

definition with_roles :: "AWSIAMProvisionStatusRole list \<Rightarrow> AWSIAMProvision \<Rightarrow> AWSIAMProvision" where
  "with_roles es p = p\<lparr>Status := (Status p)\<lparr>st_Roles := es\<rparr>\<rparr>"

definition with_policies :: "AWSIAMProvisionStatusPolicy list \<Rightarrow> AWSIAMProvision \<Rightarrow> AWSIAMProvision" where
  "with_policies es p = p\<lparr>Status := (Status p)\<lparr>st_Policies := es\<rparr>\<rparr>"

text \<open>
  C16. After an operation on a role the status has, under the role's name, the new entry if IAM
  still knows the role and no entry if it does not; every other role's entry, and everything
  else of the custom resource, stay as they were, and the entries stay uniquely named.
\<close>

theorem role_entry_follows_iam:
  assumes "well_named sr_Name (st_Roles (Status (prov s)))"
    and "ir_RoleName r = Some n" and "ir_Arn r = Some arn" and "ir_CreateDate r = Some date"
    and "sdk_GetRole E (GetRoleReq (Some n)) (world s) = (answer, w)"
    and "case answer of Inl err \<Rightarrow> is_no_such_entity err
         | Inr got \<Rightarrow> Option.bind got ir_RoleName = Some n"
  shows "\<exists>es. update_role_status E owner region phase message (Some r) s =
      (Ok (), (after s (IAM (GetRoleReq (Some n))) (error_of answer) w)\<lparr>prov := with_roles es (prov s)\<rparr>) \<and>
    well_named sr_Name es \<and>
    entry_map sr_Name es = (entry_map sr_Name (st_Roles (Status (prov s))))(n := case answer of
        Inl err \<Rightarrow> None
      | Inr got \<Rightarrow> Some (role_status_entry (Some n) message phase arn owner region date (ir_RoleId r)))"
proof (cases answer)
  case (Inl err)
  obtain es where es: "drop_entry sr_Name n (st_Roles (Status (prov s))) = Some es"
    "well_named sr_Name es"
    "entry_map sr_Name es = (entry_map sr_Name (st_Roles (Status (prov s))))(n := None)"
    using role_entries.drop_map [OF assms(1), of n] by blast
  obtain num where num: "find_named (map sr_Name (st_Roles (Status (prov s)))) (Some n) = Some num"
    "es = remove_at num (st_Roles (Status (prov s)))"
    using drop_entry_found [OF es(1)] by blast
  have "update_role_status E owner region phase message (Some r) s =
      (Ok (), (after s (IAM (GetRoleReq (Some n))) (error_of answer) w)\<lparr>prov := with_roles es (prov s)\<rparr>)"
    using assms Inl num
    by (intro wp_run) (simp add: update_role_status_def wp_simps Let_def with_roles_def)
  then show ?thesis using es Inl by auto
next
  case (Inr got)
  let ?e = "role_status_entry (Some n) message phase arn owner region date (ir_RoleId r)"
  have "sr_Name ?e = Some n" by (simp add: role_status_entry_def)
  then obtain es where es: "store_entry sr_Name ?e (st_Roles (Status (prov s))) = Some es"
    "well_named sr_Name es"
    "entry_map sr_Name es = (entry_map sr_Name (st_Roles (Status (prov s))))(n \<mapsto> ?e)"
    using role_entries.store_map [OF assms(1)] by blast
  obtain num where num: "find_named (map sr_Name (st_Roles (Status (prov s)))) (Some n) = Some num"
    "es = upsert_at num ?e (st_Roles (Status (prov s)))"
    using store_entry_found [OF es(1)] by (auto simp: role_status_entry_def)
  have "update_role_status E owner region phase message (Some r) s =
      (Ok (), (after s (IAM (GetRoleReq (Some n))) (error_of answer) w)\<lparr>prov := with_roles es (prov s)\<rparr>)"
    using assms Inr num
    by (intro wp_run) (simp add: update_role_status_def wp_simps Let_def with_roles_def)
  then show ?thesis using es Inr by auto
qed

text \<open>A world with one role and one policy, and a status with entries for both and for others.\<close>

definition status_mem :: mem where
  "status_mem = mem_empty\<lparr>
     m_roles := [\<lparr>mr_name = ''r'', mr_doc = [], mr_tags = [], mr_attached = []\<rparr>],
     m_policies := [\<lparr>mp_name = ''p'', mp_doc = [], mp_tags = []\<rparr>]\<rparr>"

definition some_role :: "string \<Rightarrow> iamRole" where
  "some_role n = sdk_role \<lparr>mr_name = n, mr_doc = [], mr_tags = [], mr_attached = []\<rparr>"

definition some_policy :: "string \<Rightarrow> iamPolicy" where
  "some_policy n = sdk_policy \<lparr>mp_name = n, mp_doc = [], mp_tags = []\<rparr>"

definition status_state :: "mem gstate" where
  "status_state = (mem_state status_mem)\<lparr>prov := zero_AWSIAMProvision\<lparr>Status := zero_Status\<lparr>
     st_Roles := [role_status_entry (Some ''x'') [] ''Created'' [] [] [] 0 None,
                  role_status_entry (Some ''r'') [] ''Created'' [] [] [] 0 None],
     st_Policies := [policy_status_entry (some_policy ''p'') [] ''Created'' [] [] [] 0]\<rparr>\<rparr>\<rparr>"

lemmas status_witness_defs = status_state_def status_mem_def some_role_def some_policy_def mem_state_def
  mem_env_simps mem_empty_def find_role_def find_policy_def sdk_role_def sdk_policy_def mp_arn_def
  role_status_entry_def policy_status_entry_def

theorem role_entry_follows_iam_witness:
  "\<exists>es. snd (update_role_status mem_env ''42'' ''eu'' ''Updated'' ''m'' (Some (some_role ''r'')) status_state) =
     status_state\<lparr>log := [Event (IAM (GetRoleReq (Some ''r''))) None], prov := with_roles es (prov status_state)\<rparr> \<and>
   map_option sr_Phase (entry_map sr_Name es ''r'') = Some ''Updated'' \<and>
   map_option sr_Phase (entry_map sr_Name es ''x'') = Some ''Created''"
proof -
  obtain es where es: "update_role_status mem_env ''42'' ''eu'' ''Updated'' ''m'' (Some (some_role ''r'')) status_state =
      (Ok (), (after status_state (IAM (GetRoleReq (Some ''r''))) (error_of (Inr (Some (some_role ''r'')))) status_mem)
        \<lparr>prov := with_roles es (prov status_state)\<rparr>)"
    "entry_map sr_Name es = (entry_map sr_Name (st_Roles (Status (prov status_state))))(''r'' \<mapsto>
        role_status_entry (Some ''r'') ''m'' ''Updated'' (''arn:aws:iam::role/r'') ''42'' ''eu'' 1 (Some ''r''))"
    using role_entry_follows_iam [where E = mem_env and s = status_state and r = "some_role ''r''" and n = "''r''"
        and arn = "''arn:aws:iam::role/r''" and date = 1 and answer = "Inr (Some (some_role ''r''))"
        and w = status_mem and owner = "''42''" and region = "''eu''" and phase = "''Updated''" and message = "''m''"]
    by (auto simp: status_witness_defs well_named_def)
  then show ?thesis
    by (intro exI [of _ es]) (simp add: status_witness_defs entry_map_Cons)
qed

text \<open>
  C17. The same for policies, whose entry is made from what IAM reports of the policy at that
  moment.
\<close>

theorem policy_entry_follows_iam:
  assumes "well_named sp_Name (st_Policies (Status (prov s)))"
    and "ip_PolicyName r = Some n"
    and "sdk_GetPolicy E (GetPolicyReq (Some (policy_arn c n))) (world s) = (answer, w)"
    and "case answer of Inl err \<Rightarrow> is_no_such_entity err
         | Inr got \<Rightarrow> got = Some p \<and> ip_PolicyName p = Some n \<and> ip_Arn p = Some arn \<and>
             ip_CreateDate p = Some date"
  shows "\<exists>es. update_policy_status E c owner region phase message (Some r) s =
      (Ok (), (after s (IAM (GetPolicyReq (Some (policy_arn c n)))) (error_of answer) w)
                \<lparr>prov := with_policies es (prov s)\<rparr>) \<and>
    well_named sp_Name es \<and>
    entry_map sp_Name es = (entry_map sp_Name (st_Policies (Status (prov s))))(n := case answer of
        Inl err \<Rightarrow> None
      | Inr got \<Rightarrow> Some (policy_status_entry p message phase arn owner region date))"
proof (cases answer)
  case (Inl err)
  obtain es where es: "drop_entry sp_Name n (st_Policies (Status (prov s))) = Some es"
    "well_named sp_Name es"
    "entry_map sp_Name es = (entry_map sp_Name (st_Policies (Status (prov s))))(n := None)"
    using policy_entries.drop_map [OF assms(1), of n] by blast
  obtain num where num: "find_named (map sp_Name (st_Policies (Status (prov s)))) (Some n) = Some num"
    "es = remove_at num (st_Policies (Status (prov s)))"
    using drop_entry_found [OF es(1)] by blast
  have "update_policy_status E c owner region phase message (Some r) s =
      (Ok (), (after s (IAM (GetPolicyReq (Some (policy_arn c n)))) (error_of answer) w)
                \<lparr>prov := with_policies es (prov s)\<rparr>)"
    using assms Inl num
    by (intro wp_run) (simp add: update_policy_status_def wp_simps Let_def with_policies_def)
  then show ?thesis using es Inl by auto
next
  case (Inr got)
  let ?e = "policy_status_entry p message phase arn owner region date"
  have nm: "sp_Name ?e = Some n" using assms(4) Inr by (simp add: policy_status_entry_def)
  then obtain es where es: "store_entry sp_Name ?e (st_Policies (Status (prov s))) = Some es"
    "well_named sp_Name es"
    "entry_map sp_Name es = (entry_map sp_Name (st_Policies (Status (prov s))))(n \<mapsto> ?e)"
    using policy_entries.store_map [OF assms(1)] by blast
  obtain num where num: "find_named (map sp_Name (st_Policies (Status (prov s)))) (Some n) = Some num"
    "es = upsert_at num ?e (st_Policies (Status (prov s)))"
    using store_entry_found [OF es(1)] nm by auto
  have "update_policy_status E c owner region phase message (Some r) s =
      (Ok (), (after s (IAM (GetPolicyReq (Some (policy_arn c n)))) (error_of answer) w)
                \<lparr>prov := with_policies es (prov s)\<rparr>)"
    using assms Inr num
    by (intro wp_run) (simp add: update_policy_status_def wp_simps Let_def with_policies_def)
  then show ?thesis using es Inr by auto
qed

definition gone_state :: "mem gstate" where
  "gone_state = status_state\<lparr>prov :=
     with_policies [policy_status_entry (some_policy ''gone'') [] ''Created'' [] [] [] 0] (prov status_state)\<rparr>"

theorem policy_entry_follows_iam_witness:
  "\<exists>es. update_policy_status mem_env mem_client ''42'' ''eu'' ''Deleted'' ''m'' (Some (some_policy ''gone'')) gone_state =
     (Ok (), gone_state\<lparr>world := status_mem,
       log := [Event (IAM (GetPolicyReq (Some (policy_arn mem_client ''gone'')))) (Some no_such_entity)],
       prov := with_policies es (prov gone_state)\<rparr>) \<and>
   entry_map sp_Name es ''gone'' = None"
proof -
  have hyps: "well_named sp_Name (st_Policies (Status (prov gone_state)))"
    "ip_PolicyName (some_policy ''gone'') = Some ''gone''"
    "sdk_GetPolicy mem_env (GetPolicyReq (Some (policy_arn mem_client ''gone''))) (world gone_state) =
      (Inl no_such_entity, status_mem)"
    "log gone_state = []"
    by (simp_all add: gone_state_def status_witness_defs well_named_def with_policies_def policy_arn_inj)
  show ?thesis
    using policy_entry_follows_iam [OF hyps(1-3), where owner = "''42''" and region = "''eu''"
        and phase = "''Deleted''" and message = "''m''"] hyps(4)
    by (auto simp: is_no_such_entity_def no_such_entity_def)
qed

section \<open>A nil result\<close>

text \<open>
  C27. \<open>CreateRole\<close> turns "entity already exists" into a nil role without an error. The status
  update then gets that nil pointer in an interface, which is not a nil interface, and
  dereferences it: a role that appears between the lookup and the creation makes the
  reconciliation panic instead of being retried.
\<close>

theorem create_race_panics:
  assumes "rs_Name role = Some n"
    and "sdk_CreateRole E (CreateRoleReq (Some n) (rs_AssumeRolePolicyDocument role)
           (Some (RoleDescriptionPrefix @ spec_EKSClusterName (Spec (prov s)) @ ''. '' @ IAMDescription))
           (Some pathPrefix) tags) (world s) = (Inl err, w)"
    and "is_already_exists err"
  shows "fst (create_role_and_policies E c role tags s) = Panic"
proof -
  have "wp (create_role_and_policies E c role tags) (\<lambda>r t. r = Panic) s"
    using assms
    by (simp add: create_role_and_policies_def updateCRDStatus_def update_role_status_def wp_simps Let_def
        del: append_assoc)
  then show ?thesis by (simp add: wp_def split: prod.splits)
qed

theorem create_race_panics_witness:
  "fst (create_role_and_policies mem_env mem_client
     \<lparr>rs_AssumeRolePolicyDocument = Some ''{}'', rs_Name = Some ''r'', rs_Policies = [], rs_Tags = []\<rparr> []
     status_state) = Panic"
  by (rule create_race_panics [where n = "''r''" and err = already_exists and w = status_mem])
    (simp_all add: status_witness_defs already_exists_def is_already_exists_def)

end
