(* ===== verification/Deletion.thy ===== *)
theory Deletion
  imports MemoryCloud
begin

text \<open>
  Deleting a custom resource: the order in which a role and its policies are taken down, what a
  finished deletion has confirmed, when the finalizer is released, and when it is never reached.
\<close>

section \<open>Taking down one role\<close>

text \<open>The steps of taking down a role, each of them tolerant of what is already gone.\<close>

datatype teardown =
    DetachStep "string option" "string option"
  | DropPolicyStep "string option"
  | DropRoleStep "string option"

fun teardown_step :: "('w, 'p) env \<Rightarrow> IAMClient \<Rightarrow> teardown \<Rightarrow> ('w, unit) op" where
  "teardown_step E c (DetachStep n r) = DetachRolePolicy E c n r"
| "teardown_step E c (DropPolicyStep n) = DeletePolicy E c n"
| "teardown_step E c (DropRoleStep r) = DeleteRole E r"

fun teardown_request :: "IAMClient \<Rightarrow> teardown \<Rightarrow> request" where
  "teardown_request c (DetachStep n r) = IAM (DetachRolePolicyReq (map_option (policy_arn c) n) r)"
| "teardown_request c (DropPolicyStep n) = IAM (DeletePolicyReq (map_option (policy_arn c) n))"
| "teardown_request c (DropRoleStep r) = IAM (DeleteRoleReq r)"

fun teardown_call :: "('w, 'p) env \<Rightarrow> IAMClient \<Rightarrow> teardown \<Rightarrow> ('w, unit) call" where
  "teardown_call E c (DetachStep n r) =
     sdk_DetachRolePolicy E (DetachRolePolicyReq (map_option (policy_arn c) n) r)"
| "teardown_call E c (DropPolicyStep n) =
     sdk_DeletePolicy E (DeletePolicyReq (map_option (policy_arn c) n))"
| "teardown_call E c (DropRoleStep r) = sdk_DeleteRole E (DeleteRoleReq r)"

fun named_step :: "teardown \<Rightarrow> bool" where
  "named_step (DetachStep n r) = (n \<noteq> None \<and> r \<noteq> None)"
| "named_step (DropPolicyStep n) = (n \<noteq> None)"
| "named_step (DropRoleStep r) = (r \<noteq> None)"

interpretation teardown: tolerant_op "teardown_step E c" "teardown_request c" "teardown_call E c" named_step
  for E :: "('w, 'p) env" and c
proof
  fix x :: teardown and s :: "'w gstate"
  assume "named_step x"
  then show "teardown_step E c x s =
    (case teardown_call E c x (world s) of (r, w) \<Rightarrow>
       (tolerate r, s\<lparr>world := w, log := log s @ [Event (teardown_request c x) (error_of r)]\<rparr>))"
    using detach.perform_law [where x = "(n, r)" and E = E and c = c and s = s for n r]
      delete_policy.perform_law [where E = E and c = c and s = s]
      delete_role.perform_law [where E = E and s = s]
    by (cases x) auto
qed

definition teardown_plan :: "iamPolicy list \<Rightarrow> string option \<Rightarrow> teardown list" where
  "teardown_plan ps r =
     map (\<lambda>p. DetachStep (ip_PolicyName p) r) ps @ map (\<lambda>p. DropPolicyStep (ip_PolicyName p)) ps @
     [DropRoleStep r]"

lemma teardown_plan_run:
  "bindM (BatchAttachDetachRolePolicies E c ButchDetachProc ps r) (\<lambda>_.
   bindM (BatchDeletePolicies E c ps) (\<lambda>_. DeleteRole E r)) =
   forM (teardown_plan ps r) (teardown_step E c)"
  by (simp add: teardown_plan_def forM_append forM_map BatchAttachDetachRolePolicies_def
      BatchDeletePolicies_def ButchDetachProc_def ButchAttachProc_def bindM_unit)

lemma named_plan:
  "list_all (\<lambda>p. ip_PolicyName p \<noteq> None) ps \<Longrightarrow> r \<noteq> None \<Longrightarrow> list_all named_step (teardown_plan ps r)"
  by (auto simp: teardown_plan_def list_all_iff)

text \<open>
  C12. A role is taken down in the order IAM requires: every policy attached to it is detached,
  then each of them is deleted, then the role itself. If all goes well these are exactly the
  requests, in this order, each successful or answered "no such entity". The first other error
  ends the sequence, and is what the handler returns.
\<close>

theorem teardown_in_order:
  assumes "rs_Name (role_Spec role) = Some n"
    and "GetRoleByName E (Some n) s = (Ok (got, True), s1)"
    and "ListAttachedRolePolicies E c (Some n) s1 = (Ok ps, s2)"
    and "list_all (\<lambda>p. ip_PolicyName p \<noteq> None) ps"
    and "delete_role_resources E c role s = (r, t)"
  shows "\<exists>es. log t = log s2 @ es \<and>
    (case r of
       Ok _ \<Rightarrow> map ev_request es = map (teardown_request c) (teardown_plan ps (Some n)) \<and> list_all tolerated es
     | Err err \<Rightarrow> \<not> is_no_such_entity err \<and> es \<noteq> [] \<and> ev_error (last es) = Some err \<and>
         list_all tolerated (butlast es) \<and>
         map ev_request es = take (length es) (map (teardown_request c) (teardown_plan ps (Some n)))
     | _ \<Rightarrow> False)"
proof -
  let ?plan = "teardown_plan ps (Some n)"
  have named: "list_all named_step ?plan" using assms(4) by (rule named_plan) simp
  have run: "forM ?plan (teardown_step E c) s2 = (r, t)"
    using assms(1,2,3,5)
    by (simp add: delete_role_resources_def Let_def teardown_plan_run bindM_Ok)
  show ?thesis
  proof (cases r)
    case (Ok u)
    then show ?thesis using teardown.batch_done [OF _ named] run by auto
  next
    case (Err err)
    have "\<exists>ys y zs es. ?plan = ys @ y # zs \<and> \<not> is_no_such_entity err \<and>
        log t = log s2 @ es @ [Event (teardown_request c y) (Some err)] \<and>
        map ev_request es = map (teardown_request c) ys \<and> list_all tolerated es"
      using run named unfolding Err by (rule teardown.batch_failed)
    then obtain ys y zs es where ex: "?plan = ys @ y # zs" "\<not> is_no_such_entity err"
      "log t = log s2 @ es @ [Event (teardown_request c y) (Some err)]"
      "map ev_request es = map (teardown_request c) ys" "list_all tolerated es"
      by blast
    have "length es = length ys" using ex(4) by (metis length_map)
    then show ?thesis
      using ex Err by (intro exI [of _ "es @ [Event (teardown_request c y) (Some err)]"]) simp
  qed (use teardown.batch_outcome [OF named, of E c s2] run in auto)
qed

text \<open>A world with a role that has two policies.\<close>

definition deletion_role :: mem_role where
  "deletion_role = \<lparr>mr_name = ''r'', mr_doc = [], mr_tags = [],
     mr_attached = [policy_arn mem_client ''p'', policy_arn mem_client ''q'']\<rparr>"

definition named_policy :: "string \<Rightarrow> mem_policy" where
  "named_policy n = \<lparr>mp_name = n, mp_doc = [], mp_tags = []\<rparr>"

definition deletion_spec :: AWSIAMProvisionRole where
  "deletion_spec = \<lparr>role_Spec = \<lparr>rs_AssumeRolePolicyDocument = Some [], rs_Name = Some ''r'',
     rs_Policies = [Some ''p'', Some ''q''], rs_Tags = []\<rparr>\<rparr>"

definition deletion_prov :: AWSIAMProvision where
  "deletion_prov = zero_AWSIAMProvision\<lparr>
     ObjectMeta := \<lparr>om_Name = ''cr'', om_Namespace = ''ns'', om_ResourceVersion = [],
       om_DeletionTimestamp = Some 5, om_Finalizers = [awsIAMProvisionFinalizerName]\<rparr>,
     Spec := (Spec zero_AWSIAMProvision)\<lparr>spec_EKSClusterName := ''eks'', spec_Roles := [(''r'', deletion_spec)]\<rparr>\<rparr>"

definition deletion_mem :: mem where
  "deletion_mem = mem_empty\<lparr>m_roles := [deletion_role], m_policies := [named_policy ''p'', named_policy ''q''],
     m_prov := Some deletion_prov\<rparr>"

lemmas deletion_defs = deletion_mem_def deletion_prov_def deletion_spec_def named_policy_def
  deletion_role_def

lemma deletion_lookup:
  "GetRoleByName mem_env (Some ''r'') (mem_state deletion_mem) =
     (Ok (Some (sdk_role deletion_role), True), (mem_state deletion_mem)\<lparr>log := [Event (IAM (GetRoleReq (Some ''r''))) None]\<rparr>)"
  by (rule wp_run) (simp add: wp_simps mem_defs deletion_defs)

lemma deletion_listing:
  "fst (ListAttachedRolePolicies mem_env mem_client (Some ''r'')
     ((mem_state deletion_mem)\<lparr>log := [Event (IAM (GetRoleReq (Some ''r''))) None]\<rparr>)) =
     Ok [sdk_policy (named_policy ''p''), sdk_policy (named_policy ''q'')]"
  "length (log (snd (ListAttachedRolePolicies mem_env mem_client (Some ''r'')
     ((mem_state deletion_mem)\<lparr>log := [Event (IAM (GetRoleReq (Some ''r''))) None]\<rparr>)))) = 4"
  by code_simp+

lemma deletion_result:
  "fst (delete_role_resources mem_env mem_client deletion_spec (mem_state deletion_mem)) = Ok ()"
  by code_simp

theorem teardown_in_order_witness:
  "map ev_request (drop 4 (log (snd (delete_role_resources mem_env mem_client deletion_spec (mem_state deletion_mem))))) =
   map (teardown_request mem_client)
    [DetachStep (Some ''p'') (Some ''r''), DetachStep (Some ''q'') (Some ''r''),
     DropPolicyStep (Some ''p''), DropPolicyStep (Some ''q''), DropRoleStep (Some ''r'')]"
proof -
  let ?s1 = "(mem_state deletion_mem)\<lparr>log := [Event (IAM (GetRoleReq (Some ''r''))) None]\<rparr>"
  let ?s2 = "snd (ListAttachedRolePolicies mem_env mem_client (Some ''r'') ?s1)"
  let ?ps = "[sdk_policy (named_policy ''p''), sdk_policy (named_policy ''q'')]"
  have listing: "ListAttachedRolePolicies mem_env mem_client (Some ''r'') ?s1 = (Ok ?ps, ?s2)"
    using deletion_listing(1) by (metis prod.collapse)
  have run: "delete_role_resources mem_env mem_client deletion_spec (mem_state deletion_mem) =
      (Ok (), snd (delete_role_resources mem_env mem_client deletion_spec (mem_state deletion_mem)))"
    using deletion_result by (metis prod.collapse)
  have named: "rs_Name (role_Spec deletion_spec) = Some ''r''" "list_all (\<lambda>p. ip_PolicyName p \<noteq> None) ?ps"
    by (simp_all add: deletion_defs sdk_policy_def)
  obtain es where
    "log (snd (delete_role_resources mem_env mem_client deletion_spec (mem_state deletion_mem))) = log ?s2 @ es"
    "map ev_request es = map (teardown_request mem_client) (teardown_plan ?ps (Some ''r''))"
    using teardown_in_order [OF named(1) deletion_lookup listing named(2) run] by auto
  then show ?thesis
    using deletion_listing(2) by (simp add: teardown_plan_def sdk_policy_def named_policy_def)
qed

section \<open>What a finished deletion has confirmed\<close>

text \<open>
  IAM has told that the role does not exist: the lookup found nothing, or its deletion succeeded
  or was answered "no such entity".
\<close>

fun confirms_gone :: "string \<Rightarrow> event \<Rightarrow> bool" where
  "confirms_gone n (Event (IAM (GetRoleReq m)) (Some err)) = (m = Some n \<and> is_no_such_entity err)"
| "confirms_gone n (Event (IAM (DeleteRoleReq m)) err) =
     (m = Some n \<and> tolerated (Event (IAM (DeleteRoleReq m)) err))"
| "confirms_gone n _ = False"

definition log_grows :: "'w gstate \<Rightarrow> 'w gstate \<Rightarrow> bool" where
  "log_grows s t = (\<exists>es. log t = log s @ es)"

lemma emits_grows: "emits (\<lambda>_. True) m \<Longrightarrow> m s = (r, t) \<Longrightarrow> log_grows s t"
  by (metis emits_run log_grows_def)

lemma emits_deletion_ops:
  "emits (\<lambda>_. True) (ListAttachedRolePolicies E c n)"
  "emits (\<lambda>_. True) (BatchAttachDetachRolePolicies E c proc ps n)"
  "emits (\<lambda>_. True) (BatchDeletePolicies E c ps)"
  by (auto simp: BatchAttachDetachRolePolicies_def
      intro!: emits_ListAttachedRolePolicies emits_BatchDeletePolicies emits_rules emits_AttachRolePolicy emits_DetachRolePolicy)

definition gone_by :: "string \<Rightarrow> 'w gstate \<Rightarrow> 'w gstate \<Rightarrow> bool" where
  "gone_by n s t = (\<exists>es. log t = log s @ es \<and> list_ex (confirms_gone n) es)"

lemma gone_by_later: "gone_by n s t \<Longrightarrow> log_grows t u \<Longrightarrow> gone_by n s u"
  unfolding gone_by_def log_grows_def by (metis append.assoc list_ex_append)

lemma gone_by_earlier: "log_grows s t \<Longrightarrow> gone_by n t u \<Longrightarrow> gone_by n s u"
  unfolding gone_by_def log_grows_def by (metis append.assoc list_ex_append)

lemma DeleteRole_gone:
  assumes "DeleteRole E (Some n) s = (Ok u, t)"
  shows "gone_by n s t"
proof -
  have "wp (DeleteRole E (Some n)) (\<lambda>r t. (\<exists>u. r = Ok u) \<longrightarrow> gone_by n s t) s"
    by (auto simp: wp_simps Let_def gone_by_def tolerate_def tolerated_def
        split: prod.splits sum.splits if_splits)
  then show ?thesis using assms by (simp add: run_wp)
qed

lemma delete_role_resources_gone:
  assumes "delete_role_resources E c role s = (Ok u, t)" and "rs_Name (role_Spec role) = Some n"
  shows "gone_by n s t"
proof -
  obtain got found s1 where lookup: "GetRoleByName E (Some n) s = (Ok (got, found), s1)"
    and rest: "(if found then bindM (ListAttachedRolePolicies E c (Some n)) (\<lambda>policies.
          bindM (BatchAttachDetachRolePolicies E c ButchDetachProc policies (Some n)) (\<lambda>_.
          bindM (BatchDeletePolicies E c policies) (\<lambda>_.
          DeleteRole E (Some n)))) else returnM ()) s1 = (Ok u, t)"
    using assms(1) unfolding delete_role_resources_def Let_def assms(2)
    by (auto elim!: bindM_Ok_cases split: prod.splits)
  have grow: "log_grows s s1"
    using lookup by (rule emits_grows [rotated]) (auto intro: emits_GetRoleByName)
  show ?thesis
  proof (cases found)
    case True
    then obtain ps s2 s3 s4 where steps:
      "ListAttachedRolePolicies E c (Some n) s1 = (Ok ps, s2)"
      "BatchAttachDetachRolePolicies E c ButchDetachProc ps (Some n) s2 = (Ok (), s3)"
      "BatchDeletePolicies E c ps s3 = (Ok (), s4)" "DeleteRole E (Some n) s4 = (Ok u, t)"
      using rest by (auto elim!: bindM_Ok_cases)
    have "log_grows s1 s2" "log_grows s2 s3" "log_grows s3 s4"
      using steps(1-3) by (auto intro: emits_grows emits_deletion_ops)
    then show ?thesis
      using DeleteRole_gone [OF steps(4)] grow gone_by_earlier by blast
  next
    case False
    have "wp (GetRoleByName E (Some n)) (\<lambda>r t. (\<exists>got. r = Ok (got, False)) \<longrightarrow> gone_by n s t) s"
      by (auto simp: wp_simps Let_def gone_by_def split: prod.splits sum.splits if_splits)
    then have "gone_by n s s1" using lookup False by (simp add: run_wp)
    moreover have "t = s1" using rest False by (simp add: returnM_def)
    ultimately show ?thesis by simp
  qed
qed

lemma emits_delete_role_resources: "emits (\<lambda>_. True) (delete_role_resources E c role)"
  by (auto simp: delete_role_resources_def Let_def
      intro!: emits_rules emits_GetRole_any emits_deletion_ops emits_DeleteRole)

lemma delete_loop_gone:
  assumes "forM roles (\<lambda>(k, role). delete_role_resources E c role) s = (Ok u, t)"
    and "(k, role) \<in> set roles" and "rs_Name (role_Spec role) = Some n"
  shows "gone_by n s t"
  using assms(1,2)
proof (induction roles arbitrary: s)
  case Nil
  then show ?case by simp
next
  case (Cons x xs)
  obtain k' role' where x: "x = (k', role')" by fastforce
  obtain s1 where step: "delete_role_resources E c role' s = (Ok (), s1)"
    and rest: "forM xs (\<lambda>(k, role). delete_role_resources E c role) s1 = (Ok u, t)"
    using Cons.prems(1) x by (auto elim!: bindM_Ok_cases)
  have "emits (\<lambda>_. True) (forM xs (\<lambda>(k, role). delete_role_resources E c role))"
    by (auto intro!: emits_rules emits_delete_role_resources)
  then have later: "log_grows s1 t" using rest by (rule emits_grows)
  have here: "log_grows s s1" using step by (rule emits_grows [OF emits_delete_role_resources])
  show ?case
  proof (cases "(k, role) = x")
    case True
    then have "gone_by n s s1" using step x assms(3) delete_role_resources_gone by blast
    then show ?thesis using later by (rule gone_by_later)
  next
    case False
    then have "gone_by n s1 t" using Cons rest by auto
    then show ?thesis by (rule gone_by_earlier [OF here])
  qed
qed

text \<open>
  C11. When the deletion of the IAM resources succeeds, IAM has confirmed, for every role of the
  specification, that the role no longer exists, whatever the order in which the roles were
  visited.
\<close>

theorem deletion_confirmed:
  assumes "deleteIAMResources E c s = (Ok (), t)"
    and "(k, role) \<in> set (spec_Roles (Spec (prov s)))" and "rs_Name (role_Spec role) = Some n"
  shows "\<exists>es. log t = log s @ es \<and> list_ex (confirms_gone n) es"
proof -
  obtain roles s1 where order: "range_map (spec_Roles (Spec (prov s))) s = (Ok roles, s1)"
    and run: "forM roles (\<lambda>(k, role). delete_role_resources E c role) s1 = (Ok (), t)"
    using assms(1) unfolding deleteIAMResources_def by (auto elim!: bindM_Ok_cases simp: getM_def)
  have "set roles = set (spec_Roles (Spec (prov s)))" and "log s1 = log s"
    using order by (auto simp: range_map_def split: list.splits)
  then have "gone_by n s1 t" using run assms(2,3) by (auto intro: delete_loop_gone)
  then show ?thesis using \<open>log s1 = log s\<close> by (simp add: gone_by_def)
qed

lemma deletion_run: "fst (deleteIAMResources mem_env mem_client (mem_state deletion_mem)) = Ok ()"
  by code_simp

theorem deletion_confirmed_witness:
  "\<exists>es. log (snd (deleteIAMResources mem_env mem_client (mem_state deletion_mem))) =
     log (mem_state deletion_mem) @ es \<and> list_ex (confirms_gone ''r'') es"
  by (rule deletion_confirmed [where k = "''r''" and role = deletion_spec])
    (use deletion_run in \<open>auto simp: prod_eq_iff mem_state_def deletion_defs\<close>)

section \<open>The finalizer\<close>

fun is_update :: "event \<Rightarrow> bool" where
  "is_update (Event (UpdateProvision p) err) = True"
| "is_update (Event rq err) = False"

lemma status_outcome:
  "fst (updateCRDStatus E iam crdPhase phase message NoResult s) \<noteq> Panic \<and>
   fst (updateCRDStatus E iam crdPhase phase message NoResult s) \<noteq> Hang"
proof -
  have "wp (updateCRDStatus E iam crdPhase phase message NoResult) (\<lambda>r t. r \<noteq> Panic \<and> r \<noteq> Hang) s"
    by (simp add: wp_simps split: prod.splits sum.splits)
  then show ?thesis by (simp add: wp_def case_prod_beta)
qed

lemma quiet_status: "emits (\<lambda>e. \<not> is_update e) (updateCRDStatus E iam crdPhase phase message result)"
  by (rule emits_updateCRDStatus) auto

lemma quiet_deletion: "emits (\<lambda>e. \<not> is_update e) (deleteIAMResources E c)"
  by (auto simp: deleteIAMResources_def delete_role_resources_def BatchAttachDetachRolePolicies_def Let_def
      intro!: emits_rules emits_GetRole_any emits_ListAttachedRolePolicies emits_BatchDeletePolicies
        emits_AttachRolePolicy emits_DetachRolePolicy emits_DeleteRole)

lemma quiet_then: "emits_rel P s t \<Longrightarrow> emits P m \<Longrightarrow> emits_rel P s (snd (m t))"
  by (rule em.R_trans) (auto simp: keeps_def)

abbreviation destroying :: "('w, 'p) env \<Rightarrow> IAMClient \<Rightarrow> ('w, unit) op" where
  "destroying E c \<equiv>
     updateCRDStatus E (Some c) destroyIntermediatePhase [] ''Destroying AWS IAM resources.'' NoResult"

text \<open>
  C28. While IAM resources are left the finalizer stays: if deleting them fails, the
  reconciliation of a resource that is being deleted returns an error and never updates the
  resource, so the finalizer still holds it back.
\<close>

theorem finalizer_kept_on_failure:
  assumes "\<not> time_IsZero (om_DeletionTimestamp (ObjectMeta (prov s)))"
    and "k8s_ContainsFinalizer E (prov s) awsIAMProvisionFinalizerName"
    and "destroying E c s = (Ok (), s1)"
    and "deleteIAMResources E c s1 = (Err err, s2)"
  shows "\<exists>es err'. fst (reconcile_with_client E c rq air s) = Err err' \<and>
    log (snd (reconcile_with_client E c rq air s)) = log s @ es \<and> list_all (\<lambda>e. \<not> is_update e) es"
proof -
  let ?fail = "updateCRDStatus E (Some c) failPhase [] (error_text err) NoResult"
  have "emits_rel (\<lambda>e. \<not> is_update e) s s1"
    using quiet_status assms(3) unfolding keeps_def by (metis snd_conv)
  then have s2: "emits_rel (\<lambda>e. \<not> is_update e) s s2"
    using quiet_then [OF _ quiet_deletion] assms(4) by (metis snd_conv)
  obtain r s3 where report: "?fail s2 = (r, s3)" by fastforce
  have s3: "emits_rel (\<lambda>e. \<not> is_update e) s s3"
    using quiet_then [OF s2 quiet_status] report by (metis snd_conv)
  have "fst (?fail s2) \<noteq> Panic \<and> fst (?fail s2) \<noteq> Hang"
    by (rule status_outcome)
  then have "\<exists>err'. reconcile_with_client E c rq air s = (Err err', s3)"
    using assms report
    by (cases r) (simp_all add: reconcile_with_client_def finalize_def bindM_def catchM_def getM_def errM_def)
  then show ?thesis using s3 by (auto simp: emits_rel_def list_all_iff)
qed

text \<open>A world in which another role holds on to one of the policies, so that it cannot be deleted.\<close>

definition held_mem :: mem where
  "held_mem = deletion_mem\<lparr>m_roles := [deletion_role, deletion_role\<lparr>mr_name := ''x''\<rparr>]\<rparr>"

lemma destroying_run:
  "fst (destroying mem_env mem_client (mem_state held_mem)) = Ok ()"
  "fst (deleteIAMResources mem_env mem_client (snd (destroying mem_env mem_client (mem_state held_mem)))) =
     Err delete_conflict"
  by code_simp+

theorem finalizer_kept_on_failure_witness:
  "\<exists>es err'. fst (reconcile_with_client mem_env mem_client \<lparr>nn_Namespace = ''ns'', nn_Name = ''cr''\<rparr>
       \<lparr>air_eksCP = zero_AWSManagedControlPlane, air_eksCPNamespace = \<lparr>nn_Namespace = ''ns'', nn_Name = ''eks''\<rparr>\<rparr>
       (mem_state held_mem)) = Err err' \<and>
    log (snd (reconcile_with_client mem_env mem_client \<lparr>nn_Namespace = ''ns'', nn_Name = ''cr''\<rparr>
       \<lparr>air_eksCP = zero_AWSManagedControlPlane, air_eksCPNamespace = \<lparr>nn_Namespace = ''ns'', nn_Name = ''eks''\<rparr>\<rparr>
       (mem_state held_mem))) = log (mem_state held_mem) @ es \<and> list_all (\<lambda>e. \<not> is_update e) es"
proof (rule finalizer_kept_on_failure)
  let ?s1 = "snd (destroying mem_env mem_client (mem_state held_mem))"
  show "destroying mem_env mem_client (mem_state held_mem) = (Ok (), ?s1)"
    using destroying_run(1) by (metis prod.collapse)
  show "deleteIAMResources mem_env mem_client ?s1 = (Err delete_conflict, snd (deleteIAMResources mem_env mem_client ?s1))"
    using destroying_run(2) by (metis prod.collapse)
qed (simp_all add: held_mem_def mem_state_def deletion_defs mem_env_simps time_IsZero_def)

text \<open>
  C10. The finalizer is released last: if finalizing succeeds, the only update of the resource is
  the last request, it removes the finalizer, and before it IAM has confirmed that every role of
  the specification is gone.
\<close>

theorem finalizer_released_last:
  assumes "k8s_ContainsFinalizer E (prov s) awsIAMProvisionFinalizerName"
    and "finalize E c s = (Ok (), t)"
    and "destroying E c s = (Ok (), s1)" and "Spec (prov s1) = Spec (prov s)"
    and "(k, role) \<in> set (spec_Roles (Spec (prov s)))" and "rs_Name (role_Spec role) = Some n"
  shows "\<exists>es q. log t = log s @ es @
      [Event (UpdateProvision (k8s_RemoveFinalizer E q awsIAMProvisionFinalizerName)) None] \<and>
    list_ex (confirms_gone n) es \<and> list_all (\<lambda>e. \<not> is_update e) es"
proof -
  obtain s2 where del: "deleteIAMResources E c s1 = (Ok (), s2)"
    using assms(1-3)
    by (auto simp: finalize_def getM_def bindM_def catchM_def errM_def split: outcome.splits prod.splits)
  obtain s3 where rep: "updateCRDStatus E (Some c) destroyPhase [] ''AWS IAM resources was destroyed.''
      NoResult s2 = (Ok (), s3)"
    using assms(1-3) del
    by (auto simp: finalize_def getM_def bindM_def catchM_def split: outcome.splits prod.splits)
  have log_t: "log t = log s3 @
      [Event (UpdateProvision (k8s_RemoveFinalizer E (prov s3) awsIAMProvisionFinalizerName)) None]"
    using assms(1-3) del rep
    by (auto simp: finalize_def getM_def modifyM_def bindM_def catchM_def errM_def request_call_def Let_def
        split: prod.splits sum.splits)
  have q1: "emits_rel (\<lambda>e. \<not> is_update e) s s1"
    using quiet_status assms(3) unfolding keeps_def by (metis snd_conv)
  have q2: "emits_rel (\<lambda>e. \<not> is_update e) s1 s2"
    using quiet_deletion del unfolding keeps_def by (metis snd_conv)
  have q3: "emits_rel (\<lambda>e. \<not> is_update e) s2 s3"
    using quiet_status rep unfolding keeps_def by (metis snd_conv)
  obtain es where "log s2 = log s1 @ es" "list_ex (confirms_gone n) es"
    using deletion_confirmed [OF del, of k role n] assms(4-6) by auto
  then show ?thesis
    using q1 q2 q3 log_t by (auto simp: emits_rel_def list_all_iff list_ex_iff)
qed

lemma finalize_run:
  "fst (finalize mem_env mem_client (mem_state deletion_mem)) = Ok ()"
  "fst (destroying mem_env mem_client (mem_state deletion_mem)) = Ok ()"
  "Spec (prov (snd (destroying mem_env mem_client (mem_state deletion_mem)))) = Spec (prov (mem_state deletion_mem))"
  by code_simp+

theorem finalizer_released_last_witness:
  "\<exists>es q. log (snd (finalize mem_env mem_client (mem_state deletion_mem))) = log (mem_state deletion_mem) @ es @
      [Event (UpdateProvision (k8s_RemoveFinalizer mem_env q awsIAMProvisionFinalizerName)) None] \<and>
    list_ex (confirms_gone ''r'') es \<and> list_all (\<lambda>e. \<not> is_update e) es"
proof (rule finalizer_released_last [where k = "''r''" and role = deletion_spec])
  show "finalize mem_env mem_client (mem_state deletion_mem) =
      (Ok (), snd (finalize mem_env mem_client (mem_state deletion_mem)))"
    using finalize_run(1) by (metis prod.collapse)
  show "destroying mem_env mem_client (mem_state deletion_mem) =
      (Ok (), snd (destroying mem_env mem_client (mem_state deletion_mem)))"
    using finalize_run(2) by (metis prod.collapse)
  show "Spec (prov (snd (destroying mem_env mem_client (mem_state deletion_mem)))) =
      Spec (prov (mem_state deletion_mem))"
    by (rule finalize_run(3))
qed (simp_all add: mem_state_def deletion_defs mem_env_simps)

section \<open>A deletion that is never reached\<close>

text \<open>A request to IAM, or an update of the resource itself.\<close>

fun acts_on_resources :: "event \<Rightarrow> bool" where
  "acts_on_resources (Event (IAM rq) err) = True"
| "acts_on_resources (Event (UpdateProvision p) err) = True"
| "acts_on_resources (Event _ err) = False"

text \<open>
  C29. The control plane is looked up before the deletion time stamp is looked at: while the
  control plane does not exist, or is not ready, a custom resource that is being deleted keeps its
  finalizer and its IAM resources. The reconciliation only reports \<open>Provisioning\<close> and asks to be
  run again in ten seconds; it makes no IAM request and no update.
\<close>

theorem deletion_waits_for_control_plane:
  assumes "k8s_GetProvision E rq (world s) = (Inr p, w1)"
    and "k8s_GetControlPlane E \<lparr>nn_Namespace = nn_Namespace rq, nn_Name = spec_EKSClusterName (Spec p)\<rparr> w1 =
           (answer, w2)"
    and "case answer of Inl err \<Rightarrow> k8s_IsNotFound E err | Inr cp \<Rightarrow> \<not> cp_Ready cp"
    and "\<not> time_IsZero (om_DeletionTimestamp (ObjectMeta p))"
  shows "\<exists>es. log (snd (Reconcile E iam rq s)) = log s @ es \<and> list_all (\<lambda>e. \<not> acts_on_resources e) es \<and>
    (case fst (Reconcile E iam rq s) of Ok d \<Rightarrow> d = 10000000000 | Err err \<Rightarrow> True | _ \<Rightarrow> False)"
proof -
  have quiet: "emits (\<lambda>e. \<not> acts_on_resources e) (updateCRDStatus E iam provisionIntermediatePhase [] msg NoResult)"
    for msg by (rule emits_updateCRDStatus_NoResult) simp
  have "wp (Reconcile E iam rq) (\<lambda>r t. (\<exists>es. log t = log s @ es \<and> list_all (\<lambda>e. \<not> acts_on_resources e) es) \<and>
    (case r of Ok d \<Rightarrow> d = 10000000000 | Err err \<Rightarrow> True | _ \<Rightarrow> False)) s"
    using assms
    by (cases answer)
      (simp_all add: Reconcile_def getClusterResources_def wp_simps Let_def setFrequency_def
        frequency_def time_Second_def split: prod.splits sum.splits)
  then show ?thesis by (simp add: wp_def case_prod_beta)
qed

definition waiting_mem :: mem where
  "waiting_mem = deletion_mem\<lparr>m_cp := None\<rparr>"

theorem deletion_waits_for_control_plane_witness:
  "\<exists>es. log (snd (Reconcile mem_env None \<lparr>nn_Namespace = ''ns'', nn_Name = ''cr''\<rparr> (mem_state waiting_mem))) =
      log (mem_state waiting_mem) @ es \<and> list_all (\<lambda>e. \<not> acts_on_resources e) es \<and>
    (case fst (Reconcile mem_env None \<lparr>nn_Namespace = ''ns'', nn_Name = ''cr''\<rparr> (mem_state waiting_mem)) of
       Ok d \<Rightarrow> d = 10000000000 | Err err \<Rightarrow> True | _ \<Rightarrow> False)"
  by (rule deletion_waits_for_control_plane [where p = deletion_prov and answer = "Inl not_found"
      and ?w1.0 = waiting_mem and ?w2.0 = waiting_mem])
    (simp_all add: waiting_mem_def mem_defs deletion_defs time_IsZero_def)

end
