(* ===== verification/Lifecycle.thy ===== *)
theory Lifecycle
  imports MemoryCloud
begin

text \<open>
  The frame of a reconciliation: the finalizer is stored before IAM is touched, how long until the
  next run, and when and how the final status is written.
\<close>

section \<open>The finalizer comes first\<close>

lemma emits_any: "emits (\<lambda>_. True) m \<Longrightarrow> \<exists>es. log (snd (m s)) = log s @ es"
  by (auto simp: keeps_def emits_rel_def)

lemma emits_after_finalizer:
  "emits (\<lambda>_. True) (syncAWSIAMResources E c)" "emits (\<lambda>_. True) (sync_all_roles E c rq air)"
  "emits (\<lambda>_. True) (report_synced E c)"
proof -
  have status: "emits (\<lambda>_. True) (updateCRDStatus E iam crdPhase phase message result)"
    for iam crdPhase phase message result by (rule emits_updateCRDStatus) simp_all
  have policies: "emits (\<lambda>_. True) (syncPoliciesByRoleSpec E c role)" for role
    by (auto simp: syncPoliciesByRoleSpec_def sync_listed_policy_def create_and_attach_def
        replace_policy_def checksum_differs_def attach_if_missing_def collect_names_def Let_def
        intro!: emits_rules emits_GetPolicyByName emits_ConvertToIAMTags emits_CreatePolicy emits_AttachRolePolicy
          emits_DetachRolePolicy emits_DeletePolicy emits_ListAttachedRolePolicies status)
  show "emits (\<lambda>_. True) (syncAWSIAMResources E c)"
    by (auto simp: syncAWSIAMResources_def sync_spec_roles_def sync_role_attachments_def
        attached_policies_def delete_stale_role_def delete_stale_policy_def collect_names_def remove_names_def
        delete_policy_and_report_def unlisted_policies_def Let_def
        intro!: emits_rules emits_ListRolesByTags emits_ListPoliciesByTags emits_ListEntitiesForPolicy
          emits_DetachRolePolicy emits_GetRoleByName emits_GetPolicyByName emits_ListAttachedRolePolicies
          emits_DeleteRole emits_DeletePolicy status)
  show "emits (\<lambda>_. True) (sync_all_roles E c rq air)"
    by (auto simp: sync_all_roles_def syncRole_def setAssumeRolePolicyDocument_def
        create_role_and_policies_def update_role_and_policies_def Let_def
        intro!: emits_rules emits_ConvertToIAMTags emits_GetRoleByName emits_CreateRole emits_UpdateRole
          status policies split: prod.splits sum.splits)
  show "emits (\<lambda>_. True) (report_synced E c)"
    by (auto simp: report_synced_def intro!: emits_rules status)
qed

text \<open>
  C33. A custom resource without the finalizer gets it before anything is done in IAM: the first
  request is the update that adds it, and if that update fails there is no other request.
\<close>

theorem finalizer_stored_first:
  assumes "time_IsZero (om_DeletionTimestamp (ObjectMeta (prov s)))"
    and "\<not> k8s_ContainsFinalizer E (prov s) awsIAMProvisionFinalizerName"
  shows "\<exists>err es. log (snd (reconcile_with_client E c rq air s)) = log s @
      Event (UpdateProvision (k8s_AddFinalizer E (prov s) awsIAMProvisionFinalizerName)) err # es \<and>
    (case err of None \<Rightarrow> True | Some e \<Rightarrow> es = [] \<and> fst (reconcile_with_client E c rq air s) = Err e)"
proof -
  let ?p = "k8s_AddFinalizer E (prov s) awsIAMProvisionFinalizerName"
  obtain r w where upd: "k8s_Update E ?p (world s) = (r, w)" by fastforce
  let ?rest = "bindM (syncAWSIAMResources E c) (\<lambda>_. bindM (sync_all_roles E c rq air) (\<lambda>_.
       bindM (report_synced E c) (\<lambda>_. bindM (getM prov) (\<lambda>p'. returnM (setFrequency (Some air) p')))))"
  have rest: "emits (\<lambda>_. True) ?rest"
    by (auto intro!: emits_rules emits_after_finalizer)
  show ?thesis
  proof (cases r)
    case (Inl err)
    have "reconcile_with_client E c rq air s = (Err err, s\<lparr>prov := ?p, world := w,
        log := log s @ [Event (UpdateProvision ?p) (Some err)]\<rparr>)"
      using assms upd Inl
      by (simp add: reconcile_with_client_def ensure_finalizer_def getM_def modifyM_def bindM_def
          request_call_def errM_def Let_def)
    then show ?thesis by (intro exI [of _ "Some err"] exI [of _ "[]"]) simp
  next
    case (Inr q)
    let ?s1 = "s\<lparr>prov := q, world := w, log := log s @ [Event (UpdateProvision ?p) None]\<rparr>"
    have "ensure_finalizer E s = (Ok (), ?s1)"
      using assms(2) upd Inr
      by (simp add: ensure_finalizer_def getM_def modifyM_def bindM_def request_call_def Let_def)
    then have "reconcile_with_client E c rq air s = ?rest ?s1"
      using assms(1) by (simp add: reconcile_with_client_def getM_def bindM_Ok)
    then obtain es where "log (snd (reconcile_with_client E c rq air s)) =
        (log s @ [Event (UpdateProvision ?p) None]) @ es"
      using emits_any [OF rest, of ?s1] by auto
    then show ?thesis by (intro exI [of _ None] exI [of _ es]) simp
  qed
qed

definition fresh_prov :: AWSIAMProvision where
  "fresh_prov = zero_AWSIAMProvision\<lparr>
     ObjectMeta := \<lparr>om_Name = ''cr'', om_Namespace = ''ns'', om_ResourceVersion = [],
       om_DeletionTimestamp = None, om_Finalizers = []\<rparr>,
     Spec := (Spec zero_AWSIAMProvision)\<lparr>spec_EKSClusterName := ''eks''\<rparr>\<rparr>"

definition fresh_air :: awsIAMResources where
  "fresh_air = \<lparr>air_eksCP = \<lparr>cp_Ready = True, cp_OIDCProviderARN = ''arn/oidc''\<rparr>,
     air_eksCPNamespace = \<lparr>nn_Namespace = ''ns'', nn_Name = ''eks''\<rparr>\<rparr>"

definition fresh_request :: NamespacedName where
  "fresh_request = \<lparr>nn_Namespace = ''ns'', nn_Name = ''cr''\<rparr>"

definition fresh_mem :: "AWSIAMProvision \<Rightarrow> mem" where
  "fresh_mem p = mem_empty\<lparr>m_prov := Some p, m_cp := Some (air_eksCP fresh_air)\<rparr>"

lemmas fresh_defs = fresh_prov_def fresh_air_def fresh_request_def fresh_mem_def

theorem finalizer_stored_first_witness:
  "\<exists>err es. log (snd (reconcile_with_client mem_env mem_client fresh_request fresh_air (mem_state (fresh_mem fresh_prov)))) =
      log (mem_state (fresh_mem fresh_prov)) @
      Event (UpdateProvision (k8s_AddFinalizer mem_env (prov (mem_state (fresh_mem fresh_prov)))
        awsIAMProvisionFinalizerName)) err # es \<and>
    (case err of None \<Rightarrow> True | Some e \<Rightarrow> es = [] \<and>
      fst (reconcile_with_client mem_env mem_client fresh_request fresh_air (mem_state (fresh_mem fresh_prov))) = Err e)"
  by (rule finalizer_stored_first) (simp_all add: fresh_defs mem_state_def mem_empty_def mem_env_simps time_IsZero_def)

section \<open>The next run\<close>

text \<open>
  C34. A reconciliation that succeeds asks to be run again: after ten seconds while the resource or
  its control plane is missing or not ready, never after a deletion, and otherwise after the
  frequency of the specification as it is at the end of the run, thirty seconds if it has none.
\<close>

theorem requeue_after:
  assumes "Reconcile E iam rq s = (Ok d, t)" and "getClusterResources E iam rq s = (Ok res, s1)"
  shows "d = (if res = None then 10000000000
     else if time_IsZero (om_DeletionTimestamp (ObjectMeta (prov s1)))
     then (case spec_Frequency (Spec (prov t)) of Some f \<Rightarrow> f | None \<Rightarrow> 30000000000)
     else 0)"
proof (cases res)
  case None
  then show ?thesis
    using assms by (simp add: Reconcile_def bindM_Ok getM_def returnM_def setFrequency_def frequency_def
        time_Second_def)
next
  case (Some air)
  then have "bindM (make_client E) (\<lambda>c. reconcile_with_client E c rq air) s1 = (Ok d, t)"
    using assms by (simp add: Reconcile_def bindM_Ok)
  then obtain c s2 where client: "make_client E s1 = (Ok c, s2)"
    and run: "reconcile_with_client E c rq air s2 = (Ok d, t)" by (rule bindM_Ok_cases)
  have "prov s2 = prov s1"
  proof -
    have "wp (make_client E) (\<lambda>r u. (\<exists>c. r = Ok c) \<longrightarrow> prov u = prov s1) s1"
      by (auto simp: make_client_def NewIAMClient_def wp_simps split: prod.splits sum.splits)
    then show ?thesis using client by (simp add: run_wp)
  qed
  then show ?thesis
    using run Some
    by (auto simp: reconcile_with_client_def setFrequency_def time_Second_def getM_def returnM_def
        elim!: bindM_Ok_cases split: if_splits option.splits)
qed

lemma requeue_run:
  "fst (Reconcile mem_env None fresh_request (mem_state (fresh_mem fresh_prov))) = Ok 30000000000"
  "spec_Frequency (Spec (prov (snd (Reconcile mem_env None fresh_request (mem_state (fresh_mem fresh_prov)))))) = None"
  "fst (getClusterResources mem_env None fresh_request (mem_state (fresh_mem fresh_prov))) = Ok (Some fresh_air)"
  "om_DeletionTimestamp (ObjectMeta (prov (snd (getClusterResources mem_env None fresh_request
     (mem_state (fresh_mem fresh_prov)))))) = None"
  by code_simp+

theorem requeue_after_witness:
  "30000000000 = (case spec_Frequency (Spec (prov (snd (Reconcile mem_env None fresh_request
     (mem_state (fresh_mem fresh_prov)))))) of Some f \<Rightarrow> f | None \<Rightarrow> 30000000000)"
proof -
  let ?s = "mem_state (fresh_mem fresh_prov)"
  have runs: "Reconcile mem_env None fresh_request ?s = (Ok 30000000000, snd (Reconcile mem_env None fresh_request ?s))"
    "getClusterResources mem_env None fresh_request ?s =
      (Ok (Some fresh_air), snd (getClusterResources mem_env None fresh_request ?s))"
    using requeue_run(1,3) by (simp_all add: prod_eq_iff)
  show ?thesis using requeue_after [OF runs] requeue_run(4) by (simp add: time_IsZero_def)
qed

section \<open>The final status\<close>

text \<open>
  C35. A run that has synced everything writes the status only if none was ever written or the last
  one was \<open>Failed\<close>; it is then a single request, with the phase \<open>Provisioned\<close>, the message that all is
  synced and the current time, the rest of the status as it was. The run ends with the resource that
  Kubernetes hands back, or with an error that names the resource. In particular the phase
  \<open>Provisioning\<close>, written while the run before was waiting for the control plane, stays when a run
  finds nothing to change.
\<close>

theorem final_status_written:
  "report_synced E c s =
     (if st_LastUpdatedTime (Status (prov s)) = None \<or> st_Phase (Status (prov s)) = ''Failed'' then
        (case clock_Now E (world s) of (stamp, w) \<Rightarrow>
          (let p = (prov s)\<lparr>Status := (Status (prov s))\<lparr>st_LastUpdatedTime := Some stamp, st_Phase := ''Provisioned'',
                 st_Message := ''AWS IAM resources synced with the remote state.''\<rparr>\<rparr>
           in (case k8s_UpdateStatus E p w of (answer, w') \<Rightarrow>
               (case answer of
                  Inr q \<Rightarrow>
                    (Ok (), s\<lparr>world := w', log := log s @ [Event (UpdateStatus p) None], prov := q\<rparr>)
                | Inl err \<Rightarrow>
                    (Err (PlainError (''unable to update status for CRD: '' @ om_Name (ObjectMeta (prov s)) @
                       '', error: '' @ error_text err)),
                     s\<lparr>world := w', log := log s @ [Event (UpdateStatus p) (Some err)], prov := p\<rparr>)))))
      else (Ok (), s))"
  by (rule wp_run)
    (auto simp: report_synced_def wp_simps status_stamp_def provisionPhase_def synced_message_def Let_def
      split: prod.splits sum.splits)

text \<open>A whole run over a resource that has waited: it succeeds, and the stored phase stays.\<close>

definition waited_prov :: AWSIAMProvision where
  "waited_prov = status_stamp provisionIntermediatePhase [] 3 fresh_prov"

lemma provisioning_stays:
  "fst (Reconcile mem_env None fresh_request (mem_state (fresh_mem waited_prov))) = Ok 30000000000"
  "map_option (st_Phase \<circ> Status) (m_prov (world (snd (Reconcile mem_env None fresh_request
     (mem_state (fresh_mem waited_prov)))))) = Some ''Provisioning''"
  by code_simp+

end
