(* ===== verification/Manager.thy ===== *)
theory Manager
  imports GoText
begin

text \<open>
  \<open>cmd/main.go\<close>: the options of the manager, in particular the namespaces it watches, and the
  order in which it is started. The controller runtime is a parameter: each of its calls returns an
  error or succeeds. \<open>flag.Parse\<close> is taken as having filled the three variables.
\<close>

section \<open>Options\<close>

record flags =
  metricsAddr :: string
  probeAddr :: string
  enableLeaderElection :: bool

text \<open>The defaults the flags are declared with.\<close>

definition default_flags :: flags where
  "default_flags = \<lparr>metricsAddr = ''0'', probeAddr = '':8081'', enableLeaderElection = False\<rparr>"

text \<open>
  \<open>ctrl.Options\<close>, as far as the program sets it. \<open>DefaultNamespaces\<close> is the key list of the map,
  \<open>None\<close> when \<open>Cache\<close> is left at its zero value.
\<close>

record manager_options =
  opt_Metrics_BindAddress :: string
  opt_HealthProbeBindAddress :: string
  opt_LeaderElection :: bool
  opt_LeaderElectionID :: string
  opt_DefaultNamespaces :: "string list option"

definition watchNamespaceEnvVar :: string where
  "watchNamespaceEnvVar = ''WATCH_NAMESPACES''"

definition getWatchNamespaces :: "(string \<Rightarrow> string option) \<Rightarrow> go_error + string" where
  "getWatchNamespaces lookupEnv =
     (case lookupEnv watchNamespaceEnvVar of
        None \<Rightarrow> Inl (PlainError (watchNamespaceEnvVar @ '' env must be set''))
      | Some ns \<Rightarrow> Inr ns)"

text \<open>The error is only logged; the text is empty then.\<close>

definition namespaces_text :: "(string \<Rightarrow> string option) \<Rightarrow> string" where
  "namespaces_text lookupEnv = (case getWatchNamespaces lookupEnv of Inl err \<Rightarrow> [] | Inr ns \<Rightarrow> ns)"

definition cache_namespaces :: "string \<Rightarrow> string list option" where
  "cache_namespaces watchNamespaces =
     (if 0 < length watchNamespaces
      then Some (fold set_put (strings_Split watchNamespaces (CHR '','')) [])
      else None)"

definition make_options :: "flags \<Rightarrow> (string \<Rightarrow> string option) \<Rightarrow> manager_options" where
  "make_options fl lookupEnv =
     \<lparr>opt_Metrics_BindAddress = metricsAddr fl, opt_HealthProbeBindAddress = probeAddr fl,
      opt_LeaderElection = enableLeaderElection fl, opt_LeaderElectionID = ''223fc060.aws.edenlab.io'',
      opt_DefaultNamespaces = cache_namespaces (namespaces_text lookupEnv)\<rparr>"

section \<open>Start-up\<close>

text \<open>
  The calls of the controller runtime that \<open>main\<close> makes, in the order it makes them. \<open>GetConfigOrDie\<close>
  is an argument of \<open>NewManager\<close> and comes first; when it finds no configuration it exits with 1 itself.
\<close>

datatype startup_call =
    GetConfigOrDie
  | NewManager manager_options
  | SetupWithManager
  | AddHealthzCheck string
  | AddReadyzCheck string
  | Start

text \<open>\<open>if err := call(); err != nil { os.Exit(1) }\<close>, one call after the other.\<close>

fun run_startup :: "(startup_call \<Rightarrow> go_error option) \<Rightarrow> startup_call list \<Rightarrow> nat \<times> startup_call list" where
  "run_startup runtime [] = (0, [])"
| "run_startup runtime (x # xs) =
     (case runtime x of
        Some err \<Rightarrow> (1, [x])
      | None \<Rightarrow> (case run_startup runtime xs of (code, made) \<Rightarrow> (code, x # made)))"

definition startup_calls :: "flags \<Rightarrow> (string \<Rightarrow> string option) \<Rightarrow> startup_call list" where
  "startup_calls fl lookupEnv =
     [GetConfigOrDie, NewManager (make_options fl lookupEnv), SetupWithManager, AddHealthzCheck ''healthz'',
      AddReadyzCheck ''readyz'', Start]"

text \<open>The exit code, and the calls made.\<close>

definition main :: "flags \<Rightarrow> (string \<Rightarrow> string option) \<Rightarrow> (startup_call \<Rightarrow> go_error option) \<Rightarrow> nat \<times> startup_call list" where
  "main fl lookupEnv runtime = run_startup runtime (startup_calls fl lookupEnv)"

section \<open>Properties\<close>

lemma set_fold_set_put: "set (fold set_put xs acc) = set acc \<union> set xs"
  by (induction xs arbitrary: acc) auto

lemma distinct_fold_set_put: "distinct acc \<Longrightarrow> distinct (fold set_put xs acc)"
  by (induction xs arbitrary: acc) (simp_all add: distinct_set_put)

text \<open>
  C36. The manager watches exactly the namespaces that \<open>WATCH_NAMESPACES\<close> lists, separated by
  commas, each once.
\<close>

theorem watched_namespaces:
  assumes "lookupEnv ''WATCH_NAMESPACES'' = Some (join_with (CHR '','') ws)"
    and "list_all (\<lambda>w. w \<noteq> [] \<and> CHR '','' \<notin> set w) ws" and "ws \<noteq> []"
  shows "\<exists>ns. opt_DefaultNamespaces (make_options fl lookupEnv) = Some ns \<and> set ns = set ws \<and> distinct ns"
proof -
  have "join_with (CHR '','') ws \<noteq> []"
    using assms(2,3) by (cases ws; cases "tl ws") auto
  moreover have "strings_Split (join_with (CHR '','') ws) (CHR '','') = ws"
    using assms(2,3) by (intro strings_Split_join) (auto simp: list_all_iff)
  ultimately show ?thesis
    using assms(1)
    by (simp add: make_options_def namespaces_text_def getWatchNamespaces_def watchNamespaceEnvVar_def
        cache_namespaces_def set_fold_set_put distinct_fold_set_put)
qed

theorem watched_namespaces_witness:
  "\<exists>ns. opt_DefaultNamespaces (make_options default_flags (\<lambda>v. Some ''ns1,ns2,ns1'')) = Some ns \<and>
     set ns = set [''ns1'', ''ns2'', ''ns1''] \<and> distinct ns"
  by (rule watched_namespaces) simp_all

text \<open>
  C37. An empty entry, as a trailing comma leaves it, becomes the namespace with the empty name,
  which in the cache stands for all namespaces; and so does nothing but an empty entry.
\<close>

theorem empty_entry_watched:
  assumes "lookupEnv ''WATCH_NAMESPACES'' = Some names"
    and "opt_DefaultNamespaces (make_options fl lookupEnv) = Some ns"
  shows "[] \<in> set ns \<longleftrightarrow> (\<exists>ws. names = join_with (CHR '','') ws \<and> list_all (\<lambda>w. CHR '','' \<notin> set w) ws \<and> [] \<in> set ws)"
proof -
  have ns: "set ns = set (strings_Split names (CHR '',''))" "names \<noteq> []"
    using assms
    by (auto simp: make_options_def namespaces_text_def getWatchNamespaces_def watchNamespaceEnvVar_def
        cache_namespaces_def set_fold_set_put split: if_splits)
  show ?thesis
  proof
    assume "[] \<in> set ns"
    then show "\<exists>ws. names = join_with (CHR '','') ws \<and> list_all (\<lambda>w. CHR '','' \<notin> set w) ws \<and> [] \<in> set ws"
      using ns strings_Split_no_sep [of _ names "CHR '',''"]
      by (intro exI [of _ "strings_Split names (CHR '','')"]) (auto simp: join_with_Split list_all_iff)
  next
    assume "\<exists>ws. names = join_with (CHR '','') ws \<and> list_all (\<lambda>w. CHR '','' \<notin> set w) ws \<and> [] \<in> set ws"
    then obtain ws where ws: "names = join_with (CHR '','') ws" "list_all (\<lambda>w. CHR '','' \<notin> set w) ws" "[] \<in> set ws"
      by blast
    then have "ws \<noteq> []" by auto
    then have "strings_Split names (CHR '','') = ws"
      using ws(1,2) strings_Split_join [of ws "CHR '',''"] by (simp add: list_all_iff)
    then show "[] \<in> set ns" using ns(1) ws(3) by simp
  qed
qed

theorem empty_entry_watched_witness:
  "\<exists>ns. opt_DefaultNamespaces (make_options default_flags
      (\<lambda>v. if v = ''WATCH_NAMESPACES'' then Some ''ns1,'' else None)) = Some ns \<and> [] \<in> set ns"
proof -
  let ?env = "\<lambda>v. if v = ''WATCH_NAMESPACES'' then Some ''ns1,'' else None"
  have "\<exists>ws. ''ns1,'' = join_with (CHR '','') ws \<and> list_all (\<lambda>w. CHR '','' \<notin> set w) ws \<and> [] \<in> set ws"
    by (intro exI [of _ "[''ns1'', []]"]) simp
  moreover obtain ns where "opt_DefaultNamespaces (make_options default_flags ?env) = Some ns"
    by (simp add: make_options_def namespaces_text_def getWatchNamespaces_def watchNamespaceEnvVar_def
        cache_namespaces_def)
  ultimately show ?thesis
    using empty_entry_watched [of ?env "''ns1,''" default_flags] by simp
qed

text \<open>What running a list of calls comes to.\<close>

lemma run_startup_prefix:
  assumes "run_startup runtime xs = (code, made)"
  shows "code = (if list_all (\<lambda>x. runtime x = None) xs then 0 else 1) \<and> made = take (length made) xs \<and>
    list_all (\<lambda>x. runtime x = None) (butlast made) \<and>
    (xs \<noteq> [] \<longrightarrow> made \<noteq> [] \<and> (code = 1) = (runtime (last made) \<noteq> None))"
  using assms
proof (induction xs arbitrary: code made)
  case Nil
  then show ?case by simp
next
  case (Cons x xs)
  obtain k ms where rest: "run_startup runtime xs = (k, ms)" by fastforce
  show ?case
  proof (cases "runtime x")
    case None
    then show ?thesis
      using Cons.prems Cons.IH [OF rest] rest by (cases "xs = []") auto
  next
    case (Some err)
    then show ?thesis using Cons.prems by auto
  qed
qed

text \<open>
  C38. The program reads the configuration of the cluster, makes the manager with the options of the
  flags and the environment, sets up the controller, adds the liveness check and the readiness check,
  and only then starts the manager. It makes these six calls in this order, stops at the first that
  fails and then exits with 1; it exits with 0 exactly if all six succeed.
\<close>

theorem startup_sequence:
  assumes "main fl lookupEnv runtime = (code, made)"
    and "calls = [GetConfigOrDie, NewManager (make_options fl lookupEnv), SetupWithManager,
      AddHealthzCheck ''healthz'', AddReadyzCheck ''readyz'', Start]"
  shows "code = (if list_all (\<lambda>x. runtime x = None) calls then 0 else 1) \<and>
    made \<noteq> [] \<and> made = take (length made) calls \<and>
    list_all (\<lambda>x. runtime x = None) (butlast made) \<and>
    (code = 1) = (runtime (last made) \<noteq> None)"
proof -
  have "run_startup runtime calls = (code, made)" "calls \<noteq> []"
    using assms by (simp_all add: main_def startup_calls_def)
  then show ?thesis using run_startup_prefix by blast
qed

theorem startup_sequence_witness:
  "main default_flags (\<lambda>v. None) (\<lambda>x. if x = SetupWithManager then Some (PlainError []) else None) =
     (1, [GetConfigOrDie, NewManager (make_options default_flags (\<lambda>v. None)), SetupWithManager]) \<and>
   \<not> list_all (\<lambda>x. (if x = SetupWithManager then Some (PlainError []) else None) = None)
       (startup_calls default_flags (\<lambda>v. None))"
proof -
  have run: "main default_flags (\<lambda>v. None) (\<lambda>x. if x = SetupWithManager then Some (PlainError []) else None) =
     (1, [GetConfigOrDie, NewManager (make_options default_flags (\<lambda>v. None)), SetupWithManager])"
    by (simp add: main_def startup_calls_def)
  let ?ok = "list_all (\<lambda>x. (if x = SetupWithManager then Some (PlainError []) else None) = None)
       (startup_calls default_flags (\<lambda>v. None))"
  have "1 = (if ?ok then 0 else (1 :: nat))"
    by (rule conjunct1 [OF startup_sequence [OF run startup_calls_def]])
  then have "\<not> ?ok" by (cases ?ok) (simp_all only: if_True if_False, simp)
  then show ?thesis using run by (rule conjI [rotated])
qed

end
