(* ===== verification/SoundOps.thy ===== *)
theory SoundOps
  imports PolicySync StatusProps
begin

text \<open>
  What a custom resource and the services must be like for the operator not to crash, and the
  operations on IAM and on the status under these conditions: they dereference pointers all over,
  and every one is non-nil when the specification passed the validation of the CRD, the status is
  one that the operator wrote, and AWS fills the fields that it documents as present.
\<close>

section \<open>Sound custom resources\<close>

text \<open>What the schema of the CRD demands: no nil element, name or document (nil tags aside).\<close>

definition sound_role :: "RoleSpec \<Rightarrow> bool" where
  "sound_role r = (rs_Name r \<noteq> None \<and> rs_AssumeRolePolicyDocument r \<noteq> None \<and>
     None \<notin> set (rs_Policies r) \<and> None \<notin> set (rs_Tags r))"

definition sound_policy :: "PolicySpec \<Rightarrow> bool" where
  "sound_policy p = (ps_Name p \<noteq> None \<and> ps_PolicyDocument p \<noteq> None \<and> None \<notin> set (ps_Tags p))"

definition sound_spec :: "AWSIAMProvisionSpec \<Rightarrow> bool" where
  "sound_spec sp = (list_all (\<lambda>e. sound_role (role_Spec (snd e))) (spec_Roles sp) \<and>
     list_all (\<lambda>e. sound_policy (policy_Spec (snd e))) (spec_Policies sp))"

text \<open>The status lists are finite maps: every entry has a name, and no two the same.\<close>

definition sound_status :: "AWSIAMProvisionStatus \<Rightarrow> bool" where
  "sound_status st = (well_named sr_Name (st_Roles st) \<and> well_named sp_Name (st_Policies st))"

definition sound_prov :: "AWSIAMProvision \<Rightarrow> bool" where
  "sound_prov p = (sound_spec (Spec p) \<and> sound_status (Status p))"

lemma sound_zero [simp]: "sound_prov zero_AWSIAMProvision"
  by (simp add: sound_prov_def sound_spec_def sound_status_def zero_AWSIAMProvision_def zero_Status_def well_named_def)

section \<open>The outside\<close>

text \<open>
  \<open>legal\<close> says which worlds IAM can be in, \<open>stored\<close> is the custom resource in the API server. A
  call is lawful if it leads from legal worlds to legal worlds and leaves the stored object alone.
\<close>

definition lawful :: "('w \<Rightarrow> bool) \<Rightarrow> ('w \<Rightarrow> AWSIAMProvision option) \<Rightarrow> ('w, 'a) call \<Rightarrow> bool" where
  "lawful legal stored f =
     (\<forall>w. legal w \<longrightarrow> legal (snd (f w)) \<and> stored (snd (f w)) = stored w)"

definition lawful_pager :: "('w \<Rightarrow> bool) \<Rightarrow> ('w \<Rightarrow> AWSIAMProvision option) \<Rightarrow> ('x \<Rightarrow> bool) \<Rightarrow> ('w, 'p, 'x) pager \<Rightarrow> bool"
where
  "lawful_pager legal stored full next = (\<forall>p w r p' w'. legal w \<longrightarrow> next p w = (r, p', w') \<longrightarrow>
     legal w' \<and> stored w' = stored w \<and> (\<forall>items. r = Inr items \<longrightarrow> list_all full items))"

text \<open>What AWS documents as always present.\<close>

definition full_role :: "string \<Rightarrow> iamRole \<Rightarrow> bool" where
  "full_role n r = (ir_RoleName r = Some n \<and> ir_Arn r \<noteq> None \<and> ir_CreateDate r \<noteq> None)"

definition full_policy :: "string \<Rightarrow> iamPolicy \<Rightarrow> bool" where
  "full_policy n p = (ip_PolicyName p = Some n \<and> ip_Arn p \<noteq> None \<and> ip_CreateDate p \<noteq> None \<and>
     list_all full_tag (ip_Tags p))"

text \<open>The answers of the lookups and of the creations, and the elements of the listings.\<close>

definition full_answers :: "('w, 'p) env \<Rightarrow> IAMClient \<Rightarrow> ('w \<Rightarrow> bool) \<Rightarrow> bool" where
  "full_answers E c legal = (\<forall>w. legal w \<longrightarrow>
     (\<forall>n x w'. sdk_GetRole E (GetRoleReq (Some n)) w = (Inr x, w') \<longrightarrow> (\<exists>q. x = Some q \<and> full_role n q)) \<and>
     (\<forall>n x w'. sdk_GetPolicy E (GetPolicyReq (Some (policy_arn c n))) w = (Inr x, w') \<longrightarrow>
        (\<exists>q. x = Some q \<and> full_policy n q)) \<and>
     (\<forall>n d desc tags x w'. sdk_CreateRole E (CreateRoleReq (Some n) d desc (Some pathPrefix) tags) w = (Inr x, w') \<longrightarrow>
        (\<exists>q. x = Some q \<and> full_role n q)) \<and>
     (\<forall>n d desc tags x w'. sdk_CreatePolicy E (CreatePolicyReq (Some n) d desc (Some pathPrefix) tags) w = (Inr x, w') \<longrightarrow>
        (\<exists>q. x = Some q \<and> ip_PolicyName q = Some n)) \<and>
     (\<forall>rq x w'. sdk_ListRoleTags E rq w = (Inr x, w') \<longrightarrow> list_all full_tag x) \<and>
     (\<forall>rq x w'. sdk_ListPolicyTags E rq w = (Inr x, w') \<longrightarrow> list_all full_tag x))"

text \<open>
  Nothing appears between a lookup and the creation that follows it: no other writer creates the
  role or policy in that moment.
\<close>

definition no_create_race :: "('w, 'p) env \<Rightarrow> IAMClient \<Rightarrow> ('w \<Rightarrow> bool) \<Rightarrow> bool" where
  "no_create_race E c legal = (\<forall>w err w'. legal w \<longrightarrow> is_no_such_entity err \<longrightarrow>
     (\<forall>n d desc tags err' w''. sdk_GetRole E (GetRoleReq (Some n)) w = (Inl err, w') \<longrightarrow>
        sdk_CreateRole E (CreateRoleReq (Some n) d desc (Some pathPrefix) tags) w' = (Inl err', w'') \<longrightarrow>
        \<not> is_already_exists err') \<and>
     (\<forall>n d desc tags err' w''. sdk_GetPolicy E (GetPolicyReq (Some (policy_arn c n))) w = (Inl err, w') \<longrightarrow>
        sdk_CreatePolicy E (CreatePolicyReq (Some n) d desc (Some pathPrefix) tags) w' = (Inl err', w'') \<longrightarrow>
        \<not> is_already_exists err'))"

definition lawful_iam :: "('w, 'p) env \<Rightarrow> ('w \<Rightarrow> bool) \<Rightarrow> ('w \<Rightarrow> AWSIAMProvision option) \<Rightarrow> bool" where
  "lawful_iam E legal stored = ((\<forall>rq.
     lawful legal stored (sdk_AttachRolePolicy E rq) \<and> lawful legal stored (sdk_DetachRolePolicy E rq) \<and>
     lawful legal stored (sdk_CreatePolicy E rq) \<and> lawful legal stored (sdk_CreateRole E rq) \<and>
     lawful legal stored (sdk_DeletePolicy E rq) \<and> lawful legal stored (sdk_DeleteRole E rq) \<and>
     lawful legal stored (sdk_UpdateAssumeRolePolicy E rq) \<and> lawful legal stored (sdk_GetPolicy E rq) \<and>
     lawful legal stored (sdk_GetRole E rq) \<and> lawful legal stored (sdk_ListPolicyTags E rq) \<and>
     lawful legal stored (sdk_ListRoleTags E rq)) \<and>
   (\<forall>region. lawful legal stored (sdk_LoadDefaultConfig E region) \<and>
     lawful legal stored (sdk_GetCallerIdentity E region)) \<and>
   lawful_pager legal stored (\<lambda>x. ap_PolicyName x \<noteq> None) (sdk_NextAttachedPolicies E) \<and>
   lawful_pager legal stored (\<lambda>x. ir_RoleName x \<noteq> None) (sdk_NextRoles E) \<and>
   lawful_pager legal stored (\<lambda>x. ip_PolicyName x \<noteq> None) (sdk_NextPolicies E) \<and>
   lawful_pager legal stored (\<lambda>x. pr_RoleName x \<noteq> None) (sdk_NextEntities E))"

text \<open>
  The API server: a read returns the stored object; a status update that succeeds stores and
  returns an object with the specification and the names in the status that were sent; an update
  that succeeds stores and returns one with the specification sent and the status stored before. A
  failed call changes nothing.
\<close>

definition same_names :: "AWSIAMProvisionStatus \<Rightarrow> AWSIAMProvisionStatus \<Rightarrow> bool" where
  "same_names st st' = (map sr_Name (st_Roles st') = map sr_Name (st_Roles st) \<and>
     map sp_Name (st_Policies st') = map sp_Name (st_Policies st))"

definition api_documented :: "('w, 'p) env \<Rightarrow> ('w \<Rightarrow> bool) \<Rightarrow> ('w \<Rightarrow> AWSIAMProvision option) \<Rightarrow> bool" where
  "api_documented E legal stored = ((\<forall>w. legal w \<longrightarrow>
     (\<forall>n r w'. k8s_GetProvision E n w = (r, w') \<longrightarrow> legal w' \<and> stored w' = stored w \<and>
        (\<forall>p. r = Inr p \<longrightarrow> stored w = Some p)) \<and>
     (\<forall>n r w'. k8s_GetControlPlane E n w = (r, w') \<longrightarrow> legal w' \<and> stored w' = stored w) \<and>
     (\<forall>p r w'. k8s_UpdateStatus E p w = (r, w') \<longrightarrow> legal w' \<and>
        (\<forall>err. r = Inl err \<longrightarrow> stored w' = stored w) \<and>
        (\<forall>p'. r = Inr p' \<longrightarrow> stored w' = Some p' \<and> Spec p' = Spec p \<and> same_names (Status p) (Status p'))) \<and>
     (\<forall>p r w'. k8s_Update E p w = (r, w') \<longrightarrow> legal w' \<and>
        (\<forall>err. r = Inl err \<longrightarrow> stored w' = stored w) \<and>
        (\<forall>p'. r = Inr p' \<longrightarrow> stored w' = Some p' \<and> Spec p' = Spec p \<and>
           (\<exists>q. stored w = Some q \<and> same_names (Status q) (Status p')))) \<and>
     legal (snd (clock_Now E w)) \<and> stored (snd (clock_Now E w)) = stored w) \<and>
   (\<forall>p f. Spec (k8s_AddFinalizer E p f) = Spec p \<and> Status (k8s_AddFinalizer E p f) = Status p \<and>
      Spec (k8s_RemoveFinalizer E p f) = Spec p \<and> Status (k8s_RemoveFinalizer E p f) = Status p))"

definition well_behaved :: "('w, 'p) env \<Rightarrow> IAMClient \<Rightarrow> ('w \<Rightarrow> bool) \<Rightarrow> ('w \<Rightarrow> AWSIAMProvision option) \<Rightarrow> bool" where
  "well_behaved E c legal stored =
     (full_answers E c legal \<and> no_create_race E c legal \<and> lawful_iam E legal stored \<and> api_documented E legal stored)"

text \<open>The services for one account: whatever region the client is made for, it is in that account.\<close>

definition well_served :: "('w, 'p) env \<Rightarrow> string \<Rightarrow> ('w \<Rightarrow> bool) \<Rightarrow> ('w \<Rightarrow> AWSIAMProvision option) \<Rightarrow> bool" where
  "well_served E acc legal stored =
     ((\<forall>region. well_behaved E \<lparr>AccountID = acc, Region = region\<rparr> legal stored) \<and>
      (\<forall>region w x w'. sdk_GetCallerIdentity E region w = (Inr x, w') \<longrightarrow> aws_ToString E x = acc))"

section \<open>Runs that do not crash\<close>

text \<open>
  \<open>calm I Q m s\<close>: from \<open>s\<close>, \<open>m\<close> does not panic, leaves \<open>I\<close> true however it ends, and a value it
  returns satisfies \<open>Q\<close> with the state left.
\<close>

definition calm :: "('s \<Rightarrow> bool) \<Rightarrow> ('a \<Rightarrow> 's \<Rightarrow> bool) \<Rightarrow> ('s, 'a) gop \<Rightarrow> 's \<Rightarrow> bool" where
  "calm I Q m s =
     (I (snd (m s)) \<and> fst (m s) \<noteq> Panic \<and> (\<forall>x. fst (m s) = Ok x \<longrightarrow> Q x (snd (m s))))"

lemma calm_bindM:
  "calm I Q m s \<Longrightarrow> (\<And>x t. I t \<Longrightarrow> Q x t \<Longrightarrow> calm I Q' (f x) t) \<Longrightarrow> calm I Q' (bindM m f) s"
  by (cases "m s"; cases "fst (m s)") (simp_all add: calm_def bindM_def)

lemma calm_catchM:
  "calm I Q m s \<Longrightarrow> (\<And>e t. I t \<Longrightarrow> calm I Q (h e) t) \<Longrightarrow> calm I Q (catchM m h) s"
  by (cases "m s"; cases "fst (m s)") (simp_all add: calm_def catchM_def)

lemma calm_weaken: "calm I Q m s \<Longrightarrow> (\<And>x t. I t \<Longrightarrow> Q x t \<Longrightarrow> Q' x t) \<Longrightarrow> calm I Q' m s"
  by (auto simp: calm_def)

lemma calm_returnM: "I s \<Longrightarrow> Q x s \<Longrightarrow> calm I Q (returnM x) s"
  by (simp add: calm_def returnM_def)

lemma calm_errM: "I s \<Longrightarrow> calm I Q (errM e) s"
  by (simp add: calm_def errM_def)

lemma calm_hangM: "I s \<Longrightarrow> calm I Q hangM s"
  by (simp add: calm_def hangM_def)

lemma calm_getM: "I s \<Longrightarrow> Q (f s) s \<Longrightarrow> calm I Q (getM f) s"
  by (simp add: calm_def getM_def)

lemma calm_modifyM: "I (f s) \<Longrightarrow> Q () (f s) \<Longrightarrow> calm I Q (modifyM f) s"
  by (simp add: calm_def modifyM_def)

lemma calm_deref: "I s \<Longrightarrow> p = Some x \<Longrightarrow> Q x s \<Longrightarrow> calm I Q (deref p) s"
  by (simp add: calm_returnM)

lemma calm_liftM: "I s \<Longrightarrow> (\<And>x. r = Inr x \<Longrightarrow> Q x s) \<Longrightarrow> calm I Q (liftM r) s"
  by (cases r) (auto simp: liftM_def calm_returnM calm_errM)

lemma calm_forM:
  assumes "I s" and "\<And>x t. x \<in> set xs \<Longrightarrow> I t \<Longrightarrow> calm I (\<lambda>_ _. True) (f x) t"
  shows "calm I (\<lambda>_ _. True) (forM xs f) s"
  using assms
proof (induction xs arbitrary: s)
  case Nil
  then show ?case by (simp add: calm_returnM)
next
  case (Cons x xs)
  then show ?case by (auto intro!: calm_bindM [where Q = "\<lambda>_ _. True"])
qed

lemma calm_foldM:
  assumes "I s" and "A a" and "\<And>x a t. x \<in> set xs \<Longrightarrow> I t \<Longrightarrow> A a \<Longrightarrow> calm I (\<lambda>a _. A a) (f x a) t"
  shows "calm I (\<lambda>a _. A a) (foldM f xs a) s"
  using assms
proof (induction xs arbitrary: s a)
  case Nil
  then show ?case by (simp add: calm_returnM)
next
  case (Cons x xs)
  then show ?case by (auto intro!: calm_bindM [where Q = "\<lambda>a _. A a"])
qed

section \<open>The invariant of a reconciliation\<close>

text \<open>The world is legal, and the custom resource is sound, in the API server and in memory.\<close>

definition world_sound :: "('w \<Rightarrow> bool) \<Rightarrow> ('w \<Rightarrow> AWSIAMProvision option) \<Rightarrow> 'w \<Rightarrow> bool" where
  "world_sound legal stored w = (legal w \<and> (\<forall>p. stored w = Some p \<longrightarrow> sound_prov p))"

definition sane :: "('w \<Rightarrow> bool) \<Rightarrow> ('w \<Rightarrow> AWSIAMProvision option) \<Rightarrow> 'w gstate \<Rightarrow> bool" where
  "sane legal stored s = (world_sound legal stored (world s) \<and> sound_prov (prov s))"

lemma sane_simps [simp]:
  "sane legal stored (s\<lparr>choices := cs\<rparr>) = sane legal stored s"
  "sane legal stored (s\<lparr>log := l\<rparr>) = sane legal stored s"
  "sane legal stored (s\<lparr>world := w, log := l\<rparr>) = (world_sound legal stored w \<and> sound_prov (prov s))"
  "sane legal stored (s\<lparr>prov := p\<rparr>) = (world_sound legal stored (world s) \<and> sound_prov p)"
  by (simp_all add: sane_def)

lemma sane_legal: "sane legal stored s \<Longrightarrow> legal (world s)"
  by (simp add: sane_def world_sound_def)

lemma lawful_step:
  assumes "lawful legal stored f" and "f w = (r, w')" and "world_sound legal stored w"
  shows "world_sound legal stored w'"
proof -
  have "legal w" using assms(3) by (simp add: world_sound_def)
  then have "legal (snd (f w)) \<and> stored (snd (f w)) = stored w" using assms(1) by (simp add: lawful_def)
  then show ?thesis using assms(2,3) by (simp add: world_sound_def)
qed

lemma calm_range_map:
  "sane legal stored s \<Longrightarrow> calm (sane legal stored) (\<lambda>ys t. set ys = set m) (range_map m) s"
  by (cases "choices s") (auto simp: calm_def range_map_def)

lemma calm_wp:
  "wp m (\<lambda>r t. I t \<and> r \<noteq> Panic \<and> (\<forall>x. r = Ok x \<longrightarrow> Q x t)) s \<Longrightarrow> calm I Q m s"
  by (simp add: calm_def wp_def case_prod_beta)

lemma calm_pages_loop:
  assumes next_law: "lawful_pager legal stored full next" and A: "A acc" and s: "sane legal stored s"
    and body: "\<And>x a t. full x \<Longrightarrow> A a \<Longrightarrow> sane legal stored t \<Longrightarrow> calm (sane legal stored) (\<lambda>a _. A a) (body x a) t"
  shows "calm (sane legal stored) (\<lambda>a _. A a) (pages_loop E rq next body k p acc) s"
  using A s
proof (induction k arbitrary: p acc s)
  case 0
  then show ?case by (simp add: calm_hangM calm_returnM)
next
  case (Suc k)
  show ?case
  proof (cases "sdk_HasMorePages E p")
    case False
    then show ?thesis using Suc.prems by (simp add: calm_returnM)
  next
    case True
    obtain r p' w' where call: "next p (world s) = (r, p', w')" by (metis prod_cases3)
    then have w': "legal w'" "stored w' = stored (world s)" and full: "\<And>items. r = Inr items \<Longrightarrow> list_all full items"
      using next_law sane_legal [OF Suc.prems(2)] unfolding lawful_pager_def by blast+
    let ?t = "after s rq (error_of r) w'"
    have t: "sane legal stored ?t" using Suc.prems(2) w' by (simp add: sane_def world_sound_def)
    have rest: "calm (sane legal stored) (\<lambda>a _. A a)
        (case r of Inl err \<Rightarrow> errM err | Inr items \<Rightarrow>
           bindM (foldM body items acc) (pages_loop E rq next body k p')) ?t"
    proof (cases r)
      case (Inl err)
      then show ?thesis using t by (simp add: calm_errM)
    next
      case (Inr items)
      have "calm (sane legal stored) (\<lambda>a _. A a) (foldM body items acc) ?t"
        using full [OF Inr] by (intro calm_foldM t Suc.prems(1) body) (auto simp: list_all_iff)
      then show ?thesis using Suc.IH by (auto simp: Inr intro: calm_bindM)
    qed
    then show ?thesis using True call by (simp add: calm_def bindM_def page_call_def)
  qed
qed

section \<open>The operations on IAM\<close>

lemma laws_IAM:
  assumes "well_behaved E c legal stored"
  shows "lawful legal stored (sdk_AttachRolePolicy E rq)" "lawful legal stored (sdk_DetachRolePolicy E rq)"
    "lawful legal stored (sdk_CreatePolicy E rq)" "lawful legal stored (sdk_CreateRole E rq)"
    "lawful legal stored (sdk_DeletePolicy E rq)" "lawful legal stored (sdk_DeleteRole E rq)"
    "lawful legal stored (sdk_UpdateAssumeRolePolicy E rq)" "lawful legal stored (sdk_GetPolicy E rq)"
    "lawful legal stored (sdk_GetRole E rq)" "lawful legal stored (sdk_ListPolicyTags E rq)"
    "lawful legal stored (sdk_ListRoleTags E rq)"
    "lawful legal stored (sdk_LoadDefaultConfig E region)" "lawful legal stored (sdk_GetCallerIdentity E region)"
    "lawful_pager legal stored (\<lambda>x. ap_PolicyName x \<noteq> None) (sdk_NextAttachedPolicies E)"
    "lawful_pager legal stored (\<lambda>x. ir_RoleName x \<noteq> None) (sdk_NextRoles E)"
    "lawful_pager legal stored (\<lambda>x. ip_PolicyName x \<noteq> None) (sdk_NextPolicies E)"
    "lawful_pager legal stored (\<lambda>x. pr_RoleName x \<noteq> None) (sdk_NextEntities E)"
  using assms unfolding well_behaved_def lawful_iam_def by blast+

lemma answers:
  assumes "well_behaved E c legal stored" and "legal w"
  shows "sdk_GetRole E (GetRoleReq (Some n)) w = (Inr x, w') \<Longrightarrow> \<exists>q. x = Some q \<and> full_role n q"
    "sdk_GetPolicy E (GetPolicyReq (Some (policy_arn c n))) w = (Inr y, w') \<Longrightarrow> \<exists>q. y = Some q \<and> full_policy n q"
    "sdk_CreateRole E (CreateRoleReq (Some n) d desc (Some pathPrefix) tags) w = (Inr x, w') \<Longrightarrow>
       \<exists>q. x = Some q \<and> full_role n q"
    "sdk_CreatePolicy E (CreatePolicyReq (Some n) d desc (Some pathPrefix) tags) w = (Inr y, w') \<Longrightarrow>
       \<exists>q. y = Some q \<and> ip_PolicyName q = Some n"
    "sdk_ListRoleTags E rq w = (Inr ts, w') \<Longrightarrow> list_all full_tag ts"
    "sdk_ListPolicyTags E rq w = (Inr ts, w') \<Longrightarrow> list_all full_tag ts"
  using assms unfolding well_behaved_def full_answers_def by metis+

lemma calm_simple_ops:
  assumes W: "well_behaved E c legal stored" and s: "sane legal stored s"
  shows "calm (sane legal stored) (\<lambda>_ t. prov t = prov s) (AttachRolePolicy E c (Some n) (Some r)) s"
    "calm (sane legal stored) (\<lambda>_ t. prov t = prov s) (DetachRolePolicy E c (Some n) (Some r)) s"
    "calm (sane legal stored) (\<lambda>_ t. prov t = prov s) (DeletePolicy E c (Some n)) s"
    "calm (sane legal stored) (\<lambda>_ t. prov t = prov s) (DeleteRole E (Some r)) s"
    "calm (sane legal stored) (\<lambda>_ t. prov t = prov s) (UpdateRole E (Some r) d) s"
  using lawful_step [OF laws_IAM(1) [OF W]] lawful_step [OF laws_IAM(2) [OF W]] lawful_step [OF laws_IAM(5) [OF W]]
    lawful_step [OF laws_IAM(6) [OF W]] lawful_step [OF laws_IAM(7) [OF W]] s
  by (auto intro!: calm_wp simp: wp_simps Let_def sane_def tolerate_def split: prod.splits sum.splits)

lemma calm_GetRoleByName:
  assumes W: "well_behaved E c legal stored" and s: "sane legal stored s"
  shows "calm (sane legal stored) (\<lambda>(role, found) t. prov t = prov s \<and> (if found then \<exists>q. role = Some q \<and> full_role n q
      else \<exists>err w. legal w \<and> is_no_such_entity err \<and> sdk_GetRole E (GetRoleReq (Some n)) w = (Inl err, world t)))
    (GetRoleByName E (Some n)) s"
proof -
  obtain r w' where call: "sdk_GetRole E (GetRoleReq (Some n)) (world s) = (r, w')" by fastforce
  have "r = Inr x \<Longrightarrow> \<exists>q. x = Some q \<and> full_role n q" for x
    using answers [OF W sane_legal [OF s]] call by blast
  moreover have "world_sound legal stored w'"
    using lawful_step [OF laws_IAM(9) [OF W] call] s by (simp add: sane_def)
  ultimately show ?thesis
    using s sane_legal [OF s] call
    by (intro calm_wp, cases r) (auto simp: wp_simps Let_def sane_def intro!: exI [of _ "world s"])
qed

lemma calm_GetPolicyByName:
  assumes W: "well_behaved E c legal stored" and s: "sane legal stored s"
  shows "calm (sane legal stored) (\<lambda>(got, found) t. prov t = prov s \<and> (if found then \<exists>q. got = Some q \<and> full_policy n q
      else \<exists>err w. legal w \<and> is_no_such_entity err \<and>
        sdk_GetPolicy E (GetPolicyReq (Some (policy_arn c n))) w = (Inl err, world t)))
    (GetPolicyByName E c (Some n)) s"
proof -
  obtain r w' where call: "sdk_GetPolicy E (GetPolicyReq (Some (policy_arn c n))) (world s) = (r, w')" by fastforce
  have "r = Inr x \<Longrightarrow> \<exists>q. x = Some q \<and> full_policy n q" for x
    using answers [OF W sane_legal [OF s]] call by blast
  moreover have "world_sound legal stored w'"
    using lawful_step [OF laws_IAM(8) [OF W] call] s by (simp add: sane_def)
  ultimately show ?thesis
    using s sane_legal [OF s] call
    by (intro calm_wp, cases r) (auto simp: wp_simps Let_def sane_def intro!: exI [of _ "world s"])
qed

lemma calm_CreateRole:
  assumes W: "well_behaved E c legal stored" and s: "sane legal stored s"
    and absent: "legal w" "is_no_such_entity err" "sdk_GetRole E (GetRoleReq (Some n)) w = (Inl err, world s)"
  shows "calm (sane legal stored) (\<lambda>res t. prov t = prov s \<and> (\<exists>q. res = Some q \<and> full_role n q))
    (CreateRole E (Some n) d desc tags) s"
proof -
  obtain r w' where call: "sdk_CreateRole E (CreateRoleReq (Some n) d desc (Some pathPrefix) tags) (world s) = (r, w')"
    by fastforce
  have "r = Inr x \<Longrightarrow> \<exists>q. x = Some q \<and> full_role n q" for x
    using answers [OF W sane_legal [OF s]] call by blast
  moreover have "r = Inl err' \<Longrightarrow> \<not> is_already_exists err'" for err'
    using W absent call unfolding well_behaved_def no_create_race_def by blast
  moreover have "world_sound legal stored w'"
    using lawful_step [OF laws_IAM(4) [OF W] call] s by (simp add: sane_def)
  ultimately show ?thesis
    using s call by (intro calm_wp, cases r) (auto simp: wp_simps Let_def sane_def split: option.splits)
qed

lemma calm_CreatePolicy:
  assumes W: "well_behaved E c legal stored" and s: "sane legal stored s"
  shows "calm (sane legal stored) (\<lambda>res t. prov t = prov s \<and> (\<forall>q. res = Some q \<longrightarrow> ip_PolicyName q = Some n) \<and>
      ((\<exists>w err. legal w \<and> is_no_such_entity err \<and>
         sdk_GetPolicy E (GetPolicyReq (Some (policy_arn c n))) w = (Inl err, world s)) \<longrightarrow> res \<noteq> None))
    (CreatePolicy E (Some n) d desc tags) s"
proof -
  obtain r w' where call: "sdk_CreatePolicy E (CreatePolicyReq (Some n) d desc (Some pathPrefix) tags) (world s) = (r, w')"
    by fastforce
  have "r = Inr x \<Longrightarrow> \<exists>q. x = Some q \<and> ip_PolicyName q = Some n" for x
    using answers [OF W sane_legal [OF s]] call by blast
  moreover have "r = Inl err' \<Longrightarrow> \<not> is_already_exists err'"
    if "legal w" "is_no_such_entity err" "sdk_GetPolicy E (GetPolicyReq (Some (policy_arn c n))) w = (Inl err, world s)"
    for err' w err
    using W that call unfolding well_behaved_def no_create_race_def by blast
  moreover have "world_sound legal stored w'"
    using lawful_step [OF laws_IAM(3) [OF W] call] s by (simp add: sane_def)
  ultimately show ?thesis
    using s call by (intro calm_wp, cases r) (auto simp: wp_simps Let_def sane_def split: option.splits)
qed



text \<open>Frame rule: an operation that leaves memory alone.\<close>

lemma calm_same_prov:
  assumes "keeps same_prov m" and "calm I Q m s"
  shows "calm I (\<lambda>x t. Q x t \<and> prov t = prov s) m s"
  using assms unfolding calm_def keeps_def same_prov_def by auto

definition named_policies :: "iamPolicy list \<Rightarrow> bool" where
  "named_policies ps = list_all (\<lambda>p. ip_PolicyName p \<noteq> None) ps"

lemma calm_ListAttachedRolePolicies:
  assumes W: "well_behaved E c legal stored" and s: "sane legal stored s"
  shows "calm (sane legal stored) (\<lambda>ps _. named_policies ps) (ListAttachedRolePolicies E c (Some r)) s"
  unfolding ListAttachedRolePolicies_def Let_def
proof (rule calm_pages_loop [OF laws_IAM(14) [OF W] _ s])
  show "named_policies []" by (simp add: named_policies_def)
  fix x a and t :: "'a gstate"
  assume x: "ap_PolicyName x \<noteq> None" and a: "named_policies a" and t: "sane legal stored t"
  then obtain n where n: "ap_PolicyName x = Some n" by auto
  show "calm (sane legal stored) (\<lambda>a _. named_policies a)
      (bindM (GetPolicyByName E c (ap_PolicyName x)) (\<lambda>(policy, exists).
         if exists then bindM (deref policy) (\<lambda>p. returnM (a @ [p])) else returnM a)) t"
    unfolding n
    by (rule calm_bindM [OF calm_GetPolicyByName [OF W t]])
      (use a in \<open>auto simp: named_policies_def full_policy_def intro!: calm_returnM\<close>)
qed

lemma calm_ListEntitiesForPolicy:
  assumes W: "well_behaved E c legal stored" and s: "sane legal stored s"
  shows "calm (sane legal stored) (\<lambda>xs _. list_all (\<lambda>x. pr_RoleName x \<noteq> None) xs) (ListEntitiesForPolicy E (Some p)) s"
  unfolding ListEntitiesForPolicy_def Let_def deref_Some bindM_returnM
  by (rule calm_pages_loop [OF laws_IAM(17) [OF W] _ s]) (auto intro!: calm_returnM)

lemma calm_getSimilarTags:
  assumes "sane legal stored s" and "list_all full_tag ts" and "list_all full_tag rs"
  shows "calm (sane legal stored) (\<lambda>_ _. True) (getSimilarTags ts rs) s"
  using assms by (simp add: getSimilarTags_full calm_returnM)

lemma calm_tag_request:
  assumes "lawful legal stored f" and "sane legal stored s" and "list_all full_tag ts"
    and "\<And>rs w'. f (world s) = (Inr rs, w') \<Longrightarrow> list_all full_tag rs"
  shows "calm (sane legal stored) (\<lambda>_ _. True) (bindM (request_call rq f) (\<lambda>r. case r of
      Inl err \<Rightarrow> errM err | Inr rs \<Rightarrow> getSimilarTags ts rs)) s"
proof -
  obtain r w' where call: "f (world s) = (r, w')" by fastforce
  have "world_sound legal stored w'" using lawful_step [OF assms(1) call] assms(2) by (simp add: sane_def)
  then show ?thesis
    using assms(2,4) call
    by (cases r) (simp_all add: calm_def bindM_def request_call_def errM_def returnM_def sane_def
        getSimilarTags_full [OF assms(3)])
qed

lemma calm_ListRolesByTags:
  assumes W: "well_behaved E c legal stored" and s: "sane legal stored s" and ts: "list_all full_tag ts"
  shows "calm (sane legal stored) (\<lambda>xs _. list_all (\<lambda>x. ir_RoleName x \<noteq> None) xs) (ListRolesByTags E ts) s"
  unfolding ListRolesByTags_def Let_def
proof (rule calm_pages_loop [OF laws_IAM(15) [OF W] _ s])
  fix x :: iamRole and a :: "iamRole list" and t :: "'a gstate"
  assume x: "ir_RoleName x \<noteq> None" and a: "list_all (\<lambda>x. ir_RoleName x \<noteq> None) a" and t: "sane legal stored t"
  have "calm (sane legal stored) (\<lambda>_ _. True) (getSimilarRoleTags E ts x) t"
    unfolding getSimilarRoleTags_def Let_def
    by (rule calm_tag_request [OF laws_IAM(11) [OF W] t ts]) (rule answers(5) [OF W sane_legal [OF t]])
  then show "calm (sane legal stored) (\<lambda>a _. list_all (\<lambda>x. ir_RoleName x \<noteq> None) a)
      (bindM (getSimilarRoleTags E ts x) (\<lambda>similarTags.
         returnM (if compareTags E similarTags ts then a @ [x] else a))) t"
    by (rule calm_bindM) (use a x in \<open>auto intro!: calm_returnM\<close>)
qed simp

lemma calm_ListPoliciesByTags:
  assumes W: "well_behaved E c legal stored" and s: "sane legal stored s" and ts: "list_all full_tag ts"
  shows "calm (sane legal stored) (\<lambda>ps _. named_policies ps) (ListPoliciesByTags E ts) s"
  unfolding ListPoliciesByTags_def Let_def
proof (rule calm_pages_loop [OF laws_IAM(16) [OF W] _ s])
  show "named_policies []" by (simp add: named_policies_def)
  fix x :: iamPolicy and a :: "iamPolicy list" and t :: "'a gstate"
  assume x: "ip_PolicyName x \<noteq> None" and a: "named_policies a" and t: "sane legal stored t"
  have "calm (sane legal stored) (\<lambda>_ _. True) (getSimilarPolicyTags E ts x) t"
    unfolding getSimilarPolicyTags_def Let_def
    by (rule calm_tag_request [OF laws_IAM(10) [OF W] t ts]) (rule answers(6) [OF W sane_legal [OF t]])
  then show "calm (sane legal stored) (\<lambda>a _. named_policies a)
      (bindM (getSimilarPolicyTags E ts x) (\<lambda>similarTags.
         returnM (if compareTags E similarTags ts then a @ [x] else a))) t"
    by (rule calm_bindM) (use a x in \<open>auto simp: named_policies_def intro!: calm_returnM\<close>)
qed

section \<open>Writing the status\<close>

lemma store_sound:
  assumes "well_named name es" and "name e = Some n"
  shows "\<exists>num. find_named (map name es) (Some n) = Some num \<and> well_named name (upsert_at num e es)"
  using store_entry_law [OF assms] assms(2) by (auto simp: store_entry_def)

lemma drop_sound:
  assumes "well_named name es"
  shows "\<exists>num. find_named (map name es) (Some n) = Some num \<and> well_named name (remove_at num es)"
  using drop_entry_law [OF assms, of n] by (auto simp: drop_entry_def)

definition sound_result :: "crd_result \<Rightarrow> bool" where
  "sound_result res = (case res of
     NoResult \<Rightarrow> True
   | RoleResult r \<Rightarrow> (\<exists>q n. r = Some q \<and> full_role n q)
   | PolicyResult p \<Rightarrow> (\<exists>q. p = Some q \<and> ip_PolicyName q \<noteq> None))"

lemma calm_update_status:
  assumes "sane legal stored s" and "sound_status (f (Status (prov s)))"
  shows "calm (sane legal stored) (\<lambda>_ t. Spec (prov t) = Spec (prov s)) (update_status f) s"
  using assms by (auto simp: update_status_def sane_def sound_prov_def intro!: calm_modifyM)

lemma calm_update_role_status:
  assumes W: "well_behaved E c legal stored" and s: "sane legal stored s" and q: "full_role n q"
  shows "calm (sane legal stored) (\<lambda>_ t. Spec (prov t) = Spec (prov s))
    (update_role_status E owner region phase message (Some q)) s"
proof -
  let ?es = "st_Roles (Status (prov s))"
  have st: "well_named sr_Name ?es" "well_named sp_Name (st_Policies (Status (prov s)))"
    using s by (simp_all add: sane_def sound_prov_def sound_status_def)
  obtain arn date where q': "ir_RoleName q = Some n" "ir_Arn q = Some arn" "ir_CreateDate q = Some date"
    using q by (auto simp: full_role_def)
  let ?e = "role_status_entry (Some n) message phase arn owner region date (ir_RoleId q)"
  obtain i where i: "find_named (map sr_Name ?es) (Some n) = Some i" "well_named sr_Name (upsert_at i ?e ?es)"
    using store_sound [OF st(1), of ?e n] by (auto simp: role_status_entry_def)
  have j: "well_named sr_Name (remove_at i ?es)" using drop_sound [OF st(1), of n] i(1) by auto
  obtain r w' where call: "sdk_GetRole E (GetRoleReq (Some n)) (world s) = (r, w')" by fastforce
  have w': "world_sound legal stored w'" using lawful_step [OF laws_IAM(9) [OF W] call] s by (simp add: sane_def)
  have "\<exists>q. x = Some q \<and> ir_RoleName q = Some n" if "r = Inr x" for x
    using answers(1) [OF W sane_legal [OF s], of n x w'] call that by (auto simp: full_role_def)
  then show ?thesis
    using s w' call st i j
    by (intro calm_wp, cases r)
      (auto simp: update_role_status_def wp_simps q' Let_def sane_def sound_prov_def sound_status_def)
qed

lemma calm_update_policy_status:
  assumes W: "well_behaved E c legal stored" and s: "sane legal stored s" and n: "ip_PolicyName q = Some n"
  shows "calm (sane legal stored) (\<lambda>_ t. Spec (prov t) = Spec (prov s))
    (update_policy_status E c owner region phase message (Some q)) s"
proof -
  let ?es = "st_Policies (Status (prov s))"
  have st: "well_named sp_Name ?es" "well_named sr_Name (st_Roles (Status (prov s)))"
    using s by (simp_all add: sane_def sound_prov_def sound_status_def)
  have drop: "\<exists>i. find_named (map sp_Name ?es) (Some n) = Some i \<and> well_named sp_Name (remove_at i ?es)"
    by (rule drop_sound [OF st(1)])
  have store: "\<exists>i. find_named (map sp_Name ?es) (Some n) = Some i \<and>
      well_named sp_Name (upsert_at i (policy_status_entry p message phase arn owner region date) ?es)"
    if "ip_PolicyName p = Some n" for p arn date
    by (rule store_sound [OF st(1)]) (simp add: policy_status_entry_def that)
  obtain r w' where call: "sdk_GetPolicy E (GetPolicyReq (Some (policy_arn c n))) (world s) = (r, w')" by fastforce
  have w': "world_sound legal stored w'" using lawful_step [OF laws_IAM(8) [OF W] call] s by (simp add: sane_def)
  show ?thesis
  proof (cases r)
    case (Inl err)
    then show ?thesis
      using s w' call st drop n
      by (intro calm_wp)
        (auto simp: update_policy_status_def wp_simps Let_def sane_def sound_prov_def sound_status_def)
  next
    case (Inr x)
    then obtain p arn date where p: "x = Some p" "ip_PolicyName p = Some n" "ip_Arn p = Some arn"
      "ip_CreateDate p = Some date"
      using answers(2) [OF W sane_legal [OF s]] call by (fastforce simp: full_policy_def)
    then show ?thesis
      using Inr s w' call st store [OF p(2), of arn date] n
      by (intro calm_wp)
        (auto simp: update_policy_status_def wp_simps Let_def sane_def sound_prov_def sound_status_def)
  qed
qed

lemma same_names_sound:
  assumes "same_names st st'" and "sound_status st"
  shows "sound_status st'"
  using assms by (simp add: same_names_def sound_status_def well_named_def)

lemma calm_write_status:
  assumes W: "well_behaved E c legal stored" and s: "sane legal stored s"
  shows "calm (sane legal stored) (\<lambda>_ t. Spec (prov t) = Spec (prov s)) (write_status E) s"
proof -
  obtain r w' where call: "k8s_UpdateStatus E (prov s) (world s) = (r, w')" by fastforce
  have "api_documented E legal stored" using W by (simp add: well_behaved_def)
  then have w': "legal w'" "\<And>err. r = Inl err \<Longrightarrow> stored w' = stored (world s)"
    "\<And>p'. r = Inr p' \<Longrightarrow> stored w' = Some p' \<and> Spec p' = Spec (prov s) \<and> same_names (Status (prov s)) (Status p')"
    using call sane_legal [OF s] unfolding api_documented_def by (metis (no_types))+
  have sound: "sound_prov p'" if "r = Inr p'" for p'
    using s w'(3) [OF that] same_names_sound [of "Status (prov s)" "Status p'"] by (simp add: sane_def sound_prov_def)
  show ?thesis
  proof (cases r)
    case (Inl err)
    then show ?thesis using s call w'(1) w'(2) [OF Inl] by (intro calm_wp) (simp add: wp_simps sane_def world_sound_def)
  next
    case (Inr p')
    then show ?thesis
      using call w'(1) w'(3) [OF Inr] sound [OF Inr] by (intro calm_wp) (simp add: wp_simps sane_def world_sound_def)
  qed
qed

lemma calm_now:
  assumes W: "well_behaved E c legal stored" and s: "sane legal stored s"
  shows "calm (sane legal stored) (\<lambda>_ t. prov t = prov s) (now E) s"
proof -
  have "api_documented E legal stored" using W by (simp add: well_behaved_def)
  then have "legal (snd (clock_Now E (world s)))" "stored (snd (clock_Now E (world s))) = stored (world s)"
    using sane_legal [OF s] unfolding api_documented_def by (metis (no_types))+
  then show ?thesis
    using s by (auto intro!: calm_wp simp: wp_simps sane_def world_sound_def split: prod.splits)
qed

lemma calm_updateCRDStatus:
  assumes W: "well_behaved E c legal stored" and s: "sane legal stored s" and res: "sound_result result"
    and iam: "result = NoResult \<or> iam = Some c"
  shows "calm (sane legal stored) (\<lambda>_ t. Spec (prov t) = Spec (prov s))
    (updateCRDStatus E iam crdPhase phase message result) s"
  unfolding updateCRDStatus_def
proof (rule calm_bindM [where Q = "\<lambda>_ t. Spec (prov t) = Spec (prov s)"])
  show "calm (sane legal stored) (\<lambda>_ t. Spec (prov t) = Spec (prov s))
     (case result of NoResult \<Rightarrow> returnM ()
       | RoleResult r \<Rightarrow> bindM (deref iam) (\<lambda>c. update_role_status E (AccountID c) (Region c) phase message r)
       | PolicyResult r \<Rightarrow> bindM (deref iam) (\<lambda>c. update_policy_status E c (AccountID c) (Region c) phase message r)) s"
    using res iam s calm_update_role_status [OF W s] calm_update_policy_status [OF W s]
    by (auto simp: sound_result_def calm_returnM split: crd_result.splits)
  fix x and t :: "'a gstate"
  assume t: "sane legal stored t" "Spec (prov t) = Spec (prov s)"
  show "calm (sane legal stored) (\<lambda>_ t. Spec (prov t) = Spec (prov s))
      (bindM (now E) (\<lambda>w. bindM (update_status (\<lambda>st. st\<lparr>st_LastUpdatedTime := Some w, st_Phase := crdPhase,
         st_Message := message\<rparr>)) (\<lambda>_. write_status E))) t"
  proof (rule calm_bindM [OF calm_now [OF W t(1)]])
    fix w and u :: "'a gstate"
    assume u: "sane legal stored u" "prov u = prov t"
    let ?f = "\<lambda>st :: AWSIAMProvisionStatus. st\<lparr>st_LastUpdatedTime := Some w, st_Phase := crdPhase, st_Message := message\<rparr>"
    have "sound_status (?f (Status (prov u)))"
      using u(1) by (simp add: sane_def sound_prov_def sound_status_def)
    from calm_update_status [where f = ?f, OF u(1) this]
    show "calm (sane legal stored) (\<lambda>_ t. Spec (prov t) = Spec (prov s))
        (bindM (update_status ?f) (\<lambda>_. write_status E)) u"
    proof (rule calm_bindM)
      fix y and v :: "'a gstate"
      assume v: "sane legal stored v" "Spec (prov v) = Spec (prov u)"
      show "calm (sane legal stored) (\<lambda>_ t. Spec (prov t) = Spec (prov s)) (write_status E) v"
        by (rule calm_weaken [OF calm_write_status [OF W v(1)]]) (use t u v in simp)
    qed
  qed
qed

end
