(* ===== verification/MemoryLegal.thy ===== *)
theory MemoryLegal
  imports SoundOps MemoryIam
begin

text \<open>
  The in-memory environment meets what the statements about crashes ask of the services: in worlds
  where all tags are complete, its answers are full, its calls are lawful, and its API server keeps
  the object as documented.
\<close>

definition mem_legal :: "mem \<Rightarrow> bool" where
  "mem_legal w = (list_all (\<lambda>r. list_all full_tag (mr_tags r)) (m_roles w) \<and>
     list_all (\<lambda>p. list_all full_tag (mp_tags p)) (m_policies w))"

lemma mem_legal_tags:
  "mem_legal w \<Longrightarrow> find_role w n = Some r \<Longrightarrow> list_all full_tag (mr_tags r)"
  "mem_legal w \<Longrightarrow> find_policy w arn = Some p \<Longrightarrow> list_all full_tag (mp_tags p)"
  by (auto simp: mem_legal_def find_role_def find_policy_def find_Some_iff list_all_iff)

lemma mem_legal_put:
  assumes "mem_legal w" and "find_role w n = Some r"
  shows "mem_legal (put_role (r\<lparr>mr_attached := as\<rparr>) w)" "mem_legal (put_role (r\<lparr>mr_doc := d\<rparr>) w)"
  using assms(1) mem_legal_tags(1) [OF assms] by (auto simp: mem_legal_def put_role_def list_all_iff)

lemma mem_legal_filter:
  "mem_legal w \<Longrightarrow> mem_legal (w\<lparr>m_roles := filter P (m_roles w)\<rparr>)"
  "mem_legal w \<Longrightarrow> mem_legal (w\<lparr>m_policies := filter Q (m_policies w)\<rparr>)"
  by (auto simp: mem_legal_def list_all_iff)

lemma m_prov_put [simp]: "m_prov (put_role r w) = m_prov w"
  by (simp add: put_role_def)

lemma mem_lawful:
  "lawful mem_legal m_prov (mem_attach rq)" "lawful mem_legal m_prov (mem_detach rq)"
  "lawful mem_legal m_prov (mem_create_policy rq)" "lawful mem_legal m_prov (mem_create_role rq)"
  "lawful mem_legal m_prov (mem_delete_policy rq)" "lawful mem_legal m_prov (mem_delete_role rq)"
  "lawful mem_legal m_prov (mem_update_role rq)" "lawful mem_legal m_prov (mem_get_policy rq)"
  "lawful mem_legal m_prov (mem_get_role rq)" "lawful mem_legal m_prov (mem_policy_tags rq)"
  "lawful mem_legal m_prov (mem_role_tags rq)"
  unfolding lawful_def
  subgoal by (intro allI impI, rule mem_attach.cases [of "(rq, w)" for w])
      (auto intro: mem_legal_put split: option.splits)
  subgoal by (intro allI impI, rule mem_detach.cases [of "(rq, w)" for w])
      (auto intro: mem_legal_put split: option.splits)
  subgoal by (intro allI impI, rule mem_create_policy.cases [of "(rq, w)" for w])
      (auto simp: Let_def mem_legal_def)
  subgoal by (intro allI impI, rule mem_create_role.cases [of "(rq, w)" for w])
      (auto simp: Let_def mem_legal_def)
  subgoal by (intro allI impI, rule mem_delete_policy.cases [of "(rq, w)" for w])
      (auto simp: mem_legal_filter)
  subgoal by (intro allI impI, rule mem_delete_role.cases [of "(rq, w)" for w])
      (auto simp: mem_legal_filter split: option.splits)
  subgoal by (intro allI impI, rule mem_update_role.cases [of "(rq, w)" for w])
      (auto intro: mem_legal_put split: option.splits)
  subgoal by (intro allI impI, rule mem_get_policy.cases [of "(rq, w)" for w]) (auto split: option.splits)
  subgoal by (intro allI impI, rule mem_get_role.cases [of "(rq, w)" for w]) (auto split: option.splits)
  subgoal by (intro allI impI, rule mem_policy_tags.cases [of "(rq, w)" for w]) (auto split: option.splits)
  subgoal by (intro allI impI, rule mem_role_tags.cases [of "(rq, w)" for w]) (auto split: option.splits)
  done

lemma mem_lawful_pagers:
  "lawful_pager mem_legal m_prov (\<lambda>x. ap_PolicyName x \<noteq> None) mem_attached_page"
  "lawful_pager mem_legal m_prov (\<lambda>x. ir_RoleName x \<noteq> None) mem_roles_page"
  "lawful_pager mem_legal m_prov (\<lambda>x. ip_PolicyName x \<noteq> None) mem_policies_page"
  "lawful_pager mem_legal m_prov (\<lambda>x. pr_RoleName x \<noteq> None) mem_entities_page"
  unfolding lawful_pager_def
  subgoal by (auto simp: list_all_iff split: option.splits elim!: mem_attached_page.elims)
  subgoal by (auto simp: mem_roles_page_def sdk_role_def list_all_iff)
  subgoal by (auto simp: mem_policies_page_def sdk_policy_def list_all_iff)
  subgoal by (auto simp: list_all_iff elim!: mem_entities_page.elims)
  done

lemma policy_arn_region: "policy_arn \<lparr>AccountID = AccountID mem_client, Region = region\<rparr> n = policy_arn mem_client n"
  by (simp add: policy_arn_def)

lemma mem_tag_answers:
  "mem_legal w \<Longrightarrow> mem_role_tags rq w = (Inr x, w') \<Longrightarrow> list_all full_tag x"
  "mem_legal w \<Longrightarrow> mem_policy_tags rq w = (Inr x, w') \<Longrightarrow> list_all full_tag x"
  using mem_legal_tags [of w]
  by (fastforce simp: list_all_iff dest!: in_set_takeD split: option.splits
      elim!: mem_role_tags.elims mem_policy_tags.elims)+

lemma mem_create_answers:
  "mem_create_role (CreateRoleReq (Some n) d desc path tags) w = (Inr x, w') \<Longrightarrow> \<exists>q. x = Some q \<and> full_role n q"
  "mem_create_policy (CreatePolicyReq (Some n) d desc path tags) w = (Inr y, w') \<Longrightarrow> \<exists>q. y = Some q \<and> ip_PolicyName q = Some n"
  by (auto simp: full_role_def sdk_role_def sdk_policy_def Let_def split: if_splits
      elim!: mem_create_role.elims mem_create_policy.elims)

lemma mem_get_answers:
  "mem_get_role (GetRoleReq (Some n)) w = (Inr x, w') \<Longrightarrow> \<exists>q. x = Some q \<and> full_role n q"
  "mem_legal w \<Longrightarrow> mem_get_policy (GetPolicyReq (Some (policy_arn mem_client n))) w = (Inr y, w') \<Longrightarrow>
     \<exists>q. y = Some q \<and> full_policy n q"
proof -
  show "mem_get_role (GetRoleReq (Some n)) w = (Inr x, w') \<Longrightarrow> \<exists>q. x = Some q \<and> full_role n q"
    by (auto simp: full_role_def sdk_role_def split: option.splits dest: find_role_SomeD)
  assume legal: "mem_legal w" and "mem_get_policy (GetPolicyReq (Some (policy_arn mem_client n))) w = (Inr y, w')"
  then obtain p where p: "find_policy w (policy_arn mem_client n) = Some p" "y = Some (sdk_policy p)"
    by (auto split: option.splits)
  then show "\<exists>q. y = Some q \<and> full_policy n q"
    using find_policy_SomeD [OF p(1)] mem_legal_tags(2) [OF legal p(1)]
    by (simp add: full_policy_def sdk_policy_def mp_arn_def policy_arn_inj)
qed

lemma mem_full_answers: "full_answers mem_env \<lparr>AccountID = AccountID mem_client, Region = region\<rparr> mem_legal"
  unfolding full_answers_def policy_arn_region mem_env_simps
  apply (intro allI impI conjI)
       apply (erule mem_get_answers(1))
      apply (erule (1) mem_get_answers(2))
     apply (erule mem_create_answers(1))
    apply (erule mem_create_answers(2))
   apply (erule (1) mem_tag_answers(1))
  apply (erule (1) mem_tag_answers(2))
  done

lemma mem_no_race: "no_create_race mem_env \<lparr>AccountID = AccountID mem_client, Region = region\<rparr> mem_legal"
proof -
  have role: "\<not> is_already_exists err'"
    if "mem_get_role (GetRoleReq (Some n)) w = (Inl err, w')" "is_no_such_entity err"
      "mem_create_role (CreateRoleReq (Some n) d desc path tags) w' = (Inl err', w'')" for w w' w'' n err err' d desc path tags
    using that by (auto simp: bad_request_def is_already_exists_def Let_def split: option.splits if_splits
        elim!: mem_create_role.elims)
  have policy: "\<not> is_already_exists err'"
    if "mem_get_policy (GetPolicyReq (Some (policy_arn mem_client n))) w = (Inl err, w')"
      "mem_create_policy (CreatePolicyReq (Some n) d desc path tags) w' = (Inl err', w'')" for w w' w'' n err err' d desc path tags
    using that by (auto simp: bad_request_def is_already_exists_def Let_def find_policy_def find_None_iff mp_arn_def
        policy_arn_inj split: option.splits if_splits elim!: mem_create_policy.elims)
  show ?thesis
    unfolding no_create_race_def policy_arn_region mem_env_simps using role policy by blast
qed

lemma mem_lawful_iam: "lawful_iam mem_env mem_legal m_prov"
  unfolding lawful_iam_def mem_env_simps
  by (intro conjI allI mem_lawful mem_lawful_pagers) (simp_all add: lawful_def)

lemma mem_api: "api_documented mem_env mem_legal m_prov"
  unfolding api_documented_def mem_env_simps
  by (auto simp: mem_get_prov_def mem_get_cp_def mem_update_def mem_update_status_def meta_finalizers_def
      mem_legal_def same_names_def Let_def split: option.splits if_splits)

lemma mem_served: "well_served mem_env (AccountID mem_client) mem_legal m_prov"
  by (simp add: well_served_def well_behaved_def mem_full_answers mem_no_race mem_lawful_iam mem_api) (simp add: mem_env_simps)

end
