(* ===== verification/Robustness.thy ===== *)
theory Robustness
  imports MemoryLegal
begin

text \<open>
  A reconciliation does not crash, and keeps the custom resource sound: the handlers of the
  reconciliation manager and the reconciler, composed from the operations.
\<close>

section \<open>Deletion\<close>

text \<open>The rules for a call that is followed by more.\<close>

lemmas calm_then = calm_bindM [OF calm_simple_ops(1)] calm_bindM [OF calm_simple_ops(2)]
  calm_bindM [OF calm_simple_ops(3)] calm_bindM [OF calm_simple_ops(4)] calm_bindM [OF calm_simple_ops(5)]
  calm_bindM [OF calm_GetRoleByName] calm_bindM [OF calm_GetPolicyByName]
  calm_bindM [OF calm_ListAttachedRolePolicies] calm_bindM [OF calm_ListEntitiesForPolicy]
  calm_bindM [OF calm_ListRolesByTags] calm_bindM [OF calm_ListPoliciesByTags]
  calm_bindM [OF calm_updateCRDStatus]

lemmas safe_forM = calm_forM [where I = "sane legal stored" for legal stored]

lemmas safe_foldM = calm_foldM [where I = "sane legal stored" for legal stored]

lemmas safe_getM = calm_getM [where I = "sane legal stored" for legal stored]

lemma no_None: "None \<notin> set xs \<Longrightarrow> list_all (\<lambda>x. id x \<noteq> None) xs"
  unfolding list_all_iff id_apply by metis

lemmas calm_last = calm_simple_ops [THEN calm_weaken]

lemma sane_spec: "sane legal stored s \<Longrightarrow> sound_spec (Spec (prov s))"
  by (simp add: sane_def sound_prov_def)

lemma calm_delete_role_resources:
  assumes W: "well_behaved E c legal stored" and s: "sane legal stored s" and r: "sound_role (role_Spec role)"
  shows "calm (sane legal stored) (\<lambda>_ _. True) (delete_role_resources E c role) s"
proof -
  obtain n where n: "rs_Name (role_Spec role) = Some n" using r by (auto simp: sound_role_def)
  have batch: "calm (sane legal stored) (\<lambda>_ _. True) (BatchAttachDetachRolePolicies E c ButchDetachProc ps (Some n)) t"
    if "named_policies ps" "sane legal stored t" for ps t
    unfolding BatchAttachDetachRolePolicies_def
    by (rule safe_forM [OF that(2)])
      (use that(1) in \<open>auto simp: named_policies_def list_all_iff ButchAttachProc_def ButchDetachProc_def
         intro!: calm_last(2) [OF W]\<close>)
  have delete: "calm (sane legal stored) (\<lambda>_ _. True) (BatchDeletePolicies E c ps) t"
    if "named_policies ps" "sane legal stored t" for ps t
    unfolding BatchDeletePolicies_def
    by (rule safe_forM [OF that(2)])
      (use that(1) in \<open>auto simp: named_policies_def list_all_iff intro!: calm_last(3) [OF W]\<close>)
  show ?thesis
    unfolding delete_role_resources_def Let_def n
    by (auto intro!: calm_then [OF W] s calm_bindM [OF batch] calm_bindM [OF delete] calm_last(4) [OF W] calm_returnM)
qed

lemma calm_deleteIAMResources:
  assumes W: "well_behaved E c legal stored" and s: "sane legal stored s"
  shows "calm (sane legal stored) (\<lambda>_ _. True) (deleteIAMResources E c) s"
  unfolding deleteIAMResources_def
proof (rule calm_bindM [OF safe_getM [OF s, where Q = "\<lambda>m _. \<forall>k e. (k, e) \<in> set m \<longrightarrow> sound_role (role_Spec e)"]])
  show "\<forall>k e. (k, e) \<in> set (spec_Roles (Spec (prov s))) \<longrightarrow> sound_role (role_Spec e)"
    using sane_spec [OF s] by (fastforce simp: sound_spec_def list_all_iff)
  fix m :: "(string \<times> AWSIAMProvisionRole) list" and t :: "'a gstate"
  assume t: "sane legal stored t" and m: "\<forall>k e. (k, e) \<in> set m \<longrightarrow> sound_role (role_Spec e)"
  show "calm (sane legal stored) (\<lambda>_ _. True)
      (bindM (range_map m) (\<lambda>roles. forM roles (\<lambda>(_, role). delete_role_resources E c role))) t"
    by (rule calm_bindM [OF calm_range_map [OF t]])
      (use m in \<open>auto intro!: safe_forM calm_delete_role_resources [OF W]\<close>)
qed

section \<open>Garbage collection\<close>

lemma remove_names_all:
  assumes "list_all (\<lambda>x. f x \<noteq> None) xs"
  shows "\<exists>ns. remove_names f xs m = returnM ns"
  using assms by (induction xs arbitrary: m) (auto simp: remove_names_def)

lemma calm_attached_policies:
  assumes W: "well_behaved E c legal stored" and s: "sane legal stored s" and ps: "named_policies ps"
  shows "calm (sane legal stored) (\<lambda>_ _. True) (attached_policies E ps roleName) s"
  unfolding attached_policies_def
proof (rule safe_foldM [OF s])
  fix p acc and t :: "'a gstate"
  assume p: "p \<in> set ps" and t: "sane legal stored t"
  obtain n where n: "ip_PolicyName p = Some n" using ps p by (auto simp: named_policies_def list_all_iff)
  show "calm (sane legal stored) (\<lambda>_ _. True) (bindM (ListEntitiesForPolicy E (Some p)) (\<lambda>entities.
       foldM (\<lambda>entity acc'.
         bindM (deref (pr_RoleName entity)) (\<lambda>entityName.
         if roleName = entityName then
           bindM (deref (ip_PolicyName p)) (\<lambda>policyName. returnM (set_put policyName acc'))
         else returnM acc')) entities acc)) t"
  proof (rule calm_bindM [OF calm_ListEntitiesForPolicy [OF W t]])
    fix xs and u :: "'a gstate"
    assume u: "sane legal stored u" and xs: "list_all (\<lambda>x. pr_RoleName x \<noteq> None) xs"
    show "calm (sane legal stored) (\<lambda>_ _. True) (foldM (\<lambda>entity acc'.
         bindM (deref (pr_RoleName entity)) (\<lambda>entityName.
         if roleName = entityName then
           bindM (deref (ip_PolicyName p)) (\<lambda>policyName. returnM (set_put policyName acc'))
         else returnM acc')) xs acc) u"
      by (rule safe_foldM [OF u]) (use xs in \<open>auto simp: list_all_iff n intro!: calm_returnM\<close>)
  qed
qed simp

lemma sound_result_simps [simp]:
  "sound_result NoResult"
  "sound_result (RoleResult (Some q)) = (\<exists>n. full_role n q)"
  "sound_result (PolicyResult (Some p)) = (ip_PolicyName p \<noteq> None)"
  by (simp_all add: sound_result_def)

lemma calm_sync_role_attachments:
  assumes W: "well_behaved E c legal stored" and s: "sane legal stored s" and ps: "named_policies ps"
    and r: "sound_role (role_Spec role)"
  shows "calm (sane legal stored) (\<lambda>_ _. True) (sync_role_attachments E c ps role acc) s"
proof -
  obtain n where n: "rs_Name (role_Spec role) = Some n" using r by (auto simp: sound_role_def)
  have "list_all (\<lambda>x. id x \<noteq> None) (rs_Policies (role_Spec role))" using r by (intro no_None) (simp add: sound_role_def)
  note remove = remove_names_all [OF this]
  have detach: "calm (sane legal stored) (\<lambda>_ _. True) (forM names (\<lambda>policyName.
       bindM (DetachRolePolicy E c (Some policyName) (Some n)) (\<lambda>_.
       updateCRDStatus E (Some c) provisionPhase detachPhase (detach_message policyName n)
         (PolicyResult (Some (policy_named policyName)))))) t" if "sane legal stored t" for names t
    by (rule safe_forM [OF that])
      (auto intro!: calm_then [OF W] calm_weaken [OF calm_updateCRDStatus [OF W]] simp: policy_named_def)
  show ?thesis
    unfolding sync_role_attachments_def n deref_Some bindM_returnM
  proof (rule calm_bindM [OF calm_attached_policies [OF W s ps]])
    fix attached and t :: "'a gstate"
    assume t: "sane legal stored t"
    obtain names where names: "remove_names id (rs_Policies (role_Spec role)) attached = (returnM names :: ('a, string list) op)"
      using remove by blast
    show "calm (sane legal stored) (\<lambda>_ _. True)
      (bindM (remove_names id (rs_Policies (role_Spec role)) attached) (\<lambda>detachRolePolicies.
       bindM (range_map detachRolePolicies) (\<lambda>names.
       bindM (forM names (\<lambda>policyName.
         bindM (DetachRolePolicy E c (Some policyName) (Some n)) (\<lambda>_.
         updateCRDStatus E (Some c) provisionPhase detachPhase (detach_message policyName n)
           (PolicyResult (Some (policy_named policyName)))))) (\<lambda>_.
       returnM (set_delete n acc))))) t"
      unfolding names bindM_returnM
      by (rule calm_bindM [OF calm_range_map [OF t]]) (auto intro!: calm_bindM [OF detach] calm_returnM)
  qed
qed


lemma calm_delete_stale_role:
  assumes W: "well_behaved E c legal stored" and s: "sane legal stored s"
  shows "calm (sane legal stored) (\<lambda>_ _. True) (delete_stale_role E c n) s"
proof -
  let ?report = "\<lambda>policy. bindM (DetachRolePolicy E c (ip_PolicyName policy) (Some n)) (\<lambda>_.
    bindM (deref (ip_PolicyName policy)) (\<lambda>policyName.
    updateCRDStatus E (Some c) provisionPhase detachPhase (detach_message policyName n) (PolicyResult (Some policy))))"
  have detach: "calm (sane legal stored) (\<lambda>_ _. True) (forM ps ?report) t"
    if ps: "named_policies ps" and t: "sane legal stored t" for ps t
  proof (rule safe_forM [OF t])
    fix p and u :: "'a gstate"
    assume p: "p \<in> set ps" and u: "sane legal stored u"
    obtain m where "ip_PolicyName p = Some m" using ps p by (auto simp: named_policies_def list_all_iff)
    then show "calm (sane legal stored) (\<lambda>_ _. True) (?report p) u"
      by (auto intro!: calm_then [OF W] u calm_weaken [OF calm_updateCRDStatus [OF W]])
  qed
  show ?thesis
    unfolding delete_stale_role_def
  proof (rule calm_bindM [OF calm_GetRoleByName [OF W s]], clarsimp simp: calm_returnM)
    fix q and t :: "'a gstate"
    assume t: "sane legal stored t" and q: "full_role n q"
    then have q': "ir_RoleName q = Some n" by (simp add: full_role_def)
    show "calm (sane legal stored) (\<lambda>_ _. True) (bindM (ListAttachedRolePolicies E c (Some n)) (\<lambda>policies.
         bindM (forM policies ?report) (\<lambda>_. bindM (DeleteRole E (Some n)) (\<lambda>_.
         bindM (deref (ir_RoleName q)) (\<lambda>roleName.
         updateCRDStatus E (Some c) provisionPhase deletePhase
           (CHR ''R'' # CHR ''o'' # CHR ''l'' # CHR ''e'' # CHR '' '' # roleName @ '' was deleted.'')
           (RoleResult (Some q))))))) t"
      using q by (auto simp: q' intro!: calm_then [OF W] t calm_bindM [OF detach]
          calm_weaken [OF calm_updateCRDStatus [OF W]])
  qed
qed

lemma calm_delete_policy_and_report:
  assumes W: "well_behaved E c legal stored" and s: "sane legal stored s" and p: "ip_PolicyName p = Some n"
  shows "calm (sane legal stored) (\<lambda>_ _. True) (delete_policy_and_report E c p) s"
  unfolding delete_policy_and_report_def p deref_Some bindM_returnM
  by (auto simp: p intro!: calm_then [OF W] s calm_weaken [OF calm_updateCRDStatus [OF W]])

lemma calm_delete_stale_policy:
  assumes W: "well_behaved E c legal stored" and s: "sane legal stored s"
  shows "calm (sane legal stored) (\<lambda>_ _. True) (delete_stale_policy E c n) s"
  unfolding delete_stale_policy_def
proof (rule calm_bindM [OF calm_GetPolicyByName [OF W s]], clarsimp simp: calm_returnM)
  fix q and t :: "'a gstate"
  assume t: "sane legal stored t" and "full_policy n q"
  then have q: "ip_PolicyName q = Some n" by (simp add: full_policy_def)
  have loop: "calm (sane legal stored) (\<lambda>_ _. True) (forM xs (\<lambda>role. bindM (deref (pr_RoleName role)) (\<lambda>roleName.
       if roleName \<noteq> [] then bindM (DetachRolePolicy E c (Some n) (pr_RoleName role)) (\<lambda>_.
         delete_policy_and_report E c q) else returnM ()))) u"
    if "list_all (\<lambda>x. pr_RoleName x \<noteq> None) xs" "sane legal stored u" for xs u
    by (rule safe_forM [OF that(2)])
      (use that(1) in \<open>auto simp: list_all_iff intro!: calm_then [OF W] calm_delete_policy_and_report [OF W _ q] calm_returnM\<close>)
  have delete: "calm (sane legal stored) (\<lambda>_ _. True) (if b then delete_policy_and_report E c q else returnM ()) u"
    if "sane legal stored u" for b u
    using that by (simp add: calm_delete_policy_and_report [OF W _ q] calm_returnM)
  show "calm (sane legal stored) (\<lambda>_ _. True) (bindM (ListEntitiesForPolicy E (Some q)) (\<lambda>entities.
     bindM (if entities = [] then delete_policy_and_report E c q else returnM ()) (\<lambda>_.
     forM entities (\<lambda>role. bindM (deref (pr_RoleName role)) (\<lambda>roleName.
       if roleName \<noteq> [] then bindM (DetachRolePolicy E c (ip_PolicyName q) (pr_RoleName role)) (\<lambda>_.
         delete_policy_and_report E c q) else returnM ()))))) t"
    unfolding q
    by (auto intro!: calm_then [OF W] t loop calm_bindM [OF delete])
qed

lemma calm_remove_names:
  assumes "sane legal stored s" and "list_all (\<lambda>x. f x \<noteq> None) xs"
  shows "calm (sane legal stored) (\<lambda>_ _. True) (remove_names f xs m :: ('w, string list) op) s"
proof -
  obtain ns where "remove_names f xs m = (returnM ns :: ('w, string list) op)"
    using remove_names_all [OF assms(2)] by blast
  then show ?thesis using assms(1) by (simp add: calm_returnM)
qed

lemma calm_collect_names:
  "sane legal stored s \<Longrightarrow> list_all (\<lambda>x. f x \<noteq> None) xs \<Longrightarrow>
   calm (sane legal stored) (\<lambda>_ _. True) (collect_names f xs) s"
  by (simp add: collect_names_all calm_returnM)

text \<open>The entries of the specification, in whatever order they are visited.\<close>

lemma calm_range_roles:
  assumes s: "sane legal stored s"
    and body: "\<And>es t. sane legal stored t \<Longrightarrow> (\<forall>k e. (k, e) \<in> set es \<longrightarrow> sound_role (role_Spec e)) \<Longrightarrow>
      calm (sane legal stored) Q (f es) t"
  shows "calm (sane legal stored) Q (bindM (getM (\<lambda>s. spec_Roles (Spec (prov s)))) (\<lambda>m. bindM (range_map m) f)) s"
proof (rule calm_bindM [OF safe_getM [OF s, where Q = "\<lambda>m _. \<forall>k e. (k, e) \<in> set m \<longrightarrow> sound_role (role_Spec e)"]])
  show "\<forall>k e. (k, e) \<in> set (spec_Roles (Spec (prov s))) \<longrightarrow> sound_role (role_Spec e)"
    using sane_spec [OF s] by (fastforce simp: sound_spec_def list_all_iff)
  fix m :: "(string \<times> AWSIAMProvisionRole) list" and t :: "'a gstate"
  assume "sane legal stored t" and m: "\<forall>k e. (k, e) \<in> set m \<longrightarrow> sound_role (role_Spec e)"
  then show "calm (sane legal stored) Q (bindM (range_map m) f) t"
    by (auto intro!: calm_bindM [OF calm_range_map] body)
qed

lemma calm_range_policies:
  assumes s: "sane legal stored s"
    and body: "\<And>es t. sane legal stored t \<Longrightarrow> (\<forall>k e. (k, e) \<in> set es \<longrightarrow> sound_policy (policy_Spec e)) \<Longrightarrow>
      calm (sane legal stored) Q (f es) t"
  shows "calm (sane legal stored) Q (bindM (getM (\<lambda>s. spec_Policies (Spec (prov s)))) (\<lambda>m. bindM (range_map m) f)) s"
proof (rule calm_bindM [OF safe_getM [OF s, where Q = "\<lambda>m _. \<forall>k e. (k, e) \<in> set m \<longrightarrow> sound_policy (policy_Spec e)"]])
  show "\<forall>k e. (k, e) \<in> set (spec_Policies (Spec (prov s))) \<longrightarrow> sound_policy (policy_Spec e)"
    using sane_spec [OF s] by (fastforce simp: sound_spec_def list_all_iff)
  fix m :: "(string \<times> AWSIAMProvisionPolicy) list" and t :: "'a gstate"
  assume "sane legal stored t" and m: "\<forall>k e. (k, e) \<in> set m \<longrightarrow> sound_policy (policy_Spec e)"
  then show "calm (sane legal stored) Q (bindM (range_map m) f) t"
    by (auto intro!: calm_bindM [OF calm_range_map] body)
qed

lemma calm_syncAWSIAMResources:
  assumes W: "well_behaved E c legal stored" and s: "sane legal stored s"
  shows "calm (sane legal stored) (\<lambda>_ _. True) (syncAWSIAMResources E c) s"
proof -
  have tags: "list_all full_tag (TagsDefine a b [])" for a b by simp
  have roles: "calm (sane legal stored) (\<lambda>_ _. True) (sync_spec_roles E c ps names) t"
    if ps: "named_policies ps" and t: "sane legal stored t" for ps names t
    unfolding sync_spec_roles_def
    by (rule calm_range_roles [OF t], rule calm_weaken [OF safe_foldM [where A = "\<lambda>_. True"]])
      (auto intro!: calm_sync_role_attachments [OF W _ ps])
  have unlisted: "calm (sane legal stored) (\<lambda>_ _. True) (unlisted_policies ps) t"
    if ps: "named_policies ps" and t: "sane legal stored t" for ps t
    unfolding unlisted_policies_def
    by (rule calm_bindM [OF calm_collect_names [OF t]])
      (use ps in \<open>auto simp: named_policies_def sound_policy_def list_all_iff intro!: calm_range_policies calm_remove_names\<close>)
  show ?thesis
    unfolding syncAWSIAMResources_def Let_def
    by (rule calm_bindM [OF safe_getM [OF s, where Q = "\<lambda>_ _. True"]])
      (auto simp: tags intro!: calm_then [OF W] calm_bindM [OF calm_collect_names] calm_bindM [OF roles]
        calm_bindM [OF calm_range_map] calm_bindM [OF safe_forM] calm_bindM [OF unlisted] safe_forM
        calm_delete_stale_role [OF W] calm_delete_stale_policy [OF W])
qed


section \<open>Policies of a role\<close>

lemma calm_get_then: "calm I Q (bindM (getM f) g) s = calm I Q (g (f s)) s"
  by (simp add: calm_def bindM_def getM_def)

lemma no_None_map: "None \<notin> set xs \<Longrightarrow> \<exists>ys. xs = map Some ys"
proof (induction xs)
  case Nil
  then show ?case by simp
next
  case (Cons x xs)
  then obtain y ys where "x = Some y" "xs = map Some ys" by (cases x) auto
  then show ?case by (intro exI [of _ "y # ys"]) simp
qed

lemma checksum_differs_full:
  "full_tag tag \<Longrightarrow> \<exists>b. checksum_differs (NewChecksumTag E d) tag = returnM b"
  by (auto simp: full_tag_def checksum_differs_def NewChecksumTag_def)

lemma calm_create_and_attach:
  assumes W: "well_behaved E c legal stored" and s: "sane legal stored s"
    and names: "rs_Name role = Some r" "ps_Name policy = Some n"
    and absent: "legal w" "is_no_such_entity err" "sdk_GetPolicy E (GetPolicyReq (Some (policy_arn c n))) w = (Inl err, world s)"
  shows "calm (sane legal stored) (\<lambda>_ _. True) (create_and_attach E c role policy description tags) s"
  unfolding create_and_attach_def names deref_Some bindM_returnM
proof (rule calm_bindM [OF calm_CreatePolicy [OF W s]])
  fix res :: "iamPolicy option" and t :: "'a gstate"
  assume t: "sane legal stored t" and "prov t = prov s \<and> (\<forall>q. res = Some q \<longrightarrow> ip_PolicyName q = Some n) \<and>
      ((\<exists>w err. legal w \<and> is_no_such_entity err \<and>
         sdk_GetPolicy E (GetPolicyReq (Some (policy_arn c n))) w = (Inl err, world s)) \<longrightarrow> res \<noteq> None)"
  then obtain q where "res = Some q" "ip_PolicyName q = Some n" using absent by blast
  then show "calm (sane legal stored) (\<lambda>_ _. True) (bindM (AttachRolePolicy E c (Some n) (Some r)) (\<lambda>_.
      updateCRDStatus E (Some c) provisionPhase (createPhase @ attachPhase)
        (''Policy '' @ n @ '' was created and attached to role '' @ r @ ''.'') (PolicyResult res))) t"
    by (auto intro!: calm_then [OF W] t calm_weaken [OF calm_updateCRDStatus [OF W]])
qed

lemma calm_replace_policy:
  assumes W: "well_behaved E c legal stored" and s: "sane legal stored s"
    and names: "rs_Name role = Some r" "ps_Name policy = Some n" "ip_PolicyName q = Some n"
  shows "calm (sane legal stored) (\<lambda>_ _. True) (replace_policy E c role policy q description tags) s"
  unfolding replace_policy_def names deref_Some bindM_returnM
  by (auto simp: names intro!: calm_then [OF W] s calm_bindM [OF calm_CreatePolicy [OF W]]
      calm_weaken [OF calm_updateCRDStatus [OF W]])

lemma calm_attach_if_missing:
  assumes W: "well_behaved E c legal stored" and s: "sane legal stored s"
    and names: "rs_Name role = Some r" "ps_Name policy = Some n" "ip_PolicyName q = Some n"
  shows "calm (sane legal stored) (\<lambda>_ _. True) (attach_if_missing E c role policy rp q) s"
  unfolding attach_if_missing_def names deref_Some bindM_returnM
  by (auto simp: names named_policies_def intro!: calm_then [OF W] s calm_bindM [OF calm_collect_names] calm_returnM
      calm_weaken [OF calm_updateCRDStatus [OF W]])

lemma calm_sync_listed_policy:
  assumes W: "well_behaved E c legal stored" and s: "sane legal stored s"
    and role: "rs_Name role = Some r" and policy: "sound_policy policy"
  shows "calm (sane legal stored) (\<lambda>_ _. True) (sync_listed_policy E c role policy rp) s"
proof -
  obtain n where n: "ps_Name policy = Some n" using policy by (auto simp: sound_policy_def)
  obtain tags where tags: "ps_Tags policy = map Some tags"
    using policy no_None_map by (auto simp: sound_policy_def)
  let ?ct = "NewChecksumTag E (ps_PolicyDocument policy)"
  have loop: "calm (sane legal stored) (\<lambda>_ _. True) (forM ts (\<lambda>tag. bindM (checksum_differs ?ct tag) (\<lambda>differs.
      if differs then replace_policy E c role policy q d ts' else returnM ()))) t"
    if q: "ip_PolicyName q = Some n" and ts: "list_all full_tag ts" and t: "sane legal stored t" for ts ts' d q t
  proof (rule safe_forM [OF t])
    fix tag and u :: "'a gstate"
    assume "tag \<in> set ts" and u: "sane legal stored u"
    then have "full_tag tag" using ts by (simp add: list_all_iff)
    then obtain b where "checksum_differs ?ct tag = (returnM b :: ('a, bool) op)"
      using checksum_differs_full by blast
    then show "calm (sane legal stored) (\<lambda>_ _. True) (bindM (checksum_differs ?ct tag) (\<lambda>differs.
      if differs then replace_policy E c role policy q d ts' else returnM ())) u"
      using u by (simp add: calm_replace_policy [OF W _ role n q] calm_returnM)
  qed
  let ?ts = "\<lambda>p. TagsDefine (spec_EKSClusterName (Spec p)) (om_Namespace (ObjectMeta p))
    (map (\<lambda>t. \<lparr>it_Key = tag_Key t, it_Value = tag_Value t\<rparr>) tags @ [?ct])"
  let ?d = "\<lambda>p. PolicyDescriptionPrefix @ spec_EKSClusterName (Spec p) @ ''. '' @ IAMDescription"
  have cont: "calm (sane legal stored) (\<lambda>_ _. True) (bindM (getM prov) (\<lambda>p.
      if \<not> found then create_and_attach E c role policy (?d p) (?ts p)
      else bindM (deref got) (\<lambda>iamPolicy.
        bindM (forM (ip_Tags iamPolicy) (\<lambda>tag. bindM (checksum_differs ?ct tag) (\<lambda>differs.
          if differs then replace_policy E c role policy iamPolicy (?d p) (?ts p) else returnM ()))) (\<lambda>_.
        attach_if_missing E c role policy rp iamPolicy)))) t"
    if t: "sane legal stored t" and found: "found \<Longrightarrow> \<exists>q. got = Some q \<and> full_policy n q"
      and absent: "\<not> found \<Longrightarrow> \<exists>err w. legal w \<and> is_no_such_entity err \<and>
        sdk_GetPolicy E (GetPolicyReq (Some (policy_arn c n))) w = (Inl err, world t)" for got found t
  proof (cases found)
    case True
    then obtain q where q: "got = Some q" "ip_PolicyName q = Some n" "list_all full_tag (ip_Tags q)"
      using found by (auto simp: full_policy_def)
    then show ?thesis
      using True by (auto simp: calm_get_then intro!: calm_bindM [OF loop] t calm_attach_if_missing [OF W _ role n])
  next
    case False
    then show ?thesis
      using absent by (auto simp: calm_get_then intro!: calm_create_and_attach [OF W t role n])
  qed
  show ?thesis
    unfolding sync_listed_policy_def n tags ConvertToIAMTags_Some bindM_returnM Let_def
    by (rule calm_bindM [OF calm_GetPolicyByName [OF W s]]) (auto intro!: cont)
qed

lemma calm_syncPoliciesByRoleSpec:
  assumes W: "well_behaved E c legal stored" and s: "sane legal stored s" and role: "sound_role role"
  shows "calm (sane legal stored) (\<lambda>_ _. True) (syncPoliciesByRoleSpec E c role) s"
proof -
  obtain r where r: "rs_Name role = Some r" using role by (auto simp: sound_role_def)
  have one: "calm (sane legal stored) (\<lambda>_ _. True) (forM es (\<lambda>(_, policy).
      bindM (deref rp) (\<lambda>rp. bindM (deref (ps_Name (policy_Spec policy))) (\<lambda>pn.
        if rp = pn then sync_listed_policy E c role (policy_Spec policy) rp else returnM ())))) t"
    if rp: "rp \<noteq> None" and t: "sane legal stored t"
      and es: "\<forall>k e. (k, e) \<in> set es \<longrightarrow> sound_policy (policy_Spec e)" for rp es t
  proof (rule safe_forM [OF t], clarify)
    fix k e and u :: "'a gstate"
    assume "(k, e) \<in> set es" and u: "sane legal stored u"
    then have e: "sound_policy (policy_Spec e)" using es by blast
    obtain n m where "rp = Some m" "ps_Name (policy_Spec e) = Some n" using rp e by (auto simp: sound_policy_def)
    then show "calm (sane legal stored) (\<lambda>_ _. True) (bindM (deref rp) (\<lambda>rp.
        bindM (deref (ps_Name (policy_Spec e))) (\<lambda>pn.
        if rp = pn then sync_listed_policy E c role (policy_Spec e) rp else returnM ()))) u"
      using calm_sync_listed_policy [OF W u r e] u by (simp add: calm_returnM)
  qed
  show ?thesis
    unfolding syncPoliciesByRoleSpec_def
  proof (rule safe_forM [OF s])
    fix rp and t :: "'a gstate"
    assume "rp \<in> set (rs_Policies role)" and t: "sane legal stored t"
    then have "rp \<noteq> None" using role by (metis sound_role_def)
    then show "calm (sane legal stored) (\<lambda>_ _. True) (bindM (getM (\<lambda>s. spec_Policies (Spec (prov s)))) (\<lambda>m.
       bindM (range_map m) (\<lambda>policies.
       forM policies (\<lambda>(_, policy).
         bindM (deref rp) (\<lambda>rp.
         bindM (deref (ps_Name (policy_Spec policy))) (\<lambda>pn.
         if rp = pn then sync_listed_policy E c role (policy_Spec policy) rp
         else returnM ())))))) t"
      by (intro calm_range_policies [OF t] one) auto
  qed
qed

section \<open>Roles\<close>

lemma calm_setAssumeRolePolicyDocument:
  assumes W: "well_behaved E c legal stored" and s: "sane legal stored s" and role: "sound_role role"
  shows "calm (sane legal stored) (\<lambda>role' _. rs_Name role' = rs_Name role \<and> sound_role role')
    (setAssumeRolePolicyDocument E c rq air role) s"
proof -
  obtain d where d: "rs_AssumeRolePolicyDocument role = Some d" using role by (auto simp: sound_role_def)
  show ?thesis
    using role s
    by (auto simp: setAssumeRolePolicyDocument_def Let_def d sound_role_def
        intro!: calm_then [OF W] calm_errM calm_returnM split: prod.splits sum.splits)
qed

lemma calm_syncRole:
  assumes W: "well_behaved E c legal stored" and s: "sane legal stored s" and role: "sound_role role"
  shows "calm (sane legal stored) (\<lambda>role' _. sound_role role') (syncRole E c rq air role) s"
proof -
  obtain r where r: "rs_Name role = Some r" using role by (auto simp: sound_role_def)
  obtain tags where tags: "rs_Tags role = map Some tags"
    using role no_None_map by (auto simp: sound_role_def)
  have create: "calm (sane legal stored) (\<lambda>_ _. True) (create_role_and_policies E c role' ts) t"
    if role': "rs_Name role' = Some r" "sound_role role'" and t: "sane legal stored t"
      and absent: "\<exists>err w. legal w \<and> is_no_such_entity err \<and> sdk_GetRole E (GetRoleReq (Some r)) w = (Inl err, world t)"
    for role' ts t
  proof -
    obtain err w where w: "legal w" "is_no_such_entity err" "sdk_GetRole E (GetRoleReq (Some r)) w = (Inl err, world t)"
      using absent by blast
    show ?thesis
      unfolding create_role_and_policies_def calm_get_then Let_def role'(1) deref_Some bindM_returnM
      by (rule calm_bindM [OF calm_CreateRole [OF W t w]])
        (auto intro!: calm_then [OF W] calm_syncPoliciesByRoleSpec [OF W _ role'(2)])
  qed
  have update: "calm (sane legal stored) (\<lambda>_ _. True) (update_role_and_policies E c role' q) t"
    if role': "rs_Name role' = Some r" "sound_role role'" and t: "sane legal stored t" and q: "full_role r q" for role' q t
  proof -
    have report: "calm (sane legal stored) (\<lambda>_ _. True) (if diff then
        bindM (UpdateRole E (Some r) (rs_AssumeRolePolicyDocument role')) (\<lambda>_.
          updateCRDStatus E (Some c) provisionPhase updatePhase message (RoleResult (Some q)))
        else returnM ()) u" if "sane legal stored u" for diff message u
      using that q by (auto intro!: calm_then [OF W] calm_weaken [OF calm_updateCRDStatus [OF W]] calm_returnM)
    show ?thesis
      unfolding update_role_and_policies_def role'(1) deref_Some bindM_returnM
    proof (rule calm_bindM [OF calm_liftM [where I = "sane legal stored" and Q = "\<lambda>_ _. True"]])
      fix diff and u :: "'a gstate"
      assume "sane legal stored u"
      then show "calm (sane legal stored) (\<lambda>_ _. True)
          (bindM (if diff then
             bindM (UpdateRole E (Some r) (rs_AssumeRolePolicyDocument role')) (\<lambda>_.
             updateCRDStatus E (Some c) provisionPhase updatePhase
               (''The trust relationship policy document for role '' @ r @ '' was updated.'') (RoleResult (Some q)))
           else returnM ()) (\<lambda>_. syncPoliciesByRoleSpec E c role')) u"
        by (intro calm_bindM [OF report] calm_syncPoliciesByRoleSpec [OF W _ role'(2)])
    qed (use t in simp_all)
  qed
  have cont: "calm (sane legal stored) (\<lambda>_ _. True)
      (if \<not> found then create_role_and_policies E c role' ts else bindM (deref got) (\<lambda>q. update_role_and_policies E c role' q)) t"
    if "rs_Name role' = Some r" "sound_role role'" "sane legal stored t"
      "if found then \<exists>q. got = Some q \<and> full_role r q
       else \<exists>err w. legal w \<and> is_no_such_entity err \<and> sdk_GetRole E (GetRoleReq (Some r)) w = (Inl err, world t)"
    for got found role' ts t
    using that create [OF that(1-3)] update [OF that(1-3)] by (cases found) auto
  show ?thesis
    unfolding syncRole_def calm_get_then tags ConvertToIAMTags_Some bindM_returnM Let_def
  proof (rule calm_bindM [OF calm_setAssumeRolePolicyDocument [OF W s role]])
    fix role' and t :: "'a gstate"
    let ?ts = "TagsDefine (spec_EKSClusterName (Spec (prov s))) (om_Namespace (ObjectMeta (prov s)))
      (map (\<lambda>t. \<lparr>it_Key = tag_Key t, it_Value = tag_Value t\<rparr>) tags)"
    assume t: "sane legal stored t" and "rs_Name role' = rs_Name role \<and> sound_role role'"
    then have role': "rs_Name role' = Some r" "sound_role role'" using r by simp_all
    show "calm (sane legal stored) (\<lambda>role' _. sound_role role')
        (bindM (GetRoleByName E (rs_Name role')) (\<lambda>(iamRole, exists).
         bindM (if \<not> exists then create_role_and_policies E c role' ?ts
            else bindM (deref iamRole) (\<lambda>r. update_role_and_policies E c role' r)) (\<lambda>_.
         returnM role'))) t"
      unfolding role'(1)
      by (rule calm_bindM [OF calm_GetRoleByName [OF W t]])
        (use role' in \<open>auto intro!: calm_bindM [OF cont [OF role']] calm_returnM\<close>)
  qed
qed

lemma calm_sync_all_roles:
  assumes W: "well_behaved E c legal stored" and s: "sane legal stored s"
  shows "calm (sane legal stored) (\<lambda>_ _. True) (sync_all_roles E c rq air) s"
  unfolding sync_all_roles_def
  by (rule calm_range_roles [OF s])
    (auto intro!: safe_forM calm_bindM [OF calm_syncRole [OF W]] calm_syncPoliciesByRoleSpec [OF W])


section \<open>The reconciler\<close>

lemma api_laws:
  assumes "well_behaved E c legal stored" and "legal w"
  shows "k8s_GetProvision E n w = (r, w') \<Longrightarrow> legal w' \<and> stored w' = stored w \<and> (\<forall>p. r = Inr p \<longrightarrow> stored w = Some p)"
    "k8s_GetControlPlane E n w = (rc, w') \<Longrightarrow> legal w' \<and> stored w' = stored w"
    "k8s_Update E p w = (r, w') \<Longrightarrow> legal w' \<and> (\<forall>err. r = Inl err \<longrightarrow> stored w' = stored w) \<and>
       (\<forall>p'. r = Inr p' \<longrightarrow> stored w' = Some p' \<and> Spec p' = Spec p \<and>
         (\<exists>q. stored w = Some q \<and> same_names (Status q) (Status p')))"
    "Spec (k8s_AddFinalizer E p f) = Spec p" "Status (k8s_AddFinalizer E p f) = Status p"
    "Spec (k8s_RemoveFinalizer E p f) = Spec p" "Status (k8s_RemoveFinalizer E p f) = Status p"
  using assms unfolding well_behaved_def api_documented_def by metis+

text \<open>A request, followed by what depends on the answer.\<close>

lemma calm_request_then:
  "calm I Q (bindM (request_call rq f) g) s =
     (case f (world s) of (r, w') \<Rightarrow> calm I Q (g r) (after s rq (error_of r) w'))"
  by (simp add: calm_def bindM_def request_call_def split: prod.splits)

lemma calm_modify_then: "calm I Q (bindM (modifyM f) g) s = calm I Q (g ()) (f s)"
  by (simp add: calm_def bindM_def modifyM_def)

lemma calm_getClusterResources:
  assumes W: "well_behaved E c legal stored" and w: "world_sound legal stored (world s)"
  shows "calm (sane legal stored) (\<lambda>_ _. True) (getClusterResources E iam rq) s"
proof -
  let ?s0 = "prov_update (\<lambda>_. zero_AWSIAMProvision) s"
  have legal: "legal (world s)" using w by (simp add: world_sound_def)
  obtain r w1 where get: "k8s_GetProvision E rq (world s) = (r, w1)" by fastforce
  have w1: "legal w1" "stored w1 = stored (world s)" "\<And>p. r = Inr p \<Longrightarrow> stored (world s) = Some p"
    using api_laws(1) [OF W legal get] by auto
  have get0: "k8s_GetProvision E rq (world ?s0) = (r, w1)" using get by simp
  show ?thesis
    unfolding getClusterResources_def calm_modify_then calm_request_then get0 prod.case
  proof -
    show "calm (sane legal stored) (\<lambda>_ _. True)
      (case r of
         Inl err \<Rightarrow> if k8s_IsNotFound E err then returnM None else errM err
       | Inr p \<Rightarrow>
           bindM (modifyM (prov_update (\<lambda>_. p))) (\<lambda>_.
           let eksNs = \<lparr>nn_Namespace = nn_Namespace rq, nn_Name = spec_EKSClusterName (Spec p)\<rparr> in
           bindM (request_call (GetControlPlane eksNs) (k8s_GetControlPlane E eksNs)) (\<lambda>r'.
             case r' of
               Inl err \<Rightarrow>
                 if k8s_IsNotFound E err then
                   bindM (updateCRDStatus E iam provisionIntermediatePhase ''''
                     (''AWSManagedControlPlane of '' @ k8s_NamespacedNameString E rq @
                      '' AWSIAMProvision not found: '' @ k8s_NamespacedNameString E eksNs) NoResult)
                   (\<lambda>_. returnM None)
                 else
                   bindM (updateCRDStatus E iam failPhase '''' (error_text err) NoResult) (\<lambda>_. errM err)
             | Inr cp \<Rightarrow>
                 if \<not> cp_Ready cp then
                   bindM (updateCRDStatus E iam provisionIntermediatePhase ''''
                     (''AWSManagedControlPlane of '' @ k8s_NamespacedNameString E rq @
                      '' AWSIAMProvision not ready: '' @ k8s_NamespacedNameString E eksNs) NoResult)
                   (\<lambda>_. returnM None)
                 else returnM (Some \<lparr>air_eksCP = cp, air_eksCPNamespace = eksNs\<rparr>))))
      (after ?s0 (GetProvision rq) (error_of r) w1)"
    proof (cases r)
      case (Inl err)
      then show ?thesis using w w1 by (auto simp: sane_def world_sound_def intro!: calm_returnM calm_errM)
    next
      case (Inr p)
      let ?eks = "\<lparr>nn_Namespace = nn_Namespace rq, nn_Name = spec_EKSClusterName (Spec p)\<rparr>"
      let ?s1 = "prov_update (\<lambda>_. p) (after ?s0 (GetProvision rq) (error_of r) w1)"
      obtain r' w2 where cp: "k8s_GetControlPlane E ?eks (world ?s1) = (r', w2)" by fastforce
      have "legal w2" "stored w2 = stored (world s)"
        using api_laws(2) [OF W _ cp] w1 by simp_all
      then have s2: "sane legal stored (after ?s1 (GetControlPlane ?eks) (error_of r') w2)"
        using w w1(3) [OF Inr] by (simp add: sane_def world_sound_def)
      show ?thesis
        unfolding Inr sum.case calm_modify_then Let_def
        unfolding calm_request_then cp [unfolded Inr] prod.case
        by (use s2 [unfolded Inr] in \<open>auto intro!: calm_then [OF W] calm_returnM calm_errM split: sum.splits\<close>)
    qed
  qed
qed

lemma calm_put_prov:
  assumes W: "well_behaved E c legal stored" and s: "sane legal stored s"
    and p: "Spec p = Spec (prov s)" "Status p = Status (prov s)"
  shows "calm (sane legal stored) (\<lambda>_ _. True)
    (bindM (modifyM (prov_update (\<lambda>_. p))) (\<lambda>_. bindM (request_call (UpdateProvision p) (k8s_Update E p)) (\<lambda>r.
       case r of Inl err \<Rightarrow> errM err | Inr q \<Rightarrow> modifyM (prov_update (\<lambda>_. q))))) s"
proof -
  let ?s0 = "prov_update (\<lambda>_. p) s"
  have p_sound: "sound_prov p" using s p by (simp add: sane_def sound_prov_def)
  obtain r w' where up: "k8s_Update E p (world ?s0) = (r, w')" by fastforce
  then have law: "legal w'" "\<And>err. r = Inl err \<Longrightarrow> stored w' = stored (world s)"
    "\<And>q. r = Inr q \<Longrightarrow> stored w' = Some q \<and> Spec q = Spec p \<and>
       (\<exists>o'. stored (world s) = Some o' \<and> same_names (Status o') (Status q))"
    using api_laws(3) [OF W sane_legal [OF s], of p r w'] by simp_all
  show ?thesis
    unfolding calm_modify_then calm_request_then up prod.case
  proof (cases r)
    case (Inl err)
    then show "calm (sane legal stored) (\<lambda>_ _. True)
        (case r of Inl err \<Rightarrow> errM err | Inr q \<Rightarrow> modifyM (prov_update (\<lambda>_. q))) (after ?s0 (UpdateProvision p) (error_of r) w')"
      using s law(1) law(2) [OF Inl] p_sound by (auto simp: sane_def world_sound_def intro!: calm_errM)
  next
    case (Inr q)
    obtain o' where "stored (world s) = Some o'" "same_names (Status o') (Status q)" using law(3) [OF Inr] by blast
    then have "sound_status (Status q)"
      using s same_names_sound by (auto simp: sane_def world_sound_def sound_prov_def)
    then have "sound_prov q" using law(3) [OF Inr] p_sound by (simp add: sound_prov_def)
    then show "calm (sane legal stored) (\<lambda>_ _. True)
        (case r of Inl err \<Rightarrow> errM err | Inr q \<Rightarrow> modifyM (prov_update (\<lambda>_. q))) (after ?s0 (UpdateProvision p) (error_of r) w')"
      using law(1) law(3) [OF Inr] Inr by (auto simp: sane_def world_sound_def intro!: calm_modifyM)
  qed
qed

lemma calm_ensure_finalizer:
  assumes W: "well_behaved E c legal stored" and s: "sane legal stored s"
  shows "calm (sane legal stored) (\<lambda>_ _. True) (ensure_finalizer E) s"
  using calm_put_prov [OF W s api_laws(4,5) [OF W sane_legal [OF s]]] s
  by (simp add: ensure_finalizer_def calm_get_then Let_def calm_returnM)

lemma calm_finalize:
  assumes W: "well_behaved E c legal stored" and s: "sane legal stored s"
  shows "calm (sane legal stored) (\<lambda>_ _. True) (finalize E c) s"
proof -
  have delete: "calm (sane legal stored) (\<lambda>_ _. True) (catchM (deleteIAMResources E c) (\<lambda>err.
      bindM (updateCRDStatus E (Some c) failPhase '''' (error_text err) NoResult) (\<lambda>_. errM err))) t"
    if "sane legal stored t" for t
    by (rule calm_catchM [OF calm_deleteIAMResources [OF W that]]) (auto intro!: calm_then [OF W] calm_errM)
  have release: "calm (sane legal stored) (\<lambda>_ _. True) (bindM (getM prov) (\<lambda>p.
       let p' = k8s_RemoveFinalizer E p awsIAMProvisionFinalizerName in
       bindM (modifyM (prov_update (\<lambda>_. p'))) (\<lambda>_.
       bindM (request_call (UpdateProvision p') (k8s_Update E p')) (\<lambda>r.
         case r of Inl err \<Rightarrow> errM err | Inr q \<Rightarrow> modifyM (prov_update (\<lambda>_. q)))))) t"
    if t: "sane legal stored t" for t
    unfolding calm_get_then Let_def by (rule calm_put_prov [OF W t api_laws(6,7) [OF W sane_legal [OF t]]])
  have rest: "calm (sane legal stored) (\<lambda>_ _. True)
      (bindM (updateCRDStatus E (Some c) destroyIntermediatePhase '''' ''Destroying AWS IAM resources.'' NoResult) (\<lambda>_.
       bindM (catchM (deleteIAMResources E c) (\<lambda>err.
         bindM (updateCRDStatus E (Some c) failPhase '''' (error_text err) NoResult) (\<lambda>_. errM err))) (\<lambda>_.
       bindM (updateCRDStatus E (Some c) destroyPhase '''' ''AWS IAM resources was destroyed.'' NoResult) (\<lambda>_.
       bindM (getM prov) (\<lambda>p.
       let p' = k8s_RemoveFinalizer E p awsIAMProvisionFinalizerName in
       bindM (modifyM (prov_update (\<lambda>_. p'))) (\<lambda>_.
       bindM (request_call (UpdateProvision p') (k8s_Update E p')) (\<lambda>r.
         case r of Inl err \<Rightarrow> errM err | Inr q \<Rightarrow> modifyM (prov_update (\<lambda>_. q))))))))) s"
    by (intro calm_bindM [OF calm_updateCRDStatus [OF W]] calm_bindM [OF delete] release) (use s in simp_all)
  show ?thesis
    using rest s by (simp add: finalize_def calm_get_then calm_returnM)
qed

lemma calm_report_synced:
  assumes W: "well_behaved E c legal stored" and s: "sane legal stored s"
  shows "calm (sane legal stored) (\<lambda>_ _. True) (report_synced E c) s"
  unfolding report_synced_def calm_get_then
  by (auto intro!: calm_weaken [OF calm_updateCRDStatus [OF W s]] calm_returnM s)

lemma calm_reconcile_with_client:
  assumes W: "well_behaved E c legal stored" and s: "sane legal stored s"
  shows "calm (sane legal stored) (\<lambda>_ _. True) (reconcile_with_client E c rq air) s"
  unfolding reconcile_with_client_def calm_get_then
  by (auto simp: calm_get_then intro!: s calm_bindM [OF calm_ensure_finalizer [OF W]]
      calm_bindM [OF calm_syncAWSIAMResources [OF W]] calm_bindM [OF calm_sync_all_roles [OF W]]
      calm_bindM [OF calm_report_synced [OF W]] calm_bindM [OF calm_finalize [OF W]] calm_returnM)


section \<open>No crash\<close>

lemma calm_make_client:
  assumes W: "well_served E acc legal stored" and s: "sane legal stored s"
  shows "calm (sane legal stored) (\<lambda>c _. AccountID c = acc) (make_client E) s"
proof -
  let ?c = "\<lparr>AccountID = acc, Region = spec_Region (Spec (prov s))\<rparr>"
  have B: "well_behaved E ?c legal stored" using W by (simp add: well_served_def)
  obtain r w1 where cfg: "sdk_LoadDefaultConfig E (spec_Region (Spec (prov s))) (world s) = (r, w1)" by fastforce
  then have w1: "world_sound legal stored w1" using lawful_step [OF laws_IAM(12) [OF B] cfg] s by (simp add: sane_def)
  obtain x w2 where caller: "sdk_GetCallerIdentity E (spec_Region (Spec (prov s))) w1 = (x, w2)" by fastforce
  then have w2: "world_sound legal stored w2" using lawful_step [OF laws_IAM(13) [OF B] caller w1] by simp
  have acc: "aws_ToString E y = acc" if "x = Inr y" for y
    using W caller that unfolding well_served_def by blast
  have new: "calm (sane legal stored) (\<lambda>c _. AccountID c = acc) (NewIAMClient E (spec_Region (Spec (prov s)))) s"
    using s w1 w2 acc
    by (auto simp: NewIAMClient_def calm_request_then cfg caller sane_def intro!: calm_errM calm_returnM split: sum.splits)
  show ?thesis
    unfolding make_client_def calm_get_then
    by (rule calm_catchM [OF new]) (auto intro!: calm_then [OF B] calm_errM)
qed


lemma calm_Reconcile:
  assumes W: "well_served E acc legal stored" and w: "world_sound legal stored (world s)"
  shows "calm (sane legal stored) (\<lambda>_ _. True) (Reconcile E iam rq) s"
proof -
  have B: "well_behaved E \<lparr>AccountID = acc, Region = region\<rparr> legal stored" for region
    using W by (simp add: well_served_def)
  have with_client: "calm (sane legal stored) (\<lambda>_ _. True) (reconcile_with_client E c rq air) t"
    if "AccountID c = acc" "sane legal stored t" for c air t
    using calm_reconcile_with_client [OF B [of "Region c"] that(2)] that(1) by (cases c) simp
  show ?thesis
    unfolding Reconcile_def
  proof (rule calm_bindM [OF calm_getClusterResources [OF B w]])
    fix res and t :: "'a gstate"
    assume "sane legal stored t"
    then show "calm (sane legal stored) (\<lambda>_ _. True) (case res of
        None \<Rightarrow> bindM (getM prov) (\<lambda>p. returnM (setFrequency None p))
      | Some air \<Rightarrow> bindM (make_client E) (\<lambda>c. reconcile_with_client E c rq air)) t"
      by (cases res) (auto simp: calm_get_then intro!: calm_returnM calm_bindM [OF calm_make_client [OF W]] with_client)
  qed
qed

text \<open>
  C3. A reconciliation never crashes: if the specification passed the validation of the CRD, the
  status is one that the operator wrote, AWS fills the fields that it documents as present, and
  nobody else creates a role or policy between the operator's lookup and its creation, then no run
  dereferences a nil pointer, whatever else is answered, in whatever order maps are visited, and
  whichever requests fail.
\<close>

theorem reconcile_never_panics:
  assumes "well_served E acc legal stored" and "world_sound legal stored (world s)"
  shows "fst (Reconcile E iam rq s) \<noteq> Panic"
  using calm_Reconcile [OF assms] by (simp add: calm_def)

section \<open>Every reachable world\<close>

text \<open>
  The life of the cluster: reconciliations, of any resource and with any state of the process, and
  steps of others (users, other controllers) in between. \<open>admitted\<close> says what the API server lets
  them do: store a specification that passed the validation of the CRD, with the status that was
  there before, or none for a new object.
\<close>

inductive reach :: "('w, 'p) env \<Rightarrow> ('w \<Rightarrow> 'w \<Rightarrow> bool) \<Rightarrow> 'w \<Rightarrow> 'w \<Rightarrow> bool" for E other w0 where
  start: "reach E other w0 w0"
| reconcile: "reach E other w0 (world s) \<Longrightarrow> reach E other w0 (world (snd (Reconcile E iam rq s)))"
| others: "reach E other w0 w \<Longrightarrow> other w w' \<Longrightarrow> reach E other w0 w'"

definition admitted :: "('w \<Rightarrow> bool) \<Rightarrow> ('w \<Rightarrow> AWSIAMProvision option) \<Rightarrow> ('w \<Rightarrow> 'w \<Rightarrow> bool) \<Rightarrow> bool" where
  "admitted legal stored other = (\<forall>w w'. other w w' \<longrightarrow> legal w \<longrightarrow> legal w' \<and>
     (\<forall>p'. stored w' = Some p' \<longrightarrow> sound_spec (Spec p') \<and>
        (case stored w of
           None \<Rightarrow> same_names zero_Status (Status p')
         | Some p \<Rightarrow> same_names (Status p) (Status p'))))"

lemma admitted_sound:
  assumes "admitted legal stored other" and "other w w'" and "world_sound legal stored w"
  shows "world_sound legal stored w'"
proof -
  have "sound_status zero_Status" by (simp add: sound_status_def well_named_def zero_Status_def)
  then show ?thesis
    using assms unfolding admitted_def world_sound_def sound_prov_def
    by (metis (no_types, lifting) option.case_eq_if option.collapse same_names_sound)
qed

text \<open>
  C7. The entries of the status stay a map from names: from a world where the stored custom
  resource is sound, every world that reconciliations and the admitted steps of others can lead to
  has a stored custom resource whose status lists give every entry a name and no name twice.
\<close>

theorem stored_status_stays_map:
  assumes "well_served E acc legal stored" and "admitted legal stored other"
    and "world_sound legal stored w0" and "reach E other w0 w" and "stored w = Some p"
  shows "well_named sr_Name (st_Roles (Status p)) \<and> well_named sp_Name (st_Policies (Status p))"
proof -
  have "world_sound legal stored w"
    using assms(4,3)
  proof (induction rule: reach.induct)
    case start
    then show ?case .
  next
    case (reconcile s iam rq)
    then show ?case using calm_Reconcile [OF assms(1), of s iam rq] by (simp add: calm_def sane_def)
  next
    case (others w w')
    then show ?case using admitted_sound [OF assms(2)] by blast
  qed
  then show ?thesis using assms(5) by (simp add: world_sound_def sound_prov_def sound_status_def)
qed

section \<open>A run in memory\<close>

definition live_prov :: AWSIAMProvision where
  "live_prov = zero_AWSIAMProvision\<lparr>Spec := \<lparr>spec_EKSClusterName = ''eks'', spec_Frequency = None,
     spec_Region = ''eu'',
     spec_Policies = [(''p'', \<lparr>policy_Spec = \<lparr>ps_Name = Some ''p'', ps_PolicyDocument = Some ''{}'', ps_Tags = []\<rparr>\<rparr>)],
     spec_Roles = [(''r'', \<lparr>role_Spec = \<lparr>rs_AssumeRolePolicyDocument = Some ''{}'', rs_Name = Some ''r'',
       rs_Policies = [Some ''p''], rs_Tags = []\<rparr>\<rparr>)]\<rparr>\<rparr>"

definition live_mem :: mem where
  "live_mem = mem_empty\<lparr>m_prov := Some live_prov,
     m_cp := Some \<lparr>cp_Ready = True, cp_OIDCProviderARN = ''a/b''\<rparr>\<rparr>"

lemma live_sound: "world_sound mem_legal m_prov live_mem"
  by (simp add: world_sound_def mem_legal_def live_mem_def mem_empty_def live_prov_def sound_prov_def sound_spec_def
      sound_role_def sound_policy_def sound_status_def well_named_def zero_AWSIAMProvision_def zero_Status_def)

theorem reconcile_never_panics_witness:
  "fst (Reconcile mem_env None \<lparr>nn_Namespace = ''ns'', nn_Name = ''n''\<rparr> (mem_state live_mem)) \<noteq> Panic"
  by (rule reconcile_never_panics [OF mem_served]) (simp add: mem_state_def live_sound)

text \<open>A user may empty the specification.\<close>

definition empty_spec_step :: "mem \<Rightarrow> mem \<Rightarrow> bool" where
  "empty_spec_step w w' = (\<exists>p. m_prov w = Some p \<and>
     w' = w\<lparr>m_prov := Some (p\<lparr>Spec := Spec zero_AWSIAMProvision\<rparr>)\<rparr>)"

lemma empty_spec_admitted: "admitted mem_legal m_prov empty_spec_step"
  by (auto simp: admitted_def empty_spec_step_def mem_legal_def same_names_def sound_spec_def zero_AWSIAMProvision_def)

definition live_after :: mem where
  "live_after = world (snd (Reconcile mem_env None \<lparr>nn_Namespace = ''ns'', nn_Name = ''n''\<rparr> (mem_state live_mem)))"

text \<open>The run is evaluated with the checksum left as the term it is.\<close>

declare sha1_Sum_def [code del]

lemma live_stored: "map_option (\<lambda>p. (length (st_Roles (Status p)), length (st_Policies (Status p)))) (m_prov live_after) = Some (1, 1)"
  by code_simp

declare sha1_Sum_def [code]

theorem stored_status_stays_map_witness:
  "\<exists>w p. reach mem_env empty_spec_step live_mem w \<and> m_prov w = Some p \<and> length (st_Roles (Status p)) = 1 \<and>
    well_named sr_Name (st_Roles (Status p)) \<and> well_named sp_Name (st_Policies (Status p))"
proof -
  obtain p where p: "m_prov live_after = Some p" "length (st_Roles (Status p)) = 1" using live_stored by auto
  let ?p = "p\<lparr>Spec := Spec zero_AWSIAMProvision\<rparr>" and ?w = "live_after\<lparr>m_prov := Some (p\<lparr>Spec := Spec zero_AWSIAMProvision\<rparr>)\<rparr>"
  have "reach mem_env empty_spec_step live_mem (world (mem_state live_mem))"
    by (simp add: mem_state_def reach.start)
  then have "reach mem_env empty_spec_step live_mem live_after"
    unfolding live_after_def by (rule reach.reconcile)
  moreover have "empty_spec_step live_after ?w" using p(1) by (simp add: empty_spec_step_def)
  ultimately have r: "reach mem_env empty_spec_step live_mem ?w" by (rule reach.others)
  have "m_prov ?w = Some ?p" by simp
  then have "well_named sr_Name (st_Roles (Status ?p)) \<and> well_named sp_Name (st_Policies (Status ?p))"
    by (rule stored_status_stays_map [OF mem_served empty_spec_admitted live_sound r])
  then show ?thesis using r p(2) by (intro exI [of _ ?w] exI [of _ ?p]) simp
qed

end
