(* ===== verification/GoHeap.thy ===== *)
theory GoHeap
  imports Prelude
begin

text \<open>
  Memory with pointers: a heap is the list of the cells allocated so far, an address an index into
  it, so that allocation appends. A structure on the heap is read as a value, has the addresses it
  consists of, and is copied by an operation that threads the heap. The locale states what a deep
  copy promises; the lemmas build the deep copy of pointers, slices, maps and structs from those of
  their parts.
\<close>

section \<open>Cells and operations\<close>

type_synonym addr = nat
type_synonym 'c heap = "'c list"
type_synonym ('c, 'a) hop = "'c heap \<Rightarrow> ('a \<times> 'c heap) option"

definition load :: "'c heap \<Rightarrow> addr \<Rightarrow> 'c option" where
  "load h a = (if a < length h then Some (h ! a) else None)"

text \<open>\<open>new(T)\<close> with the zero value, and a write through a pointer.\<close>

definition alloc :: "'c \<Rightarrow> ('c, addr) hop" where
  "alloc c h = Some (length h, h @ [c])"

definition store :: "addr \<Rightarrow> 'c \<Rightarrow> ('c, unit) hop" where
  "store a c h = Some ((), h[a := c])"

definition returnH :: "'a \<Rightarrow> ('c, 'a) hop" where
  "returnH x h = Some (x, h)"

definition bindH :: "('c, 'a) hop \<Rightarrow> ('a \<Rightarrow> ('c, 'b) hop) \<Rightarrow> ('c, 'b) hop" where
  "bindH m f h = (case m h of None \<Rightarrow> None | Some (x, h') \<Rightarrow> f x h')"

text \<open>Reading a cell of a given type; a dangling pointer does not occur in Go.\<close>

definition readH :: "('c \<Rightarrow> 'x option) \<Rightarrow> addr \<Rightarrow> ('c, 'x) hop" where
  "readH proj a h = (case Option.bind (load h a) proj of None \<Rightarrow> None | Some x \<Rightarrow> Some (x, h))"

lemmas hop_defs = alloc_def store_def returnH_def bindH_def readH_def

lemma bindH_Some: "m h = Some (x, h') \<Longrightarrow> bindH m f h = f x h'"
  by (simp add: bindH_def)

section \<open>Copies of parts\<close>

text \<open>
  \<open>if in.F != nil { *out = new(T); (*in).DeepCopyInto(*out) }\<close>: a nil pointer stays nil; otherwise a
  new cell is allocated and the copy of the target is written to it.
\<close>

definition copy_ptr ::
  "('c \<Rightarrow> 'x option) \<Rightarrow> ('x \<Rightarrow> 'c) \<Rightarrow> 'x \<Rightarrow> ('x \<Rightarrow> ('c, 'x) hop) \<Rightarrow> addr option \<Rightarrow> ('c, addr option) hop" where
  "copy_ptr proj mk zero cp p = (case p of
     None \<Rightarrow> returnH None
   | Some a \<Rightarrow> bindH (readH proj a) (\<lambda>x. bindH (alloc (mk zero)) (\<lambda>b. bindH (cp x) (\<lambda>y.
       bindH (store b (mk y)) (\<lambda>_. returnH (Some b))))))"

text \<open>The elements of a slice in order.\<close>

fun copy_list :: "('x \<Rightarrow> ('c, 'x) hop) \<Rightarrow> 'x list \<Rightarrow> ('c, 'x list) hop" where
  "copy_list cp [] = returnH []"
| "copy_list cp (x # xs) = bindH (cp x) (\<lambda>y. bindH (copy_list cp xs) (\<lambda>ys. returnH (y # ys)))"

text \<open>\<open>*val.DeepCopy()\<close>: the copy goes through a cell of its own that nothing keeps.\<close>

definition copy_temp :: "('x \<Rightarrow> 'c) \<Rightarrow> 'x \<Rightarrow> ('x \<Rightarrow> ('c, 'x) hop) \<Rightarrow> 'x \<Rightarrow> ('c, 'x) hop" where
  "copy_temp mk zero cp x = bindH (alloc (mk zero)) (\<lambda>b. bindH (cp x) (\<lambda>y.
     bindH (store b (mk y)) (\<lambda>_. returnH y)))"

definition copy_snd :: "('x \<Rightarrow> ('c, 'x) hop) \<Rightarrow> 'k \<times> 'x \<Rightarrow> ('c, 'k \<times> 'x) hop" where
  "copy_snd cp e = bindH (cp (snd e)) (\<lambda>y. returnH (fst e, y))"

definition copy_pair :: "('x \<Rightarrow> ('c, 'x) hop) \<Rightarrow> ('y \<Rightarrow> ('c, 'y) hop) \<Rightarrow> 'x \<times> 'y \<Rightarrow> ('c, 'x \<times> 'y) hop" where
  "copy_pair cp cq z = bindH (cp (fst z)) (\<lambda>x. bindH (cq (snd z)) (\<lambda>y. returnH (x, y)))"

text \<open>What the parts read as, and the addresses they consist of.\<close>

definition read_ptr :: "('c \<Rightarrow> 'x option) \<Rightarrow> ('c heap \<Rightarrow> 'x \<Rightarrow> 'v option) \<Rightarrow> 'c heap \<Rightarrow> addr option \<Rightarrow> 'v option option" where
  "read_ptr proj rd h p = (case p of
     None \<Rightarrow> Some None
   | Some a \<Rightarrow> (case Option.bind (load h a) proj of None \<Rightarrow> None | Some x \<Rightarrow> map_option Some (rd h x)))"

definition addrs_ptr :: "('c \<Rightarrow> 'x option) \<Rightarrow> ('c heap \<Rightarrow> 'x \<Rightarrow> addr set) \<Rightarrow> 'c heap \<Rightarrow> addr option \<Rightarrow> addr set" where
  "addrs_ptr proj ad h p = (case p of
     None \<Rightarrow> {}
   | Some a \<Rightarrow> insert a (case Option.bind (load h a) proj of None \<Rightarrow> {} | Some x \<Rightarrow> ad h x))"

definition read_flat :: "'c heap \<Rightarrow> 'x \<Rightarrow> 'x option" where
  "read_flat h x = Some x"

definition addrs_flat :: "'c heap \<Rightarrow> 'x \<Rightarrow> addr set" where
  "addrs_flat h x = {}"

fun read_list :: "('c heap \<Rightarrow> 'x \<Rightarrow> 'v option) \<Rightarrow> 'c heap \<Rightarrow> 'x list \<Rightarrow> 'v list option" where
  "read_list rd h [] = Some []"
| "read_list rd h (x # xs) = Option.bind (rd h x) (\<lambda>v. map_option ((#) v) (read_list rd h xs))"

definition addrs_list :: "('c heap \<Rightarrow> 'x \<Rightarrow> addr set) \<Rightarrow> 'c heap \<Rightarrow> 'x list \<Rightarrow> addr set" where
  "addrs_list ad h xs = (\<Union>x \<in> set xs. ad h x)"

definition read_snd :: "('c heap \<Rightarrow> 'x \<Rightarrow> 'v option) \<Rightarrow> 'c heap \<Rightarrow> 'k \<times> 'x \<Rightarrow> ('k \<times> 'v) option" where
  "read_snd rd h e = map_option (Pair (fst e)) (rd h (snd e))"

definition read_pair ::
  "('c heap \<Rightarrow> 'x \<Rightarrow> 'v option) \<Rightarrow> ('c heap \<Rightarrow> 'y \<Rightarrow> 'u option) \<Rightarrow> 'c heap \<Rightarrow> 'x \<times> 'y \<Rightarrow> ('v \<times> 'u) option" where
  "read_pair rd rq h z = Option.bind (rd h (fst z)) (\<lambda>v. map_option (Pair v) (rq h (snd z)))"

definition addrs_pair ::
  "('c heap \<Rightarrow> 'x \<Rightarrow> addr set) \<Rightarrow> ('c heap \<Rightarrow> 'y \<Rightarrow> addr set) \<Rightarrow> 'c heap \<Rightarrow> 'x \<times> 'y \<Rightarrow> addr set" where
  "addrs_pair ad aq h z = ad h (fst z) \<union> aq h (snd z)"

section \<open>The contract of a deep copy\<close>

text \<open>\<open>grows h h'\<close>: every cell of \<open>h\<close> is as it was in \<open>h'\<close>.\<close>

definition grows :: "'c heap \<Rightarrow> 'c heap \<Rightarrow> bool" where
  "grows h h' = (length h \<le> length h' \<and> (\<forall>a < length h. load h' a = load h a))"

lemma grows_refl [simp]: "grows h h"
  by (simp add: grows_def)

lemma grows_trans: "grows h h1 \<Longrightarrow> grows h1 h2 \<Longrightarrow> grows h h2"
  by (auto simp: grows_def)

lemma grows_append [simp]: "grows h (h @ cs)"
  by (auto simp: grows_def load_def nth_append)

lemma grows_store: "grows h h' \<Longrightarrow> length h \<le> a \<Longrightarrow> grows h (h'[a := c])"
  by (auto simp: grows_def load_def)

lemma load_store: "load (h[a := c]) b = (if a = b \<and> b < length h then Some c else load h b)"
  by (auto simp: load_def)

lemma load_length_append [simp]: "load (h @ [c]) (length h) = Some c"
  by (simp add: load_def)

text \<open>What the program does afterwards: it allocates cells and writes to cells.\<close>

datatype 'c heap_step = Alloc 'c | Write addr 'c

fun heap_after :: "'c heap_step list \<Rightarrow> 'c heap \<Rightarrow> 'c heap" where
  "heap_after [] h = h"
| "heap_after (Alloc c # es) h = heap_after es (h @ [c])"
| "heap_after (Write a c # es) h = heap_after es (h[a := c])"

fun written :: "'c heap_step list \<Rightarrow> addr set" where
  "written [] = {}"
| "written (Alloc c # es) = written es"
| "written (Write a c # es) = insert a (written es)"

text \<open>
  A structure's value depends on the cells it consists of only; its copy reads as the same value,
  consists of cells that did not exist before, and leaves every existing cell as it was.
\<close>

locale deep_copy =
  fixes rd :: "'c heap \<Rightarrow> 'x \<Rightarrow> 'v option"
    and ad :: "'c heap \<Rightarrow> 'x \<Rightarrow> addr set"
    and cp :: "'x \<Rightarrow> ('c, 'x) hop"
  assumes local: "rd h x = Some v \<Longrightarrow> (\<And>a. a \<in> ad h x \<Longrightarrow> load h' a = load h a) \<Longrightarrow>
      rd h' x = Some v \<and> ad h' x = ad h x"
    and bounded: "rd h x = Some v \<Longrightarrow> a \<in> ad h x \<Longrightarrow> a < length h"
    and copies: "rd h x = Some v \<Longrightarrow> \<exists>y h'. cp x h = Some (y, h') \<and> grows h h' \<and> rd h' y = Some v \<and>
      (\<forall>a \<in> ad h' y. length h \<le> a)"
begin

lemma stable:
  assumes "rd h x = Some v" and "grows h h'"
  shows "rd h' x = Some v" and "ad h' x = ad h x"
proof -
  have "load h' a = load h a" if "a \<in> ad h x" for a
    using assms(2) bounded [OF assms(1) that] by (simp add: grows_def)
  from local [OF assms(1) this] show "rd h' x = Some v" "ad h' x = ad h x" by simp_all
qed

lemma unaffected: "rd h x = Some v \<Longrightarrow> a \<notin> ad h x \<Longrightarrow> rd (h[a := c]) x = Some v \<and> ad (h[a := c]) x = ad h x"
  by (rule local) (auto simp: load_store)

lemma undisturbed: "rd h x = Some v \<Longrightarrow> written es \<inter> ad h x = {} \<Longrightarrow> rd (heap_after es h) x = Some v"
proof (induction es h rule: heap_after.induct)
  case (2 c es h)
  then show ?case using stable [OF "2.prems"(1), of "h @ [c]"] by simp
next
  case (3 a c es h)
  then show ?case using unaffected [OF "3.prems"(1), of a c] by simp
qed simp

text \<open>The original and the copy have no cell in common, and go separate ways.\<close>

lemma independent:
  assumes "rd h x = Some v"
  shows "\<exists>y h'. cp x h = Some (y, h') \<and> grows h h' \<and> rd h' y = Some v \<and> rd h' x = Some v \<and>
    (\<forall>a \<in> ad h' y. length h \<le> a) \<and> ad h' x \<inter> ad h' y = {}"
proof -
  obtain y h' where copy: "cp x h = Some (y, h')" "grows h h'" "rd h' y = Some v"
    and fresh: "\<forall>a \<in> ad h' y. length h \<le> a"
    using copies [OF assms] by blast
  note old = stable [OF assms copy(2)]
  have "ad h' x \<inter> ad h' y = {}"
    using fresh bounded [OF assms] old(2) by fastforce
  then show ?thesis using copy fresh old(1) by blast
qed

text \<open>Writes to the one, and to cells allocated later, do not show in the other.\<close>

lemma separate:
  assumes "rd h x = Some v"
  shows "\<exists>y h'. cp x h = Some (y, h') \<and>
    (\<forall>es. written es \<subseteq> ad h' y \<union> {length h'..} \<longrightarrow> rd (heap_after es h') x = Some v) \<and>
    (\<forall>es. written es \<subseteq> ad h' x \<union> {length h'..} \<longrightarrow> rd (heap_after es h') y = Some v)"
proof -
  obtain y h' where copy: "cp x h = Some (y, h')" and y: "rd h' y = Some v" and x: "rd h' x = Some v"
    and disjoint: "ad h' x \<inter> ad h' y = {}"
    using independent [OF assms] by blast
  have off: "written es \<inter> ad h' z = {}"
    if "written es \<subseteq> ad h' w \<union> {length h'..}" and "ad h' z \<inter> ad h' w = {}" and "rd h' z = Some v"
    for es :: "'c heap_step list" and z w
    using that bounded [OF that(3)] by fastforce
  show ?thesis
  proof (intro exI conjI allI impI)
    show "cp x h = Some (y, h')" by (rule copy)
    show "rd (heap_after es h') x = Some v" if "written es \<subseteq> ad h' y \<union> {length h'..}" for es
      by (rule undisturbed [OF x off [OF that disjoint x]])
    show "rd (heap_after es h') y = Some v" if "written es \<subseteq> ad h' x \<union> {length h'..}" for es
      by (rule undisturbed [OF y off [OF that _ y]]) (use disjoint in blast)
  qed
qed

end

section \<open>Deep copies from deep copies\<close>

lemma flat_copy: "deep_copy read_flat addrs_flat returnH"
  by unfold_locales (simp_all add: read_flat_def addrs_flat_def returnH_def)

lemma ptr_copy:
  assumes D: "deep_copy rd ad cp" and proj: "\<And>x. proj (mk x) = Some x"
  shows "deep_copy (read_ptr proj rd) (addrs_ptr proj ad) (copy_ptr proj mk zero cp)"
proof
  fix h p v and h' :: "'a heap"
  assume v: "read_ptr proj rd h p = Some v" and same: "\<And>a. a \<in> addrs_ptr proj ad h p \<Longrightarrow> load h' a = load h a"
  show "read_ptr proj rd h' p = Some v \<and> addrs_ptr proj ad h' p = addrs_ptr proj ad h p"
  proof (cases p)
    case None
    then show ?thesis using v by (simp add: read_ptr_def addrs_ptr_def)
  next
    case (Some a)
    then obtain x u where x: "Option.bind (load h a) proj = Some x" "rd h x = Some u" "v = Some u"
      using v by (auto simp: read_ptr_def split: option.splits)
    have "load h' a = load h a" using same [of a] Some by (simp add: addrs_ptr_def)
    moreover have "rd h' x = Some u \<and> ad h' x = ad h x"
      using deep_copy.local [OF D x(2), of h'] same Some x(1) by (simp add: addrs_ptr_def)
    ultimately show ?thesis using Some x by (simp add: read_ptr_def addrs_ptr_def)
  qed
next
  fix h p v a
  assume "read_ptr proj rd h p = Some v" and "a \<in> addrs_ptr proj ad h p"
  then show "a < length h"
    using deep_copy.bounded [OF D]
    by (auto simp: read_ptr_def addrs_ptr_def load_def split: option.splits if_splits dest: sym)
next
  fix h p v
  assume v: "read_ptr proj rd h p = Some v"
  show "\<exists>y h'. copy_ptr proj mk zero cp p h = Some (y, h') \<and> grows h h' \<and> read_ptr proj rd h' y = Some v \<and>
      (\<forall>a \<in> addrs_ptr proj ad h' y. length h \<le> a)"
  proof (cases p)
    case None
    then show ?thesis using v by (simp add: copy_ptr_def read_ptr_def addrs_ptr_def returnH_def)
  next
    case (Some a)
    then obtain x u where x: "Option.bind (load h a) proj = Some x" "rd h x = Some u" "v = Some u"
      using v by (auto simp: read_ptr_def split: option.splits)
    let ?b = "length h" and ?h1 = "h @ [mk zero]"
    have "rd ?h1 x = Some u" by (rule deep_copy.stable(1) [OF D x(2)]) simp
    then obtain y h2 where y: "cp x ?h1 = Some (y, h2)" "grows ?h1 h2" "rd h2 y = Some u"
      and fresh: "\<forall>a \<in> ad h2 y. length ?h1 \<le> a"
      using deep_copy.copies [OF D] by blast
    let ?h3 = "h2[?b := mk y]"
    have "rd ?h3 y = Some u \<and> ad ?h3 y = ad h2 y"
      by (rule deep_copy.unaffected [OF D y(3)]) (use fresh in auto)
    moreover have "load ?h3 ?b = Some (mk y)" using y(2) by (simp add: load_store grows_def)
    moreover have "grows h ?h3" using y(2) grows_append [of h "[mk zero]"] by (blast intro: grows_store grows_trans)
    ultimately show ?thesis
      using Some x y(1) fresh proj
      by (auto simp: copy_ptr_def hop_defs read_ptr_def addrs_ptr_def)
  qed
qed

lemma pair_copy:
  assumes D: "deep_copy rd ad cp" and F: "deep_copy rq aq cq"
  shows "deep_copy (read_pair rd rq) (addrs_pair ad aq) (copy_pair cp cq)"
proof
  fix h z v and h' :: "'a heap"
  assume v: "read_pair rd rq h z = Some v" and same: "\<And>a. a \<in> addrs_pair ad aq h z \<Longrightarrow> load h' a = load h a"
  obtain u w where "rd h (fst z) = Some u" "rq h (snd z) = Some w" "v = (u, w)"
    using v by (auto simp: read_pair_def bind_eq_Some_conv)
  then show "read_pair rd rq h' z = Some v \<and> addrs_pair ad aq h' z = addrs_pair ad aq h z"
    using deep_copy.local [OF D, of h "fst z" u h'] deep_copy.local [OF F, of h "snd z" w h'] same
    by (simp add: read_pair_def addrs_pair_def)
next
  fix h z v a
  assume "read_pair rd rq h z = Some v" and "a \<in> addrs_pair ad aq h z"
  then show "a < length h"
    using deep_copy.bounded [OF D] deep_copy.bounded [OF F]
    by (auto simp: read_pair_def addrs_pair_def bind_eq_Some_conv)
next
  fix h z v
  assume "read_pair rd rq h z = Some v"
  then obtain u w where u: "rd h (fst z) = Some u" and w: "rq h (snd z) = Some w" and v: "v = (u, w)"
    by (auto simp: read_pair_def bind_eq_Some_conv)
  obtain x h1 where x: "cp (fst z) h = Some (x, h1)" "grows h h1" "rd h1 x = Some u" "\<forall>a \<in> ad h1 x. length h \<le> a"
    using deep_copy.copies [OF D u] by blast
  have "rq h1 (snd z) = Some w" by (rule deep_copy.stable(1) [OF F w x(2)])
  then obtain y h2 where y: "cq (snd z) h1 = Some (y, h2)" "grows h1 h2" "rq h2 y = Some w" "\<forall>a \<in> aq h2 y. length h1 \<le> a"
    using deep_copy.copies [OF F] by blast
  have "rd h2 x = Some u" "ad h2 x = ad h1 x" by (rule deep_copy.stable [OF D x(3) y(2)])+
  moreover have "length h \<le> length h1" using x(2) by (simp add: grows_def)
  ultimately show "\<exists>y h'. copy_pair cp cq z h = Some (y, h') \<and> grows h h' \<and> read_pair rd rq h' y = Some v \<and>
      (\<forall>a \<in> addrs_pair ad aq h' y. length h \<le> a)"
    using x y v grows_trans [OF x(2) y(2)]
    by (auto simp: copy_pair_def bindH_def returnH_def read_pair_def addrs_pair_def intro: order_trans)
qed

text \<open>A structure whose parts are the fields of another, with a part that is copied as it is.\<close>

lemma struct_copy:
  assumes D: "deep_copy rd ad cp"
    and rd': "\<And>h x. rd' h x = map_option (build x) (rd h (parts x))"
    and ad': "\<And>h x. ad' h x = ad h (parts x)"
    and cp': "\<And>x h. cp' x h = map_option (\<lambda>(y, h'). (put y x, h')) (cp (parts x) h)"
    and put: "\<And>y x. parts (put y x) = y" "\<And>y x. build (put y x) = build x"
  shows "deep_copy rd' ad' cp'"
proof
  fix h x v and h' :: "'a heap"
  assume "rd' h x = Some v" and "\<And>a. a \<in> ad' h x \<Longrightarrow> load h' a = load h a"
  then show "rd' h' x = Some v \<and> ad' h' x = ad' h x"
    using deep_copy.local [OF D, of h "parts x" _ h'] by (auto simp: rd' ad')
next
  fix h x v a
  assume "rd' h x = Some v" and "a \<in> ad' h x"
  then show "a < length h" using deep_copy.bounded [OF D] by (auto simp: rd' ad')
next
  fix h x v
  assume "rd' h x = Some v"
  then obtain u where "rd h (parts x) = Some u" "v = build x u" by (auto simp: rd')
  then show "\<exists>y h'. cp' x h = Some (y, h') \<and> grows h h' \<and> rd' h' y = Some v \<and> (\<forall>a \<in> ad' h' y. length h \<le> a)"
    using deep_copy.copies [OF D, of h "parts x" u] put by (fastforce simp: rd' ad' cp')
qed

lemma list_copy:
  assumes D: "deep_copy rd ad cp"
  shows "deep_copy (read_list rd) (addrs_list ad) (copy_list cp)"
proof
  fix h xs v and h' :: "'a heap"
  assume "read_list rd h xs = Some v" and "\<And>a. a \<in> addrs_list ad h xs \<Longrightarrow> load h' a = load h a"
  then show "read_list rd h' xs = Some v \<and> addrs_list ad h' xs = addrs_list ad h xs"
  proof (induction xs arbitrary: v)
    case Nil
    then show ?case by (simp add: addrs_list_def)
  next
    case (Cons x xs)
    obtain u us where u: "rd h x = Some u" "read_list rd h xs = Some us" "v = u # us"
      using Cons.prems(1) by (auto simp: bind_eq_Some_conv)
    have "rd h' x = Some u \<and> ad h' x = ad h x"
      using Cons.prems(2) by (intro deep_copy.local [OF D u(1)]) (simp add: addrs_list_def)
    moreover have "read_list rd h' xs = Some us \<and> addrs_list ad h' xs = addrs_list ad h xs"
      using Cons.prems(2) by (intro Cons.IH u) (simp add: addrs_list_def)
    ultimately show ?case using u(3) by (simp add: addrs_list_def)
  qed
next
  fix h xs v a
  assume "read_list rd h xs = Some v" and "a \<in> addrs_list ad h xs"
  then show "a < length h"
    by (induction xs arbitrary: v) (auto simp: addrs_list_def bind_eq_Some_conv dest: deep_copy.bounded [OF D])
next
  fix h xs v
  assume "read_list rd h xs = Some v"
  then show "\<exists>y h'. copy_list cp xs h = Some (y, h') \<and> grows h h' \<and> read_list rd h' y = Some v \<and>
      (\<forall>a \<in> addrs_list ad h' y. length h \<le> a)"
  proof (induction xs arbitrary: h v)
    case Nil
    then show ?case by (simp add: returnH_def addrs_list_def)
  next
    case (Cons x xs)
    obtain u us where u: "rd h x = Some u" "read_list rd h xs = Some us" "v = u # us"
      using Cons.prems by (auto simp: bind_eq_Some_conv)
    obtain y h1 where y: "cp x h = Some (y, h1)" "grows h h1" "rd h1 y = Some u" "\<forall>a \<in> ad h1 y. length h \<le> a"
      using deep_copy.copies [OF D u(1)] by blast
    have "read_list rd h1 xs = Some us"
      using u(2)
    proof (induction xs arbitrary: us)
      case (Cons z zs)
      then show ?case using deep_copy.stable(1) [OF D _ y(2)] by (auto simp: bind_eq_Some_conv)
    qed simp
    from Cons.IH [OF this] obtain ys h2 where ys: "copy_list cp xs h1 = Some (ys, h2)" "grows h1 h2"
      "read_list rd h2 ys = Some us" "\<forall>a \<in> addrs_list ad h2 ys. length h1 \<le> a" by blast
    have "rd h2 y = Some u" "ad h2 y = ad h1 y" by (rule deep_copy.stable [OF D y(3) ys(2)])+
    moreover have "length h \<le> length h1" using y(2) by (simp add: grows_def)
    ultimately show ?case
      using y ys u(3) grows_trans [OF y(2) ys(2)]
      by (auto simp: bindH_def returnH_def addrs_list_def intro: order_trans)
  qed
qed

lemma temp_copy:
  assumes D: "deep_copy rd ad cp"
  shows "deep_copy rd ad (copy_temp mk zero cp)"
proof
  fix h x v
  assume v: "rd h x = Some v"
  let ?b = "length h" and ?h1 = "h @ [mk zero]"
  have "rd ?h1 x = Some v" by (rule deep_copy.stable(1) [OF D v]) simp
  then obtain y h2 where y: "cp x ?h1 = Some (y, h2)" "grows ?h1 h2" "rd h2 y = Some v"
    and fresh: "\<forall>a \<in> ad h2 y. length ?h1 \<le> a"
    using deep_copy.copies [OF D] by blast
  have "rd (h2[?b := mk y]) y = Some v \<and> ad (h2[?b := mk y]) y = ad h2 y"
    by (rule deep_copy.unaffected [OF D y(3)]) (use fresh in auto)
  moreover have "grows h (h2[?b := mk y])"
    using y(2) grows_append [of h "[mk zero]"] by (blast intro: grows_store grows_trans)
  ultimately show "\<exists>y h'. copy_temp mk zero cp x h = Some (y, h') \<and> grows h h' \<and> rd h' y = Some v \<and>
      (\<forall>a \<in> ad h' y. length h \<le> a)"
    using y(1) fresh by (auto simp: copy_temp_def hop_defs)
qed (blast dest: deep_copy.local [OF D] deep_copy.bounded [OF D])+

lemma snd_copy:
  assumes D: "deep_copy rd ad cp"
  shows "deep_copy (read_snd rd) (\<lambda>h e. ad h (snd e)) (copy_snd cp)"
  by (rule struct_copy [OF D, where build = "\<lambda>e. Pair (fst e)" and parts = snd and put = "\<lambda>y e. (fst e, y)"])
    (auto simp: read_snd_def copy_snd_def bindH_def returnH_def split: option.splits)

end
