(* ===== verification/DeepCopy.thy ===== *)
theory DeepCopy
  imports GoHeap ApiTypes
begin

text \<open>
  \<open>api/v1alpha1/zz_generated.deepcopy.go\<close>: the deep copies that the operator's cache hands out,
  over structs as they lie in memory: a pointer, slice or map field is an address or nil. Each
  \<open>DeepCopyInto\<close> takes the struct it reads and returns the struct it fills. The copies of times and
  of the metadata are the API machinery's own and a parameter.
\<close>

section \<open>Structs in memory\<close>

record hTag =
  ht_Key :: "addr option"
  ht_Value :: "addr option"

record hPolicySpec =
  hps_Name :: "addr option"
  hps_PolicyDocument :: "addr option"
  hps_Tags :: "addr option"

record hPolicy =
  hpol_Spec :: hPolicySpec

record hRoleSpec =
  hrs_AssumeRolePolicyDocument :: "addr option"
  hrs_Name :: "addr option"
  hrs_Policies :: "addr option"
  hrs_Tags :: "addr option"

record hRole =
  hrol_Spec :: hRoleSpec

record hSpec =
  hs_EKSClusterName :: string
  hs_Frequency :: "addr option"
  hs_Region :: string
  hs_Policies :: "addr option"
  hs_Roles :: "addr option"

record hMetadata =
  hm_ARN :: "addr option"
  hm_OwnerAccountID :: "addr option"
  hm_Region :: "addr option"

record hPolicyStatus =
  hpt_AWSIAMResourceMetadata :: "addr option"
  hpt_AttachmentCount :: "addr option"
  hpt_CreateDate :: "addr option"
  hpt_DefaultVersionID :: "addr option"
  hpt_PolicyID :: "addr option"

record hStatusPolicy =
  hsp_Name :: "addr option"
  hsp_Message :: string
  hsp_Phase :: string
  hsp_Status :: hPolicyStatus

record hRoleStatus =
  hrt_AWSIAMResourceMetadata :: "addr option"
  hrt_CreateDate :: "addr option"
  hrt_RoleID :: "addr option"

record hStatusRole =
  hsr_Name :: "addr option"
  hsr_Message :: string
  hsr_Phase :: string
  hsr_Status :: hRoleStatus

record hStatus =
  hst_Message :: string
  hst_LastUpdatedTime :: "addr option"
  hst_Phase :: string
  hst_Policies :: "addr option"
  hst_Roles :: "addr option"

text \<open>\<open>TypeMeta\<close> is two strings; \<open>'m\<close> and \<open>'l\<close> stand for \<open>ObjectMeta\<close> and \<open>ListMeta\<close> in memory.\<close>

record 'm hProvision =
  hp_TypeMeta :: "string \<times> string"
  hp_ObjectMeta :: 'm
  hp_Spec :: hSpec
  hp_Status :: hStatus

record 'l hList =
  hl_TypeMeta :: "string \<times> string"
  hl_ListMeta :: 'l
  hl_Items :: "addr option"

text \<open>A cell holds one variable: a basic value, a struct, the array of a slice, or a map.\<close>

datatype ('m, 'l) cell =
    CStr "string"
  | CDur "duration"
  | CInt "32 word"
  | CTime "time"
  | CTag "hTag"
  | CMeta "hMetadata"
  | CPolicySpec "hPolicySpec"
  | CPolicy "hPolicy"
  | CRoleSpec "hRoleSpec"
  | CRole "hRole"
  | CSpec "hSpec"
  | CPolicyStatus "hPolicyStatus"
  | CStatusPolicy "hStatusPolicy"
  | CRoleStatus "hRoleStatus"
  | CStatusRole "hStatusRole"
  | CStatus "hStatus"
  | CProvision "'m hProvision"
  | CList "'l hList"
  | CPointers "addr option list"
  | CPolicyMap "(string \<times> hPolicy) list"
  | CRoleMap "(string \<times> hRole) list"
  | CStatusPolicies "hStatusPolicy list"
  | CStatusRoles "hStatusRole list"
  | CItems "'m hProvision list"
  | COther "nat"

text \<open>\<open>COther\<close> is what the metadata consists of. Reading a cell of a given type:\<close>

definition string_cell :: "('m, 'l) cell \<Rightarrow> (string) option" where
  "string_cell c = (case c of CStr x \<Rightarrow> Some x | _ \<Rightarrow> None)"

definition duration_cell :: "('m, 'l) cell \<Rightarrow> (duration) option" where
  "duration_cell c = (case c of CDur x \<Rightarrow> Some x | _ \<Rightarrow> None)"

definition int32_cell :: "('m, 'l) cell \<Rightarrow> (32 word) option" where
  "int32_cell c = (case c of CInt x \<Rightarrow> Some x | _ \<Rightarrow> None)"

definition time_cell :: "('m, 'l) cell \<Rightarrow> (time) option" where
  "time_cell c = (case c of CTime x \<Rightarrow> Some x | _ \<Rightarrow> None)"

definition tag_cell :: "('m, 'l) cell \<Rightarrow> (hTag) option" where
  "tag_cell c = (case c of CTag x \<Rightarrow> Some x | _ \<Rightarrow> None)"

definition metadata_cell :: "('m, 'l) cell \<Rightarrow> (hMetadata) option" where
  "metadata_cell c = (case c of CMeta x \<Rightarrow> Some x | _ \<Rightarrow> None)"

definition policySpec_cell :: "('m, 'l) cell \<Rightarrow> (hPolicySpec) option" where
  "policySpec_cell c = (case c of CPolicySpec x \<Rightarrow> Some x | _ \<Rightarrow> None)"

definition policy_cell :: "('m, 'l) cell \<Rightarrow> (hPolicy) option" where
  "policy_cell c = (case c of CPolicy x \<Rightarrow> Some x | _ \<Rightarrow> None)"

definition roleSpec_cell :: "('m, 'l) cell \<Rightarrow> (hRoleSpec) option" where
  "roleSpec_cell c = (case c of CRoleSpec x \<Rightarrow> Some x | _ \<Rightarrow> None)"

definition role_cell :: "('m, 'l) cell \<Rightarrow> (hRole) option" where
  "role_cell c = (case c of CRole x \<Rightarrow> Some x | _ \<Rightarrow> None)"

definition spec_cell :: "('m, 'l) cell \<Rightarrow> (hSpec) option" where
  "spec_cell c = (case c of CSpec x \<Rightarrow> Some x | _ \<Rightarrow> None)"

definition policyStatus_cell :: "('m, 'l) cell \<Rightarrow> (hPolicyStatus) option" where
  "policyStatus_cell c = (case c of CPolicyStatus x \<Rightarrow> Some x | _ \<Rightarrow> None)"

definition statusPolicy_cell :: "('m, 'l) cell \<Rightarrow> (hStatusPolicy) option" where
  "statusPolicy_cell c = (case c of CStatusPolicy x \<Rightarrow> Some x | _ \<Rightarrow> None)"

definition roleStatus_cell :: "('m, 'l) cell \<Rightarrow> (hRoleStatus) option" where
  "roleStatus_cell c = (case c of CRoleStatus x \<Rightarrow> Some x | _ \<Rightarrow> None)"

definition statusRole_cell :: "('m, 'l) cell \<Rightarrow> (hStatusRole) option" where
  "statusRole_cell c = (case c of CStatusRole x \<Rightarrow> Some x | _ \<Rightarrow> None)"

definition status_cell :: "('m, 'l) cell \<Rightarrow> (hStatus) option" where
  "status_cell c = (case c of CStatus x \<Rightarrow> Some x | _ \<Rightarrow> None)"

definition provision_cell :: "('m, 'l) cell \<Rightarrow> ('m hProvision) option" where
  "provision_cell c = (case c of CProvision x \<Rightarrow> Some x | _ \<Rightarrow> None)"

definition provisions_cell :: "('m, 'l) cell \<Rightarrow> ('l hList) option" where
  "provisions_cell c = (case c of CList x \<Rightarrow> Some x | _ \<Rightarrow> None)"

definition pointers_cell :: "('m, 'l) cell \<Rightarrow> (addr option list) option" where
  "pointers_cell c = (case c of CPointers x \<Rightarrow> Some x | _ \<Rightarrow> None)"

definition policyMap_cell :: "('m, 'l) cell \<Rightarrow> ((string \<times> hPolicy) list) option" where
  "policyMap_cell c = (case c of CPolicyMap x \<Rightarrow> Some x | _ \<Rightarrow> None)"

definition roleMap_cell :: "('m, 'l) cell \<Rightarrow> ((string \<times> hRole) list) option" where
  "roleMap_cell c = (case c of CRoleMap x \<Rightarrow> Some x | _ \<Rightarrow> None)"

definition statusPolicies_cell :: "('m, 'l) cell \<Rightarrow> (hStatusPolicy list) option" where
  "statusPolicies_cell c = (case c of CStatusPolicies x \<Rightarrow> Some x | _ \<Rightarrow> None)"

definition statusRoles_cell :: "('m, 'l) cell \<Rightarrow> (hStatusRole list) option" where
  "statusRoles_cell c = (case c of CStatusRoles x \<Rightarrow> Some x | _ \<Rightarrow> None)"

definition items_cell :: "('m, 'l) cell \<Rightarrow> ('m hProvision list) option" where
  "items_cell c = (case c of CItems x \<Rightarrow> Some x | _ \<Rightarrow> None)"

lemmas cell_defs = string_cell_def duration_cell_def int32_cell_def time_cell_def tag_cell_def metadata_cell_def policySpec_cell_def policy_cell_def roleSpec_cell_def role_cell_def spec_cell_def policyStatus_cell_def statusPolicy_cell_def roleStatus_cell_def statusRole_cell_def status_cell_def provision_cell_def provisions_cell_def pointers_cell_def policyMap_cell_def roleMap_cell_def statusPolicies_cell_def statusRoles_cell_def items_cell_def

section \<open>The library's part\<close>

text \<open>
  \<open>metav1.Time\<close>, \<open>ObjectMeta\<close> and \<open>ListMeta\<close> have deep copies of their own. What they promise is the
  contract of a deep copy, for the way these structs are read.
\<close>

record ('m, 'l, 'u) machinery =
  time_DeepCopy :: "addr option \<Rightarrow> (('m, 'l) cell, addr option) hop"
  ObjectMeta_DeepCopyInto :: "'m \<Rightarrow> (('m, 'l) cell, 'm) hop"
  ListMeta_DeepCopyInto :: "'l \<Rightarrow> (('m, 'l) cell, 'l) hop"
  read_ObjectMeta :: "('m, 'l) cell heap \<Rightarrow> 'm \<Rightarrow> ObjectMeta option"
  addrs_ObjectMeta :: "('m, 'l) cell heap \<Rightarrow> 'm \<Rightarrow> addr set"
  read_ListMeta :: "('m, 'l) cell heap \<Rightarrow> 'l \<Rightarrow> 'u option"
  addrs_ListMeta :: "('m, 'l) cell heap \<Rightarrow> 'l \<Rightarrow> addr set"

section \<open>Pointers to basic values\<close>

text \<open>\<open>*out = new(string); **out = **in\<close>, and so for the named string types, \<open>Duration\<close> and \<open>int32\<close>.\<close>

definition copy_string :: "addr option \<Rightarrow> (('m, 'l) cell, addr option) hop" where
  "copy_string = copy_ptr string_cell CStr [] returnH"

definition copy_duration :: "addr option \<Rightarrow> (('m, 'l) cell, addr option) hop" where
  "copy_duration = copy_ptr duration_cell CDur 0 returnH"

definition copy_int32 :: "addr option \<Rightarrow> (('m, 'l) cell, addr option) hop" where
  "copy_int32 = copy_ptr int32_cell CInt 0 returnH"

text \<open>\<open>if in.CreateDate != nil { *out = (*in).DeepCopy() }\<close> for a \<open>*metav1.Time\<close>.\<close>

definition copy_time :: "('m, 'l, 'u) machinery \<Rightarrow> addr option \<Rightarrow> (('m, 'l) cell, addr option) hop" where
  "copy_time L p = (if p \<noteq> None then time_DeepCopy L p else returnH p)"

section \<open>The generated functions\<close>

definition Tag_DeepCopyInto :: "hTag \<Rightarrow> (('m, 'l) cell, hTag) hop" where
  "Tag_DeepCopyInto x =
     bindH (copy_string (ht_Key x)) (\<lambda>k.
     bindH (copy_string (ht_Value x)) (\<lambda>v.
     returnH (x\<lparr>ht_Key := k, ht_Value := v\<rparr>)))"

definition Tag_DeepCopy :: "addr option \<Rightarrow> (('m, 'l) cell, addr option) hop" where
  "Tag_DeepCopy = copy_ptr tag_cell CTag \<lparr>ht_Key = None, ht_Value = None\<rparr> Tag_DeepCopyInto"

text \<open>
  \<open>make([]*Tag, len(*in))\<close> and the loop over it. The new array is written when its elements have
  been copied: nothing reads it before.
\<close>

definition copy_tags :: "addr option \<Rightarrow> (('m, 'l) cell, addr option) hop" where
  "copy_tags = copy_ptr pointers_cell CPointers [] (copy_list Tag_DeepCopy)"

definition copy_strings :: "addr option \<Rightarrow> (('m, 'l) cell, addr option) hop" where
  "copy_strings = copy_ptr pointers_cell CPointers [] (copy_list copy_string)"

definition PolicySpec_DeepCopyInto :: "hPolicySpec \<Rightarrow> (('m, 'l) cell, hPolicySpec) hop" where
  "PolicySpec_DeepCopyInto x =
     bindH (copy_string (hps_Name x)) (\<lambda>n.
     bindH (copy_string (hps_PolicyDocument x)) (\<lambda>d.
     bindH (copy_tags (hps_Tags x)) (\<lambda>ts.
     returnH (x\<lparr>hps_Name := n, hps_PolicyDocument := d, hps_Tags := ts\<rparr>))))"

definition zero_hPolicySpec :: hPolicySpec where
  "zero_hPolicySpec = \<lparr>hps_Name = None, hps_PolicyDocument = None, hps_Tags = None\<rparr>"

definition PolicySpec_DeepCopy :: "addr option \<Rightarrow> (('m, 'l) cell, addr option) hop" where
  "PolicySpec_DeepCopy = copy_ptr policySpec_cell CPolicySpec zero_hPolicySpec PolicySpec_DeepCopyInto"

definition AWSIAMProvisionPolicy_DeepCopyInto :: "hPolicy \<Rightarrow> (('m, 'l) cell, hPolicy) hop" where
  "AWSIAMProvisionPolicy_DeepCopyInto x =
     bindH (PolicySpec_DeepCopyInto (hpol_Spec x)) (\<lambda>sp. returnH (x\<lparr>hpol_Spec := sp\<rparr>))"

definition AWSIAMProvisionPolicy_DeepCopy :: "addr option \<Rightarrow> (('m, 'l) cell, addr option) hop" where
  "AWSIAMProvisionPolicy_DeepCopy =
     copy_ptr policy_cell CPolicy \<lparr>hpol_Spec = zero_hPolicySpec\<rparr> AWSIAMProvisionPolicy_DeepCopyInto"

definition RoleSpec_DeepCopyInto :: "hRoleSpec \<Rightarrow> (('m, 'l) cell, hRoleSpec) hop" where
  "RoleSpec_DeepCopyInto x =
     bindH (copy_string (hrs_AssumeRolePolicyDocument x)) (\<lambda>d.
     bindH (copy_string (hrs_Name x)) (\<lambda>n.
     bindH (copy_strings (hrs_Policies x)) (\<lambda>ps.
     bindH (copy_tags (hrs_Tags x)) (\<lambda>ts.
     returnH (x\<lparr>hrs_AssumeRolePolicyDocument := d, hrs_Name := n, hrs_Policies := ps, hrs_Tags := ts\<rparr>)))))"

definition zero_hRoleSpec :: hRoleSpec where
  "zero_hRoleSpec = \<lparr>hrs_AssumeRolePolicyDocument = None, hrs_Name = None, hrs_Policies = None, hrs_Tags = None\<rparr>"

definition RoleSpec_DeepCopy :: "addr option \<Rightarrow> (('m, 'l) cell, addr option) hop" where
  "RoleSpec_DeepCopy = copy_ptr roleSpec_cell CRoleSpec zero_hRoleSpec RoleSpec_DeepCopyInto"

definition AWSIAMProvisionRole_DeepCopyInto :: "hRole \<Rightarrow> (('m, 'l) cell, hRole) hop" where
  "AWSIAMProvisionRole_DeepCopyInto x =
     bindH (RoleSpec_DeepCopyInto (hrol_Spec x)) (\<lambda>sp. returnH (x\<lparr>hrol_Spec := sp\<rparr>))"

definition AWSIAMProvisionRole_DeepCopy :: "addr option \<Rightarrow> (('m, 'l) cell, addr option) hop" where
  "AWSIAMProvisionRole_DeepCopy =
     copy_ptr role_cell CRole \<lparr>hrol_Spec = zero_hRoleSpec\<rparr> AWSIAMProvisionRole_DeepCopyInto"

text \<open>
  \<open>make(map[string]T, len(*in))\<close>, then \<open>(*out)[key] = *val.DeepCopy()\<close> for each entry, in the order
  the map is visited.
\<close>

definition copy_policies :: "addr option \<Rightarrow> (('m, 'l) cell, addr option) hop" where
  "copy_policies = copy_ptr policyMap_cell CPolicyMap []
     (copy_list (copy_snd (copy_temp CPolicy \<lparr>hpol_Spec = zero_hPolicySpec\<rparr> AWSIAMProvisionPolicy_DeepCopyInto)))"

definition copy_roles :: "addr option \<Rightarrow> (('m, 'l) cell, addr option) hop" where
  "copy_roles = copy_ptr roleMap_cell CRoleMap []
     (copy_list (copy_snd (copy_temp CRole \<lparr>hrol_Spec = zero_hRoleSpec\<rparr> AWSIAMProvisionRole_DeepCopyInto)))"

definition AWSIAMProvisionSpec_DeepCopyInto :: "hSpec \<Rightarrow> (('m, 'l) cell, hSpec) hop" where
  "AWSIAMProvisionSpec_DeepCopyInto x =
     bindH (copy_duration (hs_Frequency x)) (\<lambda>f.
     bindH (copy_policies (hs_Policies x)) (\<lambda>ps.
     bindH (copy_roles (hs_Roles x)) (\<lambda>rs.
     returnH (x\<lparr>hs_Frequency := f, hs_Policies := ps, hs_Roles := rs\<rparr>))))"

definition zero_hSpec :: hSpec where
  "zero_hSpec = \<lparr>hs_EKSClusterName = [], hs_Frequency = None, hs_Region = [], hs_Policies = None, hs_Roles = None\<rparr>"

definition AWSIAMProvisionSpec_DeepCopy :: "addr option \<Rightarrow> (('m, 'l) cell, addr option) hop" where
  "AWSIAMProvisionSpec_DeepCopy = copy_ptr spec_cell CSpec zero_hSpec AWSIAMProvisionSpec_DeepCopyInto"

definition AWSIAMResourceMetadata_DeepCopyInto :: "hMetadata \<Rightarrow> (('m, 'l) cell, hMetadata) hop" where
  "AWSIAMResourceMetadata_DeepCopyInto x =
     bindH (copy_string (hm_ARN x)) (\<lambda>a.
     bindH (copy_string (hm_OwnerAccountID x)) (\<lambda>i.
     bindH (copy_string (hm_Region x)) (\<lambda>r.
     returnH (x\<lparr>hm_ARN := a, hm_OwnerAccountID := i, hm_Region := r\<rparr>))))"

definition AWSIAMResourceMetadata_DeepCopy :: "addr option \<Rightarrow> (('m, 'l) cell, addr option) hop" where
  "AWSIAMResourceMetadata_DeepCopy = copy_ptr metadata_cell CMeta
     \<lparr>hm_ARN = None, hm_OwnerAccountID = None, hm_Region = None\<rparr> AWSIAMResourceMetadata_DeepCopyInto"

definition PolicyStatus_DeepCopyInto ::
  "('m, 'l, 'u) machinery \<Rightarrow> hPolicyStatus \<Rightarrow> (('m, 'l) cell, hPolicyStatus) hop" where
  "PolicyStatus_DeepCopyInto L x =
     bindH (AWSIAMResourceMetadata_DeepCopy (hpt_AWSIAMResourceMetadata x)) (\<lambda>md.
     bindH (copy_int32 (hpt_AttachmentCount x)) (\<lambda>n.
     bindH (copy_time L (hpt_CreateDate x)) (\<lambda>t.
     bindH (copy_string (hpt_DefaultVersionID x)) (\<lambda>v.
     bindH (copy_string (hpt_PolicyID x)) (\<lambda>i.
     returnH (x\<lparr>hpt_AWSIAMResourceMetadata := md, hpt_AttachmentCount := n, hpt_CreateDate := t,
       hpt_DefaultVersionID := v, hpt_PolicyID := i\<rparr>))))))"

definition zero_hPolicyStatus :: hPolicyStatus where
  "zero_hPolicyStatus = \<lparr>hpt_AWSIAMResourceMetadata = None, hpt_AttachmentCount = None, hpt_CreateDate = None,
     hpt_DefaultVersionID = None, hpt_PolicyID = None\<rparr>"

definition PolicyStatus_DeepCopy :: "('m, 'l, 'u) machinery \<Rightarrow> addr option \<Rightarrow> (('m, 'l) cell, addr option) hop" where
  "PolicyStatus_DeepCopy L = copy_ptr policyStatus_cell CPolicyStatus zero_hPolicyStatus (PolicyStatus_DeepCopyInto L)"

definition AWSIAMProvisionStatusPolicy_DeepCopyInto ::
  "('m, 'l, 'u) machinery \<Rightarrow> hStatusPolicy \<Rightarrow> (('m, 'l) cell, hStatusPolicy) hop" where
  "AWSIAMProvisionStatusPolicy_DeepCopyInto L x =
     bindH (copy_string (hsp_Name x)) (\<lambda>n.
     bindH (PolicyStatus_DeepCopyInto L (hsp_Status x)) (\<lambda>st.
     returnH (x\<lparr>hsp_Name := n, hsp_Status := st\<rparr>)))"

definition AWSIAMProvisionStatusPolicy_DeepCopy ::
  "('m, 'l, 'u) machinery \<Rightarrow> addr option \<Rightarrow> (('m, 'l) cell, addr option) hop" where
  "AWSIAMProvisionStatusPolicy_DeepCopy L = copy_ptr statusPolicy_cell CStatusPolicy
     \<lparr>hsp_Name = None, hsp_Message = [], hsp_Phase = [], hsp_Status = zero_hPolicyStatus\<rparr>
     (AWSIAMProvisionStatusPolicy_DeepCopyInto L)"

definition RoleStatus_DeepCopyInto ::
  "('m, 'l, 'u) machinery \<Rightarrow> hRoleStatus \<Rightarrow> (('m, 'l) cell, hRoleStatus) hop" where
  "RoleStatus_DeepCopyInto L x =
     bindH (AWSIAMResourceMetadata_DeepCopy (hrt_AWSIAMResourceMetadata x)) (\<lambda>md.
     bindH (copy_time L (hrt_CreateDate x)) (\<lambda>t.
     bindH (copy_string (hrt_RoleID x)) (\<lambda>i.
     returnH (x\<lparr>hrt_AWSIAMResourceMetadata := md, hrt_CreateDate := t, hrt_RoleID := i\<rparr>))))"

definition zero_hRoleStatus :: hRoleStatus where
  "zero_hRoleStatus = \<lparr>hrt_AWSIAMResourceMetadata = None, hrt_CreateDate = None, hrt_RoleID = None\<rparr>"

definition RoleStatus_DeepCopy :: "('m, 'l, 'u) machinery \<Rightarrow> addr option \<Rightarrow> (('m, 'l) cell, addr option) hop" where
  "RoleStatus_DeepCopy L = copy_ptr roleStatus_cell CRoleStatus zero_hRoleStatus (RoleStatus_DeepCopyInto L)"

definition AWSIAMProvisionStatusRole_DeepCopyInto ::
  "('m, 'l, 'u) machinery \<Rightarrow> hStatusRole \<Rightarrow> (('m, 'l) cell, hStatusRole) hop" where
  "AWSIAMProvisionStatusRole_DeepCopyInto L x =
     bindH (copy_string (hsr_Name x)) (\<lambda>n.
     bindH (RoleStatus_DeepCopyInto L (hsr_Status x)) (\<lambda>st.
     returnH (x\<lparr>hsr_Name := n, hsr_Status := st\<rparr>)))"

definition AWSIAMProvisionStatusRole_DeepCopy ::
  "('m, 'l, 'u) machinery \<Rightarrow> addr option \<Rightarrow> (('m, 'l) cell, addr option) hop" where
  "AWSIAMProvisionStatusRole_DeepCopy L = copy_ptr statusRole_cell CStatusRole
     \<lparr>hsr_Name = None, hsr_Message = [], hsr_Phase = [], hsr_Status = zero_hRoleStatus\<rparr>
     (AWSIAMProvisionStatusRole_DeepCopyInto L)"

definition copy_status_policies ::
  "('m, 'l, 'u) machinery \<Rightarrow> addr option \<Rightarrow> (('m, 'l) cell, addr option) hop" where
  "copy_status_policies L =
     copy_ptr statusPolicies_cell CStatusPolicies [] (copy_list (AWSIAMProvisionStatusPolicy_DeepCopyInto L))"

definition copy_status_roles ::
  "('m, 'l, 'u) machinery \<Rightarrow> addr option \<Rightarrow> (('m, 'l) cell, addr option) hop" where
  "copy_status_roles L =
     copy_ptr statusRoles_cell CStatusRoles [] (copy_list (AWSIAMProvisionStatusRole_DeepCopyInto L))"

definition AWSIAMProvisionStatus_DeepCopyInto ::
  "('m, 'l, 'u) machinery \<Rightarrow> hStatus \<Rightarrow> (('m, 'l) cell, hStatus) hop" where
  "AWSIAMProvisionStatus_DeepCopyInto L x =
     bindH (copy_time L (hst_LastUpdatedTime x)) (\<lambda>t.
     bindH (copy_status_policies L (hst_Policies x)) (\<lambda>ps.
     bindH (copy_status_roles L (hst_Roles x)) (\<lambda>rs.
     returnH (x\<lparr>hst_LastUpdatedTime := t, hst_Policies := ps, hst_Roles := rs\<rparr>))))"

definition zero_hStatus :: hStatus where
  "zero_hStatus = \<lparr>hst_Message = [], hst_LastUpdatedTime = None, hst_Phase = [], hst_Policies = None, hst_Roles = None\<rparr>"

definition AWSIAMProvisionStatus_DeepCopy ::
  "('m, 'l, 'u) machinery \<Rightarrow> addr option \<Rightarrow> (('m, 'l) cell, addr option) hop" where
  "AWSIAMProvisionStatus_DeepCopy L = copy_ptr status_cell CStatus zero_hStatus (AWSIAMProvisionStatus_DeepCopyInto L)"

definition AWSIAMProvision_DeepCopyInto ::
  "('m, 'l, 'u) machinery \<Rightarrow> 'm hProvision \<Rightarrow> (('m, 'l) cell, 'm hProvision) hop" where
  "AWSIAMProvision_DeepCopyInto L x =
     bindH (ObjectMeta_DeepCopyInto L (hp_ObjectMeta x)) (\<lambda>om.
     bindH (AWSIAMProvisionSpec_DeepCopyInto (hp_Spec x)) (\<lambda>sp.
     bindH (AWSIAMProvisionStatus_DeepCopyInto L (hp_Status x)) (\<lambda>st.
     returnH (x\<lparr>hp_ObjectMeta := om, hp_Spec := sp, hp_Status := st\<rparr>))))"

text \<open>The zero metadata, which \<open>new(AWSIAMProvision)\<close> starts from, is an argument.\<close>

definition AWSIAMProvision_DeepCopy ::
  "('m, 'l, 'u) machinery \<Rightarrow> 'm \<Rightarrow> addr option \<Rightarrow> (('m, 'l) cell, addr option) hop" where
  "AWSIAMProvision_DeepCopy L om = copy_ptr provision_cell CProvision
     \<lparr>hp_TypeMeta = ([], []), hp_ObjectMeta = om, hp_Spec = zero_hSpec, hp_Status = zero_hStatus\<rparr>
     (AWSIAMProvision_DeepCopyInto L)"

definition copy_items :: "('m, 'l, 'u) machinery \<Rightarrow> addr option \<Rightarrow> (('m, 'l) cell, addr option) hop" where
  "copy_items L = copy_ptr items_cell CItems [] (copy_list (AWSIAMProvision_DeepCopyInto L))"

definition AWSIAMProvisionList_DeepCopyInto ::
  "('m, 'l, 'u) machinery \<Rightarrow> 'l hList \<Rightarrow> (('m, 'l) cell, 'l hList) hop" where
  "AWSIAMProvisionList_DeepCopyInto L x =
     bindH (ListMeta_DeepCopyInto L (hl_ListMeta x)) (\<lambda>lm.
     bindH (copy_items L (hl_Items x)) (\<lambda>is.
     returnH (x\<lparr>hl_ListMeta := lm, hl_Items := is\<rparr>)))"

definition AWSIAMProvisionList_DeepCopy ::
  "('m, 'l, 'u) machinery \<Rightarrow> 'l \<Rightarrow> addr option \<Rightarrow> (('m, 'l) cell, addr option) hop" where
  "AWSIAMProvisionList_DeepCopy L lm = copy_ptr provisions_cell CList
     \<lparr>hl_TypeMeta = ([], []), hl_ListMeta = lm, hl_Items = None\<rparr> (AWSIAMProvisionList_DeepCopyInto L)"

text \<open>
  \<open>runtime.Object\<close>: an interface that is nil, or holds a pointer, which could be nil in turn;
  \<open>DeepCopyObject\<close> returns a nil interface for a nil pointer.
\<close>

datatype runtime_Object = NilObject | ProvisionObject "addr option" | ListObject "addr option"

definition AWSIAMProvision_DeepCopyObject ::
  "('m, 'l, 'u) machinery \<Rightarrow> 'm \<Rightarrow> addr option \<Rightarrow> (('m, 'l) cell, runtime_Object) hop" where
  "AWSIAMProvision_DeepCopyObject L om p =
     bindH (AWSIAMProvision_DeepCopy L om p) (\<lambda>c.
     if c \<noteq> None then returnH (ProvisionObject c) else returnH NilObject)"

definition AWSIAMProvisionList_DeepCopyObject ::
  "('m, 'l, 'u) machinery \<Rightarrow> 'l \<Rightarrow> addr option \<Rightarrow> (('m, 'l) cell, runtime_Object) hop" where
  "AWSIAMProvisionList_DeepCopyObject L lm p =
     bindH (AWSIAMProvisionList_DeepCopy L lm p) (\<lambda>c.
     if c \<noteq> None then returnH (ListObject c) else returnH NilObject)"

end
