(* ===== verification/DeepCopyProps.thy ===== *)
theory DeepCopyProps
  imports DeepCopy
begin

text \<open>
  The generated deep copies are deep: what the copy reads as, which cells it consists of, and that
  writes to the copy and to the original do not meet.
\<close>

section \<open>How the structs are read\<close>

text \<open>A nil slice or map reads as an empty one, as everywhere in the model.\<close>

definition elems :: "'v list option \<Rightarrow> 'v list" where
  "elems xs = (case xs of None \<Rightarrow> [] | Some ys \<Rightarrow> ys)"

lemma cell_simps [simp]:
  "time_cell (CTime x1) = Some x1"
  "string_cell (CStr x2) = Some x2"
  "duration_cell (CDur x3) = Some x3"
  "int32_cell (CInt x4) = Some x4"
  "tag_cell (CTag x5) = Some x5"
  "metadata_cell (CMeta x6) = Some x6"
  "policySpec_cell (CPolicySpec x7) = Some x7"
  "policy_cell (CPolicy x8) = Some x8"
  "roleSpec_cell (CRoleSpec x9) = Some x9"
  "role_cell (CRole x10) = Some x10"
  "spec_cell (CSpec x11) = Some x11"
  "policyStatus_cell (CPolicyStatus x12) = Some x12"
  "statusPolicy_cell (CStatusPolicy x13) = Some x13"
  "roleStatus_cell (CRoleStatus x14) = Some x14"
  "statusRole_cell (CStatusRole x15) = Some x15"
  "status_cell (CStatus x16) = Some x16"
  "provision_cell (CProvision x17) = Some x17"
  "provisions_cell (CList x18) = Some x18"
  "pointers_cell (CPointers x19) = Some x19"
  "policyMap_cell (CPolicyMap x20) = Some x20"
  "roleMap_cell (CRoleMap x21) = Some x21"
  "statusPolicies_cell (CStatusPolicies x22) = Some x22"
  "statusRoles_cell (CStatusRoles x23) = Some x23"
  "items_cell (CItems x24) = Some x24"
  by (simp_all add: cell_defs)

definition read_string :: "('m, 'l) cell heap \<Rightarrow> addr option \<Rightarrow> string option option" where
  "read_string = read_ptr string_cell read_flat"

definition addrs_string :: "('m, 'l) cell heap \<Rightarrow> addr option \<Rightarrow> addr set" where
  "addrs_string = addrs_ptr string_cell addrs_flat"

definition read_duration :: "('m, 'l) cell heap \<Rightarrow> addr option \<Rightarrow> duration option option" where
  "read_duration = read_ptr duration_cell read_flat"

definition addrs_duration :: "('m, 'l) cell heap \<Rightarrow> addr option \<Rightarrow> addr set" where
  "addrs_duration = addrs_ptr duration_cell addrs_flat"

definition read_int32 :: "('m, 'l) cell heap \<Rightarrow> addr option \<Rightarrow> 32 word option option" where
  "read_int32 = read_ptr int32_cell read_flat"

definition addrs_int32 :: "('m, 'l) cell heap \<Rightarrow> addr option \<Rightarrow> addr set" where
  "addrs_int32 = addrs_ptr int32_cell addrs_flat"

definition read_time :: "('m, 'l) cell heap \<Rightarrow> addr option \<Rightarrow> time option option" where
  "read_time = read_ptr time_cell read_flat"

definition addrs_time :: "('m, 'l) cell heap \<Rightarrow> addr option \<Rightarrow> addr set" where
  "addrs_time = addrs_ptr time_cell addrs_flat"

lemma string_copy: "deep_copy read_string addrs_string copy_string"
  unfolding read_string_def addrs_string_def copy_string_def by (rule ptr_copy [OF flat_copy]) simp

lemma duration_copy: "deep_copy read_duration addrs_duration copy_duration"
  unfolding read_duration_def addrs_duration_def copy_duration_def by (rule ptr_copy [OF flat_copy]) simp

lemma int32_copy: "deep_copy read_int32 addrs_int32 copy_int32"
  unfolding read_int32_def addrs_int32_def copy_int32_def by (rule ptr_copy [OF flat_copy]) simp

section \<open>Roles and policies of the specification\<close>

definition read_Tag :: "('m, 'l) cell heap \<Rightarrow> hTag \<Rightarrow> Tag option" where
  "read_Tag h x = map_option (\<lambda>(k, v). \<lparr>tag_Key = k, tag_Value = v\<rparr>)
     ((read_pair read_string read_string) h (ht_Key x, ht_Value x))"

definition addrs_Tag :: "('m, 'l) cell heap \<Rightarrow> hTag \<Rightarrow> addr set" where
  "addrs_Tag h x = (addrs_pair addrs_string addrs_string) h (ht_Key x, ht_Value x)"

lemma Tag_copy:
  "deep_copy (read_Tag) (addrs_Tag) (Tag_DeepCopyInto)"
  by (rule struct_copy [OF pair_copy [OF string_copy string_copy], where build = "\<lambda>x (k, v). \<lparr>tag_Key = k, tag_Value = v\<rparr>"
        and parts = "\<lambda>x. (ht_Key x, ht_Value x)" and put = "\<lambda>(k, v) x. x\<lparr>ht_Key := k, ht_Value := v\<rparr>"])
    (auto simp: read_Tag_def addrs_Tag_def Tag_DeepCopyInto_def copy_pair_def bindH_def returnH_def split: option.splits)

definition read_tag_pointer :: "('m, 'l) cell heap \<Rightarrow> addr option \<Rightarrow> Tag option option" where
  "read_tag_pointer = read_ptr tag_cell read_Tag"

definition addrs_tag_pointer :: "('m, 'l) cell heap \<Rightarrow> addr option \<Rightarrow> addr set" where
  "addrs_tag_pointer = addrs_ptr tag_cell addrs_Tag"

lemma tag_pointer_copy:
  "deep_copy (read_tag_pointer) (addrs_tag_pointer) (Tag_DeepCopy)"
  unfolding read_tag_pointer_def addrs_tag_pointer_def Tag_DeepCopy_def by (rule ptr_copy [OF Tag_copy]) simp

definition read_tags :: "('m, 'l) cell heap \<Rightarrow> addr option \<Rightarrow> (Tag option list) option option" where
  "read_tags = read_ptr pointers_cell (read_list read_tag_pointer)"

definition addrs_tags :: "('m, 'l) cell heap \<Rightarrow> addr option \<Rightarrow> addr set" where
  "addrs_tags = addrs_ptr pointers_cell (addrs_list addrs_tag_pointer)"

lemma tags_copy:
  "deep_copy (read_tags) (addrs_tags) (copy_tags)"
  unfolding read_tags_def addrs_tags_def copy_tags_def by (rule ptr_copy [OF list_copy [OF tag_pointer_copy]]) simp

definition read_strings :: "('m, 'l) cell heap \<Rightarrow> addr option \<Rightarrow> (string option list) option option" where
  "read_strings = read_ptr pointers_cell (read_list read_string)"

definition addrs_strings :: "('m, 'l) cell heap \<Rightarrow> addr option \<Rightarrow> addr set" where
  "addrs_strings = addrs_ptr pointers_cell (addrs_list addrs_string)"

lemma strings_copy:
  "deep_copy (read_strings) (addrs_strings) (copy_strings)"
  unfolding read_strings_def addrs_strings_def copy_strings_def by (rule ptr_copy [OF list_copy [OF string_copy]]) simp

definition read_PolicySpec :: "('m, 'l) cell heap \<Rightarrow> hPolicySpec \<Rightarrow> PolicySpec option" where
  "read_PolicySpec h x = map_option (\<lambda>(n, d, ts). \<lparr>ps_Name = n, ps_PolicyDocument = d, ps_Tags = elems ts\<rparr>)
     ((read_pair read_string (read_pair read_string read_tags)) h (hps_Name x, hps_PolicyDocument x, hps_Tags x))"

definition addrs_PolicySpec :: "('m, 'l) cell heap \<Rightarrow> hPolicySpec \<Rightarrow> addr set" where
  "addrs_PolicySpec h x = (addrs_pair addrs_string (addrs_pair addrs_string addrs_tags)) h (hps_Name x, hps_PolicyDocument x, hps_Tags x)"

lemma PolicySpec_copy:
  "deep_copy (read_PolicySpec) (addrs_PolicySpec) (PolicySpec_DeepCopyInto)"
  by (rule struct_copy [OF pair_copy [OF string_copy pair_copy [OF string_copy tags_copy]], where build = "\<lambda>x (n, d, ts). \<lparr>ps_Name = n, ps_PolicyDocument = d, ps_Tags = elems ts\<rparr>"
        and parts = "\<lambda>x. (hps_Name x, hps_PolicyDocument x, hps_Tags x)" and put = "\<lambda>(n, d, ts) x. x\<lparr>hps_Name := n, hps_PolicyDocument := d, hps_Tags := ts\<rparr>"])
    (auto simp: read_PolicySpec_def addrs_PolicySpec_def PolicySpec_DeepCopyInto_def copy_pair_def bindH_def returnH_def split: option.splits)

definition read_Policy :: "('m, 'l) cell heap \<Rightarrow> hPolicy \<Rightarrow> AWSIAMProvisionPolicy option" where
  "read_Policy h x = map_option (\<lambda>sp. \<lparr>policy_Spec = sp\<rparr>)
     (read_PolicySpec h (hpol_Spec x))"

definition addrs_Policy :: "('m, 'l) cell heap \<Rightarrow> hPolicy \<Rightarrow> addr set" where
  "addrs_Policy h x = addrs_PolicySpec h (hpol_Spec x)"

lemma Policy_copy:
  "deep_copy (read_Policy) (addrs_Policy) (AWSIAMProvisionPolicy_DeepCopyInto)"
  by (rule struct_copy [OF PolicySpec_copy, where build = "\<lambda>x sp. \<lparr>policy_Spec = sp\<rparr>"
        and parts = "\<lambda>x. (hpol_Spec x)" and put = "\<lambda>sp x. x\<lparr>hpol_Spec := sp\<rparr>"])
    (auto simp: read_Policy_def addrs_Policy_def AWSIAMProvisionPolicy_DeepCopyInto_def copy_pair_def bindH_def returnH_def split: option.splits)

definition read_RoleSpec :: "('m, 'l) cell heap \<Rightarrow> hRoleSpec \<Rightarrow> RoleSpec option" where
  "read_RoleSpec h x = map_option (\<lambda>(d, n, ps, ts). \<lparr>rs_AssumeRolePolicyDocument = d, rs_Name = n, rs_Policies = elems ps, rs_Tags = elems ts\<rparr>)
     ((read_pair read_string (read_pair read_string (read_pair read_strings read_tags))) h (hrs_AssumeRolePolicyDocument x, hrs_Name x, hrs_Policies x, hrs_Tags x))"

definition addrs_RoleSpec :: "('m, 'l) cell heap \<Rightarrow> hRoleSpec \<Rightarrow> addr set" where
  "addrs_RoleSpec h x = (addrs_pair addrs_string (addrs_pair addrs_string (addrs_pair addrs_strings addrs_tags))) h (hrs_AssumeRolePolicyDocument x, hrs_Name x, hrs_Policies x, hrs_Tags x)"

lemma RoleSpec_copy:
  "deep_copy (read_RoleSpec) (addrs_RoleSpec) (RoleSpec_DeepCopyInto)"
  by (rule struct_copy [OF pair_copy [OF string_copy pair_copy [OF string_copy pair_copy [OF strings_copy tags_copy]]], where build = "\<lambda>x (d, n, ps, ts). \<lparr>rs_AssumeRolePolicyDocument = d, rs_Name = n, rs_Policies = elems ps, rs_Tags = elems ts\<rparr>"
        and parts = "\<lambda>x. (hrs_AssumeRolePolicyDocument x, hrs_Name x, hrs_Policies x, hrs_Tags x)" and put = "\<lambda>(d, n, ps, ts) x. x\<lparr>hrs_AssumeRolePolicyDocument := d, hrs_Name := n, hrs_Policies := ps, hrs_Tags := ts\<rparr>"])
    (auto simp: read_RoleSpec_def addrs_RoleSpec_def RoleSpec_DeepCopyInto_def copy_pair_def bindH_def returnH_def split: option.splits)

definition read_Role :: "('m, 'l) cell heap \<Rightarrow> hRole \<Rightarrow> AWSIAMProvisionRole option" where
  "read_Role h x = map_option (\<lambda>sp. \<lparr>role_Spec = sp\<rparr>)
     (read_RoleSpec h (hrol_Spec x))"

definition addrs_Role :: "('m, 'l) cell heap \<Rightarrow> hRole \<Rightarrow> addr set" where
  "addrs_Role h x = addrs_RoleSpec h (hrol_Spec x)"

lemma Role_copy:
  "deep_copy (read_Role) (addrs_Role) (AWSIAMProvisionRole_DeepCopyInto)"
  by (rule struct_copy [OF RoleSpec_copy, where build = "\<lambda>x sp. \<lparr>role_Spec = sp\<rparr>"
        and parts = "\<lambda>x. (hrol_Spec x)" and put = "\<lambda>sp x. x\<lparr>hrol_Spec := sp\<rparr>"])
    (auto simp: read_Role_def addrs_Role_def AWSIAMProvisionRole_DeepCopyInto_def copy_pair_def bindH_def returnH_def split: option.splits)

definition read_policies :: "('m, 'l) cell heap \<Rightarrow> addr option \<Rightarrow> ((string \<times> AWSIAMProvisionPolicy) list) option option" where
  "read_policies = read_ptr policyMap_cell (read_list (read_snd read_Policy))"

definition addrs_policies :: "('m, 'l) cell heap \<Rightarrow> addr option \<Rightarrow> addr set" where
  "addrs_policies = addrs_ptr policyMap_cell (addrs_list (\<lambda>h e. addrs_Policy h (snd e)))"

lemma policies_copy:
  "deep_copy (read_policies) (addrs_policies) (copy_policies)"
  unfolding read_policies_def addrs_policies_def copy_policies_def by (rule ptr_copy [OF list_copy [OF snd_copy [OF temp_copy [OF Policy_copy]]]]) simp

definition read_roles :: "('m, 'l) cell heap \<Rightarrow> addr option \<Rightarrow> ((string \<times> AWSIAMProvisionRole) list) option option" where
  "read_roles = read_ptr roleMap_cell (read_list (read_snd read_Role))"

definition addrs_roles :: "('m, 'l) cell heap \<Rightarrow> addr option \<Rightarrow> addr set" where
  "addrs_roles = addrs_ptr roleMap_cell (addrs_list (\<lambda>h e. addrs_Role h (snd e)))"

lemma roles_copy:
  "deep_copy (read_roles) (addrs_roles) (copy_roles)"
  unfolding read_roles_def addrs_roles_def copy_roles_def by (rule ptr_copy [OF list_copy [OF snd_copy [OF temp_copy [OF Role_copy]]]]) simp

definition read_Spec :: "('m, 'l) cell heap \<Rightarrow> hSpec \<Rightarrow> AWSIAMProvisionSpec option" where
  "read_Spec h x = map_option (\<lambda>(f, ps, rs). \<lparr>spec_EKSClusterName = hs_EKSClusterName x, spec_Frequency = f, spec_Region = hs_Region x, spec_Policies = elems ps, spec_Roles = elems rs\<rparr>)
     ((read_pair read_duration (read_pair read_policies read_roles)) h (hs_Frequency x, hs_Policies x, hs_Roles x))"

definition addrs_Spec :: "('m, 'l) cell heap \<Rightarrow> hSpec \<Rightarrow> addr set" where
  "addrs_Spec h x = (addrs_pair addrs_duration (addrs_pair addrs_policies addrs_roles)) h (hs_Frequency x, hs_Policies x, hs_Roles x)"

lemma Spec_copy:
  "deep_copy (read_Spec) (addrs_Spec) (AWSIAMProvisionSpec_DeepCopyInto)"
  by (rule struct_copy [OF pair_copy [OF duration_copy pair_copy [OF policies_copy roles_copy]], where build = "\<lambda>x (f, ps, rs). \<lparr>spec_EKSClusterName = hs_EKSClusterName x, spec_Frequency = f, spec_Region = hs_Region x, spec_Policies = elems ps, spec_Roles = elems rs\<rparr>"
        and parts = "\<lambda>x. (hs_Frequency x, hs_Policies x, hs_Roles x)" and put = "\<lambda>(f, ps, rs) x. x\<lparr>hs_Frequency := f, hs_Policies := ps, hs_Roles := rs\<rparr>"])
    (auto simp: read_Spec_def addrs_Spec_def AWSIAMProvisionSpec_DeepCopyInto_def copy_pair_def bindH_def returnH_def split: option.splits)

interpretation tag: deep_copy read_Tag addrs_Tag Tag_DeepCopyInto
  by (rule Tag_copy)

interpretation spec: deep_copy read_Spec addrs_Spec AWSIAMProvisionSpec_DeepCopyInto
  by (rule Spec_copy)

section \<open>The status\<close>

definition machinery_documented :: "('m, 'l, 'u) machinery \<Rightarrow> bool" where
  "machinery_documented L = (deep_copy read_time addrs_time (time_DeepCopy L) \<and>
     deep_copy (read_ObjectMeta L) (addrs_ObjectMeta L) (ObjectMeta_DeepCopyInto L) \<and>
     deep_copy (read_ListMeta L) (addrs_ListMeta L) (ListMeta_DeepCopyInto L))"

lemma machinery_copies:
  assumes "machinery_documented L"
  shows "deep_copy read_time addrs_time (time_DeepCopy L)"
    "deep_copy (read_ObjectMeta L) (addrs_ObjectMeta L) (ObjectMeta_DeepCopyInto L)"
    "deep_copy (read_ListMeta L) (addrs_ListMeta L) (ListMeta_DeepCopyInto L)"
  using assms by (simp_all add: machinery_documented_def)

lemma time_copy:
  assumes L: "machinery_documented L"
  shows "deep_copy read_time addrs_time (copy_time L)"
proof
  fix p v and h :: "('a, 'b) cell heap"
  assume v: "read_time h p = Some v"
  show "\<exists>y h'. copy_time L p h = Some (y, h') \<and> grows h h' \<and> read_time h' y = Some v \<and>
      (\<forall>a \<in> addrs_time h' y. length h \<le> a)"
    using v deep_copy.copies [OF machinery_copies(1) [OF L] v]
    by (cases p) (simp_all add: copy_time_def returnH_def addrs_time_def addrs_ptr_def)
qed (blast dest: deep_copy.local [OF machinery_copies(1) [OF L]] deep_copy.bounded [OF machinery_copies(1) [OF L]])+

definition read_Metadata :: "('m, 'l) cell heap \<Rightarrow> hMetadata \<Rightarrow> AWSIAMResourceMetadata option" where
  "read_Metadata h x = map_option (\<lambda>(a, i, r). \<lparr>md_ARN = a, md_OwnerAccountID = i, md_Region = r\<rparr>)
     ((read_pair read_string (read_pair read_string read_string)) h (hm_ARN x, hm_OwnerAccountID x, hm_Region x))"

definition addrs_Metadata :: "('m, 'l) cell heap \<Rightarrow> hMetadata \<Rightarrow> addr set" where
  "addrs_Metadata h x = (addrs_pair addrs_string (addrs_pair addrs_string addrs_string)) h (hm_ARN x, hm_OwnerAccountID x, hm_Region x)"

lemma Metadata_copy:
  "deep_copy (read_Metadata) (addrs_Metadata) (AWSIAMResourceMetadata_DeepCopyInto)"
  by (rule struct_copy [OF pair_copy [OF string_copy pair_copy [OF string_copy string_copy]], where build = "\<lambda>x (a, i, r). \<lparr>md_ARN = a, md_OwnerAccountID = i, md_Region = r\<rparr>"
        and parts = "\<lambda>x. (hm_ARN x, hm_OwnerAccountID x, hm_Region x)" and put = "\<lambda>(a, i, r) x. x\<lparr>hm_ARN := a, hm_OwnerAccountID := i, hm_Region := r\<rparr>"])
    (auto simp: read_Metadata_def addrs_Metadata_def AWSIAMResourceMetadata_DeepCopyInto_def copy_pair_def bindH_def returnH_def split: option.splits)

definition read_metadata_pointer :: "('m, 'l) cell heap \<Rightarrow> addr option \<Rightarrow> AWSIAMResourceMetadata option option" where
  "read_metadata_pointer = read_ptr metadata_cell read_Metadata"

definition addrs_metadata_pointer :: "('m, 'l) cell heap \<Rightarrow> addr option \<Rightarrow> addr set" where
  "addrs_metadata_pointer = addrs_ptr metadata_cell addrs_Metadata"

lemma metadata_pointer_copy:
  "deep_copy (read_metadata_pointer) (addrs_metadata_pointer) (AWSIAMResourceMetadata_DeepCopy)"
  unfolding read_metadata_pointer_def addrs_metadata_pointer_def AWSIAMResourceMetadata_DeepCopy_def by (rule ptr_copy [OF Metadata_copy]) simp

definition read_PolicyStatus :: "('m, 'l, 'u) machinery \<Rightarrow> ('m, 'l) cell heap \<Rightarrow> hPolicyStatus \<Rightarrow> PolicyStatus option" where
  "read_PolicyStatus L h x = map_option (\<lambda>(md, n, t, v, i). \<lparr>pst_AWSIAMResourceMetadata = md, pst_AttachmentCount = n, pst_CreateDate = t, pst_DefaultVersionID = v, pst_PolicyID = i\<rparr>)
     ((read_pair read_metadata_pointer (read_pair read_int32 (read_pair read_time (read_pair read_string read_string)))) h (hpt_AWSIAMResourceMetadata x, hpt_AttachmentCount x, hpt_CreateDate x, hpt_DefaultVersionID x, hpt_PolicyID x))"

definition addrs_PolicyStatus :: "('m, 'l, 'u) machinery \<Rightarrow> ('m, 'l) cell heap \<Rightarrow> hPolicyStatus \<Rightarrow> addr set" where
  "addrs_PolicyStatus L h x = (addrs_pair addrs_metadata_pointer (addrs_pair addrs_int32 (addrs_pair addrs_time (addrs_pair addrs_string addrs_string)))) h (hpt_AWSIAMResourceMetadata x, hpt_AttachmentCount x, hpt_CreateDate x, hpt_DefaultVersionID x, hpt_PolicyID x)"

lemma PolicyStatus_copy:
  assumes L: "machinery_documented L"
  shows "deep_copy (read_PolicyStatus L) (addrs_PolicyStatus L) (PolicyStatus_DeepCopyInto L)"
  by (rule struct_copy [OF pair_copy [OF metadata_pointer_copy pair_copy [OF int32_copy pair_copy [OF time_copy [OF L] pair_copy [OF string_copy string_copy]]]], where build = "\<lambda>x (md, n, t, v, i). \<lparr>pst_AWSIAMResourceMetadata = md, pst_AttachmentCount = n, pst_CreateDate = t, pst_DefaultVersionID = v, pst_PolicyID = i\<rparr>"
        and parts = "\<lambda>x. (hpt_AWSIAMResourceMetadata x, hpt_AttachmentCount x, hpt_CreateDate x, hpt_DefaultVersionID x, hpt_PolicyID x)" and put = "\<lambda>(md, n, t, v, i) x. x\<lparr>hpt_AWSIAMResourceMetadata := md, hpt_AttachmentCount := n, hpt_CreateDate := t, hpt_DefaultVersionID := v, hpt_PolicyID := i\<rparr>"])
    (auto simp: read_PolicyStatus_def addrs_PolicyStatus_def PolicyStatus_DeepCopyInto_def copy_pair_def bindH_def returnH_def split: option.splits)

definition read_StatusPolicy :: "('m, 'l, 'u) machinery \<Rightarrow> ('m, 'l) cell heap \<Rightarrow> hStatusPolicy \<Rightarrow> AWSIAMProvisionStatusPolicy option" where
  "read_StatusPolicy L h x = map_option (\<lambda>(n, st). \<lparr>sp_Name = n, sp_Message = hsp_Message x, sp_Phase = hsp_Phase x, sp_Status = st\<rparr>)
     ((read_pair read_string (read_PolicyStatus L)) h (hsp_Name x, hsp_Status x))"

definition addrs_StatusPolicy :: "('m, 'l, 'u) machinery \<Rightarrow> ('m, 'l) cell heap \<Rightarrow> hStatusPolicy \<Rightarrow> addr set" where
  "addrs_StatusPolicy L h x = (addrs_pair addrs_string (addrs_PolicyStatus L)) h (hsp_Name x, hsp_Status x)"

lemma StatusPolicy_copy:
  assumes L: "machinery_documented L"
  shows "deep_copy (read_StatusPolicy L) (addrs_StatusPolicy L) (AWSIAMProvisionStatusPolicy_DeepCopyInto L)"
  by (rule struct_copy [OF pair_copy [OF string_copy PolicyStatus_copy [OF L]], where build = "\<lambda>x (n, st). \<lparr>sp_Name = n, sp_Message = hsp_Message x, sp_Phase = hsp_Phase x, sp_Status = st\<rparr>"
        and parts = "\<lambda>x. (hsp_Name x, hsp_Status x)" and put = "\<lambda>(n, st) x. x\<lparr>hsp_Name := n, hsp_Status := st\<rparr>"])
    (auto simp: read_StatusPolicy_def addrs_StatusPolicy_def AWSIAMProvisionStatusPolicy_DeepCopyInto_def copy_pair_def bindH_def returnH_def split: option.splits)

definition read_RoleStatus :: "('m, 'l, 'u) machinery \<Rightarrow> ('m, 'l) cell heap \<Rightarrow> hRoleStatus \<Rightarrow> RoleStatus option" where
  "read_RoleStatus L h x = map_option (\<lambda>(md, t, i). \<lparr>rst_AWSIAMResourceMetadata = md, rst_CreateDate = t, rst_RoleID = i\<rparr>)
     ((read_pair read_metadata_pointer (read_pair read_time read_string)) h (hrt_AWSIAMResourceMetadata x, hrt_CreateDate x, hrt_RoleID x))"

definition addrs_RoleStatus :: "('m, 'l, 'u) machinery \<Rightarrow> ('m, 'l) cell heap \<Rightarrow> hRoleStatus \<Rightarrow> addr set" where
  "addrs_RoleStatus L h x = (addrs_pair addrs_metadata_pointer (addrs_pair addrs_time addrs_string)) h (hrt_AWSIAMResourceMetadata x, hrt_CreateDate x, hrt_RoleID x)"

lemma RoleStatus_copy:
  assumes L: "machinery_documented L"
  shows "deep_copy (read_RoleStatus L) (addrs_RoleStatus L) (RoleStatus_DeepCopyInto L)"
  by (rule struct_copy [OF pair_copy [OF metadata_pointer_copy pair_copy [OF time_copy [OF L] string_copy]], where build = "\<lambda>x (md, t, i). \<lparr>rst_AWSIAMResourceMetadata = md, rst_CreateDate = t, rst_RoleID = i\<rparr>"
        and parts = "\<lambda>x. (hrt_AWSIAMResourceMetadata x, hrt_CreateDate x, hrt_RoleID x)" and put = "\<lambda>(md, t, i) x. x\<lparr>hrt_AWSIAMResourceMetadata := md, hrt_CreateDate := t, hrt_RoleID := i\<rparr>"])
    (auto simp: read_RoleStatus_def addrs_RoleStatus_def RoleStatus_DeepCopyInto_def copy_pair_def bindH_def returnH_def split: option.splits)

definition read_StatusRole :: "('m, 'l, 'u) machinery \<Rightarrow> ('m, 'l) cell heap \<Rightarrow> hStatusRole \<Rightarrow> AWSIAMProvisionStatusRole option" where
  "read_StatusRole L h x = map_option (\<lambda>(n, st). \<lparr>sr_Name = n, sr_Message = hsr_Message x, sr_Phase = hsr_Phase x, sr_Status = st\<rparr>)
     ((read_pair read_string (read_RoleStatus L)) h (hsr_Name x, hsr_Status x))"

definition addrs_StatusRole :: "('m, 'l, 'u) machinery \<Rightarrow> ('m, 'l) cell heap \<Rightarrow> hStatusRole \<Rightarrow> addr set" where
  "addrs_StatusRole L h x = (addrs_pair addrs_string (addrs_RoleStatus L)) h (hsr_Name x, hsr_Status x)"

lemma StatusRole_copy:
  assumes L: "machinery_documented L"
  shows "deep_copy (read_StatusRole L) (addrs_StatusRole L) (AWSIAMProvisionStatusRole_DeepCopyInto L)"
  by (rule struct_copy [OF pair_copy [OF string_copy RoleStatus_copy [OF L]], where build = "\<lambda>x (n, st). \<lparr>sr_Name = n, sr_Message = hsr_Message x, sr_Phase = hsr_Phase x, sr_Status = st\<rparr>"
        and parts = "\<lambda>x. (hsr_Name x, hsr_Status x)" and put = "\<lambda>(n, st) x. x\<lparr>hsr_Name := n, hsr_Status := st\<rparr>"])
    (auto simp: read_StatusRole_def addrs_StatusRole_def AWSIAMProvisionStatusRole_DeepCopyInto_def copy_pair_def bindH_def returnH_def split: option.splits)

definition read_status_policies :: "('m, 'l, 'u) machinery \<Rightarrow> ('m, 'l) cell heap \<Rightarrow> addr option \<Rightarrow> (AWSIAMProvisionStatusPolicy list) option option" where
  "read_status_policies L = read_ptr statusPolicies_cell (read_list (read_StatusPolicy L))"

definition addrs_status_policies :: "('m, 'l, 'u) machinery \<Rightarrow> ('m, 'l) cell heap \<Rightarrow> addr option \<Rightarrow> addr set" where
  "addrs_status_policies L = addrs_ptr statusPolicies_cell (addrs_list (addrs_StatusPolicy L))"

lemma status_policies_copy:
  assumes L: "machinery_documented L"
  shows "deep_copy (read_status_policies L) (addrs_status_policies L) (copy_status_policies L)"
  unfolding read_status_policies_def addrs_status_policies_def copy_status_policies_def by (rule ptr_copy [OF list_copy [OF StatusPolicy_copy [OF L]]]) simp

definition read_status_roles :: "('m, 'l, 'u) machinery \<Rightarrow> ('m, 'l) cell heap \<Rightarrow> addr option \<Rightarrow> (AWSIAMProvisionStatusRole list) option option" where
  "read_status_roles L = read_ptr statusRoles_cell (read_list (read_StatusRole L))"

definition addrs_status_roles :: "('m, 'l, 'u) machinery \<Rightarrow> ('m, 'l) cell heap \<Rightarrow> addr option \<Rightarrow> addr set" where
  "addrs_status_roles L = addrs_ptr statusRoles_cell (addrs_list (addrs_StatusRole L))"

lemma status_roles_copy:
  assumes L: "machinery_documented L"
  shows "deep_copy (read_status_roles L) (addrs_status_roles L) (copy_status_roles L)"
  unfolding read_status_roles_def addrs_status_roles_def copy_status_roles_def by (rule ptr_copy [OF list_copy [OF StatusRole_copy [OF L]]]) simp

definition read_Status :: "('m, 'l, 'u) machinery \<Rightarrow> ('m, 'l) cell heap \<Rightarrow> hStatus \<Rightarrow> AWSIAMProvisionStatus option" where
  "read_Status L h x = map_option (\<lambda>(t, ps, rs). \<lparr>st_Message = hst_Message x, st_LastUpdatedTime = t, st_Phase = hst_Phase x, st_Policies = elems ps, st_Roles = elems rs\<rparr>)
     ((read_pair read_time (read_pair (read_status_policies L) (read_status_roles L))) h (hst_LastUpdatedTime x, hst_Policies x, hst_Roles x))"

definition addrs_Status :: "('m, 'l, 'u) machinery \<Rightarrow> ('m, 'l) cell heap \<Rightarrow> hStatus \<Rightarrow> addr set" where
  "addrs_Status L h x = (addrs_pair addrs_time (addrs_pair (addrs_status_policies L) (addrs_status_roles L))) h (hst_LastUpdatedTime x, hst_Policies x, hst_Roles x)"

lemma Status_copy:
  assumes L: "machinery_documented L"
  shows "deep_copy (read_Status L) (addrs_Status L) (AWSIAMProvisionStatus_DeepCopyInto L)"
  by (rule struct_copy [OF pair_copy [OF time_copy [OF L] pair_copy [OF status_policies_copy [OF L] status_roles_copy [OF L]]], where build = "\<lambda>x (t, ps, rs). \<lparr>st_Message = hst_Message x, st_LastUpdatedTime = t, st_Phase = hst_Phase x, st_Policies = elems ps, st_Roles = elems rs\<rparr>"
        and parts = "\<lambda>x. (hst_LastUpdatedTime x, hst_Policies x, hst_Roles x)" and put = "\<lambda>(t, ps, rs) x. x\<lparr>hst_LastUpdatedTime := t, hst_Policies := ps, hst_Roles := rs\<rparr>"])
    (auto simp: read_Status_def addrs_Status_def AWSIAMProvisionStatus_DeepCopyInto_def copy_pair_def bindH_def returnH_def split: option.splits)

section \<open>Custom resources and lists of them\<close>

text \<open>A custom resource reads as its type and its value.\<close>

definition read_Provision :: "('m, 'l, 'u) machinery \<Rightarrow> ('m, 'l) cell heap \<Rightarrow> 'm hProvision \<Rightarrow> ((string \<times> string) \<times> AWSIAMProvision) option" where
  "read_Provision L h x = map_option (\<lambda>(om, sp, st). (hp_TypeMeta x, \<lparr>ObjectMeta = om, Spec = sp, Status = st\<rparr>))
     ((read_pair (read_ObjectMeta L) (read_pair read_Spec (read_Status L))) h (hp_ObjectMeta x, hp_Spec x, hp_Status x))"

definition addrs_Provision :: "('m, 'l, 'u) machinery \<Rightarrow> ('m, 'l) cell heap \<Rightarrow> 'm hProvision \<Rightarrow> addr set" where
  "addrs_Provision L h x = (addrs_pair (addrs_ObjectMeta L) (addrs_pair addrs_Spec (addrs_Status L))) h (hp_ObjectMeta x, hp_Spec x, hp_Status x)"

lemma Provision_copy:
  assumes L: "machinery_documented L"
  shows "deep_copy (read_Provision L) (addrs_Provision L) (AWSIAMProvision_DeepCopyInto L)"
  by (rule struct_copy [OF pair_copy [OF machinery_copies(2) [OF L] pair_copy [OF Spec_copy Status_copy [OF L]]], where build = "\<lambda>x (om, sp, st). (hp_TypeMeta x, \<lparr>ObjectMeta = om, Spec = sp, Status = st\<rparr>)"
        and parts = "\<lambda>x. (hp_ObjectMeta x, hp_Spec x, hp_Status x)" and put = "\<lambda>(om, sp, st) x. x\<lparr>hp_ObjectMeta := om, hp_Spec := sp, hp_Status := st\<rparr>"])
    (auto simp: read_Provision_def addrs_Provision_def AWSIAMProvision_DeepCopyInto_def copy_pair_def bindH_def returnH_def split: option.splits)

definition read_items :: "('m, 'l, 'u) machinery \<Rightarrow> ('m, 'l) cell heap \<Rightarrow> addr option \<Rightarrow> (((string \<times> string) \<times> AWSIAMProvision) list) option option" where
  "read_items L = read_ptr items_cell (read_list (read_Provision L))"

definition addrs_items :: "('m, 'l, 'u) machinery \<Rightarrow> ('m, 'l) cell heap \<Rightarrow> addr option \<Rightarrow> addr set" where
  "addrs_items L = addrs_ptr items_cell (addrs_list (addrs_Provision L))"

lemma items_copy:
  assumes L: "machinery_documented L"
  shows "deep_copy (read_items L) (addrs_items L) (copy_items L)"
  unfolding read_items_def addrs_items_def copy_items_def by (rule ptr_copy [OF list_copy [OF Provision_copy [OF L]]]) simp

definition read_List :: "('m, 'l, 'u) machinery \<Rightarrow> ('m, 'l) cell heap \<Rightarrow> 'l hList \<Rightarrow> ((string \<times> string) \<times> 'u \<times> ((string \<times> string) \<times> AWSIAMProvision) list) option" where
  "read_List L h x = map_option (\<lambda>(lm, its). (hl_TypeMeta x, lm, elems its))
     ((read_pair (read_ListMeta L) (read_items L)) h (hl_ListMeta x, hl_Items x))"

definition addrs_List :: "('m, 'l, 'u) machinery \<Rightarrow> ('m, 'l) cell heap \<Rightarrow> 'l hList \<Rightarrow> addr set" where
  "addrs_List L h x = (addrs_pair (addrs_ListMeta L) (addrs_items L)) h (hl_ListMeta x, hl_Items x)"

lemma List_copy:
  assumes L: "machinery_documented L"
  shows "deep_copy (read_List L) (addrs_List L) (AWSIAMProvisionList_DeepCopyInto L)"
  by (rule struct_copy [OF pair_copy [OF machinery_copies(3) [OF L] items_copy [OF L]], where build = "\<lambda>x (lm, its). (hl_TypeMeta x, lm, elems its)"
        and parts = "\<lambda>x. (hl_ListMeta x, hl_Items x)" and put = "\<lambda>(lm, its) x. x\<lparr>hl_ListMeta := lm, hl_Items := its\<rparr>"])
    (auto simp: read_List_def addrs_List_def AWSIAMProvisionList_DeepCopyInto_def copy_pair_def bindH_def returnH_def split: option.splits)

definition read_provision :: "('m, 'l, 'u) machinery \<Rightarrow> ('m, 'l) cell heap \<Rightarrow> addr option \<Rightarrow>
    ((string \<times> string) \<times> AWSIAMProvision) option option" where
  "read_provision L = read_ptr provision_cell (read_Provision L)"

definition addrs_provision :: "('m, 'l, 'u) machinery \<Rightarrow> ('m, 'l) cell heap \<Rightarrow> addr option \<Rightarrow> addr set" where
  "addrs_provision L = addrs_ptr provision_cell (addrs_Provision L)"

lemma provision_copy:
  assumes L: "machinery_documented L"
  shows "deep_copy (read_provision L) (addrs_provision L) (AWSIAMProvision_DeepCopy L om)"
  unfolding read_provision_def addrs_provision_def AWSIAMProvision_DeepCopy_def
  by (rule ptr_copy [OF Provision_copy [OF L]]) simp

definition read_provisions :: "('m, 'l, 'u) machinery \<Rightarrow> ('m, 'l) cell heap \<Rightarrow> addr option \<Rightarrow>
    ((string \<times> string) \<times> 'u \<times> ((string \<times> string) \<times> AWSIAMProvision) list) option option" where
  "read_provisions L = read_ptr provisions_cell (read_List L)"

definition addrs_provisions :: "('m, 'l, 'u) machinery \<Rightarrow> ('m, 'l) cell heap \<Rightarrow> addr option \<Rightarrow> addr set" where
  "addrs_provisions L = addrs_ptr provisions_cell (addrs_List L)"

lemma provisions_copy:
  assumes L: "machinery_documented L"
  shows "deep_copy (read_provisions L) (addrs_provisions L) (AWSIAMProvisionList_DeepCopy L lm)"
  unfolding read_provisions_def addrs_provisions_def AWSIAMProvisionList_DeepCopy_def
  by (rule ptr_copy [OF List_copy [OF L]]) simp

section \<open>Copies are equal and separate\<close>

text \<open>
  C20. The deep copy of a custom resource, through \<open>DeepCopyObject\<close> as the cache calls it, is a
  pointer to a new resource that reads as the same value, type, metadata, specification and status
  down to every tag; it consists of newly allocated cells only, and the original still reads as
  before. A nil pointer gives a nil interface, not an interface that holds a nil pointer.
\<close>

theorem provision_deep_copy_equal:
  assumes "machinery_documented L" and "read_provision L h p = Some v"
  shows "\<exists>q h'. AWSIAMProvision_DeepCopyObject L om p h =
           Some (if p = None then NilObject else ProvisionObject q, h') \<and>
         read_provision L h' q = Some v \<and> read_provision L h' p = Some v \<and>
         (\<forall>a \<in> addrs_provision L h' q. length h \<le> a)"
proof -
  obtain q h' where q: "AWSIAMProvision_DeepCopy L om p h = Some (q, h')" "read_provision L h' q = Some v"
    "read_provision L h' p = Some v" "\<forall>a \<in> addrs_provision L h' q. length h \<le> a"
    using deep_copy.independent [OF provision_copy [OF assms(1)] assms(2)] by blast
  have "q = None \<longleftrightarrow> p = None"
    using q(2,3) by (auto simp: read_provision_def read_ptr_def split: option.splits)
  then show ?thesis
    using q by (auto simp: AWSIAMProvision_DeepCopyObject_def bindH_def returnH_def)
qed

text \<open>A resource with a role, a policy with one tag, and a status entry, and a list of it, in seventeen cells.\<close>

definition flat_machinery :: "(ObjectMeta, unit, unit) machinery" where
  "flat_machinery = \<lparr>time_DeepCopy = copy_ptr time_cell CTime 0 returnH,
     ObjectMeta_DeepCopyInto = returnH, ListMeta_DeepCopyInto = returnH,
     read_ObjectMeta = read_flat, addrs_ObjectMeta = addrs_flat,
     read_ListMeta = read_flat, addrs_ListMeta = addrs_flat\<rparr>"

lemma flat_machinery_documented: "machinery_documented flat_machinery"
  unfolding machinery_documented_def flat_machinery_def machinery.simps read_time_def addrs_time_def
  by (intro conjI flat_copy ptr_copy [OF flat_copy]) simp

definition sample_provision :: "ObjectMeta hProvision" where
  "sample_provision = \<lparr>hp_TypeMeta = (''AWSIAMProvision'', ''v1alpha1''),
     hp_ObjectMeta = ObjectMeta.make ''pr'' ''ns'' ''1'' None [],
     hp_Spec = \<lparr>hs_EKSClusterName = ''eks'', hs_Frequency = Some 0, hs_Region = ''eu'',
       hs_Policies = Some 6, hs_Roles = Some 9\<rparr>,
     hp_Status = \<lparr>hst_Message = [], hst_LastUpdatedTime = Some 10, hst_Phase = ''Provisioned'',
       hst_Policies = Some 13, hst_Roles = None\<rparr>\<rparr>"

definition sample_heap :: "(ObjectMeta, unit) cell heap" where
  "sample_heap =
    [CDur 60, CStr ''p'', CStr ''team'', CStr ''infra'',
     CTag \<lparr>ht_Key = Some 2, ht_Value = Some 3\<rparr>, CPointers [Some 4],
     CPolicyMap [(''first'', \<lparr>hpol_Spec = \<lparr>hps_Name = Some 1, hps_PolicyDocument = None, hps_Tags = Some 5\<rparr>\<rparr>)],
     CStr ''r'', CPointers [Some 1],
     CRoleMap [(''one'', \<lparr>hrol_Spec = \<lparr>hrs_AssumeRolePolicyDocument = None, hrs_Name = Some 7,
        hrs_Policies = Some 8, hrs_Tags = None\<rparr>\<rparr>)],
     CTime 7, CInt 1, CStr ''arn'',
     CStatusPolicies [\<lparr>hsp_Name = Some 1, hsp_Message = [], hsp_Phase = ''Created'',
        hsp_Status = zero_hPolicyStatus\<lparr>hpt_AttachmentCount := Some 11, hpt_PolicyID := Some 12\<rparr>\<rparr>],
     CProvision sample_provision, CItems [sample_provision],
     CList \<lparr>hl_TypeMeta = ([], []), hl_ListMeta = (), hl_Items = Some 15\<rparr>]"

definition tags_of_policies :: "AWSIAMProvision \<Rightarrow> Tag option list list" where
  "tags_of_policies pr = map (\<lambda>e. ps_Tags (policy_Spec (snd e))) (spec_Policies (Spec pr))"

lemma sample_reads:
  "map_option (map_option (\<lambda>v. tags_of_policies (snd v))) (read_provision flat_machinery sample_heap (Some 14)) =
     Some (Some [[Some \<lparr>tag_Key = Some ''team'', tag_Value = Some ''infra''\<rparr>]])"
  by code_simp

theorem provision_deep_copy_equal_witness:
  "\<exists>q h'. AWSIAMProvision_DeepCopyObject flat_machinery (hp_ObjectMeta sample_provision) (Some 14) sample_heap =
       Some (ProvisionObject q, h') \<and>
     map_option (map_option (\<lambda>v. tags_of_policies (snd v))) (read_provision flat_machinery h' q) =
       Some (Some [[Some \<lparr>tag_Key = Some ''team'', tag_Value = Some ''infra''\<rparr>]])"
proof -
  obtain v where v: "read_provision flat_machinery sample_heap (Some 14) = Some v"
    "map_option (\<lambda>v. tags_of_policies (snd v)) v = Some [[Some \<lparr>tag_Key = Some ''team'', tag_Value = Some ''infra''\<rparr>]]"
    using iffD1 [OF map_option_eq_Some sample_reads] by (elim exE conjE) (rule that)
  from provision_deep_copy_equal [OF flat_machinery_documented v(1), of "hp_ObjectMeta sample_provision"]
  show ?thesis using v(2) by fastforce
qed

text \<open>
  C19. The deep copy of a list of custom resources shares nothing with the list: whatever is written
  afterwards to cells of the copy, and to cells allocated later, the original list still reads as
  before; and whatever is written to cells of the original, the copy does. So the objects a client
  changes are not those in the cache the copy was taken from.
\<close>

theorem list_copies_separate:
  assumes "machinery_documented L" and "read_provisions L h p = Some v"
  shows "\<exists>q h'. AWSIAMProvisionList_DeepCopy L lm p h = Some (q, h') \<and>
    (\<forall>es. written es \<subseteq> addrs_provisions L h' q \<union> {length h'..} \<longrightarrow>
       read_provisions L (heap_after es h') p = Some v) \<and>
    (\<forall>es. written es \<subseteq> addrs_provisions L h' p \<union> {length h'..} \<longrightarrow>
       read_provisions L (heap_after es h') q = Some v)"
  by (rule deep_copy.separate [OF provisions_copy [OF assms(1)] assms(2)])

lemma sample_list_reads:
  "map_option (map_option (\<lambda>v. map (\<lambda>i. tags_of_policies (snd i)) (snd (snd v))))
     (read_provisions flat_machinery sample_heap (Some 16)) =
   Some (Some [[[Some \<lparr>tag_Key = Some ''team'', tag_Value = Some ''infra''\<rparr>]]])"
  by code_simp

text \<open>
  In the sample heap cell 3 is the value of the tag. The original is changed there, and the copy
  still reads the old value.
\<close>

lemma sample_cell:
  "case_option False (\<lambda>c. 3 \<in> addrs_provisions flat_machinery (snd c) (Some 16))
     (AWSIAMProvisionList_DeepCopy flat_machinery () (Some 16) sample_heap)"
  by code_simp

theorem list_copies_separate_witness:
  "\<exists>q h'. AWSIAMProvisionList_DeepCopy flat_machinery () (Some 16) sample_heap = Some (q, h') \<and>
     map_option (map_option (\<lambda>v. map (\<lambda>i. tags_of_policies (snd i)) (snd (snd v))))
       (read_provisions flat_machinery (heap_after [Write 3 (CStr ''changed'')] h') q) =
     Some (Some [[[Some \<lparr>tag_Key = Some ''team'', tag_Value = Some ''infra''\<rparr>]]])"
proof -
  obtain v where v: "read_provisions flat_machinery sample_heap (Some 16) = Some v"
    "map_option (\<lambda>v. map (\<lambda>i. tags_of_policies (snd i)) (snd (snd v))) v =
       Some [[[Some \<lparr>tag_Key = Some ''team'', tag_Value = Some ''infra''\<rparr>]]]"
    using iffD1 [OF map_option_eq_Some sample_list_reads] by (elim exE conjE) (rule that)
  obtain q h' where q: "AWSIAMProvisionList_DeepCopy flat_machinery () (Some 16) sample_heap = Some (q, h')"
    and apart: "\<forall>es. written es \<subseteq> addrs_provisions flat_machinery h' (Some 16) \<union> {length h'..} \<longrightarrow>
      read_provisions flat_machinery (heap_after es h') q = Some v"
    using list_copies_separate [OF flat_machinery_documented v(1), of "()"] by (elim exE conjE) (rule that)
  have "3 \<in> addrs_provisions flat_machinery h' (Some 16)" using sample_cell q by simp
  then have "read_provisions flat_machinery (heap_after [Write 3 (CStr ''changed'')] h') q = Some v"
    by (intro apart [rule_format]) simp
  then show ?thesis using q v(2) by auto
qed

end
