(* ===== verification/Steady.thy ===== *)
theory Steady
  imports SpecRequests
begin

text \<open>
  What happens when there is nothing to do: while IAM is in line with the specification, going
  through it again asks IAM only to read.
\<close>

section \<open>Reading\<close>

fun reading :: "event \<Rightarrow> bool" where
  "reading (Event (IAM (GetPolicyReq arn)) err) = True"
| "reading (Event (IAM (GetRoleReq n)) err) = True"
| "reading (Event (IAM (ListAttachedRolePoliciesReq k n)) err) = True"
| "reading (Event (IAM (ListRolesReq k p)) err) = True"
| "reading (Event (IAM (ListPoliciesReq k p f sc)) err) = True"
| "reading (Event (IAM (ListRoleTagsReq k n)) err) = True"
| "reading (Event (IAM (ListPolicyTagsReq k arn)) err) = True"
| "reading (Event (IAM (ListEntitiesForPolicyReq arn f k p u)) err) = True"
| "reading (Event (GetProvision n) err) = True"
| "reading (Event (GetControlPlane n) err) = True"
| "reading (Event (LoadDefaultConfig r) err) = True"
| "reading (Event GetCallerIdentity err) = True"
| "reading _ = False"

text \<open>IAM looks like \<open>v\<close>, and the custom resource in memory is \<open>p\<close>.\<close>

definition at_rest :: "('w \<Rightarrow> iam_view) \<Rightarrow> iam_view \<Rightarrow> AWSIAMProvision \<Rightarrow> 'w gstate \<Rightarrow> bool" where
  "at_rest view v p s = (view (world s) = v \<and> prov s = p)"

lemma at_rest_choices [simp]: "at_rest view v p (s\<lparr>choices := cs\<rparr>) = at_rest view v p s"
  by (simp add: at_rest_def)

lemma rest_lookups:
  assumes "iam_documented E c view names"
  shows "obeys (at_rest view v p) reading (GetPolicyByName E c (Some n))"
    "obeys (at_rest view v p) reading (GetRoleByName E (Some n))"
    "obeys (at_rest view v p) reading (ListAttachedRolePolicies E c (Some n))"
  by (rule obeys_keeps; auto simp: at_rest_def intro!: emits_GetPolicyByName emits_GetRoleByName
      emits_ListAttachedRolePolicies yields_weaken [OF view_GetPolicyByName [OF assms]]
      yields_weaken [OF view_GetRoleByName [OF assms]] yields_weaken [OF view_ListAttachedRolePolicies [OF assms]])+

text \<open>What the lookups return, in terms of the view.\<close>

lemma rest_policy:
  assumes "iam_documented E c view names" and "v_policies v n = Some tags" and "at_rest view v p s"
  shows "yields (\<lambda>x _. snd x \<and> (\<exists>q. fst x = Some q \<and> ip_Tags q = tags)) (GetPolicyByName E c (Some n)) s"
  using assms(2,3)
  by (intro yields_weaken [OF view_GetPolicyByName [OF assms(1)]]) (auto simp: at_rest_def split: if_splits)

lemma rest_role:
  assumes "iam_documented E c view names" and "v_roles v n = Some doc" and "at_rest view v p s"
  shows "yields (\<lambda>x _. snd x \<and> (\<exists>q must. fst x = Some q \<and>
      ir_AssumeRolePolicyDocument q = Some (percent_encode must doc))) (GetRoleByName E (Some n)) s"
  using assms(2,3)
  by (intro yields_weaken [OF view_GetRoleByName [OF assms(1)]]) (auto simp: at_rest_def split: if_splits, blast)

lemma rest_attached:
  assumes "iam_documented E c view names" and "(n, r) \<in> v_attached v" and "v_policies v n \<noteq> None" and "at_rest view v p s"
  shows "yields (\<lambda>ps _. Some n \<in> ip_PolicyName ` set ps) (ListAttachedRolePolicies E c (Some r)) s"
proof (rule yields_weaken [OF view_ListAttachedRolePolicies [OF assms(1)]])
  fix ps and t :: "'a gstate"
  assume "view (world t) = view (world s) \<and> prov t = prov s \<and>
      (\<exists>ns. ip_PolicyName ` set ps = Some ` ns \<and>
        ns \<subseteq> {n. (n, r) \<in> v_attached (view (world s))} \<union> v_foreign (view (world s)) r \<and>
        {n. (n, r) \<in> v_attached (view (world s)) \<and> v_policies (view (world s)) n \<noteq> None} \<subseteq> ns)"
  then obtain ns where "ip_PolicyName ` set ps = Some ` ns" "n \<in> ns"
    using assms(2-4) by (auto simp: at_rest_def)
  then show "Some n \<in> ip_PolicyName ` set ps" by simp
qed

section \<open>Nothing to do\<close>

lemma rest_attach_if_missing:
  assumes "iam_documented E c view names" and "(n, r) \<in> v_attached v" and "v_policies v n \<noteq> None"
    and "rs_Name role = Some r"
  shows "obeys (at_rest view v p) reading (attach_if_missing E c role policy n q)"
  unfolding attach_if_missing_def assms(4)
proof (rule obeys_bind_yields [OF rest_lookups(3) [OF assms(1)] rest_attached [OF assms(1-3)]])
  fix ps :: "iamPolicy list"
  assume ps: "Some n \<in> ip_PolicyName ` set ps"
  have "yields (\<lambda>ns _. n \<in> set ns) (collect_names ip_PolicyName ps) s" for s :: "'a gstate"
    unfolding yields_def
  proof (intro allI impI)
    fix ns t
    assume "collect_names ip_PolicyName ps s = (Ok ns, t)"
    then have "Some ` set ns = ip_PolicyName ` set ps" by (rule collect_names_set)
    then show "n \<in> set ns" using ps by (metis image_iff option.inject)
  qed
  then show "obeys (at_rest view v p) reading (bindM (collect_names ip_PolicyName ps) (\<lambda>isAttachedToRole.
     if n \<notin> set isAttachedToRole then
       bindM (AttachRolePolicy E c (ps_Name policy) (Some r)) (\<lambda>_.
       bindM (deref (ps_Name policy)) (\<lambda>policyName.
       bindM (deref (Some r)) (\<lambda>roleName.
       updateCRDStatus E (Some c) provisionPhase attachPhase
         (''Policy '' @ policyName @ '' was attached to role '' @ roleName @ ''.'')
         (PolicyResult (Some q)))))
     else returnM ()))"
    by (intro obeys_bind_yields [where Q = "\<lambda>ns. n \<in> set ns", OF obeys_collect_names]) auto
qed

lemma rest_sync_listed_policy:
  assumes W: "iam_documented E c view names" and role: "rs_Name role = Some r"
    and policy: "ps_Name policy = Some n" "policy_in_step E v policy" "(n, r) \<in> v_attached v"
  shows "obeys (at_rest view v p) reading (sync_listed_policy E c role policy n)"
proof -
  obtain tags where tags: "v_policies v n = Some tags"
    "list_all (agrees (NewChecksumTag E (ps_PolicyDocument policy))) tags"
    using policy(1,2) by (auto simp: policy_in_step_def split: option.splits)
  have "obeys (at_rest view v p) reading (after_lookup E c role policy n x desc ts)"
    if "snd x \<and> (\<exists>q. fst x = Some q \<and> ip_Tags q = tags)" for x desc ts
    using that rest_attach_if_missing [OF W policy(3) _ role] tags
    by (auto simp: after_lookup_def forM_agrees)
  then show ?thesis
    unfolding sync_listed_policy_lookup policy(1)
    by (intro obeys_bind_yields [OF rest_lookups(1) [OF W] rest_policy [OF W tags(1)]] obeys_get
        obeys_bind_any obeys_ConvertToIAMTags) blast
qed

lemma rest_syncPoliciesByRoleSpec:
  assumes W: "iam_documented E c view names" and role: "rs_Name role = Some r"
    and step: "policies_attached E (Spec p) v role"
  shows "obeys (at_rest view v p) reading (syncPoliciesByRoleSpec E c role)"
proof -
  have "obeys (at_rest view v p) reading (sync_listed_policy E c role (policy_Spec (snd e)) n)"
    if "e \<in> set (spec_Policies (Spec p))" "Some n \<in> set (rs_Policies role)" "ps_Name (policy_Spec (snd e)) = Some n" for e n
  proof -
    have "policy_Spec (snd e) \<in> set (spec_policies (Spec p))" using that(1) by (simp add: spec_policies_def)
    then show ?thesis
      using step that(2,3) role by (intro rest_sync_listed_policy [OF W role that(3)])
        (force simp: policies_attached_def)+
  qed
  then show ?thesis
    unfolding syncPoliciesByRoleSpec_def
    by (auto simp: at_rest_def split: prod.splits intro!: obeys_forM obeys_get obeys_range obeys_deref)
qed

lemma setAssumeRolePolicyDocument_rendered:
  assumes "wanted_document E air role = Some text"
  shows "setAssumeRolePolicyDocument E c rq air role = returnM (role\<lparr>rs_AssumeRolePolicyDocument := Some text\<rparr>)"
  using assms
  by (auto simp: wanted_document_def setAssumeRolePolicyDocument_def Let_def
      split: prod.splits bool.splits option.splits sum.splits)

text \<open>
  A stored document that is as wanted compares equal, provided the wanted one has no percent sign:
  the comparison unescapes it, though nothing escaped it.
\<close>

lemma same_document_no_diff:
  assumes "tostring_documented E" and "same_document E have want" and "CHR ''%'' \<notin> set want"
  shows "DiffRoleByPolicyDocument E (Some (percent_encode must have)) (Some want) \<noteq> Inr True"
proof -
  have "compactRolePolicyDocument E (Some want) = json_Compact want"
    using assms(1,3) by (simp add: compactRolePolicyDocument_def tostring_documented_def PathUnescape_plain)
  moreover have "compactRolePolicyDocument E (Some (percent_encode must have)) = json_Compact have"
    using assms(1) by (simp add: compactRolePolicyDocument_def tostring_documented_def PathUnescape_percent_encode)
  ultimately show ?thesis
    using assms(2) by (auto simp: DiffRoleByPolicyDocument_def same_document_def split: sum.splits)
qed

lemma rest_syncRole:
  assumes W: "iam_documented E c view names" "tostring_documented E"
    and step: "role_in_step E (Spec p) air v role" and want: "wanted_document E air role = Some want" "CHR ''%'' \<notin> set want"
  shows "obeys (at_rest view v p) reading (syncRole E c rq air role)"
proof -
  obtain r "have" where r: "rs_Name role = Some r" "v_roles v r = Some have" "same_document E have want"
    "policies_attached E (Spec p) v role"
    using step want(1) by (auto simp: role_in_step_def trust_in_step_def split: option.splits)
  let ?role = "role\<lparr>rs_AssumeRolePolicyDocument := Some want\<rparr>"
  have sync: "obeys (at_rest view v p) reading (syncPoliciesByRoleSpec E c ?role)"
    using r(1,4) by (intro rest_syncPoliciesByRoleSpec [OF W(1), of _ r]) (simp_all add: policies_attached_def)
  have update: "obeys (at_rest view v p) reading (update_role_and_policies E c ?role q)"
    if "ir_AssumeRolePolicyDocument q = Some (percent_encode must have)" for q must
    unfolding update_role_and_policies_def
    using same_document_no_diff [OF W(2) r(3) want(2), of must] sync
    by (auto simp: that intro!: obeys_lift obeys_bind_any)
  have "obeys (at_rest view v p) reading (case x of (iamRole, exists) \<Rightarrow>
     bindM (if \<not> exists then create_role_and_policies E c ?role tags
            else bindM (deref iamRole) (\<lambda>r. update_role_and_policies E c ?role r)) (\<lambda>_. returnM ?role))"
    if "snd x \<and> (\<exists>q must. fst x = Some q \<and> ir_AssumeRolePolicyDocument q = Some (percent_encode must have))" for x tags
    using that by (cases x) (clarsimp, intro obeys_bind_any, auto intro: update)
  then show ?thesis
    unfolding syncRole_def setAssumeRolePolicyDocument_rendered [OF want(1)] bindM_returnM Let_def
    by (simp add: r(1)) (intro obeys_get obeys_bind_any obeys_ConvertToIAMTags
        obeys_bind_yields [OF rest_lookups(2) [OF W(1)] rest_role [OF W(1) r(2)]]; blast)
qed

lemma rest_sync_all_roles:
  assumes W: "iam_documented E c view names" "tostring_documented E"
    and step: "iam_in_step E (Spec p) air v"
    and plain: "\<And>role doc. role \<in> set (spec_roles (Spec p)) \<Longrightarrow> wanted_document E air role = Some doc \<Longrightarrow> CHR ''%'' \<notin> set doc"
  shows "obeys (at_rest view v p) reading (sync_all_roles E c rq air)"
proof -
  have "obeys (at_rest view v p) reading (bindM (syncRole E c rq air role) (syncPoliciesByRoleSpec E c))"
    if role: "role \<in> set (spec_roles (Spec p))" for role
  proof -
    have r: "role_in_step E (Spec p) air v role" using step role by (simp add: iam_in_step_def)
    then obtain want where want: "wanted_document E air role = Some want"
      by (auto simp: role_in_step_def trust_in_step_def split: option.splits)
    have "obeys (at_rest view v p) reading (syncPoliciesByRoleSpec E c role')" if "rendered E air role role'" for role'
      using r that by (auto simp: rendered_def role_in_step_def policies_attached_def
          intro!: rest_syncPoliciesByRoleSpec [OF W(1)])
    then show ?thesis
      by (intro obeys_bind_yields [OF rest_syncRole [OF W r want plain [OF role want]] syncRole_returns])
  qed
  then show ?thesis
    unfolding sync_all_roles_def
    by (auto simp: at_rest_def spec_roles_def split: prod.splits intro!: obeys_get obeys_range obeys_forM) force
qed

text \<open>
  C5. Once IAM is in line with the specification it is left alone: for an IAM that behaves as
  documented, going through the specification again makes only reading requests, to IAM and to
  Kubernetes alike, so that neither a role, a policy, an attachment nor the status is written, in
  whatever order the maps are visited and whichever requests fail. The rendered trust policies must
  be free of percent signs, which the comparison takes for escapes.
\<close>

theorem second_pass_only_reads:
  assumes "iam_documented E c view names" and "tostring_documented E"
    and "iam_in_step E (Spec (prov s)) air (view (world s))"
    and "\<And>role doc. role \<in> set (spec_roles (Spec (prov s))) \<Longrightarrow> wanted_document E air role = Some doc \<Longrightarrow>
      CHR ''%'' \<notin> set doc"
  shows "\<exists>es. log (snd (sync_all_roles E c rq air s)) = log s @ es \<and> list_all reading es"
  by (rule obeys_log [OF rest_sync_all_roles [OF assms]]) (simp_all add: at_rest_def)

text \<open>The account of the first reconciliation, with the role and the policy there.\<close>

definition steady_start :: "mem gstate" where
  "steady_start = (mem_state (mem_empty\<lparr>m_prov := Some conv_prov,
     m_roles := [\<lparr>mr_name = ''r'', mr_doc = ''{ }'', mr_tags = [], mr_attached = [policy_arn mem_client ''p'']\<rparr>],
     m_policies := [\<lparr>mp_name = ''p'', mp_doc = ''{}'',
       mp_tags = TagsDefine ''eks'' ''ns'' [NewChecksumTag mem_env (Some ''{}'')]\<rparr>]\<rparr>))\<lparr>prov := conv_prov\<rparr>"

lemma steady_wanted: "wanted_document mem_env conv_air role = rs_AssumeRolePolicyDocument role"
  by (simp add: wanted_document_def conv_air_def renderOIDCProviderTemplate_def mem_env_simps strings_Cut_char
      split: option.splits)

lemma steady_documents: "json_Compact ''{ }'' = compactRolePolicyDocument mem_env (Some ''{}'')"
  by code_simp

lemma steady_in_step: "iam_in_step mem_env (Spec (prov steady_start)) conv_air (mem_view (world steady_start))"
  by (simp add: steady_start_def conv_prov_def conv_spec_def iam_in_step_def spec_roles_def spec_policies_def
      role_in_step_def steady_wanted trust_in_step_def mem_view_def find_role_def find_policy_def mp_arn_def mem_state_def
      same_document_def steady_documents policies_attached_def policy_in_step_def TagsDefine_def agrees_def)
    (simp add: NewChecksumTag_def tag_keys)

declare sha1_Sum_def [code del]

lemma steady_run: "log steady_start = []"
  "map ev_error (log (snd (sync_all_roles mem_env mem_client conv_rq conv_air steady_start))) = replicate 7 None"
  by code_simp+

declare sha1_Sum_def [code]

theorem second_pass_only_reads_witness:
  "\<exists>es. log (snd (sync_all_roles mem_env mem_client conv_rq conv_air steady_start)) = es \<and>
     list_all reading es \<and> length es = 7"
proof -
  have "CHR ''%'' \<notin> set doc"
    if "role \<in> set (spec_roles (Spec (prov steady_start)))" "wanted_document mem_env conv_air role = Some doc" for role doc
    using that by (auto simp: steady_wanted steady_start_def conv_prov_def conv_spec_def spec_roles_def)
  from second_pass_only_reads [where rq = conv_rq, OF mem_documented conv_hypotheses(1) steady_in_step this]
  obtain es where es: "log (snd (sync_all_roles mem_env mem_client conv_rq conv_air steady_start)) = es" "list_all reading es"
    using steady_run(1) by auto
  moreover have "length es = 7" using arg_cong [OF steady_run(2), of length] es(1) by simp
  ultimately show ?thesis by blast
qed

end
