(* ===== verification/PolicyLoop.thy ===== *)
theory PolicyLoop
  imports Convergence
begin

text \<open>
  The nested loops of \<open>syncPoliciesByRoleSpec\<close>, over the policies of a role and, inside, over the map
  of all policies in whatever order it is visited, against a direct lookup of each policy by name.
\<close>

section \<open>Operations that visit no map\<close>

text \<open>\<open>orderless m\<close>: \<open>m\<close> neither looks at the orders still to be drawn nor draws one.\<close>

definition orderless :: "('w, 'a) op \<Rightarrow> bool" where
  "orderless m = (\<forall>s cs. m (s\<lparr>choices := cs\<rparr>) = (fst (m s), (snd (m s))\<lparr>choices := cs\<rparr>))"

lemma orderless_run: "orderless m \<Longrightarrow> m (s\<lparr>choices := cs\<rparr>) = (fst (m s), (snd (m s))\<lparr>choices := cs\<rparr>)"
  by (simp add: orderless_def)

lemma orderless_basic [intro!]:
  "orderless (returnM x)" "orderless (errM e)" "orderless panicM" "orderless hangM" "orderless (deref p)"
  "orderless (liftM r)" "orderless (getM prov)" "orderless (getM (\<lambda>s. g (prov s)))"
  "orderless (modifyM (prov_update f))" "orderless (request_call rq call)" "orderless (page_call rq pager pg)"
  "orderless (now E)"
  by (auto simp: orderless_def monad_defs request_call_def page_call_def now_def split: option.splits sum.splits prod.splits)

lemma orderless_bindM [intro!]:
  assumes "orderless m" and "\<And>x. orderless (f x)"
  shows "orderless (bindM m f)"
  unfolding orderless_def
proof (intro allI)
  fix s cs
  obtain r t where "m s = (r, t)" by fastforce
  then show "bindM m f (s\<lparr>choices := cs\<rparr>) = (fst (bindM m f s), (snd (bindM m f s))\<lparr>choices := cs\<rparr>)"
    using orderless_run [OF assms(1), of cs s] orderless_run [OF assms(2)]
    by (cases r) (simp_all add: bindM_def)
qed

lemma orderless_catchM [intro!]:
  assumes "orderless m" and "\<And>e. orderless (f e)"
  shows "orderless (catchM m f)"
  unfolding orderless_def
proof (intro allI)
  fix s cs
  obtain r t where "m s = (r, t)" by fastforce
  then show "catchM m f (s\<lparr>choices := cs\<rparr>) = (fst (catchM m f s), (snd (catchM m f s))\<lparr>choices := cs\<rparr>)"
    using orderless_run [OF assms(1), of cs s] orderless_run [OF assms(2)]
    by (cases r) (simp_all add: catchM_def)
qed

lemma orderless_forM [intro!]: "(\<And>x. orderless (f x)) \<Longrightarrow> orderless (forM xs f)"
  by (induction xs) auto

lemma orderless_foldM [intro!]: "(\<And>x a. orderless (f x a)) \<Longrightarrow> orderless (foldM f xs a)"
  by (induction xs arbitrary: a) auto

lemma orderless_pages_loop [intro!]:
  assumes "\<And>x a. orderless (body x a)"
  shows "orderless (pages_loop E rq next body n p acc)"
  using assms by (induction n arbitrary: p acc) (auto split: sum.splits)

lemma orderless_calls [intro!]:
  "orderless (GetPolicyByName E c n)" "orderless (GetRoleByName E n)" "orderless (CreatePolicy E n d desc tags)"
  "orderless (DeletePolicy E c n)" "orderless (AttachRolePolicy E c n r)" "orderless (DetachRolePolicy E c n r)"
  by (auto simp: GetPolicyByName_def GetRoleByName_def CreatePolicy_def DeletePolicy_def AttachRolePolicy_def
      DetachRolePolicy_def generatePolicyARN_bind Let_def split: sum.splits option.splits)

lemma orderless_listing [intro!]: "orderless (ListAttachedRolePolicies E c r)"
  by (auto simp: ListAttachedRolePolicies_def Let_def split: prod.splits)

lemma orderless_tags [intro!]: "orderless (ConvertToIAMTags ts)"
  by (induction ts rule: list.induct) (auto split: option.splits)

lemma orderless_status [intro!]: "orderless (updateCRDStatus E iam crdPhase phase message result)"
  by (cases result) (auto simp: updateCRDStatus_def update_role_status_def update_policy_status_def update_status_def
      write_status_def split: prod.splits sum.splits)

lemma orderless_sync_listed_policy [intro!]: "orderless (sync_listed_policy E c role policy rp)"
  by (auto simp: sync_listed_policy_def create_and_attach_def replace_policy_def attach_if_missing_def
      checksum_differs_def collect_names_def Let_def split: prod.splits)

section \<open>Looking policies up\<close>

text \<open>Each policy of the role is looked up by name among the policies of the specification.\<close>

definition policy_named_in :: "string \<Rightarrow> PolicySpec list \<Rightarrow> PolicySpec option" where
  "policy_named_in n ps = find (\<lambda>p. ps_Name p = Some n) ps"

definition sync_found ::
  "('w, 'p) env \<Rightarrow> IAMClient \<Rightarrow> RoleSpec \<Rightarrow> string \<Rightarrow> PolicySpec option \<Rightarrow> ('w, unit) op" where
  "sync_found E c role n p = (case p of
     Some policy \<Rightarrow> sync_listed_policy E c role policy n
   | None \<Rightarrow> returnM ())"

definition sync_by_lookup :: "('w, 'p) env \<Rightarrow> IAMClient \<Rightarrow> RoleSpec \<Rightarrow> ('w, unit) op" where
  "sync_by_lookup E c role =
     forM (rs_Policies role) (\<lambda>rp.
       bindM (deref rp) (\<lambda>n.
       bindM (getM prov) (\<lambda>p.
       sync_found E c role n (policy_named_in n (spec_policies (Spec p))))))"

lemma orderless_sync_found: "orderless (sync_found E c role n p)"
  by (auto simp: sync_found_def split: option.splits)

text \<open>With every policy named, and none twice, one round of the inner loop finds it.\<close>

lemma policy_named_in_Cons:
  "policy_named_in n (p # ps) = (if ps_Name p = Some n then Some p else policy_named_in n ps)"
  by (simp add: policy_named_in_def)

lemma named_in_None: "Some n \<notin> ps_Name ` set ps \<Longrightarrow> policy_named_in n ps = None"
  by (auto simp: policy_named_in_def find_None_iff) (metis image_eqI)

lemma loop_finds:
  assumes "distinct (map ps_Name (map (\<lambda>e. policy_Spec (snd e)) es))"
    and "\<forall>e \<in> set es. ps_Name (policy_Spec (snd e)) \<noteq> None"
  shows "forM es (\<lambda>(k, policy). bindM (deref (Some n)) (\<lambda>rp. bindM (deref (ps_Name (policy_Spec policy))) (\<lambda>pn.
      if rp = pn then sync_listed_policy E c role (policy_Spec policy) rp else returnM ()))) =
    sync_found E c role n (policy_named_in n (map (\<lambda>e. policy_Spec (snd e)) es))"
  using assms
proof (induction es)
  case Nil
  then show ?case by (simp add: sync_found_def policy_named_in_def)
next
  case (Cons e es)
  obtain m where m: "ps_Name (policy_Spec (snd e)) = Some m" using Cons.prems(2) by auto
  show ?case
  proof (cases "m = n")
    case True
    then have "Some n \<notin> ps_Name ` set (map (\<lambda>e. policy_Spec (snd e)) es)" using Cons.prems(1) m by auto
    then have "policy_named_in n (map (\<lambda>e. policy_Spec (snd e)) es) = None" by (rule named_in_None)
    then show ?thesis
      using Cons m True by (simp add: policy_named_in_Cons sync_found_def case_prod_beta bindM_unit)
  next
    case False
    then show ?thesis using Cons m by (simp add: policy_named_in_Cons case_prod_beta)
  qed
qed

lemma named_in_order:
  assumes "mset ps = mset qs" and "distinct (map ps_Name ps)"
  shows "policy_named_in n ps = policy_named_in n qs"
proof -
  have "policy_named_in n ps = Some p \<longleftrightarrow> policy_named_in n qs = Some p" for p
  proof -
    have found: "policy_named_in n xs = Some p \<longleftrightarrow> p \<in> set xs \<and> ps_Name p = Some n"
      if "distinct (map ps_Name xs)" for xs
      using that by (induction xs) (auto simp: policy_named_in_Cons policy_named_in_def, metis image_eqI)
    have "distinct (map ps_Name qs)" using assms by (metis mset_eq_imp_distinct_iff mset_map)
    then show ?thesis using found assms mset_eq_setD by metis
  qed
  then show ?thesis by (metis option.exhaust)
qed

section \<open>The loops are a lookup\<close>

text \<open>Equal but for the map orders left to be drawn.\<close>

definition same_but_order :: "'a outcome \<times> 'w gstate \<Rightarrow> 'a outcome \<times> 'w gstate \<Rightarrow> bool" where
  "same_but_order x y = (fst x = fst y \<and> (snd x)\<lparr>choices := []\<rparr> = (snd y)\<lparr>choices := []\<rparr>)"

lemma same_but_order_run:
  assumes "orderless m" and "s\<lparr>choices := []\<rparr> = t\<lparr>choices := []\<rparr>"
  shows "same_but_order (m s) (m t)"
proof -
  have "m (s\<lparr>choices := []\<rparr>) = m (t\<lparr>choices := []\<rparr>)" using assms(2) by simp
  then show ?thesis
    using orderless_run [OF assms(1), of "[]" s] orderless_run [OF assms(1), of "[]" t]
    by (simp add: same_but_order_def)
qed

lemma range_map_order: "\<exists>ys cs. range_map m s = (Ok ys, s\<lparr>choices := cs\<rparr>) \<and> mset ys = mset m"
proof (cases "choices s")
  case Nil
  then show ?thesis by (intro exI [of _ "shuffle [] m"] exI [of _ "[]"]) (simp add: range_map_def)
next
  case (Cons c cs)
  then show ?thesis by (intro exI [of _ "shuffle c m"] exI [of _ cs]) (simp add: range_map_def)
qed

definition all_named_once :: "AWSIAMProvisionSpec \<Rightarrow> bool" where
  "all_named_once sp = (distinct (map ps_Name (spec_policies sp)) \<and> None \<notin> ps_Name ` set (spec_policies sp))"

lemma getM_apply: "getM g s = (Ok (g s), s)"
  by (simp add: getM_def)

lemma round_is_lookup:
  assumes "all_named_once (Spec (prov s))" and "s\<lparr>choices := []\<rparr> = t\<lparr>choices := []\<rparr>"
  shows "same_but_order
    (bindM (getM (\<lambda>s. spec_Policies (Spec (prov s)))) (\<lambda>m. bindM (range_map m) (\<lambda>policies.
       forM policies (\<lambda>(_, policy). bindM (deref (Some n)) (\<lambda>rp. bindM (deref (ps_Name (policy_Spec policy))) (\<lambda>pn.
         if rp = pn then sync_listed_policy E c role (policy_Spec policy) rp else returnM ()))))) s)
    (bindM (getM prov) (\<lambda>p. sync_found E c role n (policy_named_in n (spec_policies (Spec p)))) t)"
proof -
  let ?f = "\<lambda>e. policy_Spec (snd e)"
  obtain es cs where es: "range_map (spec_Policies (Spec (prov s))) s = (Ok es, s\<lparr>choices := cs\<rparr>)"
    "mset es = mset (spec_Policies (Spec (prov s)))" using range_map_order by blast
  have ps: "mset (map ?f es) = mset (spec_policies (Spec (prov s)))"
    using es(2) by (simp add: spec_policies_def)
  then have dist: "distinct (map ps_Name (map ?f es))"
    using assms(1) unfolding all_named_once_def by (metis mset_eq_imp_distinct_iff mset_map)
  have "\<forall>e \<in> set es. ps_Name (?f e) \<noteq> None"
    using assms(1) mset_eq_setD [OF ps] by (force simp: all_named_once_def)
  note loop = loop_finds [OF dist this]
  have "prov t = prov s" using arg_cong [OF assms(2), of prov] by simp
  moreover have "same_but_order (sync_found E c role n p (s\<lparr>choices := cs\<rparr>)) (sync_found E c role n p t)" for p
    by (rule same_but_order_run [OF orderless_sync_found]) (use assms(2) in simp)
  ultimately show ?thesis
    unfolding bindM_Ok [OF getM_apply] bindM_Ok [where m = "range_map z" for z, OF es(1)] loop
    by (simp add: named_in_order [OF ps dist])
qed


lemma same_but_order_bind:
  assumes "same_but_order (m s) (m' t)"
    and "\<And>x u v. m s = (Ok x, u) \<Longrightarrow> u\<lparr>choices := []\<rparr> = v\<lparr>choices := []\<rparr> \<Longrightarrow> same_but_order (f x u) (f' x v)"
  shows "same_but_order (bindM m f s) (bindM m' f' t)"
proof -
  obtain r u v where run: "m s = (r, u)" "m' t = (r, v)" "u\<lparr>choices := []\<rparr> = v\<lparr>choices := []\<rparr>"
    using assms(1) by (cases "m s"; cases "m' t") (auto simp: same_but_order_def)
  then show ?thesis
    using assms(2) by (cases r) (simp_all add: bindM_def same_but_order_def)
qed

lemma rounds_are_lookups:
  assumes W: "status_keeps_spec E" and named: "all_named_once sp"
    and "Spec (prov s) = sp" and "s\<lparr>choices := []\<rparr> = t\<lparr>choices := []\<rparr>" and "None \<notin> set rps"
  shows "same_but_order
    (forM rps (\<lambda>rolePolicy.
       bindM (getM (\<lambda>s. spec_Policies (Spec (prov s)))) (\<lambda>m. bindM (range_map m) (\<lambda>policies.
       forM policies (\<lambda>(_, policy). bindM (deref rolePolicy) (\<lambda>rp. bindM (deref (ps_Name (policy_Spec policy))) (\<lambda>pn.
         if rp = pn then sync_listed_policy E c role (policy_Spec policy) rp else returnM ())))))) s)
    (forM rps (\<lambda>rp. bindM (deref rp) (\<lambda>n. bindM (getM prov) (\<lambda>p.
       sync_found E c role n (policy_named_in n (spec_policies (Spec p)))))) t)"
  using assms(3-5)
proof (induction rps arbitrary: s t)
  case Nil
  then show ?case by (simp add: same_but_order_def returnM_def)
next
  case (Cons rp rps)
  obtain n where n: "rp = Some n" using Cons.prems(3) by (cases rp) auto
  let ?round = "bindM (getM (\<lambda>s. spec_Policies (Spec (prov s)))) (\<lambda>m. bindM (range_map m) (\<lambda>policies.
       forM policies (\<lambda>(_, policy). bindM (deref (Some n)) (\<lambda>rp. bindM (deref (ps_Name (policy_Spec policy))) (\<lambda>pn.
         if rp = pn then sync_listed_policy E c role (policy_Spec policy) rp else returnM ())))))"
  have keeps: "keeps same_spec ?round"
    by (auto intro!: ss.keeps_rules same_spec_range_map same_spec_sync_listed_policy [OF W])
  have "all_named_once (Spec (prov s))" using named Cons.prems(1) by simp
  note round = round_is_lookup [OF this Cons.prems(2), where E = E and c = c and role = role and n = n]
  show ?case
    unfolding forM.simps n
  proof (rule same_but_order_bind)
    show "same_but_order (?round s) (bindM (deref (Some n)) (\<lambda>n. bindM (getM prov) (\<lambda>p.
       sync_found E c role n (policy_named_in n (spec_policies (Spec p))))) t)"
      using round unfolding deref_Some bindM_returnM .
    fix u v and x :: unit
    assume run: "?round s = (Ok x, u)" and uv: "u\<lparr>choices := []\<rparr> = v\<lparr>choices := []\<rparr>"
    have "same_spec s u" using keeps [unfolded keeps_def, THEN spec, of s] unfolding run snd_conv .
    then have "Spec (prov u) = sp" using Cons.prems(1) by (simp add: same_spec_def)
    then show "same_but_order
      (forM rps (\<lambda>rolePolicy.
       bindM (getM (\<lambda>s. spec_Policies (Spec (prov s)))) (\<lambda>m. bindM (range_map m) (\<lambda>policies.
       forM policies (\<lambda>(_, policy). bindM (deref rolePolicy) (\<lambda>rp. bindM (deref (ps_Name (policy_Spec policy))) (\<lambda>pn.
         if rp = pn then sync_listed_policy E c role (policy_Spec policy) rp else returnM ())))))) u)
      (forM rps (\<lambda>rp. bindM (deref rp) (\<lambda>n. bindM (getM prov) (\<lambda>p.
       sync_found E c role n (policy_named_in n (spec_policies (Spec p)))))) v)"
      using Cons.IH uv Cons.prems(3) by simp
  qed
qed

text \<open>
  C6. For a specification whose policies all have names, no two the same (the schema of the resource
  enforces only the former), and a role whose list of policies has no nil entry, the nested loops over
  the policies of the role and the map of all policies do what a lookup of each of the role's policies
  by name would do: the result, the requests made with their answers, the state outside and the
  custom resource in memory are the same, whatever order the map is visited in, and also when the run
  ends in an error or a panic. For such a specification the order has no influence on any of it.
\<close>

theorem policy_loops_are_lookups:
  assumes "status_keeps_spec E" and "all_named_once (Spec (prov s))" and "None \<notin> set (rs_Policies role)"
  shows "fst (syncPoliciesByRoleSpec E c role s) = fst (sync_by_lookup E c role s) \<and>
    log (snd (syncPoliciesByRoleSpec E c role s)) = log (snd (sync_by_lookup E c role s)) \<and>
    world (snd (syncPoliciesByRoleSpec E c role s)) = world (snd (sync_by_lookup E c role s)) \<and>
    prov (snd (syncPoliciesByRoleSpec E c role s)) = prov (snd (sync_by_lookup E c role s))"
proof -
  have "same_but_order (syncPoliciesByRoleSpec E c role s) (sync_by_lookup E c role s)"
    unfolding syncPoliciesByRoleSpec_def sync_by_lookup_def
    by (rule rounds_are_lookups [OF assms(1,2) refl refl assms(3)])
  then have eq: "fst (syncPoliciesByRoleSpec E c role s) = fst (sync_by_lookup E c role s)"
    "(snd (syncPoliciesByRoleSpec E c role s))\<lparr>choices := []\<rparr> = (snd (sync_by_lookup E c role s))\<lparr>choices := []\<rparr>"
    by (simp_all add: same_but_order_def)
  show ?thesis
    using eq(1) arg_cong [OF eq(2), of log] arg_cong [OF eq(2), of world] arg_cong [OF eq(2), of prov] by simp
qed

text \<open>Two policies, visited last first; the role has both, and one that is not listed.\<close>

definition loop_spec :: AWSIAMProvisionSpec where
  "loop_spec = conv_spec\<lparr>spec_Policies :=
     [(''a'', \<lparr>policy_Spec = \<lparr>ps_Name = Some ''p'', ps_PolicyDocument = Some ''{}'', ps_Tags = []\<rparr>\<rparr>),
      (''b'', \<lparr>policy_Spec = \<lparr>ps_Name = Some ''q'', ps_PolicyDocument = Some ''[]'', ps_Tags = []\<rparr>\<rparr>)]\<rparr>"

definition loop_role :: RoleSpec where
  "loop_role = \<lparr>rs_AssumeRolePolicyDocument = Some ''{}'', rs_Name = Some ''r'',
     rs_Policies = [Some ''p'', Some ''x'', Some ''q''], rs_Tags = []\<rparr>"

definition loop_start :: "mem gstate" where
  "loop_start = (mem_state (mem_empty\<lparr>m_prov := Some (conv_prov\<lparr>Spec := loop_spec\<rparr>),
     m_roles := [\<lparr>mr_name = ''r'', mr_doc = ''{}'', mr_tags = [], mr_attached = []\<rparr>]\<rparr>))
       \<lparr>prov := conv_prov\<lparr>Spec := loop_spec\<rparr>, choices := [[1], [1], [1]]\<rparr>"

declare sha1_Sum_def [code del]

lemma loop_run: "fst (syncPoliciesByRoleSpec mem_env mem_client loop_role loop_start) = Ok ()"
  "length (log (snd (syncPoliciesByRoleSpec mem_env mem_client loop_role loop_start))) = 10"
  by code_simp+

declare sha1_Sum_def [code]

theorem policy_loops_are_lookups_witness:
  "fst (sync_by_lookup mem_env mem_client loop_role loop_start) = Ok () \<and>
   length (log (snd (sync_by_lookup mem_env mem_client loop_role loop_start))) = 10"
proof -
  have "all_named_once (Spec (prov loop_start))" "None \<notin> set (rs_Policies loop_role)"
    by (simp_all add: all_named_once_def loop_start_def loop_spec_def spec_policies_def loop_role_def)
  from policy_loops_are_lookups [OF mem_status_keeps_spec this, of mem_client] loop_run show ?thesis by simp
qed


end
