(* ===== verification/Spec2Isabelle.thy ===== *)
theory Spec2Isabelle
  imports Scope TrustPolicy Listings Termination StatusProps Deletion GarbageCollection PolicySync
    Lifecycle Manager Convergence Robustness DeepCopyProps SpecRequests Steady PolicyLoop
begin

text \<open>
  A verification library of the AWS IAM provisioner operator, a Kubernetes controller that keeps the
  IAM roles, policies and attachments of an EKS cluster in line with a custom resource of kind
  \<open>AWSIAMProvision\<close>.

  \<^bold>\<open>The program.\<close> \<open>cmd/main.go\<close> configures and starts a controller manager, which calls \<open>Reconcile\<close>
  (\<open>internal/controller/awsiamprovision_controller.go\<close>) for a changed custom resource and again after
  the period that \<open>Reconcile\<close> returns. \<open>Reconcile\<close> reads the resource and the control plane of its
  cluster, makes an IAM client, and either takes down the IAM resources of a deleted resource and
  releases the finalizer, or stores the finalizer, collects what is stale, and brings every role of
  the specification and its policies in line; these handlers are in \<open>reconciliation_manager.go\<close>, the
  recording of each step in the status of the resource in \<open>status_formatter.go\<close>. Under them,
  \<open>internal/aws_sdk\<close> wraps the calls of IAM: \<open>policy.go\<close>, \<open>role.go\<close>, \<open>tags.go\<close> and \<open>iam.go\<close>.
  \<open>api/v1alpha1\<close> declares the custom resource and, generated, its deep copies.

  \<^bold>\<open>The model.\<close> Every operation threads a state (\<open>Services.gstate\<close>): the custom resource in memory
  (the field that \<open>air.awsIAMProvision\<close> points to), the world outside, the log of the requests made so
  far with their errors, and the iteration orders still to be drawn for Go maps. It ends as \<open>Ok\<close>,
  \<open>Err\<close> (a returned error), \<open>Panic\<close> (a nil pointer dereferenced) or \<open>Hang\<close> (a listing loop that
  outlasts the fuel). A nil pointer is \<open>None\<close>; a map is an association list whose visiting order is
  any permutation (\<open>Prelude.shuffle\<close>). IAM, STS, the Kubernetes API, the clock, \<open>text/template\<close> and
  \<open>cmp.Equal\<close> are the fields of an environment record (\<open>Services.env\<close>) of which nothing is assumed;
  what a statement needs of them is a named hypothesis, such as \<open>iam_documented\<close>,
  \<open>tostring_documented\<close>, \<open>status_keeps_spec\<close>, and \<open>MemoryCloud\<close> is a concrete environment in which
  each of them holds.

  \<^bold>\<open>Theories and what they model.\<close>
  \<^item> \<open>Prelude\<close>: outcomes, the sequencing combinators, their weakest preconditions, relations that
    every step keeps (locale \<open>step_relation\<close>), Go maps. \<open>GoText\<close>, \<open>JsonCompact\<close>, \<open>Sha1\<close>: the parts of
    the Go library the program computes with (\<open>strings\<close>, \<open>net/url\<close>, \<open>encoding/json\<close>, \<open>crypto/sha1\<close>).
  \<^item> \<open>ApiTypes\<close>: the structs of \<open>api/v1alpha1\<close>. \<open>DeepCopy\<close>: \<open>zz_generated.deepcopy.go\<close>, function by
    function, over \<open>GoHeap\<close>, a memory of cells with pointers.
  \<^item> \<open>Tags\<close>, \<open>IamErrors\<close>, \<open>IamPolicy\<close>, \<open>IamRoles\<close>: \<open>internal/aws_sdk\<close>, one definition per method. The
    tolerance of "no such entity" is the locale \<open>tolerant_op\<close>, interpreted for each method that has it.
  \<^item> \<open>StatusFormatter\<close>: \<open>updateCRDStatus\<close> with both branches of its type switch; its lists of entries
    implement finite maps (locale \<open>entry_list\<close>).
  \<^item> \<open>Reconciliation\<close>, \<open>Reconciler\<close>: the handlers and \<open>Reconcile\<close>. \<open>Manager\<close>: \<open>cmd/main.go\<close>.

  \<^bold>\<open>What is shown.\<close>
  \<^item> \<open>Convergence\<close>, over \<open>IamService\<close> (IAM as its documentation describes it, through an abstract view)
    and \<open>MemoryIam\<close> (the in-memory IAM satisfies that description) and \<open>Tending\<close> (what precedes the
    roles only takes away): a successful reconciliation leaves IAM as specified, unless foreign
    policies with specified names, or policies without a checksum tag, were there before. \<open>Steady\<close>: once it is so, going through the specification only reads.
    \<open>SpecRequests\<close>, with the calculus of \<open>Conduct\<close>: whatever is asked of IAM on the way is what the
    specification calls for, and within IAM's limits. \<open>PolicyLoop\<close>: the nested loops over maps are
    lookups by name, so map order is immaterial.
  \<^item> \<open>Robustness\<close>, over \<open>SoundOps\<close> and \<open>MemoryLegal\<close>: a sound specification and a sound status are
    never the cause of a panic, and stay sound in every reachable world. \<open>Termination\<close>: every
    reconciliation ends.
  \<^item> \<open>Scope\<close>: policies are named, resources created and listings made only under the operator's path in
    the client's account, and only what is specified is created, attached to or overwritten; roles
    are otherwise addressed by name alone. \<open>Listings\<close>: the tag
    listings return exactly what is owned. \<open>GarbageCollection\<close>: only stale roles and policies are
    deleted. \<open>Deletion\<close>, \<open>Lifecycle\<close>: order of the teardown, finalizer, requeueing, final status.
    \<open>Manager\<close>: the namespaces watched and the order of the start-up.
  \<^item> \<open>TrustPolicy\<close>, \<open>PolicySync\<close>, \<open>StatusProps\<close>: single handlers, branch by branch, with the branches
    that go wrong.
  \<^item> \<open>DeepCopyProps\<close>: deep copies read as their originals and share no memory with them (locale
    \<open>deep_copy\<close>, closed under pointers, slices, maps and structs).

  \<^bold>\<open>Bounds and fuel.\<close> Loops over slices and maps are structural. The listing loops, which go on as
  long as the paginator has more pages, take \<open>page_fuel\<close> of the environment as fuel and end as \<open>Hang\<close>
  when it does not suffice. If every listing has finitely many pages (\<open>pagers_end\<close>, which does not
  bound their number), then from every state some fuel suffices, and every larger one gives the same
  run (\<open>Termination\<close>): so nothing that is shown for all fuels depends on it. Statements about
  successful runs need no such hypothesis, since \<open>Hang\<close> is not success. \<open>time.Duration\<close> and \<open>int32\<close>
  are words of 64 and 32 bits; lengths and counts are natural numbers.

  \<^bold>\<open>Not modelled.\<close> The registration of the types with the scheme (\<open>groupversion_info.go\<close> and the
  \<open>init\<close> functions) and \<open>SetupWithManager\<close>, which only call the controller runtime; log lines, the
  context, flag parsing, and the sleep before the finalizer is removed, which change nothing that the
  program reads; the test suite, which has no test. The inside of the SDK and of the API machinery,
  the deep copies of \<open>metav1.Time\<close> and of the object metadata among it, is a parameter. One
  reconciliation runs at a time, as the controller is configured; others act between its requests
  only in so far as the environment's answers are arbitrary, and between reconciliations in
  \<open>Robustness.reach\<close>.
\<close>

end
